(* ===== verification/Prelude.thy ===== *)
theory Prelude
  imports Main "HOL-Library.Word"
begin

text \<open>
  Shared vocabulary of the development: the types that stand for Go's scalar types, Go error
  values and \<^verbatim>\<open>errors.Is\<close>, results of fallible calls, and the generic facts on lists,
  options and words that the component theories use. Times and durations are integers that
  count nanoseconds; an \<^verbatim>\<open>int32\<close> and a \<^verbatim>\<open>uint32\<close> are both a \<open>32 word\<close> (a Go conversion
  between the two keeps the bits), read as signed with \<open>sint\<close> where the code does.
\<close>

named_theorems query_simps \<open>what a storage query does to a row lookup\<close>
named_theorems proc_simps \<open>the guard, state and body of each pipeline processor\<close>

section \<open>Scalar types\<close>

type_synonym u8 = "8 word"
type_synonym u32 = "32 word"
type_synonym i32 = "32 word"
type_synonym u64 = "64 word"
type_synonym bytes = "u8 list"
type_synonym time = int
type_synonym duration = int

text \<open>Go's zero \<^verbatim>\<open>time.Time\<close> is the first instant of year 1, before the Unix epoch.\<close>

definition zero_time :: time where
  "zero_time = -62135596800 * 1000000000"

definition second :: duration where
  "second = 1000000000"

definition minute :: duration where
  "minute = 60 * second"

definition hour :: duration where
  "hour = 60 * minute"

definition millisecond :: duration where
  "millisecond = 1000000"

section \<open>Errors\<close>

text \<open>
  The package-level error values the code compares with \<^verbatim>\<open>errors.Is\<close>, and the errors built
  around them. \<open>Wrapf m e\<close> is \<^verbatim>\<open>fmt.Errorf("m: %w", e)\<close> and \<open>Joinf a b\<close> is a format
  with two \<^verbatim>\<open>%w\<close> verbs. Values interpolated into a message are left out of its text: no code
  path reads them.
\<close>

datatype sentinel =
    ErrTxNotFound
  | ErrWriteAckDecoding
  | ErrWriteAckNotFoundForPacket
  | ErrSendNotFinalized
  | ErrWriteAckNotFinalized
  | ErrTimeoutNotFinalized
  | ErrRetryingRecvPacket
  | ErrRetryingAckPacket
  | ErrRetryingTimeoutPacket
  | ErrTransferAlreadyInPipeline
  | ErrAlreadySubmitted
  | ErrNoRows
  | ContextCanceled
  | EthereumNotFound

datatype go_error =
    Sentinel sentinel
  | NewError string
  | External string
  | PgError string
  | Wrapf string go_error
  | Joinf go_error go_error

fun sentinel_text :: "sentinel \<Rightarrow> string" where
  "sentinel_text ErrTxNotFound = ''tx not found''"
| "sentinel_text ErrWriteAckDecoding = ''could not decode write ack''"
| "sentinel_text ErrWriteAckNotFoundForPacket = ''write ack for packet not found in tx''"
| "sentinel_text ErrSendNotFinalized = ''send tx not finalized''"
| "sentinel_text ErrWriteAckNotFinalized = ''write tx not finalized''"
| "sentinel_text ErrTimeoutNotFinalized = ''timeout tx not finalized''"
| "sentinel_text ErrRetryingRecvPacket = ''retrying recv packet''"
| "sentinel_text ErrRetryingAckPacket = ''retrying ack packet''"
| "sentinel_text ErrRetryingTimeoutPacket = ''retrying timeout packet''"
| "sentinel_text ErrTransferAlreadyInPipeline = ''transfer already in pipeline''"
| "sentinel_text ErrAlreadySubmitted = ''tx already submitted''"
| "sentinel_text ErrNoRows = ''no rows in result set''"
| "sentinel_text ContextCanceled = ''context canceled''"
| "sentinel_text EthereumNotFound = ''not found''"

fun error_string :: "go_error \<Rightarrow> string" where
  "error_string (Sentinel s) = sentinel_text s"
| "error_string (NewError m) = m"
| "error_string (External m) = m"
| "error_string (PgError c) = ''SQLSTATE '' @ c"
| "error_string (Wrapf m e) = m @ '': '' @ error_string e"
| "error_string (Joinf a b) = error_string a @ '': '' @ error_string b"

fun errors_is :: "go_error \<Rightarrow> sentinel \<Rightarrow> bool" where
  "errors_is (Sentinel s) s' = (s = s')"
| "errors_is (Wrapf _ e) s' = errors_is e s'"
| "errors_is (Joinf a b) s' = (errors_is a s' \<or> errors_is b s')"
| "errors_is _ _ = False"

text \<open>\<^verbatim>\<open>errors.As(err, &pgErr) && pgErr.Code == code\<close>: the first Postgres error in the chain.\<close>

fun pg_code :: "go_error \<Rightarrow> string option" where
  "pg_code (PgError c) = Some c"
| "pg_code (Wrapf _ e) = pg_code e"
| "pg_code (Joinf a b) = (case pg_code a of None \<Rightarrow> pg_code b | Some c \<Rightarrow> Some c)"
| "pg_code _ = None"

lemma sentinel_text_nonempty [simp]: "sentinel_text s \<noteq> []"
  by (cases s) simp_all

lemma error_string_composite [simp]:
  "error_string (Sentinel s) \<noteq> []" "error_string (PgError c) \<noteq> []"
  "error_string (Wrapf m e) \<noteq> []" "error_string (Joinf a b) \<noteq> []"
  by simp_all

section \<open>Strings\<close>

text \<open>\<^verbatim>\<open>strings.Contains\<close>.\<close>

fun has_prefix :: "string \<Rightarrow> string \<Rightarrow> bool" where
  "has_prefix [] s = True"
| "has_prefix (p # ps) [] = False"
| "has_prefix (p # ps) (c # cs) = (p = c \<and> has_prefix ps cs)"

fun contains :: "string \<Rightarrow> string \<Rightarrow> bool" where
  "contains [] sub = (sub = [])"
| "contains (c # cs) sub = (has_prefix sub (c # cs) \<or> contains cs sub)"

text \<open>\<^verbatim>\<open>strings.ToLower\<close> on ASCII.\<close>

definition to_lower_char :: "char \<Rightarrow> char" where
  "to_lower_char c =
     (let n = of_char c :: nat in if 65 \<le> n \<and> n \<le> 90 then char_of (n + 32) else c)"

definition ToLower :: "string \<Rightarrow> string" where
  "ToLower = map to_lower_char"

text \<open>The bytes of a string.\<close>

definition string_bytes :: "string \<Rightarrow> bytes" where
  "string_bytes s = map (\<lambda>c. of_nat (of_char c)) s"

lemma char_byte_inj:
  assumes "(of_nat (of_char c) :: u8) = of_nat (of_char d)"
  shows "c = d"
proof -
  have "(of_char c :: nat) < 256" "(of_char d :: nat) < 256" by simp_all
  then have "(of_char c :: nat) = of_char d"
    using arg_cong [OF assms, of unat] by (simp add: unat_of_nat)
  then show ?thesis by simp
qed

lemma string_bytes_inj: "string_bytes s = string_bytes t \<Longrightarrow> s = t"
  unfolding string_bytes_def by (erule injD [OF inj_mapI, rotated]) (rule injI, rule char_byte_inj)

lemma length_string_bytes [simp]: "length (string_bytes s) = length s"
  by (simp add: string_bytes_def)

lemma has_prefix_iff: "has_prefix p s \<longleftrightarrow> (\<exists>t. s = p @ t)"
  by (induction p s rule: has_prefix.induct) auto

lemma contains_iff: "contains s sub \<longleftrightarrow> (\<exists>a b. s = a @ sub @ b)"
proof (induction s sub rule: contains.induct)
  case (2 c cs sub)
  then show ?case
    by (auto simp: has_prefix_iff Cons_eq_append_conv)
qed simp

section \<open>Results\<close>

text \<open>
  A call that returns a value and an error is \<open>go_error + 'a\<close>; a call that returns only an
  error is \<open>go_error option\<close>, \<open>None\<close> for \<^verbatim>\<open>nil\<close>.
\<close>

type_synonym 'a result = "go_error + 'a"

text \<open>The comma-ok read of a pointer field: the zero value and \<open>False\<close> when it is nil.\<close>

definition deref :: "'a \<Rightarrow> 'a option \<Rightarrow> 'a \<times> bool" where
  "deref z p = (case p of None \<Rightarrow> (z, False) | Some v \<Rightarrow> (v, True))"

lemma snd_deref [simp]: "snd (deref z p) = (p \<noteq> None)"
  by (cases p) (simp_all add: deref_def)

lemma deref_Some [simp]: "deref z (Some v) = (v, True)"
  by (simp add: deref_def)

lemma deref_None [simp]: "deref z None = (z, False)"
  by (simp add: deref_def)

section \<open>Hexadecimal strings\<close>

text \<open>
  \<^verbatim>\<open>encoding/hex.DecodeString\<close>: an error on a character that is not a hexadecimal digit or on
  an odd number of digits. \<^verbatim>\<open>strings.TrimPrefix(s, "0x")\<close>.
\<close>

definition hex_digit :: "char \<Rightarrow> u8 option" where
  "hex_digit c =
     (let n = of_char c :: nat in
      if 48 \<le> n \<and> n \<le> 57 then Some (of_nat (n - 48))
      else if 97 \<le> n \<and> n \<le> 102 then Some (of_nat (n - 87))
      else if 65 \<le> n \<and> n \<le> 70 then Some (of_nat (n - 55))
      else None)"

fun hex_decode :: "string \<Rightarrow> bytes result" where
  "hex_decode [] = Inr []"
| "hex_decode [c] =
     (case hex_digit c of
        None \<Rightarrow> Inl (External ''encoding/hex: invalid byte'')
      | Some _ \<Rightarrow> Inl (External ''encoding/hex: odd length hex string''))"
| "hex_decode (a # b # cs) =
     (case (hex_digit a, hex_digit b) of
        (Some x, Some y) \<Rightarrow>
          (case hex_decode cs of Inl e \<Rightarrow> Inl e | Inr bs \<Rightarrow> Inr ((16 * x + y) # bs))
      | _ \<Rightarrow> Inl (External ''encoding/hex: invalid byte''))"

definition trim_0x :: "string \<Rightarrow> string" where
  "trim_0x s = (if take 2 s = ''0x'' then drop 2 s else s)"

lemma hex_decode_length: "hex_decode s = Inr bs \<Longrightarrow> length s = 2 * length bs"
  by (induction s arbitrary: bs rule: hex_decode.induct) (auto split: option.splits sum.splits)

lemma sint_fits: "0 \<le> x \<Longrightarrow> x < 2 ^ 63 \<Longrightarrow> sint (word_of_int x :: u64) = x"
  by (simp add: sint_uint uint_word_of_int signed_take_bit_int_eq_self_iff order_trans [of _ 0])

section \<open>Keyed rows\<close>

text \<open>
  A statement \<^verbatim>\<open>UPDATE \<dots> SET \<dots> WHERE key = k\<close> rewrites every row whose key is \<open>k\<close> and no
  other; the key columns are never assigned. \<open>find\<close> by key then sees exactly the update.
\<close>

definition update_where :: "('r \<Rightarrow> bool) \<Rightarrow> ('r \<Rightarrow> 'r) \<Rightarrow> 'r list \<Rightarrow> 'r list" where
  "update_where P f rs = map (\<lambda>r. if P r then f r else r) rs"

lemma length_update_where [simp]: "length (update_where P f rs) = length rs"
  by (simp add: update_where_def)

locale keyed_update =
  fixes key :: "'r \<Rightarrow> 'k" and f :: "'r \<Rightarrow> 'r"
  assumes key_f: "key (f r) = key r"
begin

lemma find_update_where:
  "find (\<lambda>r. key r = k) (update_where (\<lambda>r. key r = k') f rs) =
     (if k = k' then map_option f (find (\<lambda>r. key r = k) rs) else find (\<lambda>r. key r = k) rs)"
  unfolding update_where_def by (induction rs) (auto simp: key_f)

lemma map_key_update_where: "map key (update_where P f rs) = map key rs"
  unfolding update_where_def by (simp add: key_f)

lemma filter_other_update_where:
  "filter (\<lambda>r. key r \<noteq> k) (update_where (\<lambda>r. key r = k) f rs) = filter (\<lambda>r. key r \<noteq> k) rs"
  unfolding update_where_def by (induction rs) (auto simp: key_f)

end

lemma find_Some_key: "find (\<lambda>r. key r = k) rs = Some r \<Longrightarrow> key r = k \<and> r \<in> set rs"
  by (auto simp: find_Some_iff)

end
