(* ===== verification/Db.thy ===== *)
theory Db
  imports Prelude
begin

text \<open>
  The relayer's Postgres storage: the row types of \<^verbatim>\<open>db/gen/db/models.go\<close>, the queries of
  \<^verbatim>\<open>db/gen/db/*.sql.go\<close> over the tables that \<^verbatim>\<open>db/migrations\<close> creates (with their unique
  and foreign keys), and the transaction wrapper of \<^verbatim>\<open>db/tx/tx.go\<close>. A query is a function on
  the database value; whether a call reaches the server is an input (\<open>db_fault\<close>), so every
  error return of the code can be taken. Timestamps are stored as given and the special values
  of the numeric type are left out.
\<close>

section \<open>Row types\<close>

datatype Ibcv2RelayStatus =
    PENDING
  | CHECK_RECV_PACKET_DELIVERY
  | GET_RECV_PACKET
  | DELIVER_RECV_PACKET
  | WAIT_FOR_WRITE_ACK
  | CHECK_ACK_PACKET_DELIVERY
  | GET_ACK_PACKET
  | DELIVER_ACK_PACKET
  | CHECK_TIMEOUT_PACKET_DELIVERY
  | GET_TIMEOUT_PACKET
  | DELIVER_TIMEOUT_PACKET
  | COMPLETE_WITH_ACK
  | COMPLETE_WITH_TIMEOUT
  | FAILED
  | AWAITING_SEND_FINALITY
  | AWAITING_WRITE_ACK_FINALITY
  | COMPLETE_WITH_WRITE_ACK_SUCCESS
  | AWAITING_TIMEOUT_FINALITY
  | COMPLETE_WITH_WRITE_ACK_ERROR
  | CALCULATING_RECV_TX_GAS_COST
  | CALCULATING_ACK_TX_GAS_COST
  | CALCULATING_TIMEOUT_TX_GAS_COST

datatype Ibcv2WriteAckStatus = WACK_SUCCESS | WACK_ERROR | WACK_UNKNOWN

datatype Ibcv2RelayerTxSubmissionStatus = SUB_PENDING | SUB_SUCCESS | SUB_FAILED | SUB_EXPIRED

datatype Ibcv2RelayerTxSubmissionType = RECV_PACKET | ACK_PACKET | TIMEOUT_PACKET

text \<open>\<^verbatim>\<open>pgtype.Numeric\<close>: the value is \<open>num_Int * 10 ^ num_Exp\<close>.\<close>

datatype numeric = Numeric (num_Int: int) (num_Exp: int)

record Ibcv2Transfer =
  r_ID :: i32
  r_CreatedAt :: time
  r_UpdatedAt :: time
  r_Status :: Ibcv2RelayStatus
  r_StatusText :: "string option"
  r_SourceChainID :: string
  r_DestinationChainID :: string
  r_SourceTxHash :: string
  r_SourceTxTime :: "time option"
  r_PacketSequenceNumber :: i32
  r_PacketSourceClientID :: string
  r_PacketDestinationClientID :: string
  r_PacketTimeoutTimestamp :: "time option"
  r_RecvTxHash :: "string option"
  r_RecvTxTime :: "time option"
  r_WriteAckTxHash :: "string option"
  r_WriteAckTxTime :: "time option"
  r_AckTxHash :: "string option"
  r_AckTxTime :: "time option"
  r_TimeoutTxHash :: "string option"
  r_TimeoutTxTime :: "time option"
  r_WriteAckStatus :: "Ibcv2WriteAckStatus option"
  r_RecvTxGasCostUsd :: "numeric option"
  r_AckTxGasCostUsd :: "numeric option"
  r_TimeoutTxGasCostUsd :: "numeric option"
  r_RecvTxRelayerAddress :: "string option"
  r_AckTxRelayerAddress :: "string option"
  r_TimeoutTxRelayerAddress :: "string option"
  r_SourceTxFinalizedTime :: "time option"
  r_WriteAckTxFinalizedTime :: "time option"

record Ibcv2RelayRequest =
  rr_ID :: i32
  rr_SourceChainID :: string
  rr_SourceTxHash :: string
  rr_CreatedAt :: time

record Ibcv2RelayerTxSubmission =
  s_ID :: i32
  s_TxHash :: string
  s_ChainID :: string
  s_TxType :: Ibcv2RelayerTxSubmissionType
  s_RelayerAddress :: string
  s_SubmittedAt :: "time option"
  s_ResolvedAt :: "time option"
  s_GasCostAmount :: "numeric option"
  s_GasCostUsd :: "numeric option"
  s_Status :: Ibcv2RelayerTxSubmissionStatus
  s_ExecutionError :: "string option"

record Ibcv2TransferTxSubmission =
  ts_TransferID :: i32
  ts_SubmissionID :: i32

text \<open>
  The tables, and the last value each serial sequence has given out. Sequences are not
  transactional in Postgres, so a rolled back transaction keeps what it drew from them.
\<close>

record database =
  transfers :: "Ibcv2Transfer list"
  relay_requests :: "Ibcv2RelayRequest list"
  tx_submissions :: "Ibcv2RelayerTxSubmission list"
  transfer_tx_submissions :: "Ibcv2TransferTxSubmission list"
  transfers_id_seq :: i32
  relay_requests_id_seq :: i32
  tx_submissions_id_seq :: i32

type_synonym transfer_key = "string \<times> string \<times> i32"

definition row_key :: "Ibcv2Transfer \<Rightarrow> transfer_key" where
  "row_key r = (r_SourceChainID r, r_PacketSourceClientID r, r_PacketSequenceNumber r)"

definition lookup_transfer :: "database \<Rightarrow> transfer_key \<Rightarrow> Ibcv2Transfer option" where
  "lookup_transfer d k = find (\<lambda>r. row_key r = k) (transfers d)"

lemma row_key_unfold:
  "row_key r = (c, cl, n) \<longleftrightarrow>
     r_SourceChainID r = c \<and> r_PacketSourceClientID r = cl \<and> r_PacketSequenceNumber r = n"
  by (simp add: row_key_def)

section \<open>Faults\<close>

text \<open>Each call of a query names itself, with the row it is about where it is called in a loop.\<close>

datatype query =
    QUpdateTransferState transfer_key
  | QUpdateTransferRecvTx transfer_key
  | QUpdateTransferWriteAckTx transfer_key
  | QUpdateTransferAckTx transfer_key
  | QUpdateTransferTimeoutTx transfer_key
  | QUpdateTransferSourceTxFinalizedTime transfer_key
  | QUpdateTransferWriteAckTxFinalizedTime transfer_key
  | QUpdateTransferRecvTxGasCostUSD transfer_key
  | QUpdateTransferAckTxGasCostUSD transfer_key
  | QUpdateTransferTimeoutTxGasCostUSD transfer_key
  | QClearRecvTx transfer_key
  | QClearAckTx transfer_key
  | QClearTimeoutTx transfer_key
  | QGetUnfinishedIBCV2Transfers
  | QGetTransfersBySourceTx
  | QGetRelayRequest
  | QInsertRelayRequest
  | QInsertIBCV2Transfer transfer_key
  | QInsertIBCV2RelayerTxSubmission
  | QInsertIBCV2TransferTxSubmission i32
  | QGetUnresolvedIBCV2RelayerTxSubmissions
  | QUpdateIBCV2RelayerTxSubmissionTracking i32
  | QExpirePendingIBCV2RelayerTxSubmission i32
  | QCountTransfersByChainPairAndStatus
  | QListRelayStatuses

record db_env =
  db_fault :: "query \<Rightarrow> go_error option"
  db_now :: time
  begin_fault :: "go_error option"
  rollback_fault :: "go_error option"
  commit_fault :: "go_error option"

definition exec_query ::
  "db_env \<Rightarrow> query \<Rightarrow> (database \<Rightarrow> database) \<Rightarrow> database \<Rightarrow> database \<times> go_error option" where
  "exec_query E q f d =
     (case db_fault E q of Some err \<Rightarrow> (d, Some err) | None \<Rightarrow> (f d, None))"

definition set_rows ::
  "db_env \<Rightarrow> query \<Rightarrow> transfer_key \<Rightarrow> (Ibcv2Transfer \<Rightarrow> Ibcv2Transfer) \<Rightarrow> database \<Rightarrow>
     database \<times> go_error option" where
  "set_rows E q k f d =
     exec_query E q (\<lambda>d. d\<lparr>transfers := update_where (\<lambda>r. row_key r = k) f (transfers d)\<rparr>) d"

section \<open>Queries on transfers\<close>

definition ClearAckTx :: "db_env \<Rightarrow> transfer_key \<Rightarrow> database \<Rightarrow> database \<times> go_error option" where
  "ClearAckTx E k = set_rows E (QClearAckTx k) k (\<lambda>r. r\<lparr>r_AckTxHash := None, r_AckTxTime := None\<rparr>)"

definition ClearRecvTx :: "db_env \<Rightarrow> transfer_key \<Rightarrow> database \<Rightarrow> database \<times> go_error option" where
  "ClearRecvTx E k =
     set_rows E (QClearRecvTx k) k (\<lambda>r. r\<lparr>r_RecvTxHash := None, r_RecvTxTime := None\<rparr>)"

definition ClearTimeoutTx :: "db_env \<Rightarrow> transfer_key \<Rightarrow> database \<Rightarrow> database \<times> go_error option" where
  "ClearTimeoutTx E k =
     set_rows E (QClearTimeoutTx k) k (\<lambda>r. r\<lparr>r_TimeoutTxHash := None, r_TimeoutTxTime := None\<rparr>)"

definition UpdateTransferAckTx ::
  "db_env \<Rightarrow> transfer_key \<Rightarrow> string \<Rightarrow> time \<Rightarrow> string \<Rightarrow> database \<Rightarrow> database \<times> go_error option" where
  "UpdateTransferAckTx E k h tm addr =
     set_rows E (QUpdateTransferAckTx k) k
       (\<lambda>r. r\<lparr>r_UpdatedAt := db_now E, r_AckTxHash := Some h, r_AckTxTime := Some tm,
              r_AckTxRelayerAddress := Some addr\<rparr>)"

definition UpdateTransferAckTxGasCostUSD ::
  "db_env \<Rightarrow> transfer_key \<Rightarrow> numeric option \<Rightarrow> database \<Rightarrow> database \<times> go_error option" where
  "UpdateTransferAckTxGasCostUSD E k c =
     set_rows E (QUpdateTransferAckTxGasCostUSD k) k
       (\<lambda>r. r\<lparr>r_UpdatedAt := db_now E, r_AckTxGasCostUsd := c\<rparr>)"

definition UpdateTransferRecvTx ::
  "db_env \<Rightarrow> transfer_key \<Rightarrow> string \<Rightarrow> time \<Rightarrow> string \<Rightarrow> database \<Rightarrow> database \<times> go_error option" where
  "UpdateTransferRecvTx E k h tm addr =
     set_rows E (QUpdateTransferRecvTx k) k
       (\<lambda>r. r\<lparr>r_UpdatedAt := db_now E, r_RecvTxHash := Some h, r_RecvTxTime := Some tm,
              r_RecvTxRelayerAddress := Some addr\<rparr>)"

definition UpdateTransferRecvTxGasCostUSD ::
  "db_env \<Rightarrow> transfer_key \<Rightarrow> numeric option \<Rightarrow> database \<Rightarrow> database \<times> go_error option" where
  "UpdateTransferRecvTxGasCostUSD E k c =
     set_rows E (QUpdateTransferRecvTxGasCostUSD k) k
       (\<lambda>r. r\<lparr>r_UpdatedAt := db_now E, r_RecvTxGasCostUsd := c\<rparr>)"

definition UpdateTransferSourceTxFinalizedTime ::
  "db_env \<Rightarrow> transfer_key \<Rightarrow> time \<Rightarrow> database \<Rightarrow> database \<times> go_error option" where
  "UpdateTransferSourceTxFinalizedTime E k tm =
     set_rows E (QUpdateTransferSourceTxFinalizedTime k) k
       (\<lambda>r. r\<lparr>r_UpdatedAt := db_now E, r_SourceTxFinalizedTime := Some tm\<rparr>)"

definition UpdateTransferState ::
  "db_env \<Rightarrow> transfer_key \<Rightarrow> Ibcv2RelayStatus \<Rightarrow> database \<Rightarrow> database \<times> go_error option" where
  "UpdateTransferState E k s =
     set_rows E (QUpdateTransferState k) k (\<lambda>r. r\<lparr>r_UpdatedAt := db_now E, r_Status := s\<rparr>)"

definition UpdateTransferTimeoutTx ::
  "db_env \<Rightarrow> transfer_key \<Rightarrow> string \<Rightarrow> time \<Rightarrow> string \<Rightarrow> database \<Rightarrow> database \<times> go_error option" where
  "UpdateTransferTimeoutTx E k h tm addr =
     set_rows E (QUpdateTransferTimeoutTx k) k
       (\<lambda>r. r\<lparr>r_UpdatedAt := db_now E, r_TimeoutTxHash := Some h, r_TimeoutTxTime := Some tm,
              r_TimeoutTxRelayerAddress := Some addr\<rparr>)"

definition UpdateTransferTimeoutTxGasCostUSD ::
  "db_env \<Rightarrow> transfer_key \<Rightarrow> numeric option \<Rightarrow> database \<Rightarrow> database \<times> go_error option" where
  "UpdateTransferTimeoutTxGasCostUSD E k c =
     set_rows E (QUpdateTransferTimeoutTxGasCostUSD k) k
       (\<lambda>r. r\<lparr>r_UpdatedAt := db_now E, r_TimeoutTxGasCostUsd := c\<rparr>)"

definition UpdateTransferWriteAckTx ::
  "db_env \<Rightarrow> transfer_key \<Rightarrow> string \<Rightarrow> time \<Rightarrow> Ibcv2WriteAckStatus \<Rightarrow> database \<Rightarrow>
     database \<times> go_error option" where
  "UpdateTransferWriteAckTx E k h tm s =
     set_rows E (QUpdateTransferWriteAckTx k) k
       (\<lambda>r. r\<lparr>r_UpdatedAt := db_now E, r_WriteAckTxHash := Some h, r_WriteAckTxTime := Some tm,
              r_WriteAckStatus := Some s\<rparr>)"

definition UpdateTransferWriteAckTxFinalizedTime ::
  "db_env \<Rightarrow> transfer_key \<Rightarrow> time \<Rightarrow> database \<Rightarrow> database \<times> go_error option" where
  "UpdateTransferWriteAckTxFinalizedTime E k tm =
     set_rows E (QUpdateTransferWriteAckTxFinalizedTime k) k
       (\<lambda>r. r\<lparr>r_UpdatedAt := db_now E, r_WriteAckTxFinalizedTime := Some tm\<rparr>)"

text \<open>The statuses the \<^verbatim>\<open>WHERE\<close> clause of \<^verbatim>\<open>GetUnfinishedIBCV2Transfers\<close> excludes.\<close>

definition finished_status :: "Ibcv2RelayStatus \<Rightarrow> bool" where
  "finished_status s \<longleftrightarrow>
     s \<in> {COMPLETE_WITH_ACK, COMPLETE_WITH_TIMEOUT, FAILED, COMPLETE_WITH_WRITE_ACK_SUCCESS,
          COMPLETE_WITH_WRITE_ACK_ERROR}"

definition GetUnfinishedIBCV2Transfers :: "db_env \<Rightarrow> database \<Rightarrow> Ibcv2Transfer list result" where
  "GetUnfinishedIBCV2Transfers E d =
     (case db_fault E QGetUnfinishedIBCV2Transfers of
        Some err \<Rightarrow> Inl err
      | None \<Rightarrow> Inr (filter (\<lambda>r. \<not> finished_status (r_Status r)) (transfers d)))"

definition GetTransfersBySourceTx ::
  "db_env \<Rightarrow> string \<Rightarrow> string \<Rightarrow> database \<Rightarrow> Ibcv2Transfer list result" where
  "GetTransfersBySourceTx E chain h d =
     (case db_fault E QGetTransfersBySourceTx of
        Some err \<Rightarrow> Inl err
      | None \<Rightarrow>
          Inr (filter (\<lambda>r. r_SourceChainID r = chain \<and> r_SourceTxHash r = h) (transfers d)))"

definition GetRelayRequest ::
  "db_env \<Rightarrow> string \<Rightarrow> string \<Rightarrow> database \<Rightarrow> Ibcv2RelayRequest result" where
  "GetRelayRequest E chain h d =
     (case db_fault E QGetRelayRequest of
        Some err \<Rightarrow> Inl err
      | None \<Rightarrow>
          (case find (\<lambda>q. rr_SourceChainID q = chain \<and> rr_SourceTxHash q = h) (relay_requests d) of
             None \<Rightarrow> Inl (Sentinel ErrNoRows)
           | Some q \<Rightarrow> Inr q))"

section \<open>Queries on relayer transactions\<close>

text \<open>
  \<^verbatim>\<open>ORDER BY submitted_at ASC\<close> puts a missing time last; rows with the same time, whose order
  Postgres does not fix, come in table order here. A negative \<^verbatim>\<open>LIMIT\<close> is an error.
\<close>

definition GetUnresolvedIBCV2RelayerTxSubmissions ::
  "db_env \<Rightarrow> i32 \<Rightarrow> database \<Rightarrow> Ibcv2RelayerTxSubmission list result" where
  "GetUnresolvedIBCV2RelayerTxSubmissions E limit d =
     (case db_fault E QGetUnresolvedIBCV2RelayerTxSubmissions of
        Some err \<Rightarrow> Inl err
      | None \<Rightarrow>
          if sint limit < 0 then Inl (PgError ''2201W'')
          else
            (let ps = filter (\<lambda>s. s_Status s = SUB_PENDING) (tx_submissions d);
                 timed = filter (\<lambda>s. s_SubmittedAt s \<noteq> None) ps;
                 untimed = filter (\<lambda>s. s_SubmittedAt s = None) ps
             in Inr (take (nat (sint limit)) (sort_key (\<lambda>s. the (s_SubmittedAt s)) timed @ untimed))))"

definition set_submissions ::
  "db_env \<Rightarrow> query \<Rightarrow> (Ibcv2RelayerTxSubmission \<Rightarrow> bool) \<Rightarrow>
     (Ibcv2RelayerTxSubmission \<Rightarrow> Ibcv2RelayerTxSubmission) \<Rightarrow> database \<Rightarrow> database \<times> go_error option" where
  "set_submissions E q P f d =
     exec_query E q (\<lambda>d. d\<lparr>tx_submissions := update_where P f (tx_submissions d)\<rparr>) d"

definition UpdateIBCV2RelayerTxSubmissionTracking ::
  "db_env \<Rightarrow> i32 \<Rightarrow> numeric option \<Rightarrow> numeric option \<Rightarrow> Ibcv2RelayerTxSubmissionStatus \<Rightarrow>
     string option \<Rightarrow> database \<Rightarrow> database \<times> go_error option" where
  "UpdateIBCV2RelayerTxSubmissionTracking E i amt usd st execErr =
     set_submissions E (QUpdateIBCV2RelayerTxSubmissionTracking i) (\<lambda>s. s_ID s = i)
       (\<lambda>s. s\<lparr>s_ResolvedAt := Some (db_now E), s_GasCostAmount := amt, s_GasCostUsd := usd,
              s_Status := st, s_ExecutionError := execErr\<rparr>)"

definition ExpirePendingIBCV2RelayerTxSubmission ::
  "db_env \<Rightarrow> i32 \<Rightarrow> database \<Rightarrow> database \<times> go_error option" where
  "ExpirePendingIBCV2RelayerTxSubmission E i =
     set_submissions E (QExpirePendingIBCV2RelayerTxSubmission i)
       (\<lambda>s. s_ID s = i \<and> s_Status s = SUB_PENDING)
       (\<lambda>s. s\<lparr>s_ResolvedAt := Some (db_now E), s_Status := SUB_EXPIRED, s_ExecutionError := None\<rparr>)"

section \<open>Inserts\<close>

text \<open>A serial column draws the next value of its sequence and fails past the largest \<^verbatim>\<open>int4\<close>.\<close>

definition nextval :: "i32 \<Rightarrow> i32 option" where
  "nextval s = (if s = 2147483647 then None else Some (s + 1))"

definition seq_exhausted :: go_error where
  "seq_exhausted = PgError ''2200H''"

definition unique_violation :: go_error where
  "unique_violation = PgError ''23505''"

definition foreign_key_violation :: go_error where
  "foreign_key_violation = PgError ''23503''"

text \<open>\<^verbatim>\<open>ON CONFLICT (source_chain_id, source_tx_hash) DO NOTHING\<close>: a duplicate is no error.\<close>

definition InsertRelayRequest ::
  "db_env \<Rightarrow> string \<Rightarrow> string \<Rightarrow> database \<Rightarrow> database \<times> go_error option" where
  "InsertRelayRequest E chain h d =
     (case db_fault E QInsertRelayRequest of
        Some err \<Rightarrow> (d, Some err)
      | None \<Rightarrow>
          (case nextval (relay_requests_id_seq d) of
             None \<Rightarrow> (d, Some seq_exhausted)
           | Some i \<Rightarrow>
               (let d1 = d\<lparr>relay_requests_id_seq := i\<rparr> in
                if \<exists>q \<in> set (relay_requests d). rr_SourceChainID q = chain \<and> rr_SourceTxHash q = h
                then (d1, None)
                else (d1\<lparr>relay_requests := relay_requests d @
                          [\<lparr>rr_ID = i, rr_SourceChainID = chain, rr_SourceTxHash = h,
                            rr_CreatedAt = db_now E\<rparr>]\<rparr>, None))))"

definition new_row ::
  "db_env \<Rightarrow> i32 \<Rightarrow> string \<Rightarrow> string \<Rightarrow> string \<Rightarrow> time \<Rightarrow> i32 \<Rightarrow> string \<Rightarrow> string \<Rightarrow> time \<Rightarrow> Ibcv2Transfer" where
  "new_row E i srcChain dstChain txHash txTime sq srcClient dstClient timeoutTs =
     \<lparr>r_ID = i, r_CreatedAt = db_now E, r_UpdatedAt = db_now E, r_Status = PENDING,
      r_StatusText = None, r_SourceChainID = srcChain, r_DestinationChainID = dstChain,
      r_SourceTxHash = txHash, r_SourceTxTime = Some txTime, r_PacketSequenceNumber = sq,
      r_PacketSourceClientID = srcClient, r_PacketDestinationClientID = dstClient,
      r_PacketTimeoutTimestamp = Some timeoutTs, r_RecvTxHash = None, r_RecvTxTime = None,
      r_WriteAckTxHash = None, r_WriteAckTxTime = None, r_AckTxHash = None, r_AckTxTime = None,
      r_TimeoutTxHash = None, r_TimeoutTxTime = None, r_WriteAckStatus = None,
      r_RecvTxGasCostUsd = None, r_AckTxGasCostUsd = None, r_TimeoutTxGasCostUsd = None,
      r_RecvTxRelayerAddress = None, r_AckTxRelayerAddress = None,
      r_TimeoutTxRelayerAddress = None, r_SourceTxFinalizedTime = None,
      r_WriteAckTxFinalizedTime = None\<rparr>"

text \<open>
  The unique index \<^verbatim>\<open>index_ibcv2_transfer_packet\<close> on the packet key makes a second insert of
  the same packet an error.
\<close>

definition InsertIBCV2Transfer ::
  "db_env \<Rightarrow> string \<Rightarrow> string \<Rightarrow> string \<Rightarrow> time \<Rightarrow> i32 \<Rightarrow> string \<Rightarrow> string \<Rightarrow> time \<Rightarrow> database \<Rightarrow>
     database \<times> go_error option" where
  "InsertIBCV2Transfer E srcChain dstChain txHash txTime sq srcClient dstClient timeoutTs d =
     (case db_fault E (QInsertIBCV2Transfer (srcChain, srcClient, sq)) of
        Some err \<Rightarrow> (d, Some err)
      | None \<Rightarrow>
          (case nextval (transfers_id_seq d) of
             None \<Rightarrow> (d, Some seq_exhausted)
           | Some i \<Rightarrow>
               (let d1 = d\<lparr>transfers_id_seq := i\<rparr> in
                if \<exists>r \<in> set (transfers d). row_key r = (srcChain, srcClient, sq)
                then (d1, Some unique_violation)
                else (d1\<lparr>transfers := transfers d @
                       [new_row E i srcChain dstChain txHash txTime sq srcClient dstClient timeoutTs]\<rparr>,
                      None))))"

definition InsertIBCV2RelayerTxSubmission ::
  "db_env \<Rightarrow> string \<Rightarrow> string \<Rightarrow> Ibcv2RelayerTxSubmissionType \<Rightarrow> string \<Rightarrow> time \<Rightarrow>
     Ibcv2RelayerTxSubmissionStatus \<Rightarrow> database \<Rightarrow> database \<times> i32 result" where
  "InsertIBCV2RelayerTxSubmission E h chain ty addr tm st d =
     (case db_fault E QInsertIBCV2RelayerTxSubmission of
        Some err \<Rightarrow> (d, Inl err)
      | None \<Rightarrow>
          (case nextval (tx_submissions_id_seq d) of
             None \<Rightarrow> (d, Inl seq_exhausted)
           | Some i \<Rightarrow>
               (let d1 = d\<lparr>tx_submissions_id_seq := i\<rparr> in
                if \<exists>s \<in> set (tx_submissions d). s_ChainID s = chain \<and> s_TxHash s = h \<and> s_TxType s = ty
                then (d1, Inl unique_violation)
                else (d1\<lparr>tx_submissions := tx_submissions d @
                        [\<lparr>s_ID = i, s_TxHash = h, s_ChainID = chain, s_TxType = ty,
                          s_RelayerAddress = addr, s_SubmittedAt = Some tm, s_ResolvedAt = None,
                          s_GasCostAmount = None, s_GasCostUsd = None, s_Status = st,
                          s_ExecutionError = None\<rparr>]\<rparr>, Inr i))))"

text \<open>
  \<^verbatim>\<open>ON CONFLICT (transfer_id, submission_id) DO NOTHING\<close>; both columns are foreign keys.
\<close>

definition InsertIBCV2TransferTxSubmission ::
  "db_env \<Rightarrow> i32 \<Rightarrow> i32 \<Rightarrow> database \<Rightarrow> database \<times> go_error option" where
  "InsertIBCV2TransferTxSubmission E tid sid d =
     (case db_fault E (QInsertIBCV2TransferTxSubmission tid) of
        Some err \<Rightarrow> (d, Some err)
      | None \<Rightarrow>
          (let m = \<lparr>ts_TransferID = tid, ts_SubmissionID = sid\<rparr> in
           if m \<in> set (transfer_tx_submissions d) then (d, None)
           else if tid \<notin> r_ID ` set (transfers d) \<or> sid \<notin> s_ID ` set (tx_submissions d)
           then (d, Some foreign_key_violation)
           else (d\<lparr>transfer_tx_submissions := transfer_tx_submissions d @ [m]\<rparr>, None)))"

section \<open>Transactions\<close>

definition rollback :: "database \<Rightarrow> database \<Rightarrow> database" where
  "rollback d d' =
     d\<lparr>transfers_id_seq := transfers_id_seq d', relay_requests_id_seq := relay_requests_id_seq d',
       tx_submissions_id_seq := tx_submissions_id_seq d'\<rparr>"

text \<open>A commit that fails leaves the tables as a rollback does.\<close>

definition ExecTx ::
  "db_env \<Rightarrow> (database \<Rightarrow> database \<times> go_error option) \<Rightarrow> database \<Rightarrow> database \<times> go_error option" where
  "ExecTx E fn d =
     (case begin_fault E of
        Some err \<Rightarrow> (d, Some err)
      | None \<Rightarrow>
          (case fn d of
             (d', Some err) \<Rightarrow>
               (case rollback_fault E of
                  Some rbErr \<Rightarrow> (rollback d d', Some (Joinf (Wrapf ''tx err'' err) (Wrapf ''rb err'' rbErr)))
                | None \<Rightarrow> (rollback d d', Some err))
           | (d', None) \<Rightarrow>
               (case commit_fault E of
                  Some err \<Rightarrow> (rollback d d', Some err)
                | None \<Rightarrow> (d', None))))"

section \<open>What a statement does\<close>

text \<open>No statement assigns the columns of the packet key, the id or the packet's endpoints.\<close>

lemma row_key_update [simp]:
  "row_key (r\<lparr>r_UpdatedAt := t\<rparr>) = row_key r"
  "row_key (r\<lparr>r_Status := st\<rparr>) = row_key r"
  "row_key (r\<lparr>r_RecvTxHash := h\<rparr>) = row_key r"
  "row_key (r\<lparr>r_RecvTxTime := ot\<rparr>) = row_key r"
  "row_key (r\<lparr>r_RecvTxRelayerAddress := h\<rparr>) = row_key r"
  "row_key (r\<lparr>r_RecvTxGasCostUsd := c\<rparr>) = row_key r"
  "row_key (r\<lparr>r_WriteAckTxHash := h\<rparr>) = row_key r"
  "row_key (r\<lparr>r_WriteAckTxTime := ot\<rparr>) = row_key r"
  "row_key (r\<lparr>r_WriteAckStatus := w\<rparr>) = row_key r"
  "row_key (r\<lparr>r_AckTxHash := h\<rparr>) = row_key r"
  "row_key (r\<lparr>r_AckTxTime := ot\<rparr>) = row_key r"
  "row_key (r\<lparr>r_AckTxRelayerAddress := h\<rparr>) = row_key r"
  "row_key (r\<lparr>r_AckTxGasCostUsd := c\<rparr>) = row_key r"
  "row_key (r\<lparr>r_TimeoutTxHash := h\<rparr>) = row_key r"
  "row_key (r\<lparr>r_TimeoutTxTime := ot\<rparr>) = row_key r"
  "row_key (r\<lparr>r_TimeoutTxRelayerAddress := h\<rparr>) = row_key r"
  "row_key (r\<lparr>r_TimeoutTxGasCostUsd := c\<rparr>) = row_key r"
  "row_key (r\<lparr>r_SourceTxFinalizedTime := ot\<rparr>) = row_key r"
  "row_key (r\<lparr>r_WriteAckTxFinalizedTime := ot\<rparr>) = row_key r"
  by (simp_all add: row_key_def)

definition row_ends :: "Ibcv2Transfer \<Rightarrow> transfer_key \<times> string \<times> string" where
  "row_ends r = (row_key r, r_DestinationChainID r, r_PacketDestinationClientID r)"

definition keys_distinct :: "database \<Rightarrow> bool" where
  "keys_distinct d \<longleftrightarrow> distinct (map row_key (transfers d))"

definition submission_key ::
  "Ibcv2RelayerTxSubmission \<Rightarrow> string \<times> string \<times> Ibcv2RelayerTxSubmissionType" where
  "submission_key s = (s_ChainID s, s_TxHash s, s_TxType s)"

text \<open>
  What the schema enforces: the unique indexes on the packet key, on a relay request and on a
  relayer transaction, the primary key of the mapping table, and its two foreign keys.
\<close>

definition db_ok :: "database \<Rightarrow> bool" where
  "db_ok d \<longleftrightarrow>
     keys_distinct d \<and>
     distinct (map (\<lambda>q. (rr_SourceChainID q, rr_SourceTxHash q)) (relay_requests d)) \<and>
     distinct (map submission_key (tx_submissions d)) \<and>
     distinct (transfer_tx_submissions d) \<and>
     (\<forall>m \<in> set (transfer_tx_submissions d).
        ts_TransferID m \<in> set (map r_ID (transfers d)) \<and>
        ts_SubmissionID m \<in> set (map s_ID (tx_submissions d)))"

text \<open>
  The contract of an \<^verbatim>\<open>UPDATE ibcv2_transfers \<dots> WHERE\<close> packet key: the row with the key is
  mapped by \<open>f\<close>, or the call fails and nothing changes. Every statement of the storage layer
  that the pipeline uses on transfers is an instance.
\<close>

locale row_statement =
  fixes stmt :: "transfer_key \<Rightarrow> database \<Rightarrow> database \<times> go_error option"
    and f :: "Ibcv2Transfer \<Rightarrow> Ibcv2Transfer"
  assumes stmt_outcome:
      "stmt k d = (d', x) \<Longrightarrow>
         (x = None \<and> d' = d\<lparr>transfers := update_where (\<lambda>r. row_key r = k) f (transfers d)\<rparr>) \<or>
         (x \<noteq> None \<and> d' = d)"
    and key_kept: "row_key (f r) = row_key r"
    and id_kept: "r_ID (f r) = r_ID r"
    and ends_kept: "row_ends (f r) = row_ends r"

sublocale row_statement \<subseteq> keyed_update row_key f
  by unfold_locales (rule key_kept)

context row_statement
begin

lemma stmt_lookup:
  assumes "stmt k d = (d', None)"
  shows "lookup_transfer d' k' =
    (if k' = k then map_option f (lookup_transfer d k) else lookup_transfer d k')"
  using stmt_outcome [OF assms] by (auto simp: lookup_transfer_def find_update_where)

lemma stmt_error: "stmt k d = (d', Some e) \<Longrightarrow> d' = d"
  using stmt_outcome by fastforce

lemma stmt_frame: "stmt k d = (d', x) \<Longrightarrow> k' \<noteq> k \<Longrightarrow> lookup_transfer d' k' = lookup_transfer d k'"
  by (cases x) (auto simp: stmt_lookup dest: stmt_error)

lemma stmt_tables:
  assumes "stmt k d = (d', x)"
  shows "relay_requests d' = relay_requests d" "tx_submissions d' = tx_submissions d"
    "transfer_tx_submissions d' = transfer_tx_submissions d"
    "map row_key (transfers d') = map row_key (transfers d)"
    "map r_ID (transfers d') = map r_ID (transfers d)"
    "map row_ends (transfers d') = map row_ends (transfers d)"
  using stmt_outcome [OF assms] by (auto simp: update_where_def key_kept id_kept ends_kept)

lemma stmt_ok: "stmt k d = (d', x) \<Longrightarrow> db_ok d \<Longrightarrow> db_ok d'"
  by (simp add: db_ok_def keys_distinct_def stmt_tables del: set_map)

end

lemma set_rows_cases:
  "set_rows E q k f d = (d', x) \<Longrightarrow>
     (x = None \<and> d' = d\<lparr>transfers := update_where (\<lambda>r. row_key r = k) f (transfers d)\<rparr>) \<or>
     (x \<noteq> None \<and> d' = d)"
  by (auto simp: set_rows_def exec_query_def split: option.splits)

interpretation clear_ack: row_statement "ClearAckTx E"
    "\<lambda>r. r\<lparr>r_AckTxHash := None, r_AckTxTime := None\<rparr>" for E
  by unfold_locales (auto simp: ClearAckTx_def row_ends_def dest: set_rows_cases)

interpretation clear_recv: row_statement "ClearRecvTx E"
    "\<lambda>r. r\<lparr>r_RecvTxHash := None, r_RecvTxTime := None\<rparr>" for E
  by unfold_locales (auto simp: ClearRecvTx_def row_ends_def dest: set_rows_cases)

interpretation clear_timeout: row_statement "ClearTimeoutTx E"
    "\<lambda>r. r\<lparr>r_TimeoutTxHash := None, r_TimeoutTxTime := None\<rparr>" for E
  by unfold_locales (auto simp: ClearTimeoutTx_def row_ends_def dest: set_rows_cases)

interpretation upd_ack: row_statement "\<lambda>k. UpdateTransferAckTx E k h tm addr"
    "\<lambda>r. r\<lparr>r_UpdatedAt := db_now E, r_AckTxHash := Some h, r_AckTxTime := Some tm,
         r_AckTxRelayerAddress := Some addr\<rparr>" for E h tm addr
  by unfold_locales (auto simp: UpdateTransferAckTx_def row_ends_def dest: set_rows_cases)

interpretation upd_ack_gas: row_statement "\<lambda>k. UpdateTransferAckTxGasCostUSD E k c"
    "\<lambda>r. r\<lparr>r_UpdatedAt := db_now E, r_AckTxGasCostUsd := c\<rparr>" for E c
  by unfold_locales (auto simp: UpdateTransferAckTxGasCostUSD_def row_ends_def dest: set_rows_cases)

interpretation upd_recv: row_statement "\<lambda>k. UpdateTransferRecvTx E k h tm addr"
    "\<lambda>r. r\<lparr>r_UpdatedAt := db_now E, r_RecvTxHash := Some h, r_RecvTxTime := Some tm,
         r_RecvTxRelayerAddress := Some addr\<rparr>" for E h tm addr
  by unfold_locales (auto simp: UpdateTransferRecvTx_def row_ends_def dest: set_rows_cases)

interpretation upd_recv_gas: row_statement "\<lambda>k. UpdateTransferRecvTxGasCostUSD E k c"
    "\<lambda>r. r\<lparr>r_UpdatedAt := db_now E, r_RecvTxGasCostUsd := c\<rparr>" for E c
  by unfold_locales (auto simp: UpdateTransferRecvTxGasCostUSD_def row_ends_def dest: set_rows_cases)

interpretation upd_src_fin: row_statement "\<lambda>k. UpdateTransferSourceTxFinalizedTime E k tm"
    "\<lambda>r. r\<lparr>r_UpdatedAt := db_now E, r_SourceTxFinalizedTime := Some tm\<rparr>" for E tm
  by unfold_locales (auto simp: UpdateTransferSourceTxFinalizedTime_def row_ends_def dest: set_rows_cases)

interpretation upd_state: row_statement "\<lambda>k. UpdateTransferState E k s"
    "\<lambda>r. r\<lparr>r_UpdatedAt := db_now E, r_Status := s\<rparr>" for E s
  by unfold_locales (auto simp: UpdateTransferState_def row_ends_def dest: set_rows_cases)

interpretation upd_timeout: row_statement "\<lambda>k. UpdateTransferTimeoutTx E k h tm addr"
    "\<lambda>r. r\<lparr>r_UpdatedAt := db_now E, r_TimeoutTxHash := Some h, r_TimeoutTxTime := Some tm,
         r_TimeoutTxRelayerAddress := Some addr\<rparr>" for E h tm addr
  by unfold_locales (auto simp: UpdateTransferTimeoutTx_def row_ends_def dest: set_rows_cases)

interpretation upd_timeout_gas: row_statement "\<lambda>k. UpdateTransferTimeoutTxGasCostUSD E k c"
    "\<lambda>r. r\<lparr>r_UpdatedAt := db_now E, r_TimeoutTxGasCostUsd := c\<rparr>" for E c
  by unfold_locales (auto simp: UpdateTransferTimeoutTxGasCostUSD_def row_ends_def dest: set_rows_cases)

interpretation upd_wack: row_statement "\<lambda>k. UpdateTransferWriteAckTx E k h tm w"
    "\<lambda>r. r\<lparr>r_UpdatedAt := db_now E, r_WriteAckTxHash := Some h, r_WriteAckTxTime := Some tm,
         r_WriteAckStatus := Some w\<rparr>" for E h tm w
  by unfold_locales (auto simp: UpdateTransferWriteAckTx_def row_ends_def dest: set_rows_cases)

interpretation upd_wack_fin: row_statement "\<lambda>k. UpdateTransferWriteAckTxFinalizedTime E k tm"
    "\<lambda>r. r\<lparr>r_UpdatedAt := db_now E, r_WriteAckTxFinalizedTime := Some tm\<rparr>" for E tm
  by unfold_locales (auto simp: UpdateTransferWriteAckTxFinalizedTime_def row_ends_def dest: set_rows_cases)

lemmas stmt_lookups =
  clear_ack.stmt_lookup clear_recv.stmt_lookup clear_timeout.stmt_lookup upd_ack.stmt_lookup upd_ack_gas.stmt_lookup upd_recv.stmt_lookup upd_recv_gas.stmt_lookup upd_src_fin.stmt_lookup upd_state.stmt_lookup upd_timeout.stmt_lookup upd_timeout_gas.stmt_lookup upd_wack.stmt_lookup upd_wack_fin.stmt_lookup
lemmas stmt_errors =
  clear_ack.stmt_error clear_recv.stmt_error clear_timeout.stmt_error upd_ack.stmt_error upd_ack_gas.stmt_error upd_recv.stmt_error upd_recv_gas.stmt_error upd_src_fin.stmt_error upd_state.stmt_error upd_timeout.stmt_error upd_timeout_gas.stmt_error upd_wack.stmt_error upd_wack_fin.stmt_error
lemmas stmt_frames =
  clear_ack.stmt_frame clear_recv.stmt_frame clear_timeout.stmt_frame upd_ack.stmt_frame upd_ack_gas.stmt_frame upd_recv.stmt_frame upd_recv_gas.stmt_frame upd_src_fin.stmt_frame upd_state.stmt_frame upd_timeout.stmt_frame upd_timeout_gas.stmt_frame upd_wack.stmt_frame upd_wack_fin.stmt_frame
lemmas stmt_oks =
  clear_ack.stmt_ok clear_recv.stmt_ok clear_timeout.stmt_ok upd_ack.stmt_ok upd_ack_gas.stmt_ok upd_recv.stmt_ok upd_recv_gas.stmt_ok upd_src_fin.stmt_ok upd_state.stmt_ok upd_timeout.stmt_ok upd_timeout_gas.stmt_ok upd_wack.stmt_ok upd_wack_fin.stmt_ok

section \<open>What a transaction and an insert do\<close>

text \<open>What \<^verbatim>\<open>ExecTx\<close> leaves: everything the function did, or only the sequences it drew from.\<close>

lemma rollback_same: "d = rollback d d"
  by (simp add: rollback_def)

lemma ExecTx_cases:
  assumes "ExecTx D fn d = (d', x)"
  obtains (commit) "x = None" "fn d = (d', None)"
    | (abort) d1 where "x \<noteq> None" "d' = rollback d d1"
proof -
  obtain d1 y where fn: "fn d = (d1, y)" by fastforce
  have "(x = None \<and> d1 = d' \<and> y = None) \<or> (x \<noteq> None \<and> (d' = rollback d d1 \<or> d' = d))"
  proof (cases "begin_fault D")
    case None
    then show ?thesis
      using assms fn
      by (cases y; cases "rollback_fault D"; cases "commit_fault D") (auto simp: ExecTx_def)
  next
    case (Some e)
    then show ?thesis using assms by (auto simp: ExecTx_def)
  qed
  then show thesis using that fn rollback_same by blast
qed

lemma rollback_tables [simp]:
  "transfers (rollback d d1) = transfers d" "relay_requests (rollback d d1) = relay_requests d"
  "tx_submissions (rollback d d1) = tx_submissions d"
  "transfer_tx_submissions (rollback d d1) = transfer_tx_submissions d"
  by (simp_all add: rollback_def)

lemma rollback_ok [simp]: "db_ok (rollback d d1) = db_ok d"
  by (simp add: db_ok_def keys_distinct_def)

lemma insert_submission_tables:
  assumes "InsertIBCV2RelayerTxSubmission D h chain ty addr tm st d = (d', x)"
  shows "transfers d' = transfers d" "relay_requests d' = relay_requests d"
    "transfer_tx_submissions d' = transfer_tx_submissions d"
  using assms
  by (auto simp: InsertIBCV2RelayerTxSubmission_def Let_def split: option.splits if_splits)

lemma insert_submission_ok:
  assumes "InsertIBCV2RelayerTxSubmission D h chain ty addr tm st d = (d', x)" "db_ok d"
  shows "db_ok d'"
  using assms
  by (auto simp: InsertIBCV2RelayerTxSubmission_def Let_def db_ok_def keys_distinct_def
      submission_key_def split: option.splits if_splits)

lemma insert_mapping_tables:
  assumes "InsertIBCV2TransferTxSubmission D tid sid d = (d', x)"
  shows "transfers d' = transfers d" "relay_requests d' = relay_requests d"
    "tx_submissions d' = tx_submissions d"
  using assms
  by (auto simp: InsertIBCV2TransferTxSubmission_def Let_def split: option.splits if_splits)

lemma insert_mapping_ok:
  assumes "InsertIBCV2TransferTxSubmission D tid sid d = (d', x)" "db_ok d"
  shows "db_ok d'"
  using assms
  by (auto simp: InsertIBCV2TransferTxSubmission_def Let_def db_ok_def keys_distinct_def
      split: option.splits if_splits)

end
