(* ===== verification/IbcTransfer.thy ===== *)
theory IbcTransfer
  imports Db
begin

text \<open>
  The in-memory transfer of \<^verbatim>\<open>relayer/ibcv2/ibcv2_transfer.go\<close>: the struct (without its logger),
  its conversion from a stored row, its getters, and the completeness and expiry predicates.
  A pointer field is an \<open>option\<close>; a getter of a pointer field is the comma-ok pair of the code.
  \<open>coherent d t\<close> relates a transfer to its stored row: it is the abstraction that every stage
  of the pipeline maintains for a transfer that has not errored.
\<close>

section \<open>The struct\<close>

record IBCV2Transfer =
  ID :: i32
  State :: Ibcv2RelayStatus
  SourceChainID :: string
  DestinationChainID :: string
  SourceTxHash :: string
  SourceTxTime :: time
  SourceTxFinalizedTime :: "time option"
  PacketSequenceNumber :: u32
  PacketSourceClientID :: string
  PacketDestinationClientID :: string
  PacketTimeoutTimestamp :: time
  RecvTxBytes :: "bytes option"
  RecvTxToAddress :: "string option"
  RecvTxHash :: "string option"
  RecvTxTime :: "time option"
  RecvTxRelayerAddress :: "string option"
  RecvTxGasCostUSD :: "int option"
  WriteAckTxHash :: "string option"
  WriteAckTxTime :: "time option"
  WriteAckStatus :: "Ibcv2WriteAckStatus option"
  WriteAckTxFinalizedTime :: "time option"
  AckTxBytes :: "bytes option"
  AckTxToAddress :: "string option"
  AckTxHash :: "string option"
  AckTxTime :: "time option"
  AckTxRelayerAddress :: "string option"
  AckTxGasCostUSD :: "int option"
  TimeoutTxBytes :: "bytes option"
  TimeoutTxHash :: "string option"
  TimeoutTxTime :: "time option"
  TimeoutTxRelayerAddress :: "string option"
  TimeoutTxGasCostUSD :: "int option"
  ProcessingError :: "go_error option"

text \<open>A nullable column is an \<open>option\<close>, so these two conversions copy it.\<close>

definition nullTime :: "time option \<Rightarrow> time option" where
  "nullTime t = (case t of None \<Rightarrow> None | Some x \<Rightarrow> Some x)"

definition nullStr :: "string option \<Rightarrow> string option" where
  "nullStr s = (case s of None \<Rightarrow> None | Some x \<Rightarrow> Some x)"

lemma null_conversions [simp]: "nullTime t = t" "nullStr s = s"
  by (simp_all add: nullTime_def nullStr_def split: option.splits)

text \<open>The costs keep the integer part of the numeric column and drop its exponent.\<close>

definition NewIBCV2Transfer :: "Ibcv2Transfer \<Rightarrow> IBCV2Transfer" where
  "NewIBCV2Transfer r =
     \<lparr>ID = r_ID r,
      State = r_Status r,
      SourceChainID = r_SourceChainID r,
      DestinationChainID = r_DestinationChainID r,
      SourceTxHash = r_SourceTxHash r,
      SourceTxTime = (case r_SourceTxTime r of None \<Rightarrow> zero_time | Some t \<Rightarrow> t),
      SourceTxFinalizedTime = (case r_SourceTxFinalizedTime r of None \<Rightarrow> None | Some t \<Rightarrow> Some t),
      PacketSequenceNumber = r_PacketSequenceNumber r,
      PacketSourceClientID = r_PacketSourceClientID r,
      PacketDestinationClientID = r_PacketDestinationClientID r,
      PacketTimeoutTimestamp =
        (case r_PacketTimeoutTimestamp r of None \<Rightarrow> zero_time | Some t \<Rightarrow> t),
      RecvTxBytes = None,
      RecvTxToAddress = None,
      RecvTxHash = nullStr (r_RecvTxHash r),
      RecvTxTime = nullTime (r_RecvTxTime r),
      RecvTxRelayerAddress = nullStr (r_RecvTxRelayerAddress r),
      RecvTxGasCostUSD = map_option num_Int (r_RecvTxGasCostUsd r),
      WriteAckTxHash = nullStr (r_WriteAckTxHash r),
      WriteAckTxTime = nullTime (r_WriteAckTxTime r),
      WriteAckStatus = (case r_WriteAckStatus r of None \<Rightarrow> None | Some s \<Rightarrow> Some s),
      WriteAckTxFinalizedTime =
        (case r_WriteAckTxFinalizedTime r of None \<Rightarrow> None | Some t \<Rightarrow> Some t),
      AckTxBytes = None,
      AckTxToAddress = None,
      AckTxHash = nullStr (r_AckTxHash r),
      AckTxTime = nullTime (r_AckTxTime r),
      AckTxRelayerAddress = nullStr (r_AckTxRelayerAddress r),
      AckTxGasCostUSD = map_option num_Int (r_AckTxGasCostUsd r),
      TimeoutTxBytes = None,
      TimeoutTxHash = nullStr (r_TimeoutTxHash r),
      TimeoutTxTime = nullTime (r_TimeoutTxTime r),
      TimeoutTxRelayerAddress = nullStr (r_TimeoutTxRelayerAddress r),
      TimeoutTxGasCostUSD = map_option num_Int (r_TimeoutTxGasCostUsd r),
      ProcessingError = None\<rparr>"

section \<open>Getters\<close>

definition GetID :: "IBCV2Transfer \<Rightarrow> i32" where
  "GetID e = ID e"

definition GetSourceChainID :: "IBCV2Transfer \<Rightarrow> string" where
  "GetSourceChainID e = SourceChainID e"

definition GetSourceTxTime :: "IBCV2Transfer \<Rightarrow> time" where
  "GetSourceTxTime e = SourceTxTime e"

definition GetSourceTxHash :: "IBCV2Transfer \<Rightarrow> string" where
  "GetSourceTxHash e = SourceTxHash e"

definition GetPacketSequenceNumber :: "IBCV2Transfer \<Rightarrow> u32" where
  "GetPacketSequenceNumber e = PacketSequenceNumber e"

definition GetPacketSourceClientID :: "IBCV2Transfer \<Rightarrow> string" where
  "GetPacketSourceClientID e = PacketSourceClientID e"

definition GetPacketDestinationClientID :: "IBCV2Transfer \<Rightarrow> string" where
  "GetPacketDestinationClientID e = PacketDestinationClientID e"

definition GetPacketTimeoutTimestamp :: "IBCV2Transfer \<Rightarrow> time" where
  "GetPacketTimeoutTimestamp e = PacketTimeoutTimestamp e"

definition GetDestinationChainID :: "IBCV2Transfer \<Rightarrow> string" where
  "GetDestinationChainID e = DestinationChainID e"

definition GetState :: "IBCV2Transfer \<Rightarrow> Ibcv2RelayStatus" where
  "GetState e = State e"

definition GetSourceTxFinalizedTime :: "IBCV2Transfer \<Rightarrow> time \<times> bool" where
  "GetSourceTxFinalizedTime e = deref zero_time (SourceTxFinalizedTime e)"

definition GetRecvTxHash :: "IBCV2Transfer \<Rightarrow> string \<times> bool" where
  "GetRecvTxHash e = deref [] (RecvTxHash e)"

definition GetRecvTxToAddress :: "IBCV2Transfer \<Rightarrow> string \<times> bool" where
  "GetRecvTxToAddress e = deref [] (RecvTxToAddress e)"

definition GetRecvTxTime :: "IBCV2Transfer \<Rightarrow> time \<times> bool" where
  "GetRecvTxTime e = deref zero_time (RecvTxTime e)"

definition GetRecvTxRelayerAddress :: "IBCV2Transfer \<Rightarrow> string \<times> bool" where
  "GetRecvTxRelayerAddress e = deref [] (RecvTxRelayerAddress e)"

definition GetAckTxHash :: "IBCV2Transfer \<Rightarrow> string \<times> bool" where
  "GetAckTxHash e = deref [] (AckTxHash e)"

definition GetAckTxToAddress :: "IBCV2Transfer \<Rightarrow> string \<times> bool" where
  "GetAckTxToAddress e = deref [] (AckTxToAddress e)"

definition GetAckTxTime :: "IBCV2Transfer \<Rightarrow> time \<times> bool" where
  "GetAckTxTime e = deref zero_time (AckTxTime e)"

definition GetAckTxRelayerAddress :: "IBCV2Transfer \<Rightarrow> string \<times> bool" where
  "GetAckTxRelayerAddress e = deref [] (AckTxRelayerAddress e)"

definition GetWriteAckTxHash :: "IBCV2Transfer \<Rightarrow> string \<times> bool" where
  "GetWriteAckTxHash e = deref [] (WriteAckTxHash e)"

definition GetWriteAckTxTime :: "IBCV2Transfer \<Rightarrow> time \<times> bool" where
  "GetWriteAckTxTime e = deref zero_time (WriteAckTxTime e)"

definition GetWriteAckTxFinalizedTime :: "IBCV2Transfer \<Rightarrow> time \<times> bool" where
  "GetWriteAckTxFinalizedTime e = deref zero_time (WriteAckTxFinalizedTime e)"

definition GetTimeoutTxHash :: "IBCV2Transfer \<Rightarrow> string \<times> bool" where
  "GetTimeoutTxHash e = deref [] (TimeoutTxHash e)"

definition GetTimeoutTxTime :: "IBCV2Transfer \<Rightarrow> time \<times> bool" where
  "GetTimeoutTxTime e = deref zero_time (TimeoutTxTime e)"

definition GetTimeoutTxRelayerAddress :: "IBCV2Transfer \<Rightarrow> string \<times> bool" where
  "GetTimeoutTxRelayerAddress e = deref [] (TimeoutTxRelayerAddress e)"

text \<open>
  Where the value of a missing pointer is the nil pointer or a string that is no status, the
  pair of the code is an \<open>option\<close>.
\<close>

definition GetRecvGasCostUSD :: "IBCV2Transfer \<Rightarrow> int option" where
  "GetRecvGasCostUSD e = RecvTxGasCostUSD e"

definition GetAckGasCostUSD :: "IBCV2Transfer \<Rightarrow> int option" where
  "GetAckGasCostUSD e = AckTxGasCostUSD e"

definition GetTimeoutGasCostUSD :: "IBCV2Transfer \<Rightarrow> int option" where
  "GetTimeoutGasCostUSD e = TimeoutTxGasCostUSD e"

definition GetWriteAckStatus :: "IBCV2Transfer \<Rightarrow> Ibcv2WriteAckStatus option" where
  "GetWriteAckStatus e = WriteAckStatus e"

definition GetRecvTxBytes :: "IBCV2Transfer \<Rightarrow> bytes option" where
  "GetRecvTxBytes e = RecvTxBytes e"

definition GetAckTxBytes :: "IBCV2Transfer \<Rightarrow> bytes option" where
  "GetAckTxBytes e = AckTxBytes e"

definition GetTimeoutTxBytes :: "IBCV2Transfer \<Rightarrow> bytes option" where
  "GetTimeoutTxBytes e = TimeoutTxBytes e"

definition Error :: "IBCV2Transfer \<Rightarrow> string" where
  "Error e = (case ProcessingError e of None \<Rightarrow> [] | Some err \<Rightarrow> error_string err)"

lemmas getter_defs [simp] =
  GetID_def GetSourceChainID_def GetSourceTxTime_def GetSourceTxHash_def
  GetPacketSequenceNumber_def GetPacketSourceClientID_def GetPacketDestinationClientID_def
  GetPacketTimeoutTimestamp_def GetDestinationChainID_def GetState_def
  GetSourceTxFinalizedTime_def GetRecvTxHash_def GetRecvTxToAddress_def GetRecvTxTime_def
  GetRecvTxRelayerAddress_def GetAckTxHash_def GetAckTxToAddress_def GetAckTxTime_def
  GetAckTxRelayerAddress_def GetWriteAckTxHash_def GetWriteAckTxTime_def
  GetWriteAckTxFinalizedTime_def GetTimeoutTxHash_def GetTimeoutTxTime_def
  GetTimeoutTxRelayerAddress_def GetRecvGasCostUSD_def GetAckGasCostUSD_def
  GetTimeoutGasCostUSD_def GetWriteAckStatus_def GetRecvTxBytes_def GetAckTxBytes_def
  GetTimeoutTxBytes_def

section \<open>Completeness and expiry\<close>

definition is_error_ack :: "Ibcv2WriteAckStatus \<Rightarrow> bool" where
  "is_error_ack s \<longleftrightarrow> s = WACK_ERROR \<or> s = WACK_UNKNOWN"

definition is_success_ack :: "Ibcv2WriteAckStatus \<Rightarrow> bool" where
  "is_success_ack s \<longleftrightarrow> s = WACK_SUCCESS"

definition IsComplete :: "IBCV2Transfer \<Rightarrow> bool \<Rightarrow> bool \<Rightarrow> bool" where
  "IsComplete e shouldRelaySuccessAcks shouldRelayErrorAcks =
     (if ProcessingError e \<noteq> None then False
      else if snd (GetTimeoutTxHash e) then True
      else if \<not> snd (GetRecvTxHash e) \<or> \<not> snd (GetWriteAckTxHash e) then False
      else if snd (GetAckTxHash e) then True
      else
        (case GetWriteAckStatus e of
           None \<Rightarrow> False
         | Some s \<Rightarrow>
             if (is_error_ack s \<and> shouldRelayErrorAcks) \<or> (is_success_ack s \<and> shouldRelaySuccessAcks)
             then False
             else True))"

definition IsTimedOut :: "time \<Rightarrow> IBCV2Transfer \<Rightarrow> bool" where
  "IsTimedOut now e \<longleftrightarrow> GetPacketTimeoutTimestamp e < now"

lemma ack_kinds: "is_error_ack s = (\<not> is_success_ack s)"
  by (cases s) (simp_all add: is_error_ack_def is_success_ack_def)

text \<open>A packet that has expired stays expired as the clock advances.\<close>

lemma IsTimedOut_mono: "IsTimedOut n t \<Longrightarrow> n \<le> n' \<Longrightarrow> IsTimedOut n' t"
  by (simp add: IsTimedOut_def)

section \<open>A transfer and its stored row\<close>

definition transferKey :: "IBCV2Transfer \<Rightarrow> transfer_key" where
  "transferKey t = (GetSourceChainID t, GetPacketSourceClientID t, GetPacketSequenceNumber t)"

text \<open>What identifies the packet: no stage assigns these fields.\<close>

definition identity ::
  "IBCV2Transfer \<Rightarrow> i32 \<times> string \<times> string \<times> string \<times> time \<times> u32 \<times> string \<times> string \<times> time" where
  "identity t =
     (ID t, SourceChainID t, DestinationChainID t, SourceTxHash t, SourceTxTime t,
      PacketSequenceNumber t, PacketSourceClientID t, PacketDestinationClientID t,
      PacketTimeoutTimestamp t)"

text \<open>
  Times agree by presence only, since the column may keep less precision than the clock. The
  finality time of the write ack, the gas costs and the relayer addresses of the ack and the
  timeout are left out: the code does not keep them in step.
\<close>

definition agrees :: "Ibcv2Transfer \<Rightarrow> IBCV2Transfer \<Rightarrow> bool" where
  "agrees r t \<longleftrightarrow>
     identity (NewIBCV2Transfer r) = identity t \<and>
     r_Status r = State t \<and>
     r_RecvTxHash r = RecvTxHash t \<and>
     r_RecvTxRelayerAddress r = RecvTxRelayerAddress t \<and>
     (r_RecvTxTime r = None) = (RecvTxTime t = None) \<and>
     r_WriteAckTxHash r = WriteAckTxHash t \<and>
     (r_WriteAckTxTime r = None) = (WriteAckTxTime t = None) \<and>
     r_WriteAckStatus r = WriteAckStatus t \<and>
     r_AckTxHash r = AckTxHash t \<and>
     (r_AckTxTime r = None) = (AckTxTime t = None) \<and>
     r_TimeoutTxHash r = TimeoutTxHash t \<and>
     (r_TimeoutTxTime r = None) = (TimeoutTxTime t = None) \<and>
     (r_SourceTxFinalizedTime r = None) = (SourceTxFinalizedTime t = None)"

definition coherent :: "database \<Rightarrow> IBCV2Transfer \<Rightarrow> bool" where
  "coherent d t \<longleftrightarrow> (\<exists>r. lookup_transfer d (transferKey t) = Some r \<and> agrees r t)"

lemma identity_key: "identity t = identity t' \<Longrightarrow> transferKey t = transferKey t'"
  by (simp add: identity_def transferKey_def)

lemma transferKey_NewIBCV2Transfer [simp]: "transferKey (NewIBCV2Transfer r) = row_key r"
  by (simp add: transferKey_def row_key_def NewIBCV2Transfer_def)

lemma NewIBCV2Transfer_agrees: "agrees r (NewIBCV2Transfer r)"
  by (auto simp: agrees_def NewIBCV2Transfer_def split: option.splits)

lemma coherent_frame:
  "coherent d t \<Longrightarrow> lookup_transfer d' (transferKey t) = lookup_transfer d (transferKey t) \<Longrightarrow>
     coherent d' t"
  by (simp add: coherent_def)

end
