(* ===== verification/Config.thy ===== *)
theory Config
  imports Complex_Main Prelude "HOL-Library.Multiset"
begin

text \<open>
  The configuration of \<^verbatim>\<open>shared/config/config.go\<close>: the part of the schema the relayer's logic
  reads and the queries of the config reader. The YAML map of chains is the list of its entries
  in the order one range loop visits them, which Go leaves open; the process environment is an
  argument. A gas price is a rational number where the code has a \<^verbatim>\<open>float64\<close>.
\<close>

section \<open>Schema\<close>

datatype ChainType = COSMOS | EVM | SVM | OtherChainType string

datatype BridgeType = BridgeTypeIBCV2 | OtherBridgeType string

datatype DbBridgeType = BridgeTypeIbcv2

definition ToDBBridgeType :: "BridgeType \<Rightarrow> DbBridgeType result" where
  "ToDBBridgeType t =
     (case t of
        BridgeTypeIBCV2 \<Rightarrow> Inr BridgeTypeIbcv2
      | OtherBridgeType _ \<Rightarrow> Inl (NewError ''invalid bridge type''))"

record SigningConfig =
  KeysPath :: string
  SigningGRPCAddress :: string
  SigningGRPCTLSEnabled :: bool
  CosmosWalletKey :: string
  EVMWalletKey :: string
  SVMWalletKey :: string

record PostgresConfig =
  Hostname :: string
  Port :: string
  Database :: string
  IAMAuthEnabled :: bool
  IAMAuthRegion :: string

record IBCV2ProofAPIConfig =
  ProofGRPCAddress :: string
  ProofGRPCTLSEnabled :: bool

record IBCV2Config =
  CounterpartyChains :: "string \<rightharpoonup> string"
  FinalityOffset :: "u64 option"
  cfgAckBatchSize :: int
  cfgAckBatchTimeout :: duration
  cfgAckBatchConcurrency :: int
  cfgRecvBatchSize :: int
  cfgRecvBatchTimeout :: duration
  cfgRecvBatchConcurrency :: int
  cfgTimeoutBatchSize :: int
  cfgTimeoutBatchTimeout :: duration
  cfgTimeoutBatchConcurrency :: int
  cfgShouldRelaySuccessAcks :: bool
  cfgShouldRelayErrorAcks :: bool

record SignerGasAlertThresholdsConfig =
  WarningThreshold :: string
  CriticalThreshold :: string

record CosmosConfig =
  GasPrice :: rat
  IBCV2TxFeeDenom :: string
  IBCV2TxFeeAmount :: u64
  CosmosRPC :: string
  CosmosRPCBasicAuthVar :: string
  GRPC :: string
  GRPCTLSEnabled :: bool
  AddressPrefix :: string
  CosmosTxSubmissionDelay :: "duration option"

record EVMConfig =
  EVMRPC :: string
  EVMRPCBasicAuthVar :: string
  ICS26RouterAddress :: string
  ICS20TransferAddress :: string
  GasFeeCapMultiplier :: "rat option"
  GasTipCapMultiplier :: "rat option"
  EVMTxSubmissionDelay :: "duration option"

record SVMConfig =
  SVMRPC :: string
  WS :: string
  PriorityFee :: u64
  SubmitRPCs :: "string list"

record ChainConfig =
  ChainName :: string
  ChainID :: string
  Type :: ChainType
  Environment :: string
  Cosmos :: "CosmosConfig option"
  Evm :: "EVMConfig option"
  Svm :: "SVMConfig option"
  GasTokenSymbol :: string
  GasTokenCoingeckoID :: "string option"
  GasTokenDecimals :: u8
  SignerGasAlertThresholds :: "BridgeType \<rightharpoonup> SignerGasAlertThresholdsConfig"
  IBCV2 :: "IBCV2Config option"
  SupportedBridges :: "BridgeType list"

record CoingeckoConfig =
  BaseURL :: string
  RequestsPerMinute :: int
  APIKey :: string
  CacheRefreshInterval :: duration

record config =
  Postgres :: PostgresConfig
  Chains :: "(string \<times> ChainConfig) list"
  PrometheusAddress :: string
  RelayerAPIAddress :: string
  Coingecko :: CoingeckoConfig
  IBCV2ProofAPI :: IBCV2ProofAPIConfig
  Signing :: SigningConfig

definition Validate :: "config \<Rightarrow> go_error option" where
  "Validate c =
     (if RelayerAPIAddress c = [] then Some (NewError ''relayer_api.address must be configured'')
      else None)"

section \<open>The reader\<close>

record configReader =
  Config :: config
  chainIDIndex :: "string \<rightharpoonup> ChainConfig"
  chainIDToKey :: "string \<rightharpoonup> string"

fun createIndexes ::
  "(string \<times> ChainConfig) list \<Rightarrow> (string \<rightharpoonup> ChainConfig) \<Rightarrow> (string \<rightharpoonup> string) \<Rightarrow>
     (string \<rightharpoonup> ChainConfig) \<times> (string \<rightharpoonup> string)" where
  "createIndexes [] ix keys = (ix, keys)"
| "createIndexes ((key, chain) # cs) ix keys =
     createIndexes cs (ix(ChainID chain \<mapsto> chain)) (keys(ChainID chain \<mapsto> key))"

definition NewConfigReader :: "config \<Rightarrow> configReader" where
  "NewConfigReader c =
     (case createIndexes (Chains c) Map.empty Map.empty of
        (ix, keys) \<Rightarrow> \<lparr>Config = c, chainIDIndex = ix, chainIDToKey = keys\<rparr>)"

definition chain_not_found :: go_error where
  "chain_not_found = NewError ''chain id not found''"

definition GetChainConfig :: "configReader \<Rightarrow> string \<Rightarrow> ChainConfig result" where
  "GetChainConfig r chainID =
     (case chainIDIndex r chainID of None \<Rightarrow> Inl chain_not_found | Some c \<Rightarrow> Inr c)"

definition GetChainEnvironment :: "configReader \<Rightarrow> string \<Rightarrow> string result" where
  "GetChainEnvironment r chainID =
     (case chainIDIndex r chainID of
        None \<Rightarrow> Inl chain_not_found
      | Some c \<Rightarrow> Inr (Environment c))"

definition GetIBCV2Config :: "configReader \<Rightarrow> string \<Rightarrow> IBCV2Config option result" where
  "GetIBCV2Config r chainID =
     (case GetChainConfig r chainID of Inl err \<Rightarrow> Inl err | Inr c \<Rightarrow> Inr (IBCV2 c))"

definition GetIBCV2Chains :: "configReader \<Rightarrow> ChainConfig list" where
  "GetIBCV2Chains r = filter (\<lambda>c. IBCV2 c \<noteq> None) (map snd (Chains (Config r)))"

definition GetAllChainConfigsOfType :: "configReader \<Rightarrow> ChainType \<Rightarrow> ChainConfig list" where
  "GetAllChainConfigsOfType r ty = filter (\<lambda>c. Type c = ty) (map snd (Chains (Config r)))"

definition GetAllChains :: "configReader \<Rightarrow> ChainConfig list" where
  "GetAllChains r = map snd (Chains (Config r))"

definition GetClientCounterpartyChainID :: "configReader \<Rightarrow> string \<Rightarrow> string \<Rightarrow> string result" where
  "GetClientCounterpartyChainID r chainID clientID =
     (case GetChainConfig r chainID of
        Inl err \<Rightarrow> Inl err
      | Inr chain \<Rightarrow>
          (case IBCV2 chain of
             None \<Rightarrow> Inl (NewError ''chain is not ibcv2 enabled'')
           | Some v2 \<Rightarrow>
               (case CounterpartyChains v2 clientID of
                  None \<Rightarrow> Inl (NewError ''unknown client'')
                | Some trackedChain \<Rightarrow> Inr trackedChain)))"

text \<open>
  The map from chain to client to counterparty. \<^verbatim>\<open>GetIBCV2Config\<close> may return the configuration
  of another entry with the same chain id, whose \<^verbatim>\<open>IBCV2\<close> may be nil: the field access then
  panics, which is \<open>None\<close>.
\<close>

fun counterparties_loop ::
  "configReader \<Rightarrow> ChainConfig list \<Rightarrow> (string \<rightharpoonup> (string \<rightharpoonup> string)) \<Rightarrow>
     (string \<rightharpoonup> (string \<rightharpoonup> string)) result option" where
  "counterparties_loop r [] m = Some (Inr m)"
| "counterparties_loop r (c # cs) m =
     (case GetIBCV2Config r (ChainID c) of
        Inl err \<Rightarrow> Some (Inl (Wrapf ''getting ibcv2 config for chain'' err))
      | Inr None \<Rightarrow> None
      | Inr (Some v2) \<Rightarrow> counterparties_loop r cs (m(ChainID c \<mapsto> CounterpartyChains v2)))"

definition GetAllIBCV2ClientsToCounterparties ::
  "configReader \<Rightarrow> (string \<rightharpoonup> (string \<rightharpoonup> string)) result option" where
  "GetAllIBCV2ClientsToCounterparties r = counterparties_loop r (GetIBCV2Chains r) Map.empty"

section \<open>Endpoints\<close>

type_synonym environ = "string \<Rightarrow> string option"

definition to_upper_char :: "char \<Rightarrow> char" where
  "to_upper_char c =
     (let n = of_char c :: nat in if 97 \<le> n \<and> n \<le> 122 then char_of (n - 32) else c)"

text \<open>\<^verbatim>\<open>strings.ToUpper(strings.ReplaceAll(key, "-", "_")) + EnvEVMRPCFullURLSuffix\<close>, ASCII keys.\<close>

definition evm_rpc_env_name :: "string \<Rightarrow> string" where
  "evm_rpc_env_name key =
     map to_upper_char (map (\<lambda>c. if c = CHR ''-'' then CHR ''_'' else c) key) @ ''_EVM_RPC_FULL_URL''"

definition Getenv :: "environ \<Rightarrow> string \<Rightarrow> string" where
  "Getenv os name = (case os name of None \<Rightarrow> [] | Some v \<Rightarrow> v)"

definition GetRPCEndpoint :: "environ \<Rightarrow> configReader \<Rightarrow> string \<Rightarrow> string result" where
  "GetRPCEndpoint os r chainID =
     (case chainIDIndex r chainID of
        None \<Rightarrow> Inl chain_not_found
      | Some chain \<Rightarrow>
          (case Type chain of
             COSMOS \<Rightarrow>
               (case Cosmos chain of
                  None \<Rightarrow> Inl (NewError ''cosmos config not set for chain'')
                | Some c \<Rightarrow> Inr (CosmosRPC c))
           | EVM \<Rightarrow>
               (case Evm chain of
                  None \<Rightarrow> Inl (NewError ''evm config not set for chain'')
                | Some c \<Rightarrow>
                    (let key = (case chainIDToKey r chainID of None \<Rightarrow> [] | Some k \<Rightarrow> k);
                         envURL = Getenv os (evm_rpc_env_name key)
                     in if envURL \<noteq> [] then Inr envURL else Inr (EVMRPC c)))
           | SVM \<Rightarrow>
               (case Svm chain of
                  None \<Rightarrow> Inl (NewError ''svm config not set for chain'')
                | Some c \<Rightarrow> Inr (SVMRPC c))
           | OtherChainType _ \<Rightarrow> Inl (NewError ''unknown chain type'')))"

definition GetGRPCEndpoint :: "configReader \<Rightarrow> string \<Rightarrow> (string \<times> bool) result" where
  "GetGRPCEndpoint r chainID =
     (case chainIDIndex r chainID of
        None \<Rightarrow> Inl chain_not_found
      | Some chain \<Rightarrow>
          (case Type chain of
             COSMOS \<Rightarrow>
               (case Cosmos chain of
                  None \<Rightarrow> Inl (NewError ''cosmos config not set for chain'')
                | Some c \<Rightarrow> Inr (GRPC c, GRPCTLSEnabled c))
           | EVM \<Rightarrow> Inl (NewError ''grpc endpoints not supported for chain type evm'')
           | SVM \<Rightarrow> Inl (NewError ''grpc endpoints not supported for chain type svm'')
           | OtherChainType _ \<Rightarrow> Inl (NewError ''unknown chain type'')))"

definition GetBasicAuth :: "environ \<Rightarrow> configReader \<Rightarrow> string \<Rightarrow> string option result" where
  "GetBasicAuth os r chainID =
     (case chainIDIndex r chainID of
        None \<Rightarrow> Inl chain_not_found
      | Some chain \<Rightarrow>
          (case Type chain of
             COSMOS \<Rightarrow>
               (case Cosmos chain of
                  None \<Rightarrow> Inl (NewError ''cosmos config not set for chain'')
                | Some c \<Rightarrow> Inr (os (CosmosRPCBasicAuthVar c)))
           | EVM \<Rightarrow>
               (case Evm chain of
                  None \<Rightarrow> Inl (NewError ''evm config not set for chain'')
                | Some c \<Rightarrow> Inr (os (EVMRPCBasicAuthVar c)))
           | SVM \<Rightarrow> Inr None
           | OtherChainType _ \<Rightarrow> Inl (NewError ''unknown chain type'')))"

definition GetPostgresConnString :: "environ \<Rightarrow> configReader \<Rightarrow> string" where
  "GetPostgresConnString os r =
     (let dbUser = (case os ''POSTGRES_USER'' of None \<Rightarrow> ''relayer'' | Some u \<Rightarrow> u);
          dbPassword = (case os ''POSTGRES_PASSWORD'' of None \<Rightarrow> ''relayer'' | Some p \<Rightarrow> p);
          pg = Postgres (Config r)
      in ''host='' @ Hostname pg @ '' port='' @ Port pg @ '' user='' @ dbUser @
         '' password='' @ dbPassword @ '' dbname='' @ Database pg)"

definition GetCoingeckoConfig :: "environ \<Rightarrow> configReader \<Rightarrow> CoingeckoConfig" where
  "GetCoingeckoConfig os r =
     (let cfg = Coingecko (Config r);
          envURL = Getenv os ''COINGECKO_FULL_URL'';
          cfg1 = (if envURL \<noteq> [] then cfg\<lparr>BaseURL := envURL\<rparr> else cfg);
          envKey = Getenv os ''COINGECKO_API_KEY''
      in if envKey \<noteq> [] then cfg1\<lparr>APIKey := envKey\<rparr> else cfg1)"

section \<open>Alert thresholds\<close>

text \<open>\<^verbatim>\<open>new(big.Int).SetString(s, 10)\<close>: an optional sign and at least one decimal digit.\<close>

definition digit_value :: "char \<Rightarrow> int option" where
  "digit_value c = (let n = of_char c :: nat in if 48 \<le> n \<and> n \<le> 57 then Some (int n - 48) else None)"

fun parse_digits :: "int \<Rightarrow> string \<Rightarrow> int option" where
  "parse_digits acc [] = Some acc"
| "parse_digits acc (c # cs) =
     (case digit_value c of None \<Rightarrow> None | Some v \<Rightarrow> parse_digits (10 * acc + v) cs)"

definition parse_nonempty :: "string \<Rightarrow> int option" where
  "parse_nonempty s = (if s = [] then None else parse_digits 0 s)"

definition SetString10 :: "string \<Rightarrow> int option" where
  "SetString10 s =
     (case s of
        CHR ''-'' # cs \<Rightarrow> map_option uminus (parse_nonempty cs)
      | CHR ''+'' # cs \<Rightarrow> parse_nonempty cs
      | _ \<Rightarrow> parse_nonempty s)"

definition ErrNoSignerForBridge :: go_error where
  "ErrNoSignerForBridge = NewError ''no signer for bridge''"

definition GetSignerGasAlertThresholds ::
  "configReader \<Rightarrow> string \<Rightarrow> BridgeType \<Rightarrow> (int \<times> int) result" where
  "GetSignerGasAlertThresholds r chainID bridgeType =
     (case GetChainConfig r chainID of
        Inl err \<Rightarrow> Inl (Wrapf ''getting chain config for chain'' err)
      | Inr chain \<Rightarrow>
          (case SignerGasAlertThresholds chain bridgeType of
             None \<Rightarrow> Inl ErrNoSignerForBridge
           | Some g \<Rightarrow>
               (case SetString10 (WarningThreshold g) of
                  None \<Rightarrow> Inl (NewError ''failed to parse gas balance warning threshold amount'')
                | Some warning \<Rightarrow>
                    (case SetString10 (CriticalThreshold g) of
                       None \<Rightarrow> Inl (NewError ''failed to parse gas balance critical threshold amount'')
                     | Some critical \<Rightarrow> Inr (warning, critical)))))"

section \<open>The indexes\<close>

definition chain_ids_distinct :: "config \<Rightarrow> bool" where
  "chain_ids_distinct c \<longleftrightarrow> distinct (map (\<lambda>(_, ch). ChainID ch) (Chains c))"

lemma map_add_snoc: "ix ++ map_of (xs @ [(a, b)]) = ix(a \<mapsto> b) ++ map_of xs"
  by (rule ext) (simp add: map_add_def split: option.split)

lemma createIndexes_map_of:
  "createIndexes cs ix keys =
     (ix ++ map_of (rev (map (\<lambda>(_, ch). (ChainID ch, ch)) cs)),
      keys ++ map_of (rev (map (\<lambda>(k, ch). (ChainID ch, k)) cs)))"
  by (induction cs arbitrary: ix keys) (auto simp: map_add_snoc simp del: map_of_append)

lemma chainIDIndex_unfold:
  "chainIDIndex (NewConfigReader c) = map_of (rev (map (\<lambda>(_, ch). (ChainID ch, ch)) (Chains c)))"
  "chainIDToKey (NewConfigReader c) = map_of (rev (map (\<lambda>(k, ch). (ChainID ch, k)) (Chains c)))"
  "Config (NewConfigReader c) = c"
  by (simp_all add: NewConfigReader_def createIndexes_map_of)

lemma index_sound:
  "chainIDIndex (NewConfigReader c) i = Some ch \<Longrightarrow> ChainID ch = i \<and> (\<exists>k. (k, ch) \<in> set (Chains c))"
  by (auto simp: chainIDIndex_unfold dest!: map_of_SomeD)

lemma index_complete:
  assumes "chain_ids_distinct c" "(k, ch) \<in> set (Chains c)"
  shows "chainIDIndex (NewConfigReader c) (ChainID ch) = Some ch"
    and "chainIDToKey (NewConfigReader c) (ChainID ch) = Some k"
proof -
  have "distinct (map fst (rev (map (\<lambda>(_, ch). (ChainID ch, ch)) (Chains c))))"
    and "distinct (map fst (rev (map (\<lambda>(k, ch). (ChainID ch, k)) (Chains c))))"
    using assms(1) by (simp_all add: chain_ids_distinct_def comp_def case_prod_unfold rev_map [symmetric])
  then show "chainIDIndex (NewConfigReader c) (ChainID ch) = Some ch"
    and "chainIDToKey (NewConfigReader c) (ChainID ch) = Some k"
    using assms(2) unfolding chainIDIndex_unfold
    by (auto intro!: map_of_is_SomeI image_eqI [where x = "(k, ch)"])
qed

end
