(* ===== verification/Bridge.thy ===== *)
theory Bridge
  imports IbcTransfer Config
begin

text \<open>
  What the processors of the pipeline are given: the bridge client interface of
  \<^verbatim>\<open>shared/bridges/ibcv2/bridge_client.go\<close>, the client manager of \<^verbatim>\<open>client_manager.go\<close>, the
  proof service and the price client. The answers of a client, of the proof service and of the
  price client are inputs of the model: an \<open>env\<close> holds the answers one invocation of a
  processor gets, so two invocations may get different ones. The \<open>world\<close> is what an invocation
  can change: the database and the log of the calls that leave the process.
\<close>

section \<open>The interface\<close>

record BridgeTx =
  Hash :: string
  Timestamp :: time
  RelayerAddress :: string

record PacketInfo =
  Sequence :: u64
  SourceClient :: string
  DestinationClient :: string
  TimeoutTimestamp :: time
  PacketTimestamp :: time

record TxExecutionStatus =
  ExecStatus :: string
  ErrorMessage :: string

definition TxExecutionStatusSuccess :: string where
  "TxExecutionStatusSuccess = ''SUCCESS''"

definition TxExecutionStatusFailed :: string where
  "TxExecutionStatusFailed = ''FAILED''"

text \<open>The methods the relayer calls; the ones only command line tools call are left out.\<close>

record BridgeClient =
  IsPacketReceived :: "string \<Rightarrow> u64 \<Rightarrow> bool result"
  IsPacketCommitted :: "string \<Rightarrow> u64 \<Rightarrow> bool result"
  FindRecvTx :: "string \<Rightarrow> string \<Rightarrow> u64 \<Rightarrow> time \<Rightarrow> BridgeTx result"
  FindAckTx :: "string \<Rightarrow> string \<Rightarrow> u64 \<Rightarrow> BridgeTx result"
  FindTimeoutTx :: "string \<Rightarrow> string \<Rightarrow> u64 \<Rightarrow> BridgeTx result"
  DeliverTx :: "bytes \<Rightarrow> string \<Rightarrow> BridgeTx result"
  PacketWriteAckStatus :: "string \<Rightarrow> u64 \<Rightarrow> string \<Rightarrow> string \<Rightarrow> Ibcv2WriteAckStatus result"
  SendPacketsFromTx :: "string \<Rightarrow> string \<Rightarrow> PacketInfo list result"
  ShouldRetryTx :: "string \<Rightarrow> duration \<Rightarrow> time \<Rightarrow> bool result"
  WaitForChain :: "go_error option"
  IsTxFinalized :: "string \<Rightarrow> u64 option \<Rightarrow> bool result"
  IsTimestampFinalized :: "time \<Rightarrow> u64 option \<Rightarrow> bool result"
  ClientChainType :: ChainType
  SignerGasTokenBalance :: "int result"
  TxFee :: "string \<Rightarrow> int result"
  GetTxExecutionStatus :: "string \<Rightarrow> TxExecutionStatus result"
  GetTransactionSender :: "string \<Rightarrow> string result"

type_synonym ClientManager = "string \<rightharpoonup> BridgeClient"

definition GetClient :: "ClientManager \<Rightarrow> string \<Rightarrow> BridgeClient result" where
  "GetClient m chainID =
     (case m chainID of
        None \<Rightarrow> Inl (NewError ''no configured ibcv2 bridge client for chain ID'')
      | Some c \<Rightarrow> Inr c)"

section \<open>The proof service\<close>

record RelayByTxRequest =
  SrcChain :: string
  DstChain :: string
  SourceTxIds :: "bytes list"
  TimeoutTxIds :: "bytes list"
  SrcClientId :: string
  DstClientId :: string
  SrcPacketSequences :: "u64 list"
  DstPacketSequences :: "u64 list"

record RelayByTxResponse =
  Tx :: bytes
  Address :: string

section \<open>Environment and world\<close>

text \<open>
  \<open>now k\<close> is what the clock shows when \<^verbatim>\<open>ShouldProcess\<close> examines the transfer with key \<open>k\<close>
  (a batch is examined one transfer after the other) and \<open>now_process\<close> what it shows when
  \<^verbatim>\<open>Process\<close> reads it.
\<close>

record env =
  now :: "transfer_key \<Rightarrow> time"
  now_process :: time
  clients :: ClientManager
  RelayByTx :: "RelayByTxRequest \<Rightarrow> RelayByTxResponse result"
  GetCoinUsdValue :: "string \<Rightarrow> u8 \<Rightarrow> int \<Rightarrow> numeric option result"
  storage :: db_env

datatype event =
    EvRelayByTx RelayByTxRequest
  | EvDeliverTx string bytes string

record world =
  db :: database
  events :: "event list"

definition log_event :: "event \<Rightarrow> world \<Rightarrow> world" where
  "log_event e w = w\<lparr>events := events w @ [e]\<rparr>"

lemma log_event_simps [simp]:
  "db (log_event e w) = db w" "events (log_event e w) = events w @ [e]"
  by (simp_all add: log_event_def)

text \<open>A storage call of a processor: the statement on the database of the world.\<close>

definition on_db ::
  "(database \<Rightarrow> database \<times> go_error option) \<Rightarrow> world \<Rightarrow> world \<times> go_error option" where
  "on_db st w = (case st (db w) of (d', x) \<Rightarrow> (w\<lparr>db := d'\<rparr>, x))"

lemma on_db_eq:
  "on_db st w = (w', x) \<longleftrightarrow> (\<exists>d'. st (db w) = (d', x) \<and> w' = w\<lparr>db := d'\<rparr>)"
  by (auto simp: on_db_def split: prod.splits)

definition seq64 :: "IBCV2Transfer \<Rightarrow> u64" where
  "seq64 t = ucast (GetPacketSequenceNumber t)"

lemma unat_seq64: "unat (seq64 t) = unat (PacketSequenceNumber t)"
proof -
  have "unat (PacketSequenceNumber t) < 2 ^ 64"
    using unsigned_less [of "PacketSequenceNumber t"] by (rule order_less_trans) simp
  then show ?thesis by (simp add: seq64_def unsigned_ucast_eq take_bit_nat_eq_self)
qed

lemma seq64_inj: "seq64 t = seq64 t' \<Longrightarrow> PacketSequenceNumber t = PacketSequenceNumber t'"
  by (metis unat_seq64 word_unat_eq_iff)

end
