(* ===== verification/ProcessorMW.thy ===== *)
theory ProcessorMW
  imports Bridge "HOL-Library.Multiset"
begin

text \<open>
  The wrappers of \<^verbatim>\<open>relayer/ibcv2/processor_mw.go\<close>, which decide whether a processor sees a
  transfer, record its new state first, and turn an error of the processor into a field of the
  transfer, so that the rest of the pipeline passes it on. A processor is a record of the three
  methods of the interface; \<^verbatim>\<open>Cancel\<close> only logs in every implementation and is left out, as are
  log lines and metrics. A locale states what a processor promises, and the promises of the
  wrapped processor are proved in it once.
\<close>

section \<open>Processors\<close>

record IBCV2Processor =
  ShouldProcess :: "env \<Rightarrow> IBCV2Transfer \<Rightarrow> bool"
  ProcState :: Ibcv2RelayStatus
  Process :: "env \<Rightarrow> world \<Rightarrow> IBCV2Transfer \<Rightarrow> world \<times> IBCV2Transfer result"

record IBCV2BatchProcessor =
  ShouldProcessB :: "env \<Rightarrow> IBCV2Transfer \<Rightarrow> bool"
  ProcStateB :: Ibcv2RelayStatus
  ProcessB :: "env \<Rightarrow> world \<Rightarrow> IBCV2Transfer list \<Rightarrow> world \<times> IBCV2Transfer list result"

text \<open>
  What a wrapped call does: it panics, it returns an error (the pipeline library then drops the
  input), or it returns a value that goes to the next stage.
\<close>

datatype 'a outcome = Panicked | Dropped go_error | Emitted 'a

definition state_update_error :: "go_error \<Rightarrow> go_error" where
  "state_update_error e = Wrapf ''updating transfer state'' e"

definition mw_update_state ::
  "env \<Rightarrow> Ibcv2RelayStatus \<Rightarrow> IBCV2Transfer \<Rightarrow> world \<Rightarrow> world \<times> go_error option" where
  "mw_update_state E s t = on_db (UpdateTransferState (storage E) (transferKey t) s)"

text \<open>
  \<^verbatim>\<open>IBCV2ProcessorMW.Process\<close>. The first condition calls \<^verbatim>\<open>input.Error()\<close>, which reads a field
  of the input, before it compares the input with nil.
\<close>

definition IBCV2ProcessorMW_Process ::
  "IBCV2Processor \<Rightarrow> env \<Rightarrow> world \<Rightarrow> IBCV2Transfer option \<Rightarrow> world \<times> IBCV2Transfer outcome" where
  "IBCV2ProcessorMW_Process p E w input =
     (case input of
        None \<Rightarrow> (w, Panicked)
      | Some t \<Rightarrow>
          if Error t \<noteq> [] then (w, Emitted t)
          else if GetState t = FAILED then (w, Emitted t)
          else if \<not> ShouldProcess p E t then (w, Emitted t)
          else
            (case mw_update_state E (ProcState p) t w of
               (w1, Some err) \<Rightarrow> (w1, Emitted (t\<lparr>ProcessingError := Some (state_update_error err)\<rparr>))
             | (w1, None) \<Rightarrow>
                 (let t1 = t\<lparr>State := ProcState p\<rparr> in
                  case Process p E w1 t1 of
                    (w2, Inl err) \<Rightarrow>
                      if errors_is err ContextCanceled then (w2, Dropped err)
                      else (w2, Emitted (t1\<lparr>ProcessingError := Some err\<rparr>))
                  | (w2, Inr t2) \<Rightarrow> (w2, Emitted t2))))"

text \<open>The loop of \<^verbatim>\<open>IBCV2BatchProcessorMW.Process\<close>: \<open>(notProcessing, toProcess)\<close>.\<close>

fun batch_partition ::
  "IBCV2BatchProcessor \<Rightarrow> env \<Rightarrow> world \<Rightarrow> IBCV2Transfer list \<Rightarrow>
     world \<times> IBCV2Transfer list \<times> IBCV2Transfer list" where
  "batch_partition p E w [] = (w, [], [])"
| "batch_partition p E w (t # ts) =
     (if Error t \<noteq> [] \<or> GetState t = FAILED \<or> \<not> ShouldProcessB p E t
      then (case batch_partition p E w ts of (w', n, q) \<Rightarrow> (w', t # n, q))
      else
        (case mw_update_state E (ProcStateB p) t w of
           (w1, Some err) \<Rightarrow>
             (case batch_partition p E w1 ts of
                (w', n, q) \<Rightarrow> (w', t\<lparr>ProcessingError := Some (state_update_error err)\<rparr> # n, q))
         | (w1, None) \<Rightarrow>
             (case batch_partition p E w1 ts of
                (w', n, q) \<Rightarrow> (w', n, t\<lparr>State := ProcStateB p\<rparr> # q))))"

definition IBCV2BatchProcessorMW_Process ::
  "IBCV2BatchProcessor \<Rightarrow> env \<Rightarrow> world \<Rightarrow> IBCV2Transfer list \<Rightarrow> world \<times> IBCV2Transfer list outcome" where
  "IBCV2BatchProcessorMW_Process p E w batch =
     (case batch_partition p E w batch of
        (w1, notProcessing, toProcess) \<Rightarrow>
          if toProcess = [] then (w1, Emitted notProcessing)
          else
            (case ProcessB p E w1 toProcess of
               (w2, Inl err) \<Rightarrow>
                 if errors_is err ContextCanceled then (w2, Dropped err)
                 else (w2, Emitted (map (\<lambda>t. t\<lparr>ProcessingError := Some err\<rparr>) toProcess @ notProcessing))
             | (w2, Inr output) \<Rightarrow> (w2, Emitted (output @ notProcessing))))"

section \<open>Frames\<close>

text \<open>
  What a row gives a transfer when it is loaded, but for the finality time of the write ack.
\<close>

definition row_view :: "Ibcv2Transfer \<Rightarrow> IBCV2Transfer" where
  "row_view r = (NewIBCV2Transfer r)\<lparr>WriteAckTxFinalizedTime := None\<rparr>"

definition rows_framed :: "transfer_key set \<Rightarrow> database \<Rightarrow> database \<Rightarrow> bool" where
  "rows_framed K d d' \<longleftrightarrow>
     (\<forall>k. k \<notin> K \<longrightarrow> map_option row_view (lookup_transfer d' k) = map_option row_view (lookup_transfer d k)) \<and>
     map row_key (transfers d') = map row_key (transfers d) \<and>
     map r_ID (transfers d') = map r_ID (transfers d) \<and>
     map row_ends (transfers d') = map row_ends (transfers d) \<and>
     relay_requests d' = relay_requests d"

lemma rows_framed_refl [simp]: "rows_framed K d d"
  by (simp add: rows_framed_def)

lemma rows_framed_trans: "rows_framed K d d' \<Longrightarrow> rows_framed K d' d'' \<Longrightarrow> rows_framed K d d''"
  by (simp add: rows_framed_def)

lemma rows_framed_mono: "rows_framed K d d' \<Longrightarrow> K \<subseteq> K' \<Longrightarrow> rows_framed K' d d'"
  by (auto simp: rows_framed_def)

lemma agrees_view: "row_view r = row_view r' \<Longrightarrow> agrees r t = agrees r' t"
  by (auto simp: row_view_def NewIBCV2Transfer_def agrees_def identity_def split: option.splits)

lemma coherent_framed:
  assumes "coherent d t" "rows_framed K d d'" "transferKey t \<notin> K"
  shows "coherent d' t"
  using assms agrees_view unfolding coherent_def rows_framed_def by (metis map_option_eq_Some)

context row_statement
begin

lemma stmt_framed: "stmt k d = (d', x) \<Longrightarrow> rows_framed {k} d d'"
  by (auto simp: rows_framed_def stmt_frame stmt_tables)

end

text \<open>A stage is sound for a transfer when the transfer has errored or agrees with its row.\<close>

definition in_step :: "database \<Rightarrow> IBCV2Transfer \<Rightarrow> bool" where
  "in_step d t \<longleftrightarrow> ProcessingError t \<noteq> None \<or> coherent d t"

lemma in_step_framed:
  "in_step d t \<Longrightarrow> rows_framed K d d' \<Longrightarrow> transferKey t \<notin> K \<Longrightarrow> in_step d' t"
  by (auto simp: in_step_def intro: coherent_framed)

lemma identity_updates [simp]:
  "identity (t\<lparr>State := s\<rparr>) = identity t" "identity (t\<lparr>ProcessingError := e\<rparr>) = identity t"
  "transferKey (t\<lparr>State := s\<rparr>) = transferKey t"
  "transferKey (t\<lparr>ProcessingError := e\<rparr>) = transferKey t"
  by (simp_all add: identity_def transferKey_def)

lemma transferKey_identity: "transferKey t = (case identity t of (_, c, _, _, _, n, cl, _) \<Rightarrow> (c, cl, n))"
  by (simp add: transferKey_def identity_def)

lemma map_key_identity:
  "map transferKey ts = map (\<lambda>(_, c, _, _, _, n, cl, _). (c, cl, n)) (map identity ts)"
  by (simp add: transferKey_identity)

lemma mset_identity_keys:
  assumes "mset (map identity xs) = mset (map identity ys)"
  shows "mset (map transferKey xs) = mset (map transferKey ys)"
  unfolding map_key_identity using arg_cong [OF assms, of "image_mset _"] by (simp only: mset_map)

lemma update_state_coherent:
  assumes "mw_update_state E s t w = (w', None)" "coherent (db w) t"
  shows "coherent (db w') (t\<lparr>State := s\<rparr>)"
proof -
  obtain d' where d': "UpdateTransferState (storage E) (transferKey t) s (db w) = (d', None)"
      "db w' = d'"
    using assms(1) by (auto simp: mw_update_state_def on_db_eq)
  then show ?thesis
    using assms(2) upd_state.stmt_lookup [OF d'(1)]
    by (auto simp: coherent_def agrees_def identity_def NewIBCV2Transfer_def)
qed

lemma update_state_framed:
  "mw_update_state E s t w = (w', x) \<Longrightarrow>
     rows_framed {transferKey t} (db w) (db w') \<and> events w' = events w"
  by (auto simp: mw_update_state_def on_db_eq dest: upd_state.stmt_framed)

lemma update_state_ok: "mw_update_state E s t w = (w', x) \<Longrightarrow> db_ok (db w) \<Longrightarrow> db_ok (db w')"
  by (auto simp: mw_update_state_def on_db_eq dest: upd_state.stmt_ok)

section \<open>The contract of a processor\<close>

text \<open>
  A processor keeps what identifies the transfer, its state and its error field; if the
  transfer agreed with its row and the call succeeds, the result agrees with the row again; no
  other row, no relay request and no key changes; nothing is submitted to a chain; and the
  schema's constraints are kept.
\<close>

locale stage_processor =
  fixes p :: IBCV2Processor
  assumes keeps:
      "Process p E w t = (w', Inr t') \<Longrightarrow>
         identity t' = identity t \<and> State t' = State t \<and> ProcessingError t' = ProcessingError t"
    and sync: "Process p E w t = (w', Inr t') \<Longrightarrow> coherent (db w) t \<Longrightarrow> coherent (db w') t'"
    and framed: "Process p E w t = (w', x) \<Longrightarrow> rows_framed {transferKey t} (db w) (db w')"
    and silent: "Process p E w t = (w', x) \<Longrightarrow> events w' = events w"
    and ok: "Process p E w t = (w', x) \<Longrightarrow> db_ok (db w) \<Longrightarrow> db_ok (db w')"
begin

lemma mw_cases:
  assumes "IBCV2ProcessorMW_Process p E w (Some t) = (w', out)"
  obtains (skip) "w' = w" "out = Emitted t"
        "Error t \<noteq> [] \<or> GetState t = FAILED \<or> \<not> ShouldProcess p E t"
    | (state_error) err where "mw_update_state E (ProcState p) t w = (w', Some err)"
        "out = Emitted (t\<lparr>ProcessingError := Some (state_update_error err)\<rparr>)"
    | (proc_error) w1 err where "mw_update_state E (ProcState p) t w = (w1, None)"
        "Process p E w1 (t\<lparr>State := ProcState p\<rparr>) = (w', Inl err)"
        "out = (if errors_is err ContextCanceled then Dropped err
                else Emitted (t\<lparr>State := ProcState p, ProcessingError := Some err\<rparr>))"
    | (success) w1 t2 where "mw_update_state E (ProcState p) t w = (w1, None)"
        "Process p E w1 (t\<lparr>State := ProcState p\<rparr>) = (w', Inr t2)" "out = Emitted t2"
        "Error t = []" "GetState t \<noteq> FAILED" "ShouldProcess p E t"
  using assms
  by (auto simp: IBCV2ProcessorMW_Process_def Let_def
      split: if_splits prod.splits option.splits sum.splits)

lemma mw_framed:
  assumes "IBCV2ProcessorMW_Process p E w (Some t) = (w', out)"
  shows "rows_framed {transferKey t} (db w) (db w')" and "events w' = events w"
    and "db_ok (db w) \<Longrightarrow> db_ok (db w')"
  using assms
  by (cases rule: mw_cases;
      force dest: update_state_framed framed silent ok update_state_ok intro: rows_framed_trans)+

lemma mw_emits:
  assumes "IBCV2ProcessorMW_Process p E w (Some t) = (w', Emitted t')"
  shows "identity t' = identity t" and "ProcessingError t \<noteq> None \<Longrightarrow> ProcessingError t' \<noteq> None"
    and "in_step (db w) t \<Longrightarrow> in_step (db w') t'"
  using assms
  by (cases rule: mw_cases;
      auto simp: in_step_def split: if_splits dest: keeps intro: sync update_state_coherent)+

lemma mw_never_panics: "IBCV2ProcessorMW_Process p E w (Some t) \<noteq> (w', Panicked)"
  by (auto elim!: mw_cases split: if_splits)

lemma mw_drops_only_cancelled:
  "IBCV2ProcessorMW_Process p E w (Some t) = (w', Dropped err) \<Longrightarrow> errors_is err ContextCanceled"
  by (auto elim!: mw_cases split: if_splits)

end

text \<open>The same for a batch, whose transfers have distinct packet keys.\<close>

locale stage_batch_processor =
  fixes p :: IBCV2BatchProcessor
  assumes keepsB: "ProcessB p E w ts = (w', Inr ts') \<Longrightarrow> map identity ts' = map identity ts"
    and syncB:
      "ProcessB p E w ts = (w', Inr ts') \<Longrightarrow> distinct (map transferKey ts) \<Longrightarrow>
         \<forall>t \<in> set ts. in_step (db w) t \<Longrightarrow> \<forall>t \<in> set ts'. in_step (db w') t"
    and framedB: "ProcessB p E w ts = (w', x) \<Longrightarrow> rows_framed (transferKey ` set ts) (db w) (db w')"
    and okB: "ProcessB p E w ts = (w', x) \<Longrightarrow> db_ok (db w) \<Longrightarrow> db_ok (db w')"
begin

lemma partition_framed:
  "batch_partition p E w ts = (w', n, q) \<Longrightarrow>
     rows_framed (transferKey ` set ts) (db w) (db w') \<and> events w' = events w \<and>
     (db_ok (db w) \<longrightarrow> db_ok (db w'))"
proof (induction ts arbitrary: w w' n q)
  case (Cons t ts)
  let ?K = "transferKey ` set (t # ts)"
  show ?case
  proof (cases "Error t \<noteq> [] \<or> GetState t = FAILED \<or> \<not> ShouldProcessB p E t")
    case True
    then show ?thesis
      using Cons by (fastforce split: prod.splits intro: rows_framed_mono)
  next
    case False
    obtain w1 x where u: "mw_update_state E (ProcStateB p) t w = (w1, x)"
      by fastforce
    have f1: "rows_framed ?K (db w) (db w1)" "events w1 = events w"
      using update_state_framed [OF u] by (auto intro: rows_framed_mono)
    obtain n' q' where r: "batch_partition p E w1 ts = (w', n', q')"
      using Cons.prems False u by (auto split: prod.splits option.splits)
    have "rows_framed ?K (db w1) (db w')"
      using Cons.IH [OF r] by (auto intro: rows_framed_mono)
    with f1 show ?thesis
      using Cons.IH [OF r] update_state_ok [OF u] by (auto intro: rows_framed_trans)
  qed
qed simp

lemma partition_perm:
  "batch_partition p E w ts = (w', n, q) \<Longrightarrow>
     mset (map identity (q @ n)) = mset (map identity ts)"
  by (induction ts arbitrary: w w' n q) (force split: if_splits prod.splits option.splits)+

lemma partition_keys:
  "batch_partition p E w ts = (w', n, q) \<Longrightarrow>
     transferKey ` set (q @ n) = transferKey ` set ts"
  using mset_eq_setD [OF mset_identity_keys [OF partition_perm]] by (simp add: image_Un)

lemma partition_in_step:
  "batch_partition p E w ts = (w', n, q) \<Longrightarrow> distinct (map transferKey ts) \<Longrightarrow>
     \<forall>t \<in> set ts. in_step (db w) t \<Longrightarrow> \<forall>t \<in> set (q @ n). in_step (db w') t"
proof (induction ts arbitrary: w w' n q)
  case (Cons t ts)
  have rest: "\<forall>s \<in> set ts. in_step (db v) s" if "rows_framed {transferKey t} (db w) (db v)" for v
  proof
    fix s assume s: "s \<in> set ts"
    then have "transferKey s \<notin> {transferKey t}"
      using Cons.prems(2) by (simp, metis imageI)
    with that show "in_step (db v) s" using s Cons.prems(3) by (auto intro: in_step_framed)
  qed
  have head: "in_step (db w') s"
    if "in_step (db v) s" "transferKey s = transferKey t" "batch_partition p E v ts = (w', n', q')"
    for v s n' q'
  proof (rule in_step_framed)
    show "rows_framed (transferKey ` set ts) (db v) (db w')"
      using partition_framed [OF that(3)] by simp
    show "transferKey s \<notin> transferKey ` set ts" using that(2) Cons.prems(2) by simp
  qed (rule that(1))
  show ?case
  proof (cases "Error t \<noteq> [] \<or> GetState t = FAILED \<or> \<not> ShouldProcessB p E t")
    case True
    then obtain n' where r: "batch_partition p E w ts = (w', n', q)" "n = t # n'"
      using Cons.prems(1) by (auto split: prod.splits)
    then show ?thesis
      using Cons.IH [OF r(1)] Cons.prems(2,3) head [of w t] by auto
  next
    case False
    obtain w1 x where u: "mw_update_state E (ProcStateB p) t w = (w1, x)"
      by fastforce
    obtain n' q' where r: "batch_partition p E w1 ts = (w', n', q')"
      using Cons.prems(1) False u by (auto split: prod.splits option.splits)
    have IH: "\<forall>t \<in> set (q' @ n'). in_step (db w') t"
      using Cons.IH [OF r] Cons.prems(2) rest update_state_framed [OF u] by auto
    show ?thesis
    proof (cases x)
      case None
      have "in_step (db w1) (t\<lparr>State := ProcStateB p\<rparr>)"
        using u None Cons.prems(3) update_state_coherent by (auto simp: in_step_def)
      then have "in_step (db w') (t\<lparr>State := ProcStateB p\<rparr>)"
        using head [OF _ _ r] by simp
      then show ?thesis using Cons.prems(1) False u r None IH by auto
    next
      case (Some err)
      then show ?thesis
        using Cons.prems(1) False u r IH by (auto simp: in_step_def)
    qed
  qed
qed simp

lemma partition_distinct:
  assumes "batch_partition p E w ts = (w', n, q)" "distinct (map transferKey ts)"
  shows "distinct (map transferKey (q @ n))"
  using mset_eq_imp_distinct_iff [OF mset_identity_keys [OF partition_perm [OF assms(1)]]] assms(2)
  by simp

lemma mwB_cases:
  assumes "IBCV2BatchProcessorMW_Process p E w ts = (w', out)"
  obtains (skip) n where "batch_partition p E w ts = (w', n, [])" "out = Emitted n"
    | (proc_error) w1 n q err where "batch_partition p E w ts = (w1, n, q)" "q \<noteq> []"
        "ProcessB p E w1 q = (w', Inl err)"
        "out = (if errors_is err ContextCanceled then Dropped err
                else Emitted (map (\<lambda>t. t\<lparr>ProcessingError := Some err\<rparr>) q @ n))"
    | (success) w1 n q q' where "batch_partition p E w ts = (w1, n, q)" "q \<noteq> []"
        "ProcessB p E w1 q = (w', Inr q')" "out = Emitted (q' @ n)"
  using assms
  by (auto simp: IBCV2BatchProcessorMW_Process_def split: if_splits prod.splits sum.splits)

lemma mwB_framed:
  assumes "IBCV2BatchProcessorMW_Process p E w ts = (w', out)"
  shows "rows_framed (transferKey ` set ts) (db w) (db w') \<and> (db_ok (db w) \<longrightarrow> db_ok (db w'))"
proof -
  have sub: "rows_framed (transferKey ` set ts) (db w1) (db w')"
    if "batch_partition p E w ts = (w1, n, q)" "ProcessB p E w1 q = (w', x)" for w1 n q x
  proof -
    have "transferKey ` set q \<subseteq> transferKey ` set ts"
      using partition_keys [OF that(1)] by auto
    then show ?thesis using framedB [OF that(2)] by (blast intro: rows_framed_mono)
  qed
  from assms show ?thesis
    by (cases rule: mwB_cases) (meson okB partition_framed rows_framed_trans sub)+
qed

lemma rest_in_step:
  assumes part: "batch_partition p E w ts = (w1, n, q)" and d: "distinct (map transferKey ts)"
    and i: "\<forall>t \<in> set ts. in_step (db w) t" and proc: "ProcessB p E w1 q = (w', x)"
  shows "\<forall>t \<in> set n. in_step (db w') t"
proof
  fix t assume t: "t \<in> set n"
  then have "transferKey t \<notin> transferKey ` set q"
    using partition_distinct [OF part d] by (simp, blast)
  then show "in_step (db w') t"
    using partition_in_step [OF part d i] t by (auto intro: in_step_framed [OF _ framedB [OF proc]])
qed

lemma mwB_emits:
  assumes "IBCV2BatchProcessorMW_Process p E w ts = (w', Emitted ts')"
  shows "mset (map identity ts') = mset (map identity ts)"
    and "distinct (map transferKey ts) \<Longrightarrow> \<forall>t \<in> set ts. in_step (db w) t \<Longrightarrow>
           \<forall>t \<in> set ts'. in_step (db w') t"
proof -
  from assms show "mset (map identity ts') = mset (map identity ts)"
  proof (cases rule: mwB_cases)
    case (skip n)
    then show ?thesis using partition_perm [OF skip(1)] by simp
  next
    case (proc_error w1 n q err)
    then show ?thesis
      using partition_perm [OF proc_error(1)] by (simp add: multiset.map_comp comp_def split: if_splits)
  next
    case (success w1 n q q')
    then show ?thesis
      using partition_perm [OF success(1)] keepsB [OF success(3)] by simp
  qed
  assume d: "distinct (map transferKey ts)" and i: "\<forall>t \<in> set ts. in_step (db w) t"
  from assms show "\<forall>t \<in> set ts'. in_step (db w') t"
  proof (cases rule: mwB_cases)
    case (skip n)
    then show ?thesis using partition_in_step [OF _ d i] by fastforce
  next
    case (proc_error w1 n q err)
    then show ?thesis using rest_in_step [OF proc_error(1) d i proc_error(3)]
      by (auto simp: in_step_def split: if_splits)
  next
    case (success w1 n q q')
    have "\<forall>t \<in> set q'. in_step (db w') t"
      using syncB [OF success(3)] partition_in_step [OF success(1) d i]
        partition_distinct [OF success(1) d] by simp
    then show ?thesis using success(4) rest_in_step [OF success(1) d i success(3)] by auto
  qed
qed

end

section \<open>Progress\<close>

text \<open>
  No stage takes back what a transfer has reached in memory, and an error that a stage reports
  has a text, so the wrappers of the later stages see it.
\<close>

definition progress :: "IBCV2Transfer \<Rightarrow> IBCV2Transfer \<Rightarrow> bool" where
  "progress t t' \<longleftrightarrow>
     (RecvTxHash t \<noteq> None \<longrightarrow> RecvTxHash t' \<noteq> None) \<and>
     (WriteAckTxHash t \<noteq> None \<longrightarrow> WriteAckTxHash t' \<noteq> None) \<and>
     (AckTxHash t \<noteq> None \<longrightarrow> AckTxHash t' \<noteq> None) \<and>
     (TimeoutTxHash t \<noteq> None \<longrightarrow> TimeoutTxHash t' \<noteq> None) \<and>
     (SourceTxFinalizedTime t \<noteq> None \<longrightarrow> SourceTxFinalizedTime t' \<noteq> None)"

definition loud :: "IBCV2Transfer \<Rightarrow> bool" where
  "loud t \<longleftrightarrow> (ProcessingError t \<noteq> None \<longrightarrow> Error t \<noteq> [])"

lemma progress_refl [simp]: "progress t t"
  by (simp add: progress_def)

lemma progress_trans: "progress t t' \<Longrightarrow> progress t' t'' \<Longrightarrow> progress t t''"
  by (simp add: progress_def)

lemma progress_updates [simp]:
  "progress t (t'\<lparr>State := s\<rparr>) = progress t t'" "progress t (t'\<lparr>ProcessingError := e\<rparr>) = progress t t'"
  "progress (t\<lparr>State := s\<rparr>) t' = progress t t'" "progress (t\<lparr>ProcessingError := e\<rparr>) t' = progress t t'"
  by (simp_all add: progress_def)

lemma loud_updates [simp]:
  "loud (t\<lparr>State := s\<rparr>) = loud t" "error_string e \<noteq> [] \<Longrightarrow> loud (t\<lparr>ProcessingError := Some e\<rparr>)"
  by (simp_all add: loud_def Error_def)

lemma Error_updates [simp]:
  "Error (t\<lparr>State := s\<rparr>) = Error t" "Error (t\<lparr>ProcessingError := Some e\<rparr>) = error_string e"
  by (simp_all add: Error_def)

lemma state_update_error_text [simp]: "error_string (state_update_error e) \<noteq> []"
  by (simp add: state_update_error_def)

locale relay_processor = stage_processor +
  assumes progress: "Process p E w t = (w', Inr t') \<Longrightarrow> progress t t'"
    and loud_error: "Process p E w t = (w', Inl err) \<Longrightarrow> error_string err \<noteq> []"
begin

lemma mw_progress:
  assumes "IBCV2ProcessorMW_Process p E w (Some t) = (w', Emitted t')"
  shows "progress t t'"
  using assms by (cases rule: mw_cases) (auto split: if_splits dest: progress)

lemma mw_loud:
  assumes "IBCV2ProcessorMW_Process p E w (Some t) = (w', Emitted t')" "loud t"
  shows "loud t'"
  using assms(1)
proof (cases rule: mw_cases)
  case (proc_error w1 err)
  then show ?thesis using loud_error [OF proc_error(2)] by (simp split: if_splits)
next
  case (success w1 t2)
  then show ?thesis using keeps [OF success(2)] assms(2) by (simp add: loud_def Error_def)
qed (use assms(2) in simp_all)

text \<open>What is known of the output: it is the input, it has errored, or the body ran on it.\<close>

lemma mw_output:
  assumes "IBCV2ProcessorMW_Process p E w (Some t) = (w', Emitted t')"
  obtains (skipped) "t' = t" "Error t \<noteq> [] \<or> GetState t = FAILED \<or> \<not> ShouldProcess p E t"
    | (errored) "Error t' \<noteq> []"
    | (processed) w1 where "Process p E w1 (t\<lparr>State := ProcState p\<rparr>) = (w', Inr t')"
        "ShouldProcess p E t" "Error t = []" "GetState t \<noteq> FAILED"
  using assms
proof (cases rule: mw_cases)
  case skip
  then show ?thesis using that(1) by simp
next
  case (state_error err)
  then show ?thesis using that(2) by simp
next
  case (proc_error w1 err)
  then show ?thesis using that(2) loud_error [OF proc_error(2)] by (simp split: if_splits)
next
  case (success w1 t2)
  then show ?thesis using that(3) [of w1] by simp
qed

end

locale relay_batch_processor = stage_batch_processor +
  assumes progressB: "ProcessB p E w ts = (w', Inr ts') \<Longrightarrow> list_all2 progress ts ts'"
    and loudB: "ProcessB p E w ts = (w', Inr ts') \<Longrightarrow> list_all loud ts \<Longrightarrow> list_all loud ts'"
    and loud_errorB: "ProcessB p E w ts = (w', Inl err) \<Longrightarrow> error_string err \<noteq> []"
begin

lemma partition_members:
  "batch_partition p E w ts = (w', n, q) \<Longrightarrow>
     (\<forall>t' \<in> set n. t' \<in> set ts \<or> Error t' \<noteq> []) \<and>
     (\<forall>t' \<in> set q. \<exists>t \<in> set ts. t' = t\<lparr>State := ProcStateB p\<rparr> \<and> ShouldProcessB p E t \<and>
        Error t = [] \<and> GetState t \<noteq> FAILED)"
  by (induction ts arbitrary: w w' n q)
    (fastforce split: if_splits prod.splits option.splits)+

lemma partition_loud:
  "batch_partition p E w ts = (w', n, q) \<Longrightarrow> list_all loud ts \<Longrightarrow> list_all loud (q @ n)"
  by (induction ts arbitrary: w w' n q)
    (fastforce split: if_splits prod.splits option.splits)+

lemma mwB_loud:
  assumes "IBCV2BatchProcessorMW_Process p E w ts = (w', Emitted ts')" "list_all loud ts"
  shows "list_all loud ts'"
  using assms(1)
proof (cases rule: mwB_cases)
  case (skip n)
  then show ?thesis using partition_loud [OF skip(1) assms(2)] by simp
next
  case (proc_error w1 n q err)
  then show ?thesis
    using partition_loud [OF proc_error(1) assms(2)] loud_errorB [OF proc_error(3)]
    by (simp add: list_all_iff ball_Un split: if_splits)
next
  case (success w1 n q q')
  then show ?thesis
    using partition_loud [OF success(1) assms(2)] loudB [OF success(3)] by simp
qed

lemma mwB_output:
  assumes "IBCV2BatchProcessorMW_Process p E w ts = (w', Emitted ts')" "t' \<in> set ts'"
  shows "t' \<in> set ts \<or> Error t' \<noteq> [] \<or>
    (\<exists>t \<in> set ts. progress t t' \<and> identity t' = identity t \<and> ShouldProcessB p E t \<and>
       Error t = [] \<and> GetState t \<noteq> FAILED)"
  using assms(1)
proof (cases rule: mwB_cases)
  case (skip n)
  then show ?thesis using partition_members [OF skip(1)] assms(2) by auto
next
  case (proc_error w1 n q err)
  then show ?thesis
    using partition_members [OF proc_error(1)] assms(2) loud_errorB [OF proc_error(3)]
    by (auto split: if_splits)
next
  case (success w1 n q q')
  have "\<exists>s \<in> set q. progress s t' \<and> identity t' = identity s" if mem: "t' \<in> set q'"
  proof -
    obtain i where i: "i < length q'" "t' = q' ! i" using mem by (auto simp: in_set_conv_nth)
    have len: "length q' = length q" using progressB [OF success(3)] by (simp add: list_all2_lengthD)
    have "progress (q ! i) t'" using progressB [OF success(3)] i len by (simp add: list_all2_nthD2)
    moreover have "identity t' = identity (q ! i)"
      using arg_cong [OF keepsB [OF success(3)], of "\<lambda>xs. xs ! i"] i len by simp
    moreover have "q ! i \<in> set q" using i(1) len by simp
    ultimately show ?thesis by blast
  qed
  then show ?thesis
    using partition_members [OF success(1)] assms(2) success(4) by fastforce
qed

end

end
