(* ===== verification/Checks.thy ===== *)
theory Checks
  imports ProcessorMW
begin

text \<open>
  The processors that look at a chain before or after a submission: whether the packet was
  already received, whether its commitment is gone, whether the send, the timeout or the write
  ack is final, and what the write ack says. One definition of the body and one of the guard
  per processor, the processor itself as a record, and its contract as an interpretation.
\<close>

section \<open>check\_recv\_packet\_delivery.go\<close>

definition CheckRecvPacketDelivery_Process ::
  "env \<Rightarrow> world \<Rightarrow> IBCV2Transfer \<Rightarrow> world \<times> IBCV2Transfer result" where
  "CheckRecvPacketDelivery_Process E w t =
     (case GetClient (clients E) (GetDestinationChainID t) of
        Inl err \<Rightarrow> (w, Inl (Wrapf ''getting bridge client for transfer destination chain'' err))
      | Inr c \<Rightarrow>
          (case IsPacketReceived c (GetPacketDestinationClientID t) (seq64 t) of
             Inl err \<Rightarrow> (w, Inl (Wrapf ''checking if packet is already received'' err))
           | Inr received \<Rightarrow>
               if \<not> received then (w, Inr t)
               else
                 (case FindRecvTx c (GetPacketSourceClientID t) (GetPacketDestinationClientID t)
                         (seq64 t) (GetPacketTimeoutTimestamp t) of
                    Inl err \<Rightarrow> (w, Inl (Wrapf ''finding for recv tx hash'' err))
                  | Inr recvTx \<Rightarrow>
                      (case on_db (UpdateTransferRecvTx (storage E) (transferKey t) (Hash recvTx)
                                     (Timestamp recvTx) (RelayerAddress recvTx)) w of
                         (w', Some err) \<Rightarrow> (w', Inl (Wrapf ''updating transfer recv tx'' err))
                       | (w', None) \<Rightarrow>
                           (w', Inr (t\<lparr>RecvTxHash := Some (Hash recvTx),
                                       RecvTxTime := Some (Timestamp recvTx),
                                       RecvTxRelayerAddress := Some (RelayerAddress recvTx)\<rparr>))))))"

definition CheckRecvPacketDelivery_ShouldProcess :: "env \<Rightarrow> IBCV2Transfer \<Rightarrow> bool" where
  "CheckRecvPacketDelivery_ShouldProcess E t \<longleftrightarrow>
     \<not> snd (GetRecvTxHash t) \<and> \<not> snd (GetAckTxHash t) \<and> \<not> snd (GetTimeoutTxHash t)"

definition CheckRecvPacketDeliveryProcessor :: IBCV2Processor where
  "CheckRecvPacketDeliveryProcessor =
     \<lparr>ShouldProcess = CheckRecvPacketDelivery_ShouldProcess,
      ProcState = CHECK_RECV_PACKET_DELIVERY,
      Process = CheckRecvPacketDelivery_Process\<rparr>"

section \<open>check\_packet\_commitment.go\<close>

text \<open>
  The two searches run concurrently; each leaves its result behind and errors are only logged,
  so the pair of results is what the rest of the code sees.
\<close>

definition found :: "BridgeTx result \<Rightarrow> BridgeTx option" where
  "found r = (case r of Inl _ \<Rightarrow> None | Inr tx \<Rightarrow> Some tx)"

definition CheckPacketCommitment_Process ::
  "env \<Rightarrow> world \<Rightarrow> IBCV2Transfer \<Rightarrow> world \<times> IBCV2Transfer result" where
  "CheckPacketCommitment_Process E w t =
     (case GetClient (clients E) (GetSourceChainID t) of
        Inl err \<Rightarrow> (w, Inl (Wrapf ''getting bridge client for transfer source chain'' err))
      | Inr c \<Rightarrow>
          (case IsPacketCommitted c (GetPacketSourceClientID t) (seq64 t) of
             Inl err \<Rightarrow> (w, Inl (Wrapf ''checking if packet is already acked on source chain'' err))
           | Inr committed \<Rightarrow>
               if committed then (w, Inr t)
               else
                 (case (found (FindAckTx c (GetPacketSourceClientID t) (GetPacketDestinationClientID t) (seq64 t)),
                        found (FindTimeoutTx c (GetPacketSourceClientID t) (GetPacketDestinationClientID t) (seq64 t))) of
                    (Some _, Some _) \<Rightarrow> (w, Inl (NewError ''found both timeout tx and ack tx packet''))
                  | (Some ackTx, None) \<Rightarrow>
                      (case on_db (UpdateTransferAckTx (storage E) (transferKey t) (Hash ackTx)
                                     (Timestamp ackTx) (RelayerAddress ackTx)) w of
                         (w', Some err) \<Rightarrow> (w', Inl (Wrapf ''updating transfer ack tx'' err))
                       | (w', None) \<Rightarrow>
                           (w', Inr (t\<lparr>AckTxHash := Some (Hash ackTx), AckTxTime := Some (Timestamp ackTx),
                                       AckTxRelayerAddress := Some (RelayerAddress ackTx)\<rparr>)))
                  | (None, Some timeoutTx) \<Rightarrow>
                      (case on_db (UpdateTransferTimeoutTx (storage E) (transferKey t) (Hash timeoutTx)
                                     (Timestamp timeoutTx) (RelayerAddress timeoutTx)) w of
                         (w', Some err) \<Rightarrow> (w', Inl (Wrapf ''updating transfer timeout tx'' err))
                       | (w', None) \<Rightarrow>
                           (w', Inr (t\<lparr>TimeoutTxHash := Some (Hash timeoutTx),
                                       TimeoutTxTime := Some (Timestamp timeoutTx),
                                       TimeoutTxRelayerAddress := Some (RelayerAddress timeoutTx)\<rparr>)))
                  | (None, None) \<Rightarrow>
                      (w, Inl (NewError ''could not find timeout tx or ack tx after packet commitment not found'')))))"

definition CheckPacketCommitment_ShouldProcess :: "env \<Rightarrow> IBCV2Transfer \<Rightarrow> bool" where
  "CheckPacketCommitment_ShouldProcess E t \<longleftrightarrow>
     \<not> snd (GetAckTxHash t) \<and> \<not> snd (GetTimeoutTxHash t)"

definition CheckPacketCommitmentProcessor :: IBCV2Processor where
  "CheckPacketCommitmentProcessor =
     \<lparr>ShouldProcess = CheckPacketCommitment_ShouldProcess,
      ProcState = CHECK_ACK_PACKET_DELIVERY,
      Process = CheckPacketCommitment_Process\<rparr>"

section \<open>check\_send\_finality.go\<close>

definition CheckSendFinality_Process ::
  "u64 option \<Rightarrow> env \<Rightarrow> world \<Rightarrow> IBCV2Transfer \<Rightarrow> world \<times> IBCV2Transfer result" where
  "CheckSendFinality_Process sourceFinalityOffset E w t =
     (case GetClient (clients E) (GetSourceChainID t) of
        Inl err \<Rightarrow> (w, Inl (Wrapf ''getting source bridge client'' err))
      | Inr c \<Rightarrow>
          (case IsTxFinalized c (GetSourceTxHash t) sourceFinalityOffset of
             Inl err \<Rightarrow> (w, Inl (Wrapf ''checking if tx is finalized'' err))
           | Inr finalized \<Rightarrow>
               if \<not> finalized then (w, Inl (Sentinel ErrSendNotFinalized))
               else if snd (GetSourceTxFinalizedTime t) then (w, Inr t)
               else
                 (case on_db (UpdateTransferSourceTxFinalizedTime (storage E) (transferKey t)
                                (now_process E)) w of
                    (w', Some err) \<Rightarrow> (w', Inl (Wrapf ''updating source tx finalized time'' err))
                  | (w', None) \<Rightarrow> (w', Inr (t\<lparr>SourceTxFinalizedTime := Some (now_process E)\<rparr>)))))"

definition CheckSendFinality_ShouldProcess :: "env \<Rightarrow> IBCV2Transfer \<Rightarrow> bool" where
  "CheckSendFinality_ShouldProcess E t \<longleftrightarrow> \<not> snd (GetRecvTxHash t)"

definition CheckSendFinalityProcessor :: "u64 option \<Rightarrow> IBCV2Processor" where
  "CheckSendFinalityProcessor offset =
     \<lparr>ShouldProcess = CheckSendFinality_ShouldProcess,
      ProcState = AWAITING_SEND_FINALITY,
      Process = CheckSendFinality_Process offset\<rparr>"

section \<open>check\_timeout\_finality.go\<close>

definition CheckTimeoutFinality_Process ::
  "u64 option \<Rightarrow> env \<Rightarrow> world \<Rightarrow> IBCV2Transfer \<Rightarrow> world \<times> IBCV2Transfer result" where
  "CheckTimeoutFinality_Process destinationFinalityOffset E w t =
     (case GetClient (clients E) (GetDestinationChainID t) of
        Inl err \<Rightarrow> (w, Inl (Wrapf ''getting destination bridge client'' err))
      | Inr c \<Rightarrow>
          (case IsTimestampFinalized c (GetPacketTimeoutTimestamp t) destinationFinalityOffset of
             Inl err \<Rightarrow> (w, Inl (Wrapf ''checking timeout finality'' err))
           | Inr finalized \<Rightarrow>
               if \<not> finalized then (w, Inl (Sentinel ErrTimeoutNotFinalized)) else (w, Inr t)))"

definition CheckTimeoutFinality_ShouldProcess :: "env \<Rightarrow> IBCV2Transfer \<Rightarrow> bool" where
  "CheckTimeoutFinality_ShouldProcess E t \<longleftrightarrow>
     (IsTimedOut (now E (transferKey t)) t \<and> \<not> snd (GetRecvTxHash t) \<and> \<not> snd (GetAckTxHash t)) \<and>
     \<not> snd (GetTimeoutTxHash t)"

definition CheckTimeoutFinalityProcessor :: "u64 option \<Rightarrow> IBCV2Processor" where
  "CheckTimeoutFinalityProcessor offset =
     \<lparr>ShouldProcess = CheckTimeoutFinality_ShouldProcess,
      ProcState = AWAITING_TIMEOUT_FINALITY,
      Process = CheckTimeoutFinality_Process offset\<rparr>"

section \<open>check\_write\_ack\_finality.go\<close>

text \<open>
  The update of the finality time leaves the key fields of the query's parameters unset, so it
  addresses the row with empty chain and client and sequence zero.
\<close>

definition unset_key :: transfer_key where
  "unset_key = ([], [], 0)"

definition CheckWriteAckFinality_Process ::
  "u64 option \<Rightarrow> env \<Rightarrow> world \<Rightarrow> IBCV2Transfer \<Rightarrow> world \<times> IBCV2Transfer result" where
  "CheckWriteAckFinality_Process destinationFinalityOffset E w t =
     (case GetClient (clients E) (GetDestinationChainID t) of
        Inl err \<Rightarrow> (w, Inl (Wrapf ''getting source bridge client'' err))
      | Inr c \<Rightarrow>
          (case GetWriteAckTxHash t of
             (writeAckTxHash, ok) \<Rightarrow>
               if \<not> ok
               then (w, Inl (NewError ''write ack tx hash not finalized, violates should process''))
               else
                 (case IsTxFinalized c writeAckTxHash destinationFinalityOffset of
                    Inl err \<Rightarrow> (w, Inl (Wrapf ''checking if tx is finalized'' err))
                  | Inr finalized \<Rightarrow>
                      if \<not> finalized then (w, Inl (Sentinel ErrWriteAckNotFinalized))
                      else if snd (GetWriteAckTxFinalizedTime t) then (w, Inr t)
                      else
                        (case on_db (UpdateTransferWriteAckTxFinalizedTime (storage E) unset_key
                                       (now_process E)) w of
                           (w', Some err) \<Rightarrow>
                             (w', Inl (Wrapf ''updating write ack tx finalized time'' err))
                         | (w', None) \<Rightarrow>
                             (w', Inr (t\<lparr>WriteAckTxFinalizedTime := Some (now_process E)\<rparr>))))))"

definition CheckWriteAckFinality_ShouldProcess ::
  "bool \<Rightarrow> bool \<Rightarrow> env \<Rightarrow> IBCV2Transfer \<Rightarrow> bool" where
  "CheckWriteAckFinality_ShouldProcess shouldRelaySuccessAcks shouldRelayErrorAcks E t =
     (if \<not> snd (GetWriteAckTxHash t) then False
      else
        (case GetWriteAckStatus t of
           None \<Rightarrow> False
         | Some s \<Rightarrow> (is_error_ack s \<and> shouldRelayErrorAcks) \<or> (is_success_ack s \<and> shouldRelaySuccessAcks)))"

definition CheckWriteAckFinalityProcessor :: "bool \<Rightarrow> bool \<Rightarrow> u64 option \<Rightarrow> IBCV2Processor" where
  "CheckWriteAckFinalityProcessor success err offset =
     \<lparr>ShouldProcess = CheckWriteAckFinality_ShouldProcess success err,
      ProcState = AWAITING_WRITE_ACK_FINALITY,
      Process = CheckWriteAckFinality_Process offset\<rparr>"

section \<open>wait\_for\_write\_ack.go\<close>

definition WaitForWriteAck_Process ::
  "env \<Rightarrow> world \<Rightarrow> IBCV2Transfer \<Rightarrow> world \<times> IBCV2Transfer result" where
  "WaitForWriteAck_Process E w t =
     (case GetClient (clients E) (GetDestinationChainID t) of
        Inl err \<Rightarrow> (w, Inl (Wrapf ''getting client for transfer destination chain'' err))
      | Inr c \<Rightarrow>
          (case GetRecvTxHash t of
             (recvHash, ok) \<Rightarrow>
               if \<not> ok
               then (w, Inl (NewError ''transfer does not have recv tx hash, violating ShouldProcess''))
               else
                 (let answer = PacketWriteAckStatus c recvHash (seq64 t) (GetPacketSourceClientID t)
                                 (GetPacketDestinationClientID t);
                      store = (\<lambda>status.
                        (case on_db (UpdateTransferWriteAckTx (storage E) (transferKey t) recvHash
                                       (fst (GetRecvTxTime t)) status) w of
                           (w', Some err) \<Rightarrow> (w', Inl (Wrapf ''updating transfer with write ack tx'' err))
                         | (w', None) \<Rightarrow>
                             (w', Inr (t\<lparr>WriteAckTxHash := Some recvHash,
                                         WriteAckTxTime := Some (fst (GetRecvTxTime t)),
                                         WriteAckStatus := Some status\<rparr>))))
                  in
                  (case answer of
                     Inr status \<Rightarrow> store status
                   | Inl err \<Rightarrow>
                       if errors_is err ErrWriteAckNotFoundForPacket then
                         (case on_db (ClearRecvTx (storage E) (transferKey t)) w of
                            (w', Some err') \<Rightarrow> (w', Inl (Wrapf ''clearing transfer recv tx hash'' err'))
                          | (w', None) \<Rightarrow> (w', Inl (NewError ''write ack for transfer not found in recv tx'')))
                       else if \<not> errors_is err ErrWriteAckDecoding then
                         (w, Inl (Wrapf ''finding write ack for packet'' err))
                       else store WACK_UNKNOWN))))"

definition WaitForWriteAck_ShouldProcess :: "env \<Rightarrow> IBCV2Transfer \<Rightarrow> bool" where
  "WaitForWriteAck_ShouldProcess E t \<longleftrightarrow>
     (snd (GetRecvTxHash t) \<and> \<not> snd (GetWriteAckTxHash t)) \<and> \<not> snd (GetTimeoutTxHash t)"

definition WaitForWriteAckPacket :: IBCV2Processor where
  "WaitForWriteAckPacket =
     \<lparr>ShouldProcess = WaitForWriteAck_ShouldProcess,
      ProcState = WAIT_FOR_WRITE_ACK,
      Process = WaitForWriteAck_Process\<rparr>"

section \<open>Contracts\<close>

text \<open>
  The effect of a body that succeeds: the transfer and its row get the same assignments, so
  what they agreed on before they agree on after.
\<close>

lemmas coherent_simps = coherent_def agrees_def identity_def transferKey_def NewIBCV2Transfer_def

lemma coherent_recv:
  assumes "UpdateTransferRecvTx D (transferKey t) h tm a d = (d', None)" "coherent d t"
  shows "coherent d' (t\<lparr>RecvTxHash := Some h, RecvTxTime := Some tm', RecvTxRelayerAddress := Some a\<rparr>)"
  using assms(2) upd_recv.stmt_lookup [OF assms(1)] by (auto simp: coherent_simps)

lemma coherent_ack:
  assumes "UpdateTransferAckTx D (transferKey t) h tm a d = (d', None)" "coherent d t"
  shows "coherent d' (t\<lparr>AckTxHash := Some h, AckTxTime := Some tm'\<rparr>)"
    and "coherent d' (t\<lparr>AckTxHash := Some h, AckTxTime := Some tm', AckTxRelayerAddress := a'\<rparr>)"
  using assms(2) upd_ack.stmt_lookup [OF assms(1)] by (auto simp: coherent_simps)

lemma coherent_timeout:
  assumes "UpdateTransferTimeoutTx D (transferKey t) h tm a d = (d', None)" "coherent d t"
  shows "coherent d' (t\<lparr>TimeoutTxHash := Some h, TimeoutTxTime := Some tm'\<rparr>)"
    and "coherent d' (t\<lparr>TimeoutTxHash := Some h, TimeoutTxTime := Some tm', TimeoutTxRelayerAddress := a'\<rparr>)"
  using assms(2) upd_timeout.stmt_lookup [OF assms(1)] by (auto simp: coherent_simps)

lemma coherent_src_fin:
  assumes "UpdateTransferSourceTxFinalizedTime D (transferKey t) tm d = (d', None)" "coherent d t"
  shows "coherent d' (t\<lparr>SourceTxFinalizedTime := Some tm'\<rparr>)"
  using assms(2) upd_src_fin.stmt_lookup [OF assms(1)] by (auto simp: coherent_simps)

lemma coherent_wack:
  assumes "UpdateTransferWriteAckTx D (transferKey t) h tm s d = (d', None)" "coherent d t"
  shows "coherent d' (t\<lparr>WriteAckTxHash := Some h, WriteAckTxTime := Some tm', WriteAckStatus := Some s\<rparr>)"
  using assms(2) upd_wack.stmt_lookup [OF assms(1)] by (auto simp: coherent_simps)

lemma row_view_fin [simp]:
  "row_view (r\<lparr>r_UpdatedAt := n, r_WriteAckTxFinalizedTime := f\<rparr>) = row_view r"
  by (simp add: row_view_def NewIBCV2Transfer_def)

lemma wack_fin_framed:
  assumes "UpdateTransferWriteAckTxFinalizedTime D k tm d = (d', x)"
  shows "rows_framed {} d d'"
proof (cases x)
  case None
  then show ?thesis
    using upd_wack_fin.stmt_lookup [of D k tm d d'] upd_wack_fin.stmt_tables [OF assms] assms
    by (simp add: rows_framed_def option.map_comp comp_def)
next
  case (Some e)
  then show ?thesis using upd_wack_fin.stmt_error [of D k tm d d' e] assms by simp
qed

lemma coherent_wack_fin:
  assumes "UpdateTransferWriteAckTxFinalizedTime D k tm d = (d', x)" "coherent d t"
  shows "coherent d' (t\<lparr>WriteAckTxFinalizedTime := y\<rparr>)"
proof -
  have "coherent d' t"
    using assms(2) wack_fin_framed [OF assms(1)] by (rule coherent_framed) simp
  then show ?thesis by (simp add: coherent_simps)
qed

lemmas body_splits = sum.splits option.splits prod.splits if_splits

lemmas stage_framed =
  upd_recv.stmt_framed upd_ack.stmt_framed upd_timeout.stmt_framed upd_src_fin.stmt_framed
  upd_wack.stmt_framed clear_recv.stmt_framed clear_ack.stmt_framed clear_timeout.stmt_framed
  upd_recv_gas.stmt_framed upd_ack_gas.stmt_framed upd_timeout_gas.stmt_framed

interpretation check_recv: relay_processor CheckRecvPacketDeliveryProcessor
  by unfold_locales
    (auto simp: progress_def CheckRecvPacketDeliveryProcessor_def CheckRecvPacketDelivery_Process_def on_db_eq
        identity_def coherent_recv
      split: body_splits intro: stage_framed stmt_oks)

interpretation check_commitment: relay_processor CheckPacketCommitmentProcessor
  by unfold_locales
    (auto simp: progress_def CheckPacketCommitmentProcessor_def CheckPacketCommitment_Process_def on_db_eq
        identity_def coherent_ack coherent_timeout
      split: body_splits intro: stage_framed stmt_oks)

interpretation check_send: relay_processor "CheckSendFinalityProcessor offset" for offset
  by unfold_locales
    (auto simp: progress_def CheckSendFinalityProcessor_def CheckSendFinality_Process_def on_db_eq
        identity_def coherent_src_fin
      split: body_splits intro: stage_framed stmt_oks)

interpretation check_timeout: relay_processor "CheckTimeoutFinalityProcessor offset" for offset
  by unfold_locales
    (auto simp: progress_def CheckTimeoutFinalityProcessor_def CheckTimeoutFinality_Process_def split: body_splits)

interpretation check_wack: relay_processor "CheckWriteAckFinalityProcessor succ err offset"
  for succ err offset
  by unfold_locales
    (auto simp: progress_def CheckWriteAckFinalityProcessor_def CheckWriteAckFinality_Process_def on_db_eq
        identity_def coherent_wack_fin
      split: body_splits intro: stmt_oks rows_framed_mono [OF wack_fin_framed])

interpretation wait_wack: relay_processor WaitForWriteAckPacket
  by unfold_locales
    (auto simp: progress_def WaitForWriteAckPacket_def WaitForWriteAck_Process_def on_db_eq Let_def
        identity_def coherent_wack
      split: body_splits intro: stage_framed stmt_oks)

end
