(* ===== verification/Retry.thy ===== *)
theory Retry
  imports Checks
begin

text \<open>
  The processors that run after a submission: \<^verbatim>\<open>retry_*_packet.go\<close> forgets a submitted
  transaction that did not land within two minutes, and \<^verbatim>\<open>*_tx_gas_calculator.go\<close> prices the
  fee of one that did. A retry clears the stored transaction and reports an error, so the
  transfer leaves the pipeline and is loaded again without the transaction.
\<close>

section \<open>retry\_recv\_packet.go\<close>

definition RetryRecvExpiry :: duration where
  "RetryRecvExpiry = 2 * minute"

definition RetryRecvPacket_Process ::
  "string \<Rightarrow> env \<Rightarrow> world \<Rightarrow> IBCV2Transfer \<Rightarrow> world \<times> IBCV2Transfer result" where
  "RetryRecvPacket_Process destinationChainID E w t =
     (case GetClient (clients E) destinationChainID of
        Inl err \<Rightarrow> (w, Inl (Wrapf ''getting client for transfer destination chain'' err))
      | Inr c \<Rightarrow>
          (case (GetRecvTxHash t, GetRecvTxTime t) of
             ((txHash, hasHash), (txTime, hasTime)) \<Rightarrow>
               if \<not> hasHash
               then (w, Inl (NewError ''transfer does not have recv tx hash, violates should process''))
               else if \<not> hasTime
               then (w, Inl (NewError ''transfer does not have a recv tx time, violates should process''))
               else
                 (case ShouldRetryTx c txHash RetryRecvExpiry txTime of
                    Inl err \<Rightarrow> (w, Inl (Wrapf ''checking if transfer should be retried'' err))
                  | Inr retry \<Rightarrow>
                      if \<not> retry then (w, Inr t)
                      else
                        (case on_db (ClearRecvTx (storage E) (transferKey t)) w of
                           (w', Some err) \<Rightarrow> (w', Inl (Wrapf ''clearing recv tx hash'' err))
                         | (w', None) \<Rightarrow> (w', Inl (Sentinel ErrRetryingRecvPacket))))))"

definition RetryRecvPacket_ShouldProcess :: "env \<Rightarrow> IBCV2Transfer \<Rightarrow> bool" where
  "RetryRecvPacket_ShouldProcess E t \<longleftrightarrow> snd (GetRecvTxHash t) \<and> snd (GetRecvTxTime t) \<and> \<not> snd (GetWriteAckTxHash t)"

definition RetryRecvPacketProcessor :: "string \<Rightarrow> IBCV2Processor" where
  "RetryRecvPacketProcessor chain =
     \<lparr>ShouldProcess = RetryRecvPacket_ShouldProcess,
      ProcState = DELIVER_RECV_PACKET,
      Process = RetryRecvPacket_Process chain\<rparr>"

section \<open>retry\_ack\_packet.go\<close>

definition RetryAckExpiry :: duration where
  "RetryAckExpiry = 2 * minute"

definition RetryAckPacket_Process ::
  "string \<Rightarrow> env \<Rightarrow> world \<Rightarrow> IBCV2Transfer \<Rightarrow> world \<times> IBCV2Transfer result" where
  "RetryAckPacket_Process sourceChainID E w t =
     (case GetClient (clients E) sourceChainID of
        Inl err \<Rightarrow> (w, Inl (Wrapf ''getting client for transfer source chain'' err))
      | Inr c \<Rightarrow>
          (case (GetAckTxHash t, GetAckTxTime t) of
             ((txHash, hasHash), (txTime, hasTime)) \<Rightarrow>
               if \<not> hasHash
               then (w, Inl (NewError ''transfer does not have ack tx hash, violates should process''))
               else if \<not> hasTime
               then (w, Inl (NewError ''transfer does not have a ack tx time, violates should process''))
               else
                 (case ShouldRetryTx c txHash RetryAckExpiry txTime of
                    Inl err \<Rightarrow> (w, Inl (Wrapf ''checking if transfer should be retried'' err))
                  | Inr retry \<Rightarrow>
                      if \<not> retry then (w, Inr t)
                      else
                        (case on_db (ClearAckTx (storage E) (transferKey t)) w of
                           (w', Some err) \<Rightarrow> (w', Inl (Wrapf ''clearing ack tx hash'' err))
                         | (w', None) \<Rightarrow> (w', Inl (Sentinel ErrRetryingAckPacket))))))"

definition RetryAckPacket_ShouldProcess :: "env \<Rightarrow> IBCV2Transfer \<Rightarrow> bool" where
  "RetryAckPacket_ShouldProcess E t \<longleftrightarrow> snd (GetAckTxHash t) \<and> snd (GetAckTxTime t)"

definition RetryAckPacketProcessor :: "string \<Rightarrow> IBCV2Processor" where
  "RetryAckPacketProcessor chain =
     \<lparr>ShouldProcess = RetryAckPacket_ShouldProcess,
      ProcState = DELIVER_ACK_PACKET,
      Process = RetryAckPacket_Process chain\<rparr>"

section \<open>retry\_timeout\_packet.go\<close>

definition RetryTimeoutExpiry :: duration where
  "RetryTimeoutExpiry = 2 * minute"

definition RetryTimeoutPacket_Process ::
  "string \<Rightarrow> env \<Rightarrow> world \<Rightarrow> IBCV2Transfer \<Rightarrow> world \<times> IBCV2Transfer result" where
  "RetryTimeoutPacket_Process sourceChainID E w t =
     (case GetClient (clients E) sourceChainID of
        Inl err \<Rightarrow> (w, Inl (Wrapf ''getting client for transfer source chain'' err))
      | Inr c \<Rightarrow>
          (case (GetTimeoutTxHash t, GetTimeoutTxTime t) of
             ((txHash, hasHash), (txTime, hasTime)) \<Rightarrow>
               if \<not> hasHash
               then (w, Inl (NewError ''transfer does not have timeout tx hash, violates should process''))
               else if \<not> hasTime
               then (w, Inl (NewError ''transfer does not have a timeout tx time, violates should process''))
               else
                 (case ShouldRetryTx c txHash RetryTimeoutExpiry txTime of
                    Inl err \<Rightarrow> (w, Inl (Wrapf ''checking if transfer should be retried'' err))
                  | Inr retry \<Rightarrow>
                      if \<not> retry then (w, Inr t)
                      else
                        (case on_db (ClearTimeoutTx (storage E) (transferKey t)) w of
                           (w', Some err) \<Rightarrow> (w', Inl (Wrapf ''clearing timeout tx hash'' err))
                         | (w', None) \<Rightarrow> (w', Inl (Sentinel ErrRetryingTimeoutPacket))))))"

definition RetryTimeoutPacket_ShouldProcess :: "env \<Rightarrow> IBCV2Transfer \<Rightarrow> bool" where
  "RetryTimeoutPacket_ShouldProcess E t \<longleftrightarrow> snd (GetTimeoutTxHash t) \<and> snd (GetTimeoutTxTime t)"

definition RetryTimeoutPacketProcessor :: "string \<Rightarrow> IBCV2Processor" where
  "RetryTimeoutPacketProcessor chain =
     \<lparr>ShouldProcess = RetryTimeoutPacket_ShouldProcess,
      ProcState = DELIVER_TIMEOUT_PACKET,
      Process = RetryTimeoutPacket_Process chain\<rparr>"

section \<open>recv\_tx\_gas\_calculator.go\<close>

definition RecvTxGasCalculator_Process ::
  "string \<Rightarrow> u8 \<Rightarrow> env \<Rightarrow> world \<Rightarrow> IBCV2Transfer \<Rightarrow> world \<times> IBCV2Transfer result" where
  "RecvTxGasCalculator_Process coingeckoID decimals E w t =
     (case GetClient (clients E) (GetDestinationChainID t) of
        Inl err \<Rightarrow> (w, Inl (Wrapf ''getting ibcv2 bridge client for transfer destination chain'' err))
      | Inr c \<Rightarrow>
          (case GetRecvTxHash t of
             (txHash, hasTxHash) \<Rightarrow>
               if \<not> hasTxHash
               then (w, Inl (NewError ''this is a bug! transfer does not have a recv tx''))
               else
                 (case TxFee c txHash of
                    Inl err \<Rightarrow> (w, Inl (Wrapf ''getting gas cost of recv tx'' err))
                  | Inr gasCostInGasToken \<Rightarrow>
                      (case GetCoinUsdValue E coingeckoID decimals gasCostInGasToken of
                         Inl err \<Rightarrow> (w, Inl (Wrapf ''getting usd value of recv tx gas cost'' err))
                       | Inr gasCostUSD \<Rightarrow>
                           (case on_db (UpdateTransferRecvTxGasCostUSD (storage E) (transferKey t) gasCostUSD) w of
                              (w', Some err) \<Rightarrow> (w', Inl (Wrapf ''updating transfer recv tx gas cost'' err))
                            | (w', None) \<Rightarrow> (w', Inr t))))))"

definition RecvTxGasCalculator_ShouldProcess :: "env \<Rightarrow> IBCV2Transfer \<Rightarrow> bool" where
  "RecvTxGasCalculator_ShouldProcess E t =
     (if GetRecvGasCostUSD t \<noteq> None then False else snd (GetRecvTxHash t))"

definition RecvTxGasCalculatorProcessor :: "string \<Rightarrow> u8 \<Rightarrow> IBCV2Processor" where
  "RecvTxGasCalculatorProcessor coingeckoID decimals =
     \<lparr>ShouldProcess = RecvTxGasCalculator_ShouldProcess,
      ProcState = CALCULATING_RECV_TX_GAS_COST,
      Process = RecvTxGasCalculator_Process coingeckoID decimals\<rparr>"

section \<open>ack\_tx\_gas\_calculator.go\<close>

definition AckTxGasCalculator_Process ::
  "string \<Rightarrow> u8 \<Rightarrow> env \<Rightarrow> world \<Rightarrow> IBCV2Transfer \<Rightarrow> world \<times> IBCV2Transfer result" where
  "AckTxGasCalculator_Process coingeckoID decimals E w t =
     (case GetClient (clients E) (GetSourceChainID t) of
        Inl err \<Rightarrow> (w, Inl (Wrapf ''getting ibcv2 bridge client for transfer source chain'' err))
      | Inr c \<Rightarrow>
          (case GetAckTxHash t of
             (txHash, hasTxHash) \<Rightarrow>
               if \<not> hasTxHash
               then (w, Inl (NewError ''this is a bug! transfer does not have a ack tx''))
               else
                 (case TxFee c txHash of
                    Inl err \<Rightarrow> (w, Inl (Wrapf ''getting gas cost of ack tx'' err))
                  | Inr gasCostInGasToken \<Rightarrow>
                      (case GetCoinUsdValue E coingeckoID decimals gasCostInGasToken of
                         Inl err \<Rightarrow> (w, Inl (Wrapf ''getting usd value of ack tx gas cost'' err))
                       | Inr gasCostUSD \<Rightarrow>
                           (case on_db (UpdateTransferAckTxGasCostUSD (storage E) (transferKey t) gasCostUSD) w of
                              (w', Some err) \<Rightarrow> (w', Inl (Wrapf ''updating transfer ack tx gas cost'' err))
                            | (w', None) \<Rightarrow> (w', Inr t))))))"

definition AckTxGasCalculator_ShouldProcess :: "env \<Rightarrow> IBCV2Transfer \<Rightarrow> bool" where
  "AckTxGasCalculator_ShouldProcess E t =
     (if GetAckGasCostUSD t \<noteq> None then False else snd (GetAckTxHash t))"

definition AckTxGasCalculatorProcessor :: "string \<Rightarrow> u8 \<Rightarrow> IBCV2Processor" where
  "AckTxGasCalculatorProcessor coingeckoID decimals =
     \<lparr>ShouldProcess = AckTxGasCalculator_ShouldProcess,
      ProcState = CALCULATING_ACK_TX_GAS_COST,
      Process = AckTxGasCalculator_Process coingeckoID decimals\<rparr>"

section \<open>timeout\_tx\_gas\_calculator.go\<close>

definition TimeoutTxGasCalculator_Process ::
  "string \<Rightarrow> u8 \<Rightarrow> env \<Rightarrow> world \<Rightarrow> IBCV2Transfer \<Rightarrow> world \<times> IBCV2Transfer result" where
  "TimeoutTxGasCalculator_Process coingeckoID decimals E w t =
     (case GetClient (clients E) (GetSourceChainID t) of
        Inl err \<Rightarrow> (w, Inl (Wrapf ''getting ibcv2 bridge client for transfer source chain'' err))
      | Inr c \<Rightarrow>
          (case GetTimeoutTxHash t of
             (txHash, hasTxHash) \<Rightarrow>
               if \<not> hasTxHash
               then (w, Inl (NewError ''this is a bug! transfer does not have a recv tx''))
               else
                 (case TxFee c txHash of
                    Inl err \<Rightarrow> (w, Inl (Wrapf ''getting gas cost of timeout tx'' err))
                  | Inr gasCostInGasToken \<Rightarrow>
                      (case GetCoinUsdValue E coingeckoID decimals gasCostInGasToken of
                         Inl err \<Rightarrow> (w, Inl (Wrapf ''getting usd value of timeout tx gas cost'' err))
                       | Inr gasCostUSD \<Rightarrow>
                           (case on_db (UpdateTransferTimeoutTxGasCostUSD (storage E) (transferKey t) gasCostUSD) w of
                              (w', Some err) \<Rightarrow> (w', Inl (Wrapf ''updating transfer timeout tx gas cost'' err))
                            | (w', None) \<Rightarrow> (w', Inr t))))))"

definition TimeoutTxGasCalculator_ShouldProcess :: "env \<Rightarrow> IBCV2Transfer \<Rightarrow> bool" where
  "TimeoutTxGasCalculator_ShouldProcess E t =
     (if GetTimeoutGasCostUSD t \<noteq> None then False else snd (GetTimeoutTxHash t))"

definition TimeoutTxGasCalculatorProcessor :: "string \<Rightarrow> u8 \<Rightarrow> IBCV2Processor" where
  "TimeoutTxGasCalculatorProcessor coingeckoID decimals =
     \<lparr>ShouldProcess = TimeoutTxGasCalculator_ShouldProcess,
      ProcState = CALCULATING_TIMEOUT_TX_GAS_COST,
      Process = TimeoutTxGasCalculator_Process coingeckoID decimals\<rparr>"

section \<open>Contracts\<close>

lemma coherent_recv_gas:
  assumes "UpdateTransferRecvTxGasCostUSD D (transferKey t) c d = (d', None)" "coherent d t"
  shows "coherent d' t"
  using assms(2) upd_recv_gas.stmt_lookup [OF assms(1)] by (auto simp: coherent_simps)

lemma coherent_ack_gas:
  assumes "UpdateTransferAckTxGasCostUSD D (transferKey t) c d = (d', None)" "coherent d t"
  shows "coherent d' t"
  using assms(2) upd_ack_gas.stmt_lookup [OF assms(1)] by (auto simp: coherent_simps)

lemma coherent_timeout_gas:
  assumes "UpdateTransferTimeoutTxGasCostUSD D (transferKey t) c d = (d', None)" "coherent d t"
  shows "coherent d' t"
  using assms(2) upd_timeout_gas.stmt_lookup [OF assms(1)] by (auto simp: coherent_simps)

interpretation retry_recv: relay_processor "RetryRecvPacketProcessor chain" for chain
  by unfold_locales
    (auto simp: RetryRecvPacketProcessor_def RetryRecvPacket_Process_def on_db_eq progress_def
      split: body_splits intro: stage_framed stmt_oks)

interpretation retry_ack: relay_processor "RetryAckPacketProcessor chain" for chain
  by unfold_locales
    (auto simp: RetryAckPacketProcessor_def RetryAckPacket_Process_def on_db_eq progress_def
      split: body_splits intro: stage_framed stmt_oks)

interpretation retry_timeout: relay_processor "RetryTimeoutPacketProcessor chain" for chain
  by unfold_locales
    (auto simp: RetryTimeoutPacketProcessor_def RetryTimeoutPacket_Process_def on_db_eq progress_def
      split: body_splits intro: stage_framed stmt_oks)

interpretation gas_recv: relay_processor "RecvTxGasCalculatorProcessor coin dec" for coin dec
  by unfold_locales
    (auto simp: RecvTxGasCalculatorProcessor_def RecvTxGasCalculator_Process_def on_db_eq progress_def
      split: body_splits intro: stage_framed stmt_oks coherent_recv_gas)

interpretation gas_ack: relay_processor "AckTxGasCalculatorProcessor coin dec" for coin dec
  by unfold_locales
    (auto simp: AckTxGasCalculatorProcessor_def AckTxGasCalculator_Process_def on_db_eq progress_def
      split: body_splits intro: stage_framed stmt_oks coherent_ack_gas)

interpretation gas_timeout: relay_processor "TimeoutTxGasCalculatorProcessor coin dec" for coin dec
  by unfold_locales
    (auto simp: TimeoutTxGasCalculatorProcessor_def TimeoutTxGasCalculator_Process_def on_db_eq progress_def
      split: body_splits intro: stage_framed stmt_oks coherent_timeout_gas)

end
