(* ===== verification/Batches.thy ===== *)
theory Batches
  imports Retry
begin

text \<open>
  The processors that submit transactions for a batch of transfers: \<^verbatim>\<open>batch_recv_packet.go\<close>,
  \<^verbatim>\<open>batch_ack_packet.go\<close>, \<^verbatim>\<open>timeout_packet.go\<close>, with \<^verbatim>\<open>tx_submission_mapping.go\<close>. The three
  bodies have the same parts, in the same order: collect the transaction ids and the sequence
  numbers, ask the proof service for a transaction, deliver it, record it in one database
  transaction, mark the transfers. Each part is a definition here, and each processor composes
  them with its own arguments. The database part is proved once, in a locale over the
  statement that stores the transaction.
\<close>

section \<open>The parts\<close>

text \<open>
  The loop over the batch. \<open>hashOf\<close> is the transaction the proof is for, \<open>txSet\<close> the hashes
  seen; a hash that cannot be decoded marks its transfer and leaves it out of the request.
\<close>

fun collect_batch ::
  "(IBCV2Transfer \<Rightarrow> string result) \<Rightarrow> string list \<Rightarrow> IBCV2Transfer list \<Rightarrow>
     bytes list \<times> u64 list \<times> IBCV2Transfer list" where
  "collect_batch hashOf txSet [] = ([], [], [])"
| "collect_batch hashOf txSet (t # ts) =
     (case hashOf t of
        Inl err \<Rightarrow>
          (case collect_batch hashOf txSet ts of
             (ids, sqs, us) \<Rightarrow> (ids, sqs, t\<lparr>ProcessingError := Some err\<rparr> # us))
      | Inr h \<Rightarrow>
          if h \<in> set txSet then
            (case collect_batch hashOf txSet ts of (ids, sqs, us) \<Rightarrow> (ids, seq64 t # sqs, t # us))
          else
            (case hex_decode (trim_0x h) of
               Inl err \<Rightarrow>
                 (case collect_batch hashOf txSet ts of
                    (ids, sqs, us) \<Rightarrow>
                      (ids, sqs, t\<lparr>ProcessingError := Some (Wrapf ''decoding hex tx hash to bytes'' err)\<rparr> # us))
             | Inr txID \<Rightarrow>
                 (case collect_batch hashOf (h # txSet) ts of
                    (ids, sqs, us) \<Rightarrow> (txID # ids, seq64 t # sqs, t # us))))"

text \<open>From the request to the delivered transaction.\<close>

definition deliver_batch ::
  "env \<Rightarrow> world \<Rightarrow> string \<Rightarrow> RelayByTxRequest \<Rightarrow> world \<times> BridgeTx result" where
  "deliver_batch E w chain req =
     (let w1 = log_event (EvRelayByTx req) w in
      case RelayByTx E req of
        Inl err \<Rightarrow> (w1, Inl (Wrapf ''getting tx bytes from relay service'' err))
      | Inr resp \<Rightarrow>
          (case GetClient (clients E) chain of
             Inl err \<Rightarrow> (w1, Inl (Wrapf ''getting client for chain'' err))
           | Inr c \<Rightarrow>
               (case (if ClientChainType c = EVM then WaitForChain c else None) of
                  Some err \<Rightarrow> (w1, Inl (Wrapf ''waiting for chain'' err))
                | None \<Rightarrow>
                    (let w2 = log_event (EvDeliverTx chain (Tx resp) (Address resp)) w1 in
                     case DeliverTx c (Tx resp) (Address resp) of
                       Inl err \<Rightarrow> (w2, Inl (Wrapf ''signing and submitting tx bytes'' err))
                     | Inr tx \<Rightarrow> (w2, Inr tx)))))"

text \<open>The loop of updates inside the database transaction; errored transfers are skipped.\<close>

fun update_each ::
  "(transfer_key \<Rightarrow> database \<Rightarrow> database \<times> go_error option) \<Rightarrow> IBCV2Transfer list \<Rightarrow> database \<Rightarrow>
     database \<times> go_error option" where
  "update_each stmt [] d = (d, None)"
| "update_each stmt (t # ts) d =
     (if ProcessingError t \<noteq> None then update_each stmt ts d
      else
        (case stmt (transferKey t) d of
           (d', Some err) \<Rightarrow> (d', Some (Wrapf ''updating transfer'' err))
         | (d', None) \<Rightarrow> update_each stmt ts d'))"

fun insertTransferTxSubmissionMappings ::
  "db_env \<Rightarrow> i32 \<Rightarrow> IBCV2Transfer list \<Rightarrow> database \<Rightarrow> database \<times> go_error option" where
  "insertTransferTxSubmissionMappings D submissionID [] d = (d, None)"
| "insertTransferTxSubmissionMappings D submissionID (t # ts) d =
     (if ProcessingError t \<noteq> None then insertTransferTxSubmissionMappings D submissionID ts d
      else if GetID t = 0 then (d, Some (NewError ''transfer is missing db id''))
      else
        (case InsertIBCV2TransferTxSubmission D (GetID t) submissionID d of
           (d', Some err) \<Rightarrow> (d', Some (Wrapf ''inserting tx submission mapping'' err))
         | (d', None) \<Rightarrow> insertTransferTxSubmissionMappings D submissionID ts d'))"

text \<open>The function each body passes to \<^verbatim>\<open>ExecTx\<close>.\<close>

definition record_batch ::
  "db_env \<Rightarrow> (transfer_key \<Rightarrow> database \<Rightarrow> database \<times> go_error option) \<Rightarrow>
     Ibcv2RelayerTxSubmissionType \<Rightarrow> string \<Rightarrow> BridgeTx \<Rightarrow> IBCV2Transfer list \<Rightarrow> database \<Rightarrow>
     database \<times> go_error option" where
  "record_batch D stmt ty chain tx ts d =
     (case update_each stmt ts d of
        (d1, Some err) \<Rightarrow> (d1, Some err)
      | (d1, None) \<Rightarrow>
          if length (filter (\<lambda>t. ProcessingError t = None) ts) = 0 then (d1, None)
          else
            (case InsertIBCV2RelayerTxSubmission D (Hash tx) chain ty (RelayerAddress tx)
                    (Timestamp tx) SUB_PENDING d1 of
               (d2, Inl err) \<Rightarrow> (d2, Some (Wrapf ''inserting tx submission'' err))
             | (d2, Inr submissionID) \<Rightarrow>
                 (case insertTransferTxSubmissionMappings D submissionID ts d2 of
                    (d3, Some err) \<Rightarrow> (d3, Some (Wrapf ''inserting tx submission mappings'' err))
                  | (d3, None) \<Rightarrow> (d3, None))))"

text \<open>The database transaction and the loop that marks the transfers in memory.\<close>

definition finish_batch ::
  "env \<Rightarrow> (transfer_key \<Rightarrow> database \<Rightarrow> database \<times> go_error option) \<Rightarrow>
     Ibcv2RelayerTxSubmissionType \<Rightarrow> string \<Rightarrow> BridgeTx \<Rightarrow> (IBCV2Transfer \<Rightarrow> IBCV2Transfer) \<Rightarrow>
     IBCV2Transfer list \<Rightarrow> world \<Rightarrow> world \<times> IBCV2Transfer list result" where
  "finish_batch E stmt ty chain tx mark ts w =
     (case on_db (ExecTx (storage E) (record_batch (storage E) stmt ty chain tx ts)) w of
        (w', Some err) \<Rightarrow> (w', Inl (Wrapf ''updating batch transfers'' err))
      | (w', None) \<Rightarrow>
          (w', Inr (map (\<lambda>t. if ProcessingError t \<noteq> None then t else mark t) ts)))"

text \<open>The whole body.\<close>

definition submit_batch ::
  "(IBCV2Transfer \<Rightarrow> string result) \<Rightarrow> string \<Rightarrow> (bytes list \<Rightarrow> u64 list \<Rightarrow> RelayByTxRequest) \<Rightarrow>
     (db_env \<Rightarrow> BridgeTx \<Rightarrow> transfer_key \<Rightarrow> database \<Rightarrow> database \<times> go_error option) \<Rightarrow>
     Ibcv2RelayerTxSubmissionType \<Rightarrow> (BridgeTx \<Rightarrow> IBCV2Transfer \<Rightarrow> IBCV2Transfer) \<Rightarrow>
     env \<Rightarrow> world \<Rightarrow> IBCV2Transfer list \<Rightarrow> world \<times> IBCV2Transfer list result" where
  "submit_batch hashOf chain mkreq stmt ty mark E w ts =
     (case collect_batch hashOf [] ts of
        (txIDs, sequences, us) \<Rightarrow>
          (case deliver_batch E w chain (mkreq txIDs sequences) of
             (w1, Inl err) \<Rightarrow> (w1, Inl err)
           | (w1, Inr tx) \<Rightarrow> finish_batch E (stmt (storage E) tx) ty chain tx (mark tx) us w1))"

section \<open>The processors\<close>

record route =
  sourceChainID :: string
  sourceClientID :: string
  destinationChainID :: string
  destinationClientID :: string

definition mark_recv :: "BridgeTx \<Rightarrow> IBCV2Transfer \<Rightarrow> IBCV2Transfer" where
  "mark_recv tx t =
     t\<lparr>RecvTxHash := Some (Hash tx), RecvTxTime := Some (Timestamp tx),
       RecvTxRelayerAddress := Some (RelayerAddress tx)\<rparr>"

definition mark_ack :: "BridgeTx \<Rightarrow> IBCV2Transfer \<Rightarrow> IBCV2Transfer" where
  "mark_ack tx t = t\<lparr>AckTxHash := Some (Hash tx), AckTxTime := Some (Timestamp tx)\<rparr>"

definition mark_timeout :: "BridgeTx \<Rightarrow> IBCV2Transfer \<Rightarrow> IBCV2Transfer" where
  "mark_timeout tx t = t\<lparr>TimeoutTxHash := Some (Hash tx), TimeoutTxTime := Some (Timestamp tx)\<rparr>"

definition recv_hash :: "IBCV2Transfer \<Rightarrow> string result" where
  "recv_hash t = Inr (GetSourceTxHash t)"

definition ack_hash :: "IBCV2Transfer \<Rightarrow> string result" where
  "ack_hash t =
     (case GetWriteAckTxHash t of
        (h, ok) \<Rightarrow>
          if ok then Inr h
          else Inl (NewError ''trying to deliver ack packet, no write ack tx hash found''))"

definition recv_request :: "route \<Rightarrow> bytes list \<Rightarrow> u64 list \<Rightarrow> RelayByTxRequest" where
  "recv_request R txIDs sequences =
     \<lparr>SrcChain = sourceChainID R, DstChain = destinationChainID R, SourceTxIds = txIDs,
      TimeoutTxIds = [], SrcClientId = sourceClientID R, DstClientId = destinationClientID R,
      SrcPacketSequences = sequences, DstPacketSequences = []\<rparr>"

definition ack_request :: "route \<Rightarrow> bytes list \<Rightarrow> u64 list \<Rightarrow> RelayByTxRequest" where
  "ack_request R txIDs sequences =
     \<lparr>SrcChain = destinationChainID R, DstChain = sourceChainID R, SourceTxIds = txIDs,
      TimeoutTxIds = [], SrcClientId = destinationClientID R, DstClientId = sourceClientID R,
      SrcPacketSequences = [], DstPacketSequences = sequences\<rparr>"

definition timeout_request :: "route \<Rightarrow> bytes list \<Rightarrow> u64 list \<Rightarrow> RelayByTxRequest" where
  "timeout_request R txIDs sequences =
     \<lparr>SrcChain = destinationChainID R, DstChain = sourceChainID R, SourceTxIds = [],
      TimeoutTxIds = txIDs, SrcClientId = destinationClientID R, DstClientId = sourceClientID R,
      SrcPacketSequences = [], DstPacketSequences = sequences\<rparr>"

definition store_recv ::
  "db_env \<Rightarrow> BridgeTx \<Rightarrow> transfer_key \<Rightarrow> database \<Rightarrow> database \<times> go_error option" where
  "store_recv D tx k = UpdateTransferRecvTx D k (Hash tx) (Timestamp tx) (RelayerAddress tx)"

definition BatchRecvPacket_Process ::
  "route \<Rightarrow> env \<Rightarrow> world \<Rightarrow> IBCV2Transfer list \<Rightarrow> world \<times> IBCV2Transfer list result" where
  "BatchRecvPacket_Process R =
     submit_batch recv_hash (destinationChainID R) (recv_request R) store_recv RECV_PACKET mark_recv"

definition BatchRecvPacket_ShouldProcess :: "env \<Rightarrow> IBCV2Transfer \<Rightarrow> bool" where
  "BatchRecvPacket_ShouldProcess E t \<longleftrightarrow>
     \<not> snd (GetRecvTxHash t) \<and> \<not> IsTimedOut (now E (transferKey t)) t"

definition BatchRecvPacketProcessor :: "route \<Rightarrow> IBCV2BatchProcessor" where
  "BatchRecvPacketProcessor R =
     \<lparr>ShouldProcessB = BatchRecvPacket_ShouldProcess,
      ProcStateB = DELIVER_RECV_PACKET,
      ProcessB = BatchRecvPacket_Process R\<rparr>"

definition store_ack ::
  "db_env \<Rightarrow> BridgeTx \<Rightarrow> transfer_key \<Rightarrow> database \<Rightarrow> database \<times> go_error option" where
  "store_ack D tx k = UpdateTransferAckTx D k (Hash tx) (Timestamp tx) (RelayerAddress tx)"

definition BatchAckPacket_Process ::
  "route \<Rightarrow> env \<Rightarrow> world \<Rightarrow> IBCV2Transfer list \<Rightarrow> world \<times> IBCV2Transfer list result" where
  "BatchAckPacket_Process R =
     submit_batch ack_hash (sourceChainID R) (ack_request R) store_ack ACK_PACKET mark_ack"

definition BatchAckPacket_ShouldProcess ::
  "bool \<Rightarrow> bool \<Rightarrow> env \<Rightarrow> IBCV2Transfer \<Rightarrow> bool" where
  "BatchAckPacket_ShouldProcess shouldRelaySuccessAcks shouldRelayErrorAcks E t =
     (if \<not> snd (GetWriteAckTxHash t) then False
      else
        (case GetWriteAckStatus t of
           None \<Rightarrow> False
         | Some s \<Rightarrow>
             if (is_error_ack s \<and> \<not> shouldRelayErrorAcks) \<or> (is_success_ack s \<and> \<not> shouldRelaySuccessAcks)
             then False
             else \<not> snd (GetAckTxHash t) \<and> \<not> snd (GetTimeoutTxHash t)))"

definition BatchAckPacketProcessor :: "route \<Rightarrow> bool \<Rightarrow> bool \<Rightarrow> IBCV2BatchProcessor" where
  "BatchAckPacketProcessor R success err =
     \<lparr>ShouldProcessB = BatchAckPacket_ShouldProcess success err,
      ProcStateB = DELIVER_ACK_PACKET,
      ProcessB = BatchAckPacket_Process R\<rparr>"

definition store_timeout ::
  "db_env \<Rightarrow> BridgeTx \<Rightarrow> transfer_key \<Rightarrow> database \<Rightarrow> database \<times> go_error option" where
  "store_timeout D tx k = UpdateTransferTimeoutTx D k (Hash tx) (Timestamp tx) (RelayerAddress tx)"

definition BatchTimeoutPacket_Process ::
  "route \<Rightarrow> env \<Rightarrow> world \<Rightarrow> IBCV2Transfer list \<Rightarrow> world \<times> IBCV2Transfer list result" where
  "BatchTimeoutPacket_Process R =
     submit_batch recv_hash (sourceChainID R) (timeout_request R) store_timeout TIMEOUT_PACKET mark_timeout"

definition BatchTimeoutPacket_ShouldProcess :: "env \<Rightarrow> IBCV2Transfer \<Rightarrow> bool" where
  "BatchTimeoutPacket_ShouldProcess E t \<longleftrightarrow>
     (IsTimedOut (now E (transferKey t)) t \<and> \<not> snd (GetRecvTxHash t) \<and> \<not> snd (GetAckTxHash t)) \<and>
     \<not> snd (GetTimeoutTxHash t)"

definition BatchTimeoutPacketProcessor :: "route \<Rightarrow> IBCV2BatchProcessor" where
  "BatchTimeoutPacketProcessor R =
     \<lparr>ShouldProcessB = BatchTimeoutPacket_ShouldProcess,
      ProcStateB = DELIVER_TIMEOUT_PACKET,
      ProcessB = BatchTimeoutPacket_Process R\<rparr>"

section \<open>Recording a batch\<close>

lemma rollback_framed [simp]: "rows_framed K d (rollback d d1)"
  by (simp add: rows_framed_def lookup_transfer_def)

lemma insert_mappings:
  "insertTransferTxSubmissionMappings D sid ts d = (d', x) \<Longrightarrow>
     transfers d' = transfers d \<and> relay_requests d' = relay_requests d \<and>
     tx_submissions d' = tx_submissions d \<and> (db_ok d \<longrightarrow> db_ok d')"
  by (induction ts arbitrary: d)
    (auto simp: insert_mapping_tables dest: insert_mapping_ok split: if_splits prod.splits option.splits)

context row_statement
begin

lemma update_each_framed:
  "update_each stmt ts d = (d', x) \<Longrightarrow>
     rows_framed (transferKey ` set ts) d d' \<and> (db_ok d \<longrightarrow> db_ok d')"
proof (induction ts arbitrary: d)
  case (Cons t ts)
  show ?case
  proof (cases "ProcessingError t = None")
    case True
    obtain d1 y where s: "stmt (transferKey t) d = (d1, y)" by fastforce
    have f: "rows_framed (transferKey ` set (t # ts)) d d1" "db_ok d \<longrightarrow> db_ok d1"
      using stmt_framed [OF s] stmt_ok [OF s] by (auto intro: rows_framed_mono)
    show ?thesis
    proof (cases y)
      case None
      then have "update_each stmt ts d1 = (d', x)" using Cons.prems True s by simp
      from Cons.IH [OF this] f show ?thesis
        by (auto intro: rows_framed_trans rows_framed_mono)
    next
      case (Some e)
      then show ?thesis using Cons.prems True s f by auto
    qed
  next
    case False
    then have "update_each stmt ts d = (d', x)" using Cons.prems by simp
    from Cons.IH [OF this] show ?thesis by (auto intro: rows_framed_mono)
  qed
qed simp

lemma update_each_lookup:
  "update_each stmt ts d = (d', None) \<Longrightarrow> distinct (map transferKey ts) \<Longrightarrow>
     lookup_transfer d' k =
       (if k \<in> transferKey ` {t \<in> set ts. ProcessingError t = None}
        then map_option f (lookup_transfer d k) else lookup_transfer d k)"
proof (induction ts arbitrary: d)
  case (Cons t ts)
  show ?case
  proof (cases "ProcessingError t = None")
    case True
    obtain d1 where s: "stmt (transferKey t) d = (d1, None)" "update_each stmt ts d1 = (d', None)"
      using Cons.prems True by (auto split: prod.splits option.splits)
    have t: "transferKey t \<notin> transferKey ` {t \<in> set ts. ProcessingError t = None}"
      using Cons.prems(2) by auto
    show ?thesis
      using Cons.IH [OF s(2)] Cons.prems(2) stmt_lookup [OF s(1)] t True
      by (cases "k = transferKey t") (auto simp: image_iff)
  next
    case False
    then show ?thesis using Cons by (auto simp: image_iff)
  qed
qed simp

lemma record_batch_framed:
  assumes "record_batch D stmt ty chain tx ts d = (d', x)"
  shows "rows_framed (transferKey ` set ts) d d' \<and> (db_ok d \<longrightarrow> db_ok d')"
proof -
  obtain d1 y where u: "update_each stmt ts d = (d1, y)" by fastforce
  have s: "rows_framed K d1 d2 \<and> (db_ok d1 \<longrightarrow> db_ok d2)"
    if "InsertIBCV2RelayerTxSubmission D (Hash tx) chain ty (RelayerAddress tx) (Timestamp tx)
          SUB_PENDING d1 = (d2, z)" for K d2 z
    using insert_submission_tables [OF that] insert_submission_ok [OF that]
    by (auto simp: rows_framed_def lookup_transfer_def)
  have m: "rows_framed K d2 d3 \<and> (db_ok d2 \<longrightarrow> db_ok d3)"
    if "insertTransferTxSubmissionMappings D sid ts d2 = (d3, z)" for K sid d2 d3 z
    using insert_mappings [OF that] by (auto simp: rows_framed_def lookup_transfer_def)
  show ?thesis
    using assms u update_each_framed [OF u]
    by (auto simp: record_batch_def split: prod.splits option.splits if_splits sum.splits
        dest!: s m intro: rows_framed_trans)
qed

lemma record_batch_lookup:
  assumes "record_batch D stmt ty chain tx ts d = (d', None)"
  shows "\<exists>d1. update_each stmt ts d = (d1, None) \<and> transfers d' = transfers d1"
  using assms
  by (auto simp: record_batch_def split: prod.splits option.splits if_splits sum.splits
      dest!: insert_mappings insert_submission_tables(1))

end

text \<open>
  A statement and the assignments that mark a transfer in memory, which keep each other in
  step. One instance per kind of packet.
\<close>

locale batch_submission = row_statement +
  fixes mark :: "IBCV2Transfer \<Rightarrow> IBCV2Transfer"
  assumes mark_agrees: "agrees r t \<Longrightarrow> agrees (f r) (mark t)"
    and mark_keeps: "identity (mark t) = identity t" "ProcessingError (mark t) = ProcessingError t"
begin

lemma finish_keeps:
  "finish_batch E stmt ty chain tx mark ts w = (w', Inr ts') \<Longrightarrow> map identity ts' = map identity ts"
  by (auto simp: finish_batch_def mark_keeps split: prod.splits option.splits)

lemma finish_framed:
  assumes "finish_batch E stmt ty chain tx mark ts w = (w', x)"
  shows "rows_framed (transferKey ` set ts) (db w) (db w')" "db_ok (db w) \<Longrightarrow> db_ok (db w')"
    "events w' = events w"
proof -
  obtain d' y where e: "w' = w\<lparr>db := d'\<rparr>"
    "ExecTx (storage E) (record_batch (storage E) stmt ty chain tx ts) (db w) = (d', y)"
    using assms by (auto simp: finish_batch_def on_db_def split: prod.splits option.splits)
  have "rows_framed (transferKey ` set ts) (db w) d' \<and> (db_ok (db w) \<longrightarrow> db_ok d')"
    using e(2) by (cases rule: ExecTx_cases) (auto dest: record_batch_framed)
  then show "rows_framed (transferKey ` set ts) (db w) (db w')" "db_ok (db w) \<Longrightarrow> db_ok (db w')"
    "events w' = events w"
    using e(1) by simp_all
qed

lemma finish_in_step:
  assumes fin: "finish_batch E stmt ty chain tx mark ts w = (w', Inr ts')"
    and dist: "distinct (map transferKey ts)" and inv: "\<forall>t \<in> set ts. in_step (db w) t"
  shows "\<forall>t \<in> set ts'. in_step (db w') t"
proof -
  obtain d' where e: "db w' = d'"
    "ExecTx (storage E) (record_batch (storage E) stmt ty chain tx ts) (db w) = (d', None)"
    and ts': "ts' = map (\<lambda>t. if ProcessingError t \<noteq> None then t else mark t) ts"
    using fin by (auto simp: finish_batch_def on_db_eq split: prod.splits option.splits)
  have "record_batch (storage E) stmt ty chain tx ts (db w) = (d', None)"
    using e(2) by (cases rule: ExecTx_cases) auto
  then obtain d1 where d1: "update_each stmt ts (db w) = (d1, None)" "transfers d' = transfers d1"
    using record_batch_lookup by blast
  have look: "lookup_transfer d' (transferKey t) = map_option f (lookup_transfer (db w) (transferKey t))"
    if "t \<in> set ts" "ProcessingError t = None" for t
    using update_each_lookup [OF d1(1) dist, of "transferKey t"] d1(2) that
    by (auto simp: lookup_transfer_def)
  have "coherent d' (mark t)" if "t \<in> set ts" "ProcessingError t = None" for t
    using look [OF that] inv that mark_agrees identity_key [OF mark_keeps(1), of t]
    by (auto simp: in_step_def coherent_def)
  then show ?thesis using e(1) by (auto simp: ts' in_step_def)
qed

end

interpretation recv_submission: batch_submission
    "store_recv D tx"
    "\<lambda>r. r\<lparr>r_UpdatedAt := db_now D, r_RecvTxHash := Some (Hash tx), r_RecvTxTime := Some (Timestamp tx),
         r_RecvTxRelayerAddress := Some (RelayerAddress tx)\<rparr>"
    "mark_recv tx" for D tx
  by unfold_locales (auto simp: agrees_def identity_def mark_recv_def NewIBCV2Transfer_def
      store_recv_def UpdateTransferRecvTx_def row_ends_def dest: set_rows_cases)

interpretation ack_submission: batch_submission
    "store_ack D tx"
    "\<lambda>r. r\<lparr>r_UpdatedAt := db_now D, r_AckTxHash := Some (Hash tx), r_AckTxTime := Some (Timestamp tx),
         r_AckTxRelayerAddress := Some (RelayerAddress tx)\<rparr>"
    "mark_ack tx" for D tx
  by unfold_locales (auto simp: agrees_def identity_def mark_ack_def NewIBCV2Transfer_def
      store_ack_def UpdateTransferAckTx_def row_ends_def dest: set_rows_cases)

interpretation timeout_submission: batch_submission
    "store_timeout D tx"
    "\<lambda>r. r\<lparr>r_UpdatedAt := db_now D, r_TimeoutTxHash := Some (Hash tx),
         r_TimeoutTxTime := Some (Timestamp tx), r_TimeoutTxRelayerAddress := Some (RelayerAddress tx)\<rparr>"
    "mark_timeout tx" for D tx
  by unfold_locales (auto simp: agrees_def identity_def mark_timeout_def NewIBCV2Transfer_def
      store_timeout_def UpdateTransferTimeoutTx_def row_ends_def dest: set_rows_cases)

section \<open>Contracts\<close>

text \<open>What the collection loop keeps, and what the request holds.\<close>

lemma collect_identity:
  "collect_batch hashOf txSet ts = (ids, sqs, us) \<Longrightarrow> map identity us = map identity ts"
  by (induction ts arbitrary: txSet ids sqs us)
    (auto split: sum.splits prod.splits if_splits)

lemma in_step_errored [simp]: "in_step d (t\<lparr>ProcessingError := Some e\<rparr>)"
  by (simp add: in_step_def)

lemma collect_in_step:
  "collect_batch hashOf txSet ts = (ids, sqs, us) \<Longrightarrow> list_all (in_step d) ts \<Longrightarrow>
     list_all (in_step d) us"
  by (induction ts arbitrary: txSet ids sqs us)
    (auto split: sum.splits prod.splits if_splits)

lemma identity_keys: "map identity us = map identity ts \<Longrightarrow> map transferKey us = map transferKey ts"
  by (simp only: map_key_identity)

text \<open>
  The transfers that go on without an error are the ones whose sequence number is in the
  request, in the order of the batch.
\<close>

lemma collect_sequences:
  "collect_batch hashOf txSet ts = (ids, sqs, us) \<Longrightarrow> \<forall>t \<in> set ts. ProcessingError t = None \<Longrightarrow>
     sqs = map seq64 (filter (\<lambda>t. ProcessingError t = None) us)"
  by (induction ts arbitrary: txSet ids sqs us)
    (auto simp: seq64_def split: sum.splits prod.splits if_splits)

lemma deliver_db: "deliver_batch E w chain req = (w', x) \<Longrightarrow> db w' = db w"
  by (auto simp: deliver_batch_def Let_def split: sum.splits option.splits if_splits)

text \<open>A body whose statement and marking are in step keeps the contract of a batch processor.\<close>

lemma submit_batch_cases:
  assumes "submit_batch hashOf chain mkreq stmt ty mark E w ts = (w', x)"
  obtains (undelivered) ids sqs us err where "collect_batch hashOf [] ts = (ids, sqs, us)"
      "deliver_batch E w chain (mkreq ids sqs) = (w', Inl err)" "x = Inl err"
    | (delivered) ids sqs us w1 tx where "collect_batch hashOf [] ts = (ids, sqs, us)"
      "deliver_batch E w chain (mkreq ids sqs) = (w1, Inr tx)"
      "finish_batch E (stmt (storage E) tx) ty chain tx (mark tx) us w1 = (w', x)"
  using assms by (auto simp: submit_batch_def split: prod.splits sum.splits)

lemma submit_batch_contract:
  assumes sub: "\<And>D tx. batch_submission (stmt D tx) (f D tx) (mark tx)"
    and p: "ProcessB p = submit_batch hashOf chain mkreq stmt ty mark"
  shows "stage_batch_processor p"
proof
  fix E w ts w' ts' x
  {
    assume "ProcessB p E w ts = (w', Inr ts')"
    then show "map identity ts' = map identity ts"
      unfolding p
      by (cases rule: submit_batch_cases)
        (auto dest!: batch_submission.finish_keeps [OF sub] collect_identity)
  }
  {
    assume proc: "ProcessB p E w ts = (w', Inr ts')" and d: "distinct (map transferKey ts)"
      and i: "\<forall>t \<in> set ts. in_step (db w) t"
    from proc show "\<forall>t \<in> set ts'. in_step (db w') t"
      unfolding p
    proof (cases rule: submit_batch_cases)
      case (delivered ids sqs us w1 tx)
      show ?thesis
        using batch_submission.finish_in_step [OF sub delivered(3)] deliver_db [OF delivered(2)]
          collect_in_step [OF delivered(1), of "db w"] d i
          identity_keys [OF collect_identity [OF delivered(1)]]
        by (simp add: list_all_iff)
    qed simp
  }
  assume "ProcessB p E w ts = (w', x)"
  then have "rows_framed (transferKey ` set ts) (db w) (db w') \<and> (db_ok (db w) \<longrightarrow> db_ok (db w'))"
    unfolding p
  proof (cases rule: submit_batch_cases)
    case (undelivered ids sqs us err)
    then show ?thesis by (simp add: deliver_db)
  next
    case (delivered ids sqs us w1 tx)
    have "transferKey ` set us = transferKey ` set ts"
      using identity_keys [OF collect_identity [OF delivered(1)]] by (metis list.set_map)
    then show ?thesis
      using batch_submission.finish_framed [OF sub delivered(3)] deliver_db [OF delivered(2)] by simp
  qed
  then show "rows_framed (transferKey ` set ts) (db w) (db w')"
    and "db_ok (db w) \<Longrightarrow> db_ok (db w')" by simp_all
qed

text \<open>With a marking that only adds, the body also keeps what the transfers have reached.\<close>

lemma collect_progress:
  "collect_batch hashOf txSet ts = (ids, sqs, us) \<Longrightarrow> list_all2 progress ts us"
  by (induction ts arbitrary: txSet ids sqs us) (auto split: sum.splits prod.splits if_splits)

lemma collect_loud:
  assumes "\<And>t err. hashOf t = Inl err \<Longrightarrow> error_string err \<noteq> []"
  shows "collect_batch hashOf txSet ts = (ids, sqs, us) \<Longrightarrow> list_all loud ts \<Longrightarrow> list_all loud us"
  by (induction ts arbitrary: txSet ids sqs us)
    (auto split: sum.splits prod.splits if_splits dest: assms)

lemma deliver_loud: "deliver_batch E w chain req = (w', Inl err) \<Longrightarrow> error_string err \<noteq> []"
  by (auto simp: deliver_batch_def Let_def split: sum.splits option.splits if_splits)

lemma finish_loud:
  "finish_batch E stmt ty chain tx mark ts w = (w', Inl err) \<Longrightarrow> error_string err \<noteq> []"
  by (auto simp: finish_batch_def split: prod.splits option.splits)

lemma finish_result:
  "finish_batch E stmt ty chain tx mark ts w = (w', Inr ts') \<Longrightarrow>
     ts' = map (\<lambda>t. if ProcessingError t \<noteq> None then t else mark t) ts"
  by (auto simp: finish_batch_def split: prod.splits option.splits)

lemma submit_batch_relay:
  assumes sub: "\<And>D tx. batch_submission (stmt D tx) (f D tx) (mark tx)"
    and p: "ProcessB p = submit_batch hashOf chain mkreq stmt ty mark"
    and adds: "\<And>tx t. progress t (mark tx t)"
    and texts: "\<And>t err. hashOf t = Inl err \<Longrightarrow> error_string err \<noteq> []"
  shows "relay_batch_processor p"
proof (rule relay_batch_processor.intro [OF submit_batch_contract [OF sub p]], unfold_locales)
  fix E w ts w' ts' err
  {
    assume "ProcessB p E w ts = (w', Inr ts')"
    then show "list_all2 progress ts ts'"
      unfolding p
    proof (cases rule: submit_batch_cases)
      case (delivered ids sqs us w1 tx)
      have "progress t (if ProcessingError u \<noteq> None then u else mark tx u)" if "progress t u" for t u
        using that adds progress_trans by auto
      then show ?thesis
        using finish_result [OF delivered(3)] collect_progress [OF delivered(1)]
        by (simp add: list_all2_conv_all_nth)
    qed simp
  }
  {
    assume "ProcessB p E w ts = (w', Inr ts')" and l: "list_all loud ts"
    then show "list_all loud ts'"
      unfolding p
    proof (cases rule: submit_batch_cases)
      case (delivered ids sqs us w1 tx)
      have "loud (mark tx t)" if "ProcessingError t = None" for t
        using batch_submission.mark_keeps(2) [OF sub, of tx t] that by (simp add: loud_def)
      then show ?thesis
        using finish_result [OF delivered(3)] collect_loud [OF texts delivered(1) l]
        by (auto simp: list_all_iff)
    qed simp
  }
  assume "ProcessB p E w ts = (w', Inl err)"
  then show "error_string err \<noteq> []"
    unfolding p by (cases rule: submit_batch_cases) (auto dest: deliver_loud finish_loud)
qed

lemma mark_progress: "progress t (mark_recv tx t)" "progress t (mark_ack tx t)" "progress t (mark_timeout tx t)"
  by (simp_all add: progress_def mark_recv_def mark_ack_def mark_timeout_def)

lemma hash_texts:
  "recv_hash t = Inl err \<Longrightarrow> error_string err \<noteq> []" "ack_hash t = Inl err \<Longrightarrow> error_string err \<noteq> []"
  by (auto simp: recv_hash_def ack_hash_def split: prod.splits if_splits)

interpretation batch_recv: relay_batch_processor "BatchRecvPacketProcessor R" for R
  by (rule submit_batch_relay [OF recv_submission.batch_submission_axioms _ mark_progress(1) hash_texts(1)])
    (simp_all add: BatchRecvPacketProcessor_def BatchRecvPacket_Process_def)

interpretation batch_ack: relay_batch_processor "BatchAckPacketProcessor R succ err" for R succ err
  by (rule submit_batch_relay [OF ack_submission.batch_submission_axioms _ mark_progress(2) hash_texts(2)])
    (simp_all add: BatchAckPacketProcessor_def BatchAckPacket_Process_def)

interpretation batch_timeout: relay_batch_processor "BatchTimeoutPacketProcessor R" for R
  by (rule submit_batch_relay [OF timeout_submission.batch_submission_axioms _ mark_progress(3) hash_texts(1)])
    (simp_all add: BatchTimeoutPacketProcessor_def BatchTimeoutPacket_Process_def)

section \<open>What a batch leaves behind\<close>

lemma insert_mapping_grows:
  "InsertIBCV2TransferTxSubmission D tid sid d = (d', x) \<Longrightarrow>
     set (transfer_tx_submissions d) \<subseteq> set (transfer_tx_submissions d') \<and>
     (x = None \<longrightarrow> \<lparr>ts_TransferID = tid, ts_SubmissionID = sid\<rparr> \<in> set (transfer_tx_submissions d'))"
  by (auto simp: InsertIBCV2TransferTxSubmission_def Let_def split: option.splits if_splits)

lemma mappings_complete:
  "insertTransferTxSubmissionMappings D sid ts d = (d', None) \<Longrightarrow>
     set (transfer_tx_submissions d) \<subseteq> set (transfer_tx_submissions d') \<and>
     (\<forall>t \<in> set ts. ProcessingError t = None \<longrightarrow>
        \<lparr>ts_TransferID = ID t, ts_SubmissionID = sid\<rparr> \<in> set (transfer_tx_submissions d'))"
proof (induction ts arbitrary: d)
  case (Cons t ts)
  show ?case
  proof (cases "ProcessingError t = None")
    case True
    obtain d1 where d1: "InsertIBCV2TransferTxSubmission D (ID t) sid d = (d1, None)"
        "insertTransferTxSubmissionMappings D sid ts d1 = (d', None)"
      using Cons.prems True by (auto split: if_splits prod.splits option.splits)
    show ?thesis using insert_mapping_grows [OF d1(1)] Cons.IH [OF d1(2)] by auto
  next
    case False
    then show ?thesis using Cons by auto
  qed
qed simp

lemma insert_submission_effect:
  "InsertIBCV2RelayerTxSubmission D h chain ty addr tm st d = (d', Inr sid) \<Longrightarrow>
     \<exists>s \<in> set (tx_submissions d'). s_ID s = sid \<and> s_TxHash s = h \<and> s_ChainID s = chain \<and>
       s_TxType s = ty \<and> s_RelayerAddress s = addr \<and> s_Status s = st"
  by (auto simp: InsertIBCV2RelayerTxSubmission_def Let_def split: option.splits if_splits)

lemma record_batch_submission:
  assumes "record_batch D stmt ty chain tx ts d = (d', None)" "\<exists>t \<in> set ts. ProcessingError t = None"
  shows "\<exists>s \<in> set (tx_submissions d'). s_TxHash s = Hash tx \<and> s_ChainID s = chain \<and> s_TxType s = ty \<and>
    s_Status s = SUB_PENDING \<and>
    (\<forall>t \<in> set ts. ProcessingError t = None \<longrightarrow>
       \<lparr>ts_TransferID = ID t, ts_SubmissionID = s_ID s\<rparr> \<in> set (transfer_tx_submissions d'))"
proof -
  have "filter (\<lambda>t. ProcessingError t = None) ts \<noteq> []"
    using assms(2) by (auto simp: filter_empty_conv)
  then obtain d1 d2 sid where
    ins: "InsertIBCV2RelayerTxSubmission D (Hash tx) chain ty (RelayerAddress tx) (Timestamp tx)
            SUB_PENDING d1 = (d2, Inr sid)"
    and maps: "insertTransferTxSubmissionMappings D sid ts d2 = (d', None)"
    using assms(1)
    by (auto simp: record_batch_def split: prod.splits option.splits sum.splits if_splits)
  have "tx_submissions d' = tx_submissions d2" using insert_mappings [OF maps] by simp
  then show ?thesis
    using insert_submission_effect [OF ins] mappings_complete [OF maps] by metis
qed

lemma deliver_events:
  assumes "deliver_batch E w chain req = (w', Inr tx)"
  shows "\<exists>resp. RelayByTx E req = Inr resp \<and>
    events w' = events w @ [EvRelayByTx req, EvDeliverTx chain (Tx resp) (Address resp)]"
  using assms by (auto simp: deliver_batch_def Let_def split: sum.splits option.splits if_splits)

lemma finish_commit:
  assumes "finish_batch E stmt ty chain tx mark ts w = (w', Inr ts')"
  shows "record_batch (storage E) stmt ty chain tx ts (db w) = (db w', None) \<and> events w' = events w"
proof -
  have e: "ExecTx (storage E) (record_batch (storage E) stmt ty chain tx ts) (db w) = (db w', None)"
    "events w' = events w"
    using assms by (auto simp: finish_batch_def on_db_eq split: prod.splits option.splits)
  from e(1) show ?thesis by (cases rule: ExecTx_cases) (auto simp: e(2))
qed

text \<open>
  What a submission that succeeds leaves behind: one request with the sequence numbers of the
  transfers that go on, one delivered transaction, one pending submission row, a mapping row per
  transfer, and rows that agree with the marked transfers.
\<close>

definition batch_recorded ::
  "env \<Rightarrow> world \<Rightarrow> world \<Rightarrow> string \<Rightarrow> (u64 list \<Rightarrow> RelayByTxRequest) \<Rightarrow> Ibcv2RelayerTxSubmissionType \<Rightarrow>
     BridgeTx \<Rightarrow> IBCV2Transfer list \<Rightarrow> bool" where
  "batch_recorded E w w' chain req ty tx sent \<longleftrightarrow>
     (\<exists>resp. RelayByTx E (req (map seq64 sent)) = Inr resp \<and>
        events w' = events w @
          [EvRelayByTx (req (map seq64 sent)), EvDeliverTx chain (Tx resp) (Address resp)]) \<and>
     (\<exists>s \<in> set (tx_submissions (db w')). s_TxHash s = Hash tx \<and> s_ChainID s = chain \<and>
        s_TxType s = ty \<and> s_Status s = SUB_PENDING \<and>
        (\<forall>t \<in> set sent. \<lparr>ts_TransferID = ID t, ts_SubmissionID = s_ID s\<rparr>
           \<in> set (transfer_tx_submissions (db w')))) \<and>
     (\<forall>t \<in> set sent. coherent (db w') t)"

lemma submit_batch_recorded:
  assumes sub: "\<And>D tx. batch_submission (stmt D tx) (f D tx) (mark tx)"
    and proc: "submit_batch hashOf chain mkreq stmt ty mark E w ts = (w', Inr ts')"
    and fresh: "\<forall>t \<in> set ts. ProcessingError t = None \<and> coherent (db w) t"
    and dist: "distinct (map transferKey ts)"
    and some: "\<exists>t \<in> set ts'. ProcessingError t = None"
  shows "\<exists>ids tx. batch_recorded E w w' chain (mkreq ids) ty tx
      (filter (\<lambda>t. ProcessingError t = None) ts') \<and>
    (\<forall>t \<in> set ts'. ProcessingError t = None \<longrightarrow> (\<exists>u. t = mark tx u))"
  using proc
proof (cases rule: submit_batch_cases)
  case (delivered ids sqs us w1 tx)
  let ?sent = "filter (\<lambda>t. ProcessingError t = None) ts'"
  have ts': "ts' = map (\<lambda>t. if ProcessingError t \<noteq> None then t else mark tx t) us"
    using finish_result [OF delivered(3)] .
  have keep: "ProcessingError (mark tx t) = ProcessingError t" "ID (mark tx t) = ID t"
    "seq64 (mark tx t) = seq64 t" for t
    using batch_submission.mark_keeps [OF sub, of tx t] by (simp_all add: identity_def seq64_def)
  have sent: "?sent = map (mark tx) (filter (\<lambda>t. ProcessingError t = None) us)"
    unfolding ts' by (induction us) (auto simp: keep)
  have sqs: "sqs = map seq64 ?sent"
    using collect_sequences [OF delivered(1)] fresh by (simp add: sent keep comp_def)
  have rb: "record_batch (storage E) (stmt (storage E) tx) ty chain tx us (db w1) = (db w', None)"
    "events w' = events w1"
    using finish_commit [OF delivered(3)] by auto
  have "\<exists>t \<in> set us. ProcessingError t = None"
    using some by (auto simp: ts' keep split: if_splits)
  from record_batch_submission [OF rb(1) this]
  have subm: "\<exists>s \<in> set (tx_submissions (db w')). s_TxHash s = Hash tx \<and> s_ChainID s = chain \<and>
        s_TxType s = ty \<and> s_Status s = SUB_PENDING \<and>
        (\<forall>t \<in> set ?sent. \<lparr>ts_TransferID = ID t, ts_SubmissionID = s_ID s\<rparr>
           \<in> set (transfer_tx_submissions (db w')))"
    by (auto simp: sent keep)
  have "\<forall>t \<in> set us. in_step (db w1) t"
    using collect_in_step [OF delivered(1), of "db w"] fresh deliver_db [OF delivered(2)]
    by (simp add: list_all_iff in_step_def)
  then have "\<forall>t \<in> set ts'. in_step (db w') t"
    using batch_submission.finish_in_step [OF sub delivered(3)] dist
      identity_keys [OF collect_identity [OF delivered(1)]] by simp
  then have "\<forall>t \<in> set ?sent. coherent (db w') t" by (auto simp: in_step_def)
  then have "batch_recorded E w w' chain (mkreq ids) ty tx ?sent"
    using deliver_events [OF delivered(2)] rb(2) sqs subm by (auto simp: batch_recorded_def)
  moreover have "\<forall>t \<in> set ts'. ProcessingError t = None \<longrightarrow> (\<exists>u. t = mark tx u)"
    by (auto simp: ts' split: if_splits)
  ultimately show ?thesis by blast
qed simp

lemma submit_batch_aborts:
  assumes "submit_batch hashOf chain mkreq stmt ty mark E w ts = (w', Inl err)"
  shows "transfers (db w') = transfers (db w) \<and> tx_submissions (db w') = tx_submissions (db w) \<and>
    transfer_tx_submissions (db w') = transfer_tx_submissions (db w)"
  using assms
proof (cases rule: submit_batch_cases)
  case (undelivered ids sqs us e)
  then show ?thesis by (simp add: deliver_db)
next
  case (delivered ids sqs us w1 tx)
  obtain d' y where e: "w' = w1\<lparr>db := d'\<rparr>" "y \<noteq> None"
    "ExecTx (storage E) (record_batch (storage E) (stmt (storage E) tx) ty chain tx us) (db w1) = (d', y)"
    using delivered(3) by (auto simp: finish_batch_def on_db_eq split: prod.splits option.splits)
  from e(3) show ?thesis
    by (cases rule: ExecTx_cases) (use e deliver_db [OF delivered(2)] in auto)
qed

end
