(* ===== verification/PipelineOpts.thy ===== *)
theory PipelineOpts
  imports Bridge
begin

text \<open>
  \<^verbatim>\<open>relayer/ibcv2/pipeline_opts.go\<close>: the options of a pipeline, computed from the configuration
  of the two chains of a transfer, with the defaults where a value is unset.
\<close>

record PipelineOptions =
  ShouldRelaySuccessAcks :: bool
  ShouldRelayErrorAcks :: bool
  AckBatchSize :: int
  AckBatchTimeout :: duration
  AckBatchConcurrency :: int
  RecvBatchSize :: int
  RecvBatchTimeout :: duration
  RecvBatchConcurrency :: int
  TimeoutBatchSize :: int
  TimeoutBatchTimeout :: duration
  TimeoutBatchConcurrency :: int
  SourceChainGasTokenCoingeckoID :: string
  SourceChainGasTokenDecimals :: u8
  DestinationChainGasTokenCoingeckoID :: string
  DestinationChainGasTokenDecimals :: u8
  SourceFinalityOffset :: "u64 option"
  DestinationFinalityOffset :: "u64 option"

definition DefaultShouldRelaySuccessAcks :: bool where "DefaultShouldRelaySuccessAcks = False"
definition DefaultShouldRelayErrorAcks :: bool where "DefaultShouldRelayErrorAcks = True"
definition DefaultAckBatchSize :: int where "DefaultAckBatchSize = 50"
definition DefaultAckBatchTimeout :: duration where "DefaultAckBatchTimeout = 10 * second"
definition DefaultAckBatchConcurrency :: int where "DefaultAckBatchConcurrency = 10"
definition DefaultRecvBatchSize :: int where "DefaultRecvBatchSize = 50"
definition DefaultRecvBatchTimeout :: duration where "DefaultRecvBatchTimeout = 10 * second"
definition DefaultRecvBatchConcurrency :: int where "DefaultRecvBatchConcurrency = 10"
definition DefaultTimeoutBatchSize :: int where "DefaultTimeoutBatchSize = 50"
definition DefaultTimeoutBatchTimeout :: duration where "DefaultTimeoutBatchTimeout = 1 * minute"
definition DefaultTimeoutBatchConcurrency :: int where "DefaultTimeoutBatchConcurrency = 10"

lemmas default_defs =
  DefaultShouldRelaySuccessAcks_def DefaultShouldRelayErrorAcks_def DefaultAckBatchSize_def
  DefaultAckBatchTimeout_def DefaultAckBatchConcurrency_def DefaultRecvBatchSize_def
  DefaultRecvBatchTimeout_def DefaultRecvBatchConcurrency_def DefaultTimeoutBatchSize_def
  DefaultTimeoutBatchTimeout_def DefaultTimeoutBatchConcurrency_def

definition NewDefaultPipelineOpts :: PipelineOptions where
  "NewDefaultPipelineOpts =
     \<lparr>ShouldRelaySuccessAcks = False,
      ShouldRelayErrorAcks = True,
      AckBatchSize = DefaultAckBatchSize,
      AckBatchTimeout = DefaultAckBatchTimeout,
      AckBatchConcurrency = DefaultAckBatchConcurrency,
      RecvBatchSize = DefaultRecvBatchSize,
      RecvBatchTimeout = DefaultRecvBatchTimeout,
      RecvBatchConcurrency = DefaultRecvBatchSize,
      TimeoutBatchSize = DefaultTimeoutBatchSize,
      TimeoutBatchTimeout = DefaultTimeoutBatchTimeout,
      TimeoutBatchConcurrency = DefaultTimeoutBatchConcurrency,
      SourceChainGasTokenCoingeckoID = [],
      SourceChainGasTokenDecimals = 0,
      DestinationChainGasTokenCoingeckoID = [],
      DestinationChainGasTokenDecimals = 0,
      SourceFinalityOffset = None,
      DestinationFinalityOffset = None\<rparr>"

definition NewSmallPipelineOpts :: PipelineOptions where
  "NewSmallPipelineOpts =
     \<lparr>ShouldRelaySuccessAcks = False,
      ShouldRelayErrorAcks = True,
      AckBatchSize = 3,
      AckBatchTimeout = 250 * millisecond,
      AckBatchConcurrency = 2,
      RecvBatchSize = 3,
      RecvBatchTimeout = 250 * millisecond,
      RecvBatchConcurrency = 2,
      TimeoutBatchSize = 3,
      TimeoutBatchTimeout = 250 * millisecond,
      TimeoutBatchConcurrency = 2,
      SourceChainGasTokenCoingeckoID = [],
      SourceChainGasTokenDecimals = 0,
      DestinationChainGasTokenCoingeckoID = [],
      DestinationChainGasTokenDecimals = 0,
      SourceFinalityOffset = None,
      DestinationFinalityOffset = None\<rparr>"

text \<open>\<^verbatim>\<open>v := def; if cfg != 0 { v = cfg }\<close>\<close>

definition or_default :: "int \<Rightarrow> int \<Rightarrow> int" where
  "or_default cfg def = (if cfg \<noteq> 0 then cfg else def)"

text \<open>
  The conditions the code repeats on the two configurations after its early returns (a nil check
  on the source configuration, a zero check on the decimals) do not change the value assigned.
\<close>

definition NewPipelineOpts :: "configReader \<Rightarrow> IBCV2Transfer \<Rightarrow> PipelineOptions result" where
  "NewPipelineOpts cfg transfer =
     (case GetChainConfig cfg (GetSourceChainID transfer) of
        Inl err \<Rightarrow> Inl (Wrapf ''getting config for chain'' err)
      | Inr sourceChainConfig \<Rightarrow>
     (case GetChainConfig cfg (GetDestinationChainID transfer) of
        Inl err \<Rightarrow> Inl (Wrapf ''getting config for chain'' err)
      | Inr destinationChainConfig \<Rightarrow>
     (case IBCV2 sourceChainConfig of
        None \<Rightarrow> Inl (NewError ''no ibcv2 config for source chain'')
      | Some src \<Rightarrow>
     (case IBCV2 destinationChainConfig of
        None \<Rightarrow> Inl (NewError ''no ibcv2 config for destination chain'')
      | Some dst \<Rightarrow>
          Inr
            \<lparr>ShouldRelaySuccessAcks = cfgShouldRelaySuccessAcks src,
             ShouldRelayErrorAcks = cfgShouldRelayErrorAcks src,
             AckBatchSize = or_default (cfgAckBatchSize src) DefaultAckBatchSize,
             AckBatchTimeout = or_default (cfgAckBatchTimeout src) DefaultAckBatchTimeout,
             AckBatchConcurrency = or_default (cfgAckBatchConcurrency src) DefaultAckBatchConcurrency,
             RecvBatchSize = or_default (cfgRecvBatchSize dst) DefaultRecvBatchSize,
             RecvBatchTimeout = or_default (cfgRecvBatchTimeout dst) DefaultRecvBatchTimeout,
             RecvBatchConcurrency = or_default (cfgRecvBatchConcurrency dst) DefaultRecvBatchConcurrency,
             TimeoutBatchSize = or_default (cfgTimeoutBatchSize src) DefaultTimeoutBatchSize,
             TimeoutBatchTimeout = or_default (cfgTimeoutBatchTimeout src) DefaultTimeoutBatchTimeout,
             TimeoutBatchConcurrency =
               or_default (cfgTimeoutBatchConcurrency src) DefaultTimeoutBatchConcurrency,
             SourceChainGasTokenCoingeckoID =
               (case GasTokenCoingeckoID sourceChainConfig of None \<Rightarrow> [] | Some i \<Rightarrow> i),
             SourceChainGasTokenDecimals = GasTokenDecimals sourceChainConfig,
             DestinationChainGasTokenCoingeckoID =
               (case GasTokenCoingeckoID destinationChainConfig of None \<Rightarrow> [] | Some i \<Rightarrow> i),
             DestinationChainGasTokenDecimals = GasTokenDecimals destinationChainConfig,
             SourceFinalityOffset = FinalityOffset src,
             DestinationFinalityOffset = FinalityOffset dst\<rparr>))))"

end
