(* ===== verification/Pipeline.thy ===== *)
theory Pipeline
  imports Batches PipelineOpts
begin

text \<open>
  \<^verbatim>\<open>relayer/ibcv2/pipeline.go\<close>, \<^verbatim>\<open>conditional_batch_processor.go\<close> and \<^verbatim>\<open>state_finisher.go\<close>:
  the stages of a pipeline in order, the deduper in front of it, and the steps the whole takes.
  Stages run concurrently; a step of the model is one call of a wrapped processor on one
  transfer or one batch, and any stage may step next with any answers of the outside world. What
  other parts of the program do to the database meanwhile is a step as well. Buffer sizes,
  worker counts and the batch timer only restrict which step comes next and are left out here;
  \<open>Deduper\<close> has the capacities and the lock.
\<close>

section \<open>state\_finisher.go\<close>

definition final_state :: "IBCV2Transfer \<Rightarrow> Ibcv2RelayStatus option" where
  "final_state t =
     (if snd (GetTimeoutTxHash t) then Some COMPLETE_WITH_TIMEOUT
      else
        (case GetWriteAckStatus t of
           None \<Rightarrow> None
         | Some s \<Rightarrow>
             Some (if snd (GetAckTxHash t) then COMPLETE_WITH_ACK
                   else if is_success_ack s then COMPLETE_WITH_WRITE_ACK_SUCCESS
                   else if is_error_ack s then COMPLETE_WITH_WRITE_ACK_ERROR
                   else GetState t)))"

definition StateFinisher_Process ::
  "bool \<Rightarrow> bool \<Rightarrow> env \<Rightarrow> world \<Rightarrow> IBCV2Transfer \<Rightarrow> world \<times> IBCV2Transfer" where
  "StateFinisher_Process shouldRelaySuccessAcks shouldRelayErrorAcks E w t =
     (if Error t \<noteq> [] then (w, t)
      else if \<not> IsComplete t shouldRelaySuccessAcks shouldRelayErrorAcks then (w, t)
      else
        (case final_state t of
           None \<Rightarrow> (w, t)
         | Some s \<Rightarrow>
             (let t1 = t\<lparr>State := s\<rparr> in
              case on_db (UpdateTransferState (storage E) (transferKey t1) (GetState t1)) w of
                (w', Some err) \<Rightarrow>
                  (w', t1\<lparr>ProcessingError := Some (Wrapf ''updating transfer state'' err)\<rparr>)
              | (w', None) \<Rightarrow> (w', t1))))"

section \<open>The stages\<close>

datatype stage =
    Single IBCV2Processor
  | Batched int IBCV2BatchProcessor
  | Finish bool bool

definition gas_stage :: "string \<Rightarrow> u8 \<Rightarrow> bool \<Rightarrow> (string \<Rightarrow> u8 \<Rightarrow> IBCV2Processor) \<Rightarrow> stage list" where
  "gas_stage coin dec havePriceClient p =
     (if coin \<noteq> [] \<and> dec \<noteq> 0 \<and> havePriceClient then [Single (p coin dec)] else [])"

definition NewPipeline :: "PipelineOptions \<Rightarrow> bool \<Rightarrow> route \<Rightarrow> stage list" where
  "NewPipeline opts havePriceClient R =
     [Single CheckRecvPacketDeliveryProcessor,
      Single CheckPacketCommitmentProcessor,
      Single (CheckSendFinalityProcessor (SourceFinalityOffset opts)),
      Single (CheckTimeoutFinalityProcessor (DestinationFinalityOffset opts)),
      Batched (TimeoutBatchSize opts) (BatchTimeoutPacketProcessor R),
      Single (RetryTimeoutPacketProcessor (sourceChainID R))] @
     gas_stage (SourceChainGasTokenCoingeckoID opts) (SourceChainGasTokenDecimals opts)
       havePriceClient TimeoutTxGasCalculatorProcessor @
     [Batched (RecvBatchSize opts) (BatchRecvPacketProcessor R),
      Single (RetryRecvPacketProcessor (destinationChainID R))] @
     gas_stage (DestinationChainGasTokenCoingeckoID opts) (DestinationChainGasTokenDecimals opts)
       havePriceClient RecvTxGasCalculatorProcessor @
     [Single WaitForWriteAckPacket,
      Single (CheckWriteAckFinalityProcessor (ShouldRelaySuccessAcks opts) (ShouldRelayErrorAcks opts)
        (DestinationFinalityOffset opts)),
      Single CheckPacketCommitmentProcessor,
      Batched (AckBatchSize opts)
        (BatchAckPacketProcessor R (ShouldRelaySuccessAcks opts) (ShouldRelayErrorAcks opts)),
      Single (RetryAckPacketProcessor (sourceChainID R))] @
     gas_stage (SourceChainGasTokenCoingeckoID opts) (SourceChainGasTokenDecimals opts)
       havePriceClient AckTxGasCalculatorProcessor @
     [Finish (ShouldRelaySuccessAcks opts) (ShouldRelayErrorAcks opts)]"

section \<open>The deduper\<close>

text \<open>
  A transfer inside the pipeline: the index of the stage it waits at (or the number of stages,
  in the output channel), and whether \<^verbatim>\<open>ConditionallyBatchProcess\<close> has put it in a batch.
\<close>

type_synonym item = "nat \<times> bool \<times> IBCV2Transfer"

definition item_transfer :: "item \<Rightarrow> IBCV2Transfer" where
  "item_transfer x = snd (snd x)"

definition item_key :: "item \<Rightarrow> transfer_key" where
  "item_key x = transferKey (item_transfer x)"

record pipe =
  pworld :: world
  items :: "item multiset"
  inPipeline :: "transfer_key set"

definition PipelineDeduper_Push :: "IBCV2Transfer \<Rightarrow> pipe \<Rightarrow> pipe \<times> bool" where
  "PipelineDeduper_Push t st =
     (if transferKey t \<in> inPipeline st then (st, False)
      else
        (st\<lparr>inPipeline := insert (transferKey t) (inPipeline st),
            items := add_mset (0, False, t) (items st)\<rparr>, True))"

text \<open>The goroutine that reads the output and forgets the key.\<close>

definition PipelineDeduper_Poll :: "IBCV2Transfer \<Rightarrow> pipe \<Rightarrow> pipe" where
  "PipelineDeduper_Poll t st = st\<lparr>inPipeline := inPipeline st - {transferKey t}\<rparr>"

section \<open>Steps\<close>

text \<open>What the rest of the program keeps of the rows whose transfers are in the pipeline.\<close>

definition rows_framed_on :: "transfer_key set \<Rightarrow> database \<Rightarrow> database \<Rightarrow> bool" where
  "rows_framed_on K d d' \<longleftrightarrow>
     (\<forall>k \<in> K. map_option row_view (lookup_transfer d' k) = map_option row_view (lookup_transfer d k))"

text \<open>
  \<open>pipe_work S st st'\<close> is a step of the pipeline itself. A batch is any nonempty group of
  waiting transfers up to the configured size.
\<close>

inductive pipe_work :: "stage list \<Rightarrow> pipe \<Rightarrow> pipe \<Rightarrow> bool" for S where
  single: "i < length S \<Longrightarrow> S ! i = Single p \<Longrightarrow> items st = add_mset (i, False, t) M \<Longrightarrow>
     IBCV2ProcessorMW_Process p E (pworld st) (Some t) = (w', Emitted t') \<Longrightarrow>
     pipe_work S st (st\<lparr>pworld := w', items := add_mset (Suc i, False, t') M\<rparr>)"
| single_drop: "i < length S \<Longrightarrow> S ! i = Single p \<Longrightarrow> items st = add_mset (i, False, t) M \<Longrightarrow>
     IBCV2ProcessorMW_Process p E (pworld st) (Some t) = (w', Dropped err) \<Longrightarrow>
     pipe_work S st (st\<lparr>pworld := w', items := M\<rparr>)"
| bypass: "i < length S \<Longrightarrow> S ! i = Batched n b \<Longrightarrow> items st = add_mset (i, False, t) M \<Longrightarrow>
     Error t \<noteq> [] \<or> \<not> ShouldProcessB b E t \<Longrightarrow>
     pipe_work S st (st\<lparr>items := add_mset (Suc i, False, t) M\<rparr>)"
| enbatch: "i < length S \<Longrightarrow> S ! i = Batched n b \<Longrightarrow> items st = add_mset (i, False, t) M \<Longrightarrow>
     Error t = [] \<Longrightarrow> ShouldProcessB b E t \<Longrightarrow>
     pipe_work S st (st\<lparr>items := add_mset (i, True, t) M\<rparr>)"
| batch: "i < length S \<Longrightarrow> S ! i = Batched n b \<Longrightarrow> ts \<noteq> [] \<Longrightarrow> int (length ts) \<le> n \<Longrightarrow>
     items st = mset (map (\<lambda>t. (i, True, t)) ts) + M \<Longrightarrow>
     IBCV2BatchProcessorMW_Process b E (pworld st) ts = (w', Emitted ts') \<Longrightarrow>
     pipe_work S st (st\<lparr>pworld := w', items := mset (map (\<lambda>t. (Suc i, False, t)) ts') + M\<rparr>)"
| batch_drop: "i < length S \<Longrightarrow> S ! i = Batched n b \<Longrightarrow> ts \<noteq> [] \<Longrightarrow> int (length ts) \<le> n \<Longrightarrow>
     items st = mset (map (\<lambda>t. (i, True, t)) ts) + M \<Longrightarrow>
     IBCV2BatchProcessorMW_Process b E (pworld st) ts = (w', Dropped err) \<Longrightarrow>
     pipe_work S st (st\<lparr>pworld := w', items := M\<rparr>)"
| finish: "i < length S \<Longrightarrow> S ! i = Finish succ err \<Longrightarrow> items st = add_mset (i, False, t) M \<Longrightarrow>
     StateFinisher_Process succ err E (pworld st) t = (w', t') \<Longrightarrow>
     pipe_work S st (st\<lparr>pworld := w', items := add_mset (Suc i, False, t') M\<rparr>)"
| poll: "items st = add_mset (length S, False, t) M \<Longrightarrow>
     st' = PipelineDeduper_Poll t (st\<lparr>items := M\<rparr>) \<Longrightarrow> pipe_work S st st'"

text \<open>
  \<open>pipe_step S st st'\<close> adds what happens to the pipeline: a push of a transfer that was loaded
  from the current row, and a step of the rest of the program.
\<close>

inductive pipe_step :: "stage list \<Rightarrow> pipe \<Rightarrow> pipe \<Rightarrow> bool" for S where
  push: "lookup_transfer (db (pworld st)) (row_key r) = Some r \<Longrightarrow>
     PipelineDeduper_Push (NewIBCV2Transfer r) st = (st', ok) \<Longrightarrow> pipe_step S st st'"
| work: "pipe_work S st st' \<Longrightarrow> pipe_step S st st'"
| outside: "rows_framed_on (inPipeline st) (db (pworld st)) (db w') \<Longrightarrow>
     pipe_step S st (st\<lparr>pworld := w'\<rparr>)"

definition pipe_init :: "world \<Rightarrow> pipe" where
  "pipe_init w = \<lparr>pworld = w, items = {#}, inPipeline = {}\<rparr>"

definition pipe_reachable :: "stage list \<Rightarrow> pipe \<Rightarrow> bool" where
  "pipe_reachable S st \<longleftrightarrow> (\<exists>w. (pipe_step S)\<^sup>*\<^sup>* (pipe_init w) st)"

section \<open>Every packet is in the pipeline once\<close>

definition keys_once :: "item multiset \<Rightarrow> bool" where
  "keys_once M \<longleftrightarrow> (\<forall>k. count (image_mset item_key M) k \<le> 1)"

lemma keys_once_empty [simp]: "keys_once {#}"
  by (simp add: keys_once_def)

lemma count_key_zero: "count (image_mset item_key M) k = 0 \<longleftrightarrow> k \<notin> item_key ` set_mset M"
  by (metis count_eq_zero_iff set_image_mset)

lemma keys_once_add [simp]:
  "keys_once (add_mset x M) \<longleftrightarrow> item_key x \<notin> item_key ` set_mset M \<and> keys_once M"
proof -
  have split_at: "(\<forall>k. (if a = k then Suc (c k) else c k) \<le> 1) \<longleftrightarrow> c a = 0 \<and> (\<forall>k. c k \<le> 1)"
    for a :: transfer_key and c :: "transfer_key \<Rightarrow> nat"
  proof
    assume H: "\<forall>k. (if a = k then Suc (c k) else c k) \<le> 1"
    have "c k \<le> 1" for k using spec [OF H, of k] by (simp split: if_splits)
    then show "c a = 0 \<and> (\<forall>k. c k \<le> 1)" using spec [OF H, of a] by simp
  qed auto
  show ?thesis
    by (simp only: keys_once_def count_key_zero [symmetric] image_mset_add_mset count_add_mset split_at)
qed

lemma keys_once_union:
  "keys_once (mset xs + M) \<longleftrightarrow>
     distinct (map item_key xs) \<and> item_key ` set xs \<inter> item_key ` set_mset M = {} \<and> keys_once M"
  by (induction xs) auto

section \<open>The finisher\<close>

lemma finisher_cases:
  assumes "StateFinisher_Process succ err E w t = (w', t')"
  obtains (skip) "w' = w" "t' = t"
    | (complete) s x where "Error t = []" "IsComplete t succ err" "final_state t = Some s"
        "on_db (UpdateTransferState (storage E) (transferKey t) s) w = (w', x)"
        "t' = (case x of None \<Rightarrow> t\<lparr>State := s\<rparr>
               | Some e \<Rightarrow> t\<lparr>State := s, ProcessingError := Some (Wrapf ''updating transfer state'' e)\<rparr>)"
  using assms
  by (auto simp: StateFinisher_Process_def Let_def split: if_splits option.splits prod.splits)

lemma finisher_keeps:
  assumes "StateFinisher_Process succ err E w t = (w', t')"
  shows "identity t' = identity t" and "rows_framed {transferKey t} (db w) (db w')"
    and "in_step (db w) t \<Longrightarrow> in_step (db w') t'" and "events w' = events w"
proof -
  have upd: "mw_update_state E s t w = (w', x)"
    if "on_db (UpdateTransferState (storage E) (transferKey t) s) w = (w', x)" for s x
    using that by (simp add: mw_update_state_def)
  from assms show "identity t' = identity t"
    by (cases rule: finisher_cases) (auto split: option.splits)
  from assms show "rows_framed {transferKey t} (db w) (db w')"
    by (cases rule: finisher_cases) (auto dest: upd update_state_framed)
  from assms show "events w' = events w"
    by (cases rule: finisher_cases) (auto dest: upd update_state_framed)
  from assms show "in_step (db w) t \<Longrightarrow> in_step (db w') t'"
    by (cases rule: finisher_cases)
      (auto simp: in_step_def split: option.splits dest!: upd intro: update_state_coherent)
qed

section \<open>The invariant\<close>

text \<open>A pipeline all of whose stages keep their contract.\<close>

locale relay_pipeline =
  fixes S :: "stage list"
  assumes relay_single: "Single p \<in> set S \<Longrightarrow> relay_processor p"
    and relay_batch: "Batched n b \<in> set S \<Longrightarrow> relay_batch_processor b"

definition pipe_inv :: "pipe \<Rightarrow> bool" where
  "pipe_inv st \<longleftrightarrow>
     (\<forall>x \<in># items st. in_step (db (pworld st)) (item_transfer x)) \<and>
     keys_once (items st) \<and>
     item_key ` set_mset (items st) \<subseteq> inPipeline st"

lemma item_simps [simp]: "item_transfer (i, b, t) = t" "item_key (i, b, t) = transferKey t"
  by (simp_all add: item_transfer_def item_key_def)

text \<open>One item moves on, and only its own row changes.\<close>

lemma inv_move:
  assumes inv: "pipe_inv st" and items: "items st = add_mset x M"
    and frame: "rows_framed {item_key x} (db (pworld st)) (db w')"
    and key: "item_key x' = item_key x" and step: "in_step (db w') (item_transfer x')"
  shows "pipe_inv (st\<lparr>pworld := w', items := add_mset x' M\<rparr>)"
    and "pipe_inv (st\<lparr>pworld := w', items := M\<rparr>)"
proof -
  have k: "item_key x \<notin> item_key ` set_mset M" "keys_once M"
    using inv items by (simp_all add: pipe_inv_def)
  have "in_step (db w') (item_transfer y)" if "y \<in># M" for y
  proof (rule in_step_framed [OF _ frame])
    show "in_step (db (pworld st)) (item_transfer y)" using inv items that by (simp add: pipe_inv_def)
    show "transferKey (item_transfer y) \<notin> {item_key x}"
      using k(1) that by (auto simp: item_key_def [symmetric] image_iff)
  qed
  then show "pipe_inv (st\<lparr>pworld := w', items := add_mset x' M\<rparr>)"
    and "pipe_inv (st\<lparr>pworld := w', items := M\<rparr>)"
    using inv items k key step by (auto simp: pipe_inv_def)
qed

text \<open>The same for a batch.\<close>

lemma inv_batch:
  assumes inv: "pipe_inv st" and items: "items st = mset (map (\<lambda>t. (i, True, t)) ts) + M"
    and frame: "rows_framed (transferKey ` set ts) (db (pworld st)) (db w')"
    and ids: "mset (map identity ts') = mset (map identity ts)"
    and step: "\<forall>t \<in> set ts'. in_step (db w') t"
  shows "pipe_inv (st\<lparr>pworld := w', items := mset (map (\<lambda>t. (j, False, t)) ts') + M\<rparr>)"
    and "pipe_inv (st\<lparr>pworld := w', items := M\<rparr>)"
proof -
  have keys: "mset (map transferKey ts') = mset (map transferKey ts)"
    using ids by (rule mset_identity_keys)
  have k: "transferKey ` set ts \<inter> item_key ` set_mset M = {}" "keys_once M"
      "distinct (map transferKey ts)"
    using inv items
    by (simp_all add: pipe_inv_def keys_once_union comp_def image_image del: mset_map)
  have "in_step (db w') (item_transfer y)" if "y \<in># M" for y
  proof (rule in_step_framed [OF _ frame])
    show "in_step (db (pworld st)) (item_transfer y)" using inv items that by (auto simp: pipe_inv_def)
    show "transferKey (item_transfer y) \<notin> transferKey ` set ts"
      using k(1) that by (auto simp: item_key_def [symmetric])
  qed
  moreover have "transferKey ` set ts' = transferKey ` set ts" "distinct (map transferKey ts')"
    using mset_eq_setD [OF keys] mset_eq_imp_distinct_iff [OF keys] k(3) by simp_all
  moreover from this have "keys_once (mset (map (\<lambda>t. (j, False, t)) ts') + M)"
    using k by (simp add: keys_once_union comp_def image_image del: mset_map)
  ultimately show "pipe_inv (st\<lparr>pworld := w', items := mset (map (\<lambda>t. (j, False, t)) ts') + M\<rparr>)"
    and "pipe_inv (st\<lparr>pworld := w', items := M\<rparr>)"
    using inv items k step by (auto simp: pipe_inv_def image_image image_Un)
qed

lemma inv_push:
  assumes inv: "pipe_inv st" and fresh: "coherent (db (pworld st)) t"
    and push: "PipelineDeduper_Push t st = (st', ok)"
  shows "pipe_inv st'"
proof (cases "transferKey t \<in> inPipeline st")
  case True
  then show ?thesis using push inv by (simp add: PipelineDeduper_Push_def)
next
  case False
  then have "transferKey t \<notin> item_key ` set_mset (items st)"
    using inv by (auto simp: pipe_inv_def)
  moreover have "st' = st\<lparr>inPipeline := insert (transferKey t) (inPipeline st),
      items := add_mset (0, False, t) (items st)\<rparr>"
    using False push by (simp add: PipelineDeduper_Push_def)
  ultimately show ?thesis
    using inv fresh by (simp add: pipe_inv_def in_step_def subset_insertI2)
qed

lemma inv_poll:
  assumes inv: "pipe_inv st" and items: "items st = add_mset (i, b, t) M"
  shows "pipe_inv (PipelineDeduper_Poll t (st\<lparr>items := M\<rparr>))"
  using inv items by (simp add: pipe_inv_def PipelineDeduper_Poll_def subset_Diff_insert)

lemma inv_outside:
  assumes inv: "pipe_inv st" and frame: "rows_framed_on (inPipeline st) (db (pworld st)) (db w')"
  shows "pipe_inv (st\<lparr>pworld := w'\<rparr>)"
proof -
  have "in_step (db w') (item_transfer x)" if x: "x \<in># items st" for x
  proof -
    have "item_key x \<in> inPipeline st" using inv x by (auto simp: pipe_inv_def)
    then have view: "map_option row_view (lookup_transfer (db w') (item_key x)) =
      map_option row_view (lookup_transfer (db (pworld st)) (item_key x))"
      using frame by (simp add: rows_framed_on_def)
    have "in_step (db (pworld st)) (item_transfer x)" using inv x by (simp add: pipe_inv_def)
    then show ?thesis
      using view agrees_view unfolding in_step_def coherent_def item_key_def
      by (metis map_option_eq_Some)
  qed
  then show ?thesis using inv by (simp add: pipe_inv_def)
qed

context relay_pipeline
begin

lemma sound_single: "Single p \<in> set S \<Longrightarrow> stage_processor p"
  by (rule relay_processor.axioms(1) [OF relay_single])

lemma sound_batch: "Batched n b \<in> set S \<Longrightarrow> stage_batch_processor b"
  by (rule relay_batch_processor.axioms(1) [OF relay_batch])

lemma work_inv:
  assumes "pipe_work S st st'" and inv: "pipe_inv st"
  shows "pipe_inv st'"
  using assms(1)
proof cases
  case (single i p t M E w' t')
  have sp: "stage_processor p" using single(2,3) sound_single by (metis nth_mem)
  have "in_step (db (pworld st)) t" using inv single(4) by (simp add: pipe_inv_def)
  then have t': "in_step (db w') t'" "transferKey t' = transferKey t"
    using stage_processor.mw_emits [OF sp single(5)] identity_key by blast+
  show ?thesis
    unfolding single(1)
    using inv_move(1) [OF inv single(4), of w' "(Suc i, False, t')"]
      stage_processor.mw_framed(1) [OF sp single(5)] t' by simp
next
  case (single_drop i p t M E w' err)
  have sp: "stage_processor p" using single_drop(2,3) sound_single by (metis nth_mem)
  show ?thesis
    unfolding single_drop(1)
    using inv_move(2) [OF inv single_drop(4), of w' "(i, False, t\<lparr>ProcessingError := Some err\<rparr>)"]
      stage_processor.mw_framed(1) [OF sp single_drop(5)] by simp
next
  case (bypass i n b t M E)
  have "pipe_inv (st\<lparr>pworld := pworld st, items := add_mset (Suc i, False, t) M\<rparr>)"
    using inv bypass by (intro inv_move(1)) (auto simp: pipe_inv_def)
  then show ?thesis using bypass by simp
next
  case (enbatch i n b t M E)
  have "pipe_inv (st\<lparr>pworld := pworld st, items := add_mset (i, True, t) M\<rparr>)"
    using inv enbatch by (intro inv_move(1)) (auto simp: pipe_inv_def)
  then show ?thesis using enbatch by simp
next
  case (batch i n b ts M E w' ts')
  have sb: "stage_batch_processor b" using batch(2,3) sound_batch by (metis nth_mem)
  have d: "distinct (map transferKey ts)" and stp: "\<forall>t \<in> set ts. in_step (db (pworld st)) t"
    using inv batch(6) by (simp_all add: pipe_inv_def keys_once_union comp_def ball_Un del: mset_map)
  show ?thesis
    using batch(1) inv_batch(1) [OF inv batch(6) _ stage_batch_processor.mwB_emits(1) [OF sb batch(7)]]
      stage_batch_processor.mwB_framed [OF sb batch(7)]
      stage_batch_processor.mwB_emits(2) [OF sb batch(7) d stp] by simp
next
  case (batch_drop i n b ts M E w' err)
  have sb: "stage_batch_processor b" using batch_drop(2,3) sound_batch by (metis nth_mem)
  let ?ts = "map (\<lambda>t. t\<lparr>ProcessingError := Some err\<rparr>) ts"
  have ids: "mset (map identity ?ts) = mset (map identity ts)"
    by (simp only: list.map_comp comp_def identity_updates)
  have stp: "\<forall>t \<in> set ?ts. in_step (db w') t" by simp
  show ?thesis
    unfolding batch_drop(1)
    using stage_batch_processor.mwB_framed [OF sb batch_drop(7)]
    by (intro inv_batch(2) [OF inv batch_drop(6) _ ids stp]) simp
next
  case (finish i succ err t M E w' t')
  have "in_step (db (pworld st)) t" using inv finish(4) by (simp add: pipe_inv_def)
  then have t': "in_step (db w') t'" "transferKey t' = transferKey t"
    using finisher_keeps [OF finish(5)] identity_key by blast+
  show ?thesis
    unfolding finish(1)
    using inv_move(1) [OF inv finish(4), of w' "(Suc i, False, t')"]
      finisher_keeps(2) [OF finish(5)] t' by simp
next
  case (poll t M)
  then show ?thesis using inv inv_poll by blast
qed

lemma work_framed:
  assumes "pipe_work S st st'" and inv: "pipe_inv st"
  shows "rows_framed (inPipeline st) (db (pworld st)) (db (pworld st')) \<and> inPipeline st' \<subseteq> inPipeline st"
  using assms(1)
proof cases
  case (single i p t M E w' t')
  have "stage_processor p" using single(2,3) sound_single by (metis nth_mem)
  from stage_processor.mw_framed(1) [OF this single(5)] show ?thesis
    using single inv by (auto simp: pipe_inv_def intro: rows_framed_mono)
next
  case (single_drop i p t M E w' err)
  have "stage_processor p" using single_drop(2,3) sound_single by (metis nth_mem)
  from stage_processor.mw_framed(1) [OF this single_drop(5)] show ?thesis
    using single_drop inv by (auto simp: pipe_inv_def intro: rows_framed_mono)
next
  case (batch i n b ts M E w' ts')
  have "stage_batch_processor b" using batch(2,3) sound_batch by (metis nth_mem)
  from stage_batch_processor.mwB_framed [OF this batch(7)] show ?thesis
    using batch inv by (auto simp: pipe_inv_def image_Un image_image intro: rows_framed_mono)
next
  case (batch_drop i n b ts M E w' err)
  have "stage_batch_processor b" using batch_drop(2,3) sound_batch by (metis nth_mem)
  from stage_batch_processor.mwB_framed [OF this batch_drop(7)] show ?thesis
    using batch_drop inv by (auto simp: pipe_inv_def image_Un image_image intro: rows_framed_mono)
next
  case (finish i succ err t M E w' t')
  from finisher_keeps(2) [OF finish(5)] show ?thesis
    using finish inv by (auto simp: pipe_inv_def intro: rows_framed_mono)
qed (auto simp: PipelineDeduper_Poll_def)

lemma step_inv:
  assumes "pipe_step S st st'" and inv: "pipe_inv st"
  shows "pipe_inv st'"
  using assms(1)
proof cases
  case (push r ok)
  have "coherent (db (pworld st)) (NewIBCV2Transfer r)"
    using push(1) NewIBCV2Transfer_agrees by (auto simp: coherent_def)
  with inv show ?thesis using push(2) by (rule inv_push)
next
  case work
  then show ?thesis using inv by (rule work_inv)
next
  case (outside w')
  then show ?thesis using inv inv_outside by simp
qed

lemma reachable_inv: "pipe_reachable S st \<Longrightarrow> pipe_inv st"
  unfolding pipe_reachable_def
proof (elim exE)
  fix w assume "(pipe_step S)\<^sup>*\<^sup>* (pipe_init w) st"
  then show "pipe_inv st"
  proof (induction rule: rtranclp_induct)
    case base
    show ?case by (simp add: pipe_inv_def pipe_init_def)
  next
    case (step y z)
    show ?case using step.hyps(2) step.IH by (rule step_inv)
  qed
qed

end

interpretation ibcv2: relay_pipeline "NewPipeline opts havePriceClient R" for opts havePriceClient R
proof (rule relay_pipeline.intro)
  fix p assume "Single p \<in> set (NewPipeline opts havePriceClient R)"
  then show "relay_processor p"
    by (auto simp: NewPipeline_def gas_stage_def split: if_splits
        intro: check_recv.relay_processor_axioms check_commitment.relay_processor_axioms
          check_send.relay_processor_axioms check_timeout.relay_processor_axioms
          check_wack.relay_processor_axioms wait_wack.relay_processor_axioms
          retry_recv.relay_processor_axioms retry_ack.relay_processor_axioms
          retry_timeout.relay_processor_axioms gas_recv.relay_processor_axioms
          gas_ack.relay_processor_axioms gas_timeout.relay_processor_axioms)
next
  fix n b assume "Batched n b \<in> set (NewPipeline opts havePriceClient R)"
  then show "relay_batch_processor b"
    by (auto simp: NewPipeline_def gas_stage_def split: if_splits
        intro: batch_recv.relay_batch_processor_axioms batch_ack.relay_batch_processor_axioms
          batch_timeout.relay_batch_processor_axioms)
qed

section \<open>What is known of a transfer at a stage\<close>

text \<open>
  A predicate on the stage index and the transfer that holds when a row is loaded and is carried
  by every stage holds of every item of every reachable state.
\<close>

definition carried :: "(nat \<Rightarrow> IBCV2Transfer \<Rightarrow> bool) \<Rightarrow> item multiset \<Rightarrow> bool" where
  "carried Q M \<longleftrightarrow> (\<forall>x \<in># M. Q (fst x) (item_transfer x))"

lemma carried_simps [simp]:
  "carried Q {#}" "carried Q (add_mset (i, b, t) M) \<longleftrightarrow> Q i t \<and> carried Q M"
  "carried Q (M + N) \<longleftrightarrow> carried Q M \<and> carried Q N"
  by (simp_all add: carried_def ball_Un)

lemma carried_map: "carried Q (mset (map (\<lambda>t. (i, b, t)) ts)) \<longleftrightarrow> (\<forall>t \<in> set ts. Q i t)"
  by (induction ts) auto

locale positional = relay_pipeline +
  fixes Q :: "nat \<Rightarrow> IBCV2Transfer \<Rightarrow> bool"
  assumes start: "Q 0 (NewIBCV2Transfer r)"
    and through:
      "i < length S \<Longrightarrow> S ! i = Single p \<Longrightarrow> Q i t \<Longrightarrow>
         IBCV2ProcessorMW_Process p E w (Some t) = (w', Emitted t') \<Longrightarrow> Q (Suc i) t'"
    and around:
      "i < length S \<Longrightarrow> S ! i = Batched n b \<Longrightarrow> Q i t \<Longrightarrow> Error t \<noteq> [] \<or> \<not> ShouldProcessB b E t \<Longrightarrow>
         Q (Suc i) t"
    and batched:
      "i < length S \<Longrightarrow> S ! i = Batched n b \<Longrightarrow> \<forall>t \<in> set ts. Q i t \<Longrightarrow>
         IBCV2BatchProcessorMW_Process b E w ts = (w', Emitted ts') \<Longrightarrow> t' \<in> set ts' \<Longrightarrow> Q (Suc i) t'"
    and finished:
      "i < length S \<Longrightarrow> S ! i = Finish succ err \<Longrightarrow> Q i t \<Longrightarrow>
         StateFinisher_Process succ err E w t = (w', t') \<Longrightarrow> Q (Suc i) t'"
begin

lemma work_carried:
  assumes "pipe_work S st st'" "carried Q (items st)"
  shows "carried Q (items st')"
  using assms(1)
proof cases
  case (batch i n b ts M E w' ts')
  then show ?thesis
    using assms(2) batched [OF batch(2,3) _ batch(7)] by (simp add: carried_map del: mset_map)
next
  case (batch_drop i n b ts M E w' err)
  then show ?thesis using assms(2) by simp
qed (use assms(2) in \<open>auto simp: PipelineDeduper_Poll_def intro: through around finished\<close>)

lemma step_carried:
  assumes "pipe_step S st st'" "carried Q (items st)"
  shows "carried Q (items st')"
  using assms(1)
proof cases
  case (push r ok)
  then show ?thesis
    using assms(2) start by (auto simp: PipelineDeduper_Push_def split: if_splits)
qed (use assms(2) in \<open>auto intro: work_carried\<close>)

lemma reachable_carried:
  assumes "pipe_reachable S st" "(i, b, t) \<in># items st"
  shows "Q i t"
proof -
  obtain w where "(pipe_step S)\<^sup>*\<^sup>* (pipe_init w) st"
    using assms(1) by (auto simp: pipe_reachable_def)
  then have "carried Q (items st)"
  proof (induction rule: rtranclp_induct)
    case base
    show ?case by (simp add: pipe_init_def)
  next
    case (step y z)
    show ?case using step.hyps(2) step.IH by (rule step_carried)
  qed
  then show ?thesis using assms(2) by (force simp: carried_def)
qed

end

lemma finisher_progress:
  "StateFinisher_Process succ err E w t = (w', t') \<Longrightarrow> progress t t' \<and> (loud t \<longrightarrow> loud t')"
  by (auto elim!: finisher_cases simp: loud_def Error_def split: option.splits)

text \<open>An errored transfer has an error text, so the wrappers of the later stages pass it on.\<close>

lemma loud_new: "loud (NewIBCV2Transfer r)" by (simp add: loud_def NewIBCV2Transfer_def)

context relay_pipeline
begin

lemma at_single: "i < length S \<Longrightarrow> S ! i = Single p \<Longrightarrow> relay_processor p"
  by (metis nth_mem relay_single)

lemma at_batch: "i < length S \<Longrightarrow> S ! i = Batched n b \<Longrightarrow> relay_batch_processor b"
  by (metis nth_mem relay_batch)

lemma positional_loud: "positional S (\<lambda>_. loud)"
proof (intro positional.intro positional_axioms.intro)
  show "relay_pipeline S" by unfold_locales
  show "loud t'" if "i < length S" "S ! i = Single p" "loud t"
    "IBCV2ProcessorMW_Process p E w (Some t) = (w', Emitted t')" for i p t E w w' t'
    using relay_processor.mw_loud [OF at_single [OF that(1,2)] that(4,3)] .
  show "loud t'" if "i < length S" "S ! i = Batched n b" "\<forall>t \<in> set ts. loud t"
    "IBCV2BatchProcessorMW_Process b E w ts = (w', Emitted ts')" "t' \<in> set ts'"
    for i n b ts E w w' ts' t'
    using relay_batch_processor.mwB_loud [OF at_batch [OF that(1,2)] that(4)] that(3,5)
    by (simp add: list_all_iff)
qed (auto simp: loud_new dest: finisher_progress)

text \<open>
  A condition that a stage establishes, that no later stage takes back, and that an errored or
  failed transfer satisfies, holds from that stage to the last.
\<close>

lemma positional_after:
  assumes stage: "\<And>E w t w' t'. IBCV2ProcessorMW_Process p E w (Some t) = (w', Emitted t') \<Longrightarrow> C t'"
    and at: "k < length S" "S ! k = Single p"
    and pass: "\<And>t. Error t \<noteq> [] \<Longrightarrow> C t"
    and keep: "\<And>t t'. C t \<Longrightarrow> Error t = [] \<Longrightarrow> GetState t \<noteq> FAILED \<Longrightarrow> progress t t' \<Longrightarrow> C t'"
    and fin: "\<And>i succ err. i < length S \<Longrightarrow> S ! i = Finish succ err \<Longrightarrow> Suc i = length S"
  shows "positional S (\<lambda>i t. k < i \<and> i < length S \<longrightarrow> C t)"
proof (intro positional.intro positional_axioms.intro)
  show "relay_pipeline S" by unfold_locales
  fix i p' t E w w' t'
  assume i: "i < length S" "S ! i = Single p'" and C: "k < i \<and> i < length S \<longrightarrow> C t"
    and mw: "IBCV2ProcessorMW_Process p' E w (Some t) = (w', Emitted t')"
  show "k < Suc i \<and> Suc i < length S \<longrightarrow> C t'"
  proof (cases "i = k")
    case True
    then show ?thesis using stage mw i at by auto
  next
    case False
    from mw show ?thesis
    proof (cases rule: relay_processor.mw_output [OF at_single [OF i],
          consumes 1, case_names skipped errored processed])
      case (processed w1)
      have "progress t t'" using relay_processor.mw_progress [OF at_single [OF i] mw] .
      then show ?thesis using keep processed(3,4) C False i(1) by auto
    qed (use C False pass i(1) in auto)
  qed
next
  fix i n b ts E w w' ts' t'
  assume i: "i < length S" "S ! i = Batched n b" and C: "\<forall>t \<in> set ts. k < i \<and> i < length S \<longrightarrow> C t"
    and mw: "IBCV2BatchProcessorMW_Process b E w ts = (w', Emitted ts')" and t': "t' \<in> set ts'"
  have "i \<noteq> k" using i at by auto
  then show "k < Suc i \<and> Suc i < length S \<longrightarrow> C t'"
    using relay_batch_processor.mwB_output [OF at_batch [OF i] mw t'] C i(1) pass keep
    by (auto simp: less_Suc_eq)
next
  fix i n b t E
  assume "i < length S" "S ! i = Batched n b" "k < i \<and> i < length S \<longrightarrow> C t"
  then show "k < Suc i \<and> Suc i < length S \<longrightarrow> C t" using at by (cases "i = k") auto
qed (use fin in fastforce)+

end

section \<open>A transfer alone in the pipeline\<close>

text \<open>
  One stage after the other on a single transfer, each batch holding just that transfer: an
  executable schedule of the steps above.
\<close>

fun solo_step :: "stage \<Rightarrow> env \<Rightarrow> world \<times> IBCV2Transfer \<Rightarrow> (world \<times> IBCV2Transfer) option" where
  "solo_step (Single p) E (w, t) =
     (case IBCV2ProcessorMW_Process p E w (Some t) of
        (w', Emitted t') \<Rightarrow> Some (w', t')
      | _ \<Rightarrow> None)"
| "solo_step (Batched n b) E (w, t) =
     (if Error t \<noteq> [] \<or> \<not> ShouldProcessB b E t then Some (w, t)
      else if n < 1 then None
      else
        (case IBCV2BatchProcessorMW_Process b E w [t] of
           (w', Emitted [t']) \<Rightarrow> Some (w', t')
         | _ \<Rightarrow> None))"
| "solo_step (Finish succ err) E (w, t) = Some (StateFinisher_Process succ err E w t)"

fun solo_run :: "(stage \<times> env) list \<Rightarrow> world \<times> IBCV2Transfer \<Rightarrow> (world \<times> IBCV2Transfer) option" where
  "solo_run [] x = Some x"
| "solo_run ((s, E) # xs) x = (case solo_step s E x of None \<Rightarrow> None | Some y \<Rightarrow> solo_run xs y)"

definition solo_pipe :: "nat \<Rightarrow> transfer_key set \<Rightarrow> world \<times> IBCV2Transfer \<Rightarrow> pipe" where
  "solo_pipe i K x = \<lparr>pworld = fst x, items = {#(i, False, snd x)#}, inPipeline = K\<rparr>"

lemma solo_step_reach:
  assumes "i < length S" "solo_step (S ! i) E x = Some y"
  shows "(pipe_step S)\<^sup>*\<^sup>* (solo_pipe i K x) (solo_pipe (Suc i) K y)"
proof -
  obtain w t w' t' where xy: "x = (w, t)" "y = (w', t')" by (cases x; cases y)
  show ?thesis
  proof (cases "S ! i")
    case (Single p)
    then have "IBCV2ProcessorMW_Process p E w (Some t) = (w', Emitted t')"
      using assms(2) xy by (auto split: prod.splits outcome.splits)
    then show ?thesis
      using pipe_step.work [OF pipe_work.single [OF assms(1) Single, of "solo_pipe i K x" t "{#}" E w' t']] xy
      by (auto simp: solo_pipe_def)
  next
    case (Finish succ err)
    then show ?thesis
      using pipe_step.work [OF pipe_work.finish [OF assms(1) Finish, of "solo_pipe i K x" t "{#}" E w' t']] assms(2) xy
      by (auto simp: solo_pipe_def)
  next
    case (Batched n b)
    show ?thesis
    proof (cases "Error t \<noteq> [] \<or> \<not> ShouldProcessB b E t")
      case True
      then show ?thesis
        using pipe_step.work [OF pipe_work.bypass [OF assms(1) Batched, of "solo_pipe i K x" t "{#}" E]] assms(2) xy Batched
        by (auto simp: solo_pipe_def)
    next
      case False
      let ?mid = "\<lparr>pworld = w, items = {#(i, True, t)#}, inPipeline = K\<rparr>"
      have mw: "IBCV2BatchProcessorMW_Process b E w [t] = (w', Emitted [t'])" "1 \<le> n"
        using assms(2) xy Batched False
        by (auto split: prod.splits outcome.splits list.splits if_splits)
      have "pipe_step S (solo_pipe i K x) ?mid"
        using pipe_step.work [OF pipe_work.enbatch [OF assms(1) Batched, of "solo_pipe i K x" t "{#}" E]] False xy
        by (simp add: solo_pipe_def)
      moreover have "pipe_step S ?mid (solo_pipe (Suc i) K y)"
        using pipe_step.work [OF pipe_work.batch [OF assms(1) Batched, of "[t]" ?mid "{#}" E w' "[t']"]] mw xy
        by (simp add: solo_pipe_def)
      ultimately show ?thesis by (meson r_into_rtranclp rtranclp_trans)
    qed
  qed
qed

lemma solo_run_reach:
  "solo_run (zip (drop i S) Es) x = Some y \<Longrightarrow>
     (pipe_step S)\<^sup>*\<^sup>* (solo_pipe i K x) (solo_pipe (i + min (length S - i) (length Es)) K y)"
proof (induction Es arbitrary: i x)
  case (Cons E Es)
  show ?case
  proof (cases "i < length S")
    case True
    then have "drop i S = S ! i # drop (Suc i) S" by (simp add: Cons_nth_drop_Suc)
    then obtain z where z: "solo_step (S ! i) E x = Some z" "solo_run (zip (drop (Suc i) S) Es) z = Some y"
      using Cons.prems(1) by (auto split: option.splits)
    have "Suc i + min (length S - Suc i) (length Es) = i + min (length S - i) (length (E # Es))"
      using True by (auto simp: min_def)
    then show ?thesis
      using rtranclp_trans [OF solo_step_reach [OF True z(1), of K] Cons.IH [OF z(2)]] by (simp only:)
  next
    case False
    then show ?thesis using Cons.prems by simp
  qed
qed simp

end
