(* ===== verification/Finality.thy ===== *)
theory Finality
  imports Pipeline
begin

text \<open>
  What the finality checks of the pipeline guarantee to the stages behind them: predicates that
  hold of every item past \<^verbatim>\<open>CheckSendFinality\<close>, and of every item at the ack stage, in every
  reachable state. They are instances of the positional invariant of \<open>Pipeline\<close>.
\<close>

section \<open>Finality\<close>

definition send_settled :: "IBCV2Transfer \<Rightarrow> bool" where
  "send_settled t \<longleftrightarrow>
     Error t \<noteq> [] \<or> State t = FAILED \<or> RecvTxHash t \<noteq> None \<or> SourceTxFinalizedTime t \<noteq> None"

lemma send_finality_settles:
  assumes "IBCV2ProcessorMW_Process (CheckSendFinalityProcessor offset) E w (Some t) = (w', Emitted t')"
  shows "send_settled t'"
  using assms
proof (cases rule: check_send.mw_output)
  case (processed w1)
  then show ?thesis
    by (auto simp: send_settled_def CheckSendFinalityProcessor_def CheckSendFinality_Process_def
        split: sum.splits if_splits prod.splits option.splits)
qed (auto simp: send_settled_def CheckSendFinalityProcessor_def CheckSendFinality_ShouldProcess_def)

lemma NewPipeline_shape:
  "3 < length (NewPipeline opts hp R)"
  "NewPipeline opts hp R ! 2 = Single (CheckSendFinalityProcessor (SourceFinalityOffset opts))"
  "i < length (NewPipeline opts hp R) \<Longrightarrow> NewPipeline opts hp R ! i = Finish succ err \<Longrightarrow>
     Suc i = length (NewPipeline opts hp R)"
  by (auto simp: NewPipeline_def gas_stage_def nth_append nth_Cons' split: if_splits)

interpretation send_finality: positional "NewPipeline opts hp R"
    "\<lambda>i t. 2 < i \<and> i < length (NewPipeline opts hp R) \<longrightarrow> send_settled t" for opts hp R
proof (rule ibcv2.positional_after)
  show "2 < length (NewPipeline opts hp R)" using NewPipeline_shape(1) [of opts hp R] by simp
  show "NewPipeline opts hp R ! 2 = Single (CheckSendFinalityProcessor (SourceFinalityOffset opts))"
    by (rule NewPipeline_shape(2))
  show "Suc i = length (NewPipeline opts hp R)"
    if "i < length (NewPipeline opts hp R)" "NewPipeline opts hp R ! i = Finish succ err" for i succ err
    using that by (rule NewPipeline_shape(3))
  show "send_settled t'"
    if "IBCV2ProcessorMW_Process (CheckSendFinalityProcessor (SourceFinalityOffset opts)) E w (Some t) =
          (w', Emitted t')" for E w t w' t'
    using that by (rule send_finality_settles)
qed (auto simp: send_settled_def progress_def)

text \<open>The ack stage is the second after the finality check of the write ack.\<close>

definition ack_wanted :: "bool \<Rightarrow> bool \<Rightarrow> IBCV2Transfer \<Rightarrow> bool" where
  "ack_wanted succ err t \<longleftrightarrow>
     WriteAckTxHash t \<noteq> None \<and>
     (case WriteAckStatus t of None \<Rightarrow> False | Some s \<Rightarrow> if is_success_ack s then succ else err)"

definition ack_settled :: "bool \<Rightarrow> bool \<Rightarrow> IBCV2Transfer \<Rightarrow> bool" where
  "ack_settled succ err t \<longleftrightarrow>
     Error t \<noteq> [] \<or> State t = FAILED \<or> \<not> ack_wanted succ err t \<or> WriteAckTxFinalizedTime t \<noteq> None"

lemma ack_guards:
  "CheckWriteAckFinality_ShouldProcess succ err E t \<longleftrightarrow> ack_wanted succ err t"
  "BatchAckPacket_ShouldProcess succ err E t \<longleftrightarrow>
     ack_wanted succ err t \<and> AckTxHash t = None \<and> TimeoutTxHash t = None"
  by (auto simp: CheckWriteAckFinality_ShouldProcess_def BatchAckPacket_ShouldProcess_def
      ack_wanted_def ack_kinds split: option.splits if_splits)

lemma wack_finality_settles:
  assumes "IBCV2ProcessorMW_Process (CheckWriteAckFinalityProcessor succ err offset) E w (Some t) =
             (w', Emitted t')"
  shows "ack_settled succ err t'"
  using assms
proof (cases rule: check_wack.mw_output)
  case (processed w1)
  then show ?thesis
    by (auto simp: ack_settled_def CheckWriteAckFinalityProcessor_def CheckWriteAckFinality_Process_def
        split: sum.splits if_splits prod.splits option.splits)
qed (auto simp: ack_settled_def CheckWriteAckFinalityProcessor_def ack_guards)

lemma commitment_keeps_ack_settled:
  assumes "IBCV2ProcessorMW_Process CheckPacketCommitmentProcessor E w (Some t) = (w', Emitted t')"
    and "ack_settled succ err t"
  shows "ack_settled succ err t'"
  using assms(1)
proof (cases rule: check_commitment.mw_output)
  case (processed w1)
  have "WriteAckTxHash t' = WriteAckTxHash t \<and> WriteAckStatus t' = WriteAckStatus t \<and>
      WriteAckTxFinalizedTime t' = WriteAckTxFinalizedTime t"
    using processed(1)
    by (auto simp: CheckPacketCommitmentProcessor_def CheckPacketCommitment_Process_def
        split: sum.splits if_splits prod.splits option.splits)
  then show ?thesis
    using assms(2) processed(3,4) by (auto simp: ack_settled_def ack_wanted_def)
qed (use assms(2) in \<open>auto simp: ack_settled_def\<close>)

definition ack_stage :: "PipelineOptions \<Rightarrow> route \<Rightarrow> stage" where
  "ack_stage opts R =
     Batched (AckBatchSize opts)
       (BatchAckPacketProcessor R (ShouldRelaySuccessAcks opts) (ShouldRelayErrorAcks opts))"

lemma unique_third:
  assumes "i < length (pre @ [x, y, z] @ post)" "(pre @ [x, y, z] @ post) ! i = z"
    "z \<notin> set pre" "z \<notin> set post" "x \<noteq> z" "y \<noteq> z"
  shows "i = Suc (Suc (length pre))"
proof -
  consider "i < length pre" | "i = length pre" | "i = Suc (length pre)" | "i = Suc (Suc (length pre))"
    | m where "i = Suc (Suc (Suc (length pre))) + m" "m < length post"
  proof (cases "i < length pre + 3")
    case False
    then show ?thesis
      using assms(1) that(5) [of "i - (length pre + 3)"] by simp
  qed (use that in linarith)
  then show ?thesis
    using assms by cases (auto simp: nth_append dest: nth_mem)
qed

lemma ack_stage_position:
  assumes "i < length (NewPipeline opts hp R)" "NewPipeline opts hp R ! i = ack_stage opts R"
  obtains k where "i = Suc (Suc k)" "NewPipeline opts hp R ! Suc k = Single CheckPacketCommitmentProcessor"
    "NewPipeline opts hp R ! k = Single (CheckWriteAckFinalityProcessor (ShouldRelaySuccessAcks opts)
       (ShouldRelayErrorAcks opts) (DestinationFinalityOffset opts))"
proof -
  let ?x = "Single (CheckWriteAckFinalityProcessor (ShouldRelaySuccessAcks opts)
       (ShouldRelayErrorAcks opts) (DestinationFinalityOffset opts))"
  let ?y = "Single CheckPacketCommitmentProcessor"
  obtain pre post where S: "NewPipeline opts hp R = pre @ [?x, ?y, ack_stage opts R] @ post"
    and out: "ack_stage opts R \<notin> set pre" "ack_stage opts R \<notin> set post"
  proof
    show "NewPipeline opts hp R =
      (take 6 (NewPipeline opts hp R) @
       gas_stage (SourceChainGasTokenCoingeckoID opts) (SourceChainGasTokenDecimals opts) hp
         TimeoutTxGasCalculatorProcessor @
       [Batched (RecvBatchSize opts) (BatchRecvPacketProcessor R),
        Single (RetryRecvPacketProcessor (destinationChainID R))] @
       gas_stage (DestinationChainGasTokenCoingeckoID opts) (DestinationChainGasTokenDecimals opts) hp
         RecvTxGasCalculatorProcessor @ [Single WaitForWriteAckPacket]) @
      [?x, ?y, ack_stage opts R] @
      ([Single (RetryAckPacketProcessor (sourceChainID R))] @
       gas_stage (SourceChainGasTokenCoingeckoID opts) (SourceChainGasTokenDecimals opts) hp
         AckTxGasCalculatorProcessor @
       [Finish (ShouldRelaySuccessAcks opts) (ShouldRelayErrorAcks opts)])"
      by (simp add: NewPipeline_def ack_stage_def)
  qed (auto simp: ack_stage_def NewPipeline_def gas_stage_def BatchTimeoutPacketProcessor_def
      BatchRecvPacketProcessor_def BatchAckPacketProcessor_def)
  have "i = Suc (Suc (length pre))"
    by (rule unique_third [OF assms [unfolded S] out]) (simp_all add: ack_stage_def)
  then show ?thesis by (intro that [of "length pre"]) (simp_all add: S nth_append)
qed

lemma positional_ack:
  fixes opts R hp k
  defines "S \<equiv> NewPipeline opts hp R"
  assumes k: "Suc k < length S" "S ! Suc k = Single CheckPacketCommitmentProcessor"
    "S ! k = Single (CheckWriteAckFinalityProcessor (ShouldRelaySuccessAcks opts)
       (ShouldRelayErrorAcks opts) (DestinationFinalityOffset opts))"
  shows "positional S (\<lambda>i t. i \<in> {Suc k, Suc (Suc k)} \<longrightarrow>
    ack_settled (ShouldRelaySuccessAcks opts) (ShouldRelayErrorAcks opts) t)"
proof (intro positional.intro positional_axioms.intro)
  show "relay_pipeline S" unfolding S_def by (rule ibcv2.relay_pipeline_axioms)
  fix i p t E w w' t'
  assume i: "S ! i = Single p"
    and C: "i \<in> {Suc k, Suc (Suc k)} \<longrightarrow> ack_settled (ShouldRelaySuccessAcks opts) (ShouldRelayErrorAcks opts) t"
    and mw: "IBCV2ProcessorMW_Process p E w (Some t) = (w', Emitted t')"
  show "Suc i \<in> {Suc k, Suc (Suc k)} \<longrightarrow> ack_settled (ShouldRelaySuccessAcks opts) (ShouldRelayErrorAcks opts) t'"
    using i C mw k by (auto intro: wack_finality_settles commitment_keeps_ack_settled)
qed (use k in \<open>auto\<close>)

lemma ack_stage_settled:
  assumes reach: "pipe_reachable (NewPipeline opts hp R) st" and item: "(i, b, t) \<in># items st"
    and at: "i < length (NewPipeline opts hp R)" "NewPipeline opts hp R ! i = ack_stage opts R"
  shows "ack_settled (ShouldRelaySuccessAcks opts) (ShouldRelayErrorAcks opts) t"
proof -
  obtain k where k: "i = Suc (Suc k)" "NewPipeline opts hp R ! Suc k = Single CheckPacketCommitmentProcessor"
    "NewPipeline opts hp R ! k = Single (CheckWriteAckFinalityProcessor (ShouldRelaySuccessAcks opts)
       (ShouldRelayErrorAcks opts) (DestinationFinalityOffset opts))"
    using at by (rule ack_stage_position)
  show ?thesis
    using positional.reachable_carried [OF positional_ack [OF _ k(2,3)] reach item] k(1) at(1) by simp
qed

section \<open>Completion\<close>

definition completion_status :: "IBCV2Transfer \<Rightarrow> Ibcv2RelayStatus" where
  "completion_status t =
     (if TimeoutTxHash t \<noteq> None then COMPLETE_WITH_TIMEOUT
      else if AckTxHash t \<noteq> None then COMPLETE_WITH_ACK
      else if WriteAckStatus t = Some WACK_SUCCESS then COMPLETE_WITH_WRITE_ACK_SUCCESS
      else COMPLETE_WITH_WRITE_ACK_ERROR)"

lemma final_state_completion:
  assumes "TimeoutTxHash t \<noteq> None \<or> WriteAckStatus t \<noteq> None"
  shows "final_state t = Some (completion_status t)"
  using assms
  by (auto simp: final_state_def completion_status_def ack_kinds is_success_ack_def split: option.splits)

lemma finished_not_fetched:
  assumes "keys_distinct d" "lookup_transfer d k = Some r" "finished_status (r_Status r)"
    "GetUnfinishedIBCV2Transfers E d = Inr rs" "r' \<in> set rs"
  shows "row_key r' \<noteq> k"
proof
  assume k: "row_key r' = k"
  have r': "r' \<in> set (transfers d)" "\<not> finished_status (r_Status r')"
    using assms(4,5) by (auto simp: GetUnfinishedIBCV2Transfers_def split: option.splits)
  have "r \<in> set (transfers d)" "row_key r = k"
    using assms(2) find_Some_key [of row_key k "transfers d" r] by (simp_all add: lookup_transfer_def)
  then have "r = r'"
    using assms(1) r' k by (auto simp: keys_distinct_def distinct_map inj_on_def)
  with r' assms(3) show False by simp
qed

end
