(* ===== verification/Guarantees.thy ===== *)
theory Guarantees
  imports Finality
begin

text \<open>
  What the pipeline guarantees, over the model of its stages: agreement of the transfers in
  flight with their rows, no packet twice, finality before every submission, what a batch
  records, and completion. Each property that has hypotheses is applied to the example below, a
  transfer from chain A to chain B, by evaluation.
\<close>

section \<open>An example\<close>

definition ex_row :: Ibcv2Transfer where
  "ex_row = new_row \<lparr>db_fault = \<lambda>_. None, db_now = 0, begin_fault = None, rollback_fault = None,
      commit_fault = None\<rparr> 1 ''A'' ''B'' ''0xab'' 5 7 ''ca'' ''cb'' 100"

definition ex_db_env :: db_env where
  "ex_db_env = \<lparr>db_fault = \<lambda>_. None, db_now = 10, begin_fault = None, rollback_fault = None,
      commit_fault = None\<rparr>"

definition ex_db :: database where
  "ex_db = \<lparr>transfers = [ex_row], relay_requests = [], tx_submissions = [],
      transfer_tx_submissions = [], transfers_id_seq = 1, relay_requests_id_seq = 0,
      tx_submissions_id_seq = 0\<rparr>"

definition ex_world :: world where
  "ex_world = \<lparr>db = ex_db, events = []\<rparr>"

definition ex_transfer :: IBCV2Transfer where
  "ex_transfer = NewIBCV2Transfer ex_row"

text \<open>A chain on which everything is final, nothing was relayed yet, and transactions land.\<close>

definition ex_client :: BridgeClient where
  "ex_client =
     \<lparr>IsPacketReceived = \<lambda>_ _. Inr False, IsPacketCommitted = \<lambda>_ _. Inr True,
      FindRecvTx = \<lambda>_ _ _ _. Inl (Sentinel ErrTxNotFound),
      FindAckTx = \<lambda>_ _ _. Inl (Sentinel ErrTxNotFound),
      FindTimeoutTx = \<lambda>_ _ _. Inl (Sentinel ErrTxNotFound),
      DeliverTx = \<lambda>_ _. Inr \<lparr>Hash = ''0xcd'', Timestamp = 20, RelayerAddress = ''me''\<rparr>,
      PacketWriteAckStatus = \<lambda>_ _ _ _. Inr WACK_SUCCESS,
      SendPacketsFromTx = \<lambda>_ _. Inr [],
      ShouldRetryTx = \<lambda>_ _ _. Inr False,
      WaitForChain = None,
      IsTxFinalized = \<lambda>_ _. Inr True,
      IsTimestampFinalized = \<lambda>_ _. Inr True,
      ClientChainType = COSMOS,
      SignerGasTokenBalance = Inr 0,
      TxFee = \<lambda>_. Inr 1,
      GetTxExecutionStatus = \<lambda>_. Inr \<lparr>ExecStatus = ''SUCCESS'', ErrorMessage = []\<rparr>,
      GetTransactionSender = \<lambda>_. Inr ''sender''\<rparr>"

definition ex_env :: "time \<Rightarrow> env" where
  "ex_env n =
     \<lparr>now = \<lambda>_. n, now_process = n, clients = \<lambda>c. if c \<in> {''A'', ''B''} then Some ex_client else None,
      RelayByTx = \<lambda>_. Inr \<lparr>Tx = [1], Address = ''to''\<rparr>,
      GetCoinUsdValue = \<lambda>_ _ _. Inr None,
      storage = ex_db_env\<rparr>"

definition ex_route :: route where
  "ex_route = \<lparr>sourceChainID = ''A'', sourceClientID = ''ca'', destinationChainID = ''B'',
      destinationClientID = ''cb''\<rparr>"

definition ex_pipe :: pipe where
  "ex_pipe = fst (PipelineDeduper_Push ex_transfer (pipe_init ex_world))"

lemmas ex_defs =
  ex_row_def new_row_def ex_db_def ex_world_def ex_transfer_def NewIBCV2Transfer_def ex_pipe_def
  PipelineDeduper_Push_def pipe_init_def

lemma ex_reachable: "pipe_reachable S ex_pipe"
proof -
  have "pipe_step S (pipe_init ex_world) ex_pipe"
  proof (rule pipe_step.push)
    show "lookup_transfer (db (pworld (pipe_init ex_world))) (row_key ex_row) = Some ex_row"
      by (simp add: ex_world_def ex_db_def pipe_init_def lookup_transfer_def)
    show "PipelineDeduper_Push (NewIBCV2Transfer ex_row) (pipe_init ex_world) = (ex_pipe, True)"
      by (simp add: ex_pipe_def ex_transfer_def PipelineDeduper_Push_def pipe_init_def)
  qed
  then show ?thesis by (auto simp: pipe_reachable_def)
qed

lemma ex_items: "items ex_pipe = {#(0, False, ex_transfer)#}" "ProcessingError ex_transfer = None"
  by (simp_all add: ex_defs)

definition ex_run :: "PipelineOptions \<Rightarrow> env list \<Rightarrow> (world \<times> IBCV2Transfer) option" where
  "ex_run opts Es = solo_run (zip (NewPipeline opts False ex_route) Es) (ex_world, ex_transfer)"

definition ex_opts :: PipelineOptions where
  "ex_opts = NewSmallPipelineOpts\<lparr>ShouldRelaySuccessAcks := True\<rparr>"

definition ex_end :: "nat \<Rightarrow> world \<times> IBCV2Transfer" where
  "ex_end n = the (ex_run ex_opts (replicate n (ex_env 50)))"

lemma ex_run_reachable:
  assumes "ex_run opts Es = Some y" "length Es \<le> length (NewPipeline opts False ex_route)"
  shows "pipe_reachable (NewPipeline opts False ex_route)
    (solo_pipe (length Es) {transferKey ex_transfer} y)"
proof -
  have start: "ex_pipe = solo_pipe 0 {transferKey ex_transfer} (ex_world, ex_transfer)"
    by (simp add: ex_pipe_def solo_pipe_def PipelineDeduper_Push_def pipe_init_def)
  have "(pipe_step (NewPipeline opts False ex_route))\<^sup>*\<^sup>* ex_pipe
      (solo_pipe (length Es) {transferKey ex_transfer} y)"
    unfolding start
    using solo_run_reach [of 0 "NewPipeline opts False ex_route" Es "(ex_world, ex_transfer)" y
        "{transferKey ex_transfer}"] assms
    by (simp add: ex_run_def min_absorb2)
  then show ?thesis
    using ex_reachable [of "NewPipeline opts False ex_route"] unfolding pipe_reachable_def
    by (meson rtranclp_trans)
qed

lemma ex_end_reachable:
  assumes "ex_run ex_opts (replicate n (ex_env 50)) \<noteq> None" "n \<le> 14"
  shows "pipe_reachable (NewPipeline ex_opts False ex_route)
    (solo_pipe n {transferKey ex_transfer} (ex_end n))"
proof -
  have "length (NewPipeline ex_opts False ex_route) = 14"
    by (simp add: NewPipeline_def gas_stage_def)
  then show ?thesis
    using ex_run_reachable [of ex_opts "replicate n (ex_env 50)" "ex_end n"] assms
    by (auto simp: ex_end_def)
qed

lemma solo_pipe_item: "(n, False, snd y) \<in># items (solo_pipe n K y)"
  by (simp add: solo_pipe_def)

section \<open>Coherence with the database\<close>



text \<open>
  C2. No packet is in a pipeline twice: two items of a reachable state have different keys, and
  every key is one the deduper remembers, so a second push of the packet is refused.
\<close>

theorem pipeline_packet_once:
  assumes "pipe_reachable (NewPipeline opts havePriceClient R) st"
    "items st = add_mset x M"
  shows "item_key x \<notin> item_key ` set_mset M \<and>
    PipelineDeduper_Push (item_transfer x) st = (st, False)"
proof -
  have "keys_once (add_mset x M)" "item_key x \<in> inPipeline st"
    using ibcv2.reachable_inv [OF assms(1)] assms(2) by (auto simp: pipe_inv_def)
  then show ?thesis by (simp add: PipelineDeduper_Push_def item_key_def)
qed

theorem pipeline_packet_once_witness:
  "item_key (0, False, ex_transfer) \<notin> item_key ` set_mset {#} \<and>
   PipelineDeduper_Push (item_transfer (0, False, ex_transfer)) ex_pipe = (ex_pipe, False)"
  by (rule pipeline_packet_once [where opts = NewSmallPipelineOpts and havePriceClient = False
        and R = ex_route, OF ex_reachable])
    (simp add: ex_items)






section \<open>Errors\<close>

text \<open>
  A transfer that has errored anywhere in a pipeline is passed on unchanged by every later
  stage, single, batched or finishing: no state is written, nothing is submitted for it.
\<close>

theorem errored_transfer_passes:
  assumes "pipe_reachable (NewPipeline opts havePriceClient R) st" "(i, b, t) \<in># items st"
    "ProcessingError t \<noteq> None"
  shows "IBCV2ProcessorMW_Process p E w (Some t) = (w, Emitted t) \<and>
    IBCV2BatchProcessorMW_Process q E w [t] = (w, Emitted [t]) \<and>
    StateFinisher_Process succ err E w t = (w, t)"
proof -
  have "loud t" using positional.reachable_carried [OF ibcv2.positional_loud assms(1,2)] .
  then have "Error t \<noteq> []" using assms(3) by (simp add: loud_def)
  then show ?thesis
    by (simp add: IBCV2ProcessorMW_Process_def IBCV2BatchProcessorMW_Process_def StateFinisher_Process_def)
qed

definition ex_bad_env :: env where
  "ex_bad_env = (ex_env 50)\<lparr>clients := Map.empty\<rparr>"

definition ex_bad :: "world \<times> IBCV2Transfer" where
  "ex_bad = the (ex_run ex_opts [ex_bad_env])"

theorem errored_transfer_passes_witness:
  "IBCV2ProcessorMW_Process CheckPacketCommitmentProcessor (ex_env 50) ex_world (Some (snd ex_bad)) =
     (ex_world, Emitted (snd ex_bad)) \<and>
   IBCV2BatchProcessorMW_Process (BatchRecvPacketProcessor ex_route) (ex_env 50) ex_world [snd ex_bad] =
     (ex_world, Emitted [snd ex_bad]) \<and>
   StateFinisher_Process True True (ex_env 50) ex_world (snd ex_bad) = (ex_world, snd ex_bad)"
proof -
  have "ex_run ex_opts [ex_bad_env] = Some ex_bad"
    unfolding ex_bad_def by (rule option.collapse [symmetric]) code_simp
  then have "pipe_reachable (NewPipeline ex_opts False ex_route)
    (solo_pipe (length [ex_bad_env]) {transferKey ex_transfer} ex_bad)"
    by (rule ex_run_reachable) (simp add: NewPipeline_def)
  then show ?thesis
    by (rule errored_transfer_passes [OF _ solo_pipe_item]) code_simp
qed

section \<open>Completion\<close>

text \<open>
  A transfer is complete exactly when it has not errored and its timeout was submitted, or it
  was received, its write ack was found, and the ack was submitted or is of a kind that is not
  relayed.
\<close>

theorem IsComplete_iff:
  "IsComplete t relaySuccess relayError \<longleftrightarrow>
     ProcessingError t = None \<and>
     (snd (GetTimeoutTxHash t) \<or>
      snd (GetRecvTxHash t) \<and> snd (GetWriteAckTxHash t) \<and>
      (snd (GetAckTxHash t) \<or>
       (\<exists>s. WriteAckStatus t = Some s \<and> \<not> (if is_success_ack s then relaySuccess else relayError))))"
  by (auto simp: IsComplete_def ack_kinds split: option.splits)


lemma ex_coherent:
  assumes "ex_run ex_opts (replicate n (ex_env 50)) \<noteq> None" "n \<le> 14"
    "ProcessingError (snd (ex_end n)) = None"
  shows "coherent (db (fst (ex_end n))) (snd (ex_end n))"
  using ibcv2.reachable_inv [OF ex_end_reachable [OF assms(1,2)]] assms(3)
  by (simp add: pipe_inv_def in_step_def solo_pipe_def)


section \<open>Retries\<close>

text \<open>
  When a receive transaction has to be retried, its hash and time are gone from the row and
  the transfer is errored; the row stays unfinished, and when it is loaded again the receive
  check takes it, so the packet is looked up and received anew.
\<close>

theorem retry_forgets_recv:
  assumes "coherent (db w) t" "Error t = []" "State t \<noteq> FAILED"
    "RecvTxHash t = Some h" "RecvTxTime t = Some tm" "WriteAckTxHash t = None"
    "AckTxHash t = None" "TimeoutTxHash t = None"
    "clients E chain = Some c" "ShouldRetryTx c h RetryRecvExpiry tm = Inr True"
    "db_fault (storage E) = (\<lambda>_. None)"
    "IBCV2ProcessorMW_Process (RetryRecvPacketProcessor chain) E w (Some t) = (w', Emitted t')"
  shows "ProcessingError t' = Some (Sentinel ErrRetryingRecvPacket) \<and>
    (\<exists>r. lookup_transfer (db w') (transferKey t) = Some r \<and> r_RecvTxHash r = None \<and> r_RecvTxTime r = None \<and>
       \<not> finished_status (r_Status r) \<and>
       CheckRecvPacketDelivery_ShouldProcess E' (NewIBCV2Transfer r))"
proof -
  let ?k = "transferKey t"
  obtain d1 where d1: "UpdateTransferState (storage E) ?k DELIVER_RECV_PACKET (db w) = (d1, None)"
    using assms(11) by (simp add: UpdateTransferState_def set_rows_def exec_query_def)
  obtain d2 where d2: "ClearRecvTx (storage E) ?k d1 = (d2, None)"
    using assms(11) by (simp add: ClearRecvTx_def set_rows_def exec_query_def)
  have res: "w' = w\<lparr>db := d2\<rparr>" "ProcessingError t' = Some (Sentinel ErrRetryingRecvPacket)"
    using assms(2-10,12) d1 d2
    by (auto simp: IBCV2ProcessorMW_Process_def RetryRecvPacketProcessor_def Let_def
        RetryRecvPacket_ShouldProcess_def RetryRecvPacket_Process_def GetClient_def mw_update_state_def
        on_db_def)
  obtain r0 where r0: "lookup_transfer (db w) ?k = Some r0" "agrees r0 t"
    using assms(1) by (auto simp: coherent_def)
  show ?thesis
    using upd_state.stmt_lookup [OF d1, of ?k] clear_recv.stmt_lookup [OF d2, of ?k] r0 res assms(7,8)
    by (auto simp: agrees_def finished_status_def CheckRecvPacketDelivery_ShouldProcess_def
        NewIBCV2Transfer_def)
qed

definition ex_retry_env :: env where
  "ex_retry_env = (ex_env 50)\<lparr>clients :=
     (\<lambda>c. Some (ex_client\<lparr>ShouldRetryTx := \<lambda>_ _ _. Inr True\<rparr>))\<rparr>"

definition ex_retry_out :: "world \<times> IBCV2Transfer outcome" where
  "ex_retry_out = IBCV2ProcessorMW_Process (RetryRecvPacketProcessor ''B'') ex_retry_env
     (fst (ex_end 7)) (Some (snd (ex_end 7)))"

theorem retry_forgets_recv_witness:
  "\<exists>t'. snd ex_retry_out = Emitted t' \<and>
     ProcessingError t' = Some (Sentinel ErrRetryingRecvPacket)"
proof -
  have "case snd ex_retry_out of Emitted _ \<Rightarrow> True | _ \<Rightarrow> False" by code_simp
  then obtain t' where "snd ex_retry_out = Emitted t'" by (auto split: outcome.splits)
  then obtain w' where out: "ex_retry_out = (w', Emitted t')" by (metis prod.collapse)
  have "coherent (db (fst (ex_end 7))) (snd (ex_end 7))"
  proof (rule ex_coherent)
    show "ex_run ex_opts (replicate 7 (ex_env 50)) \<noteq> None" by code_simp
    show "ProcessingError (snd (ex_end 7)) = None" by code_simp
  qed simp
  moreover have "Error (snd (ex_end 7)) = []" by code_simp
  moreover have "State (snd (ex_end 7)) \<noteq> FAILED" by code_simp
  moreover have "RecvTxHash (snd (ex_end 7)) = Some ''0xcd''" by code_simp
  moreover have "RecvTxTime (snd (ex_end 7)) = Some 20" by code_simp
  moreover have "WriteAckTxHash (snd (ex_end 7)) = None" by code_simp
  moreover have "AckTxHash (snd (ex_end 7)) = None" by code_simp
  moreover have "TimeoutTxHash (snd (ex_end 7)) = None" by code_simp
  moreover have "clients ex_retry_env ''B'' = Some (ex_client\<lparr>ShouldRetryTx := \<lambda>_ _ _. Inr True\<rparr>)"
    by (simp add: ex_retry_env_def)
  moreover have "ShouldRetryTx (ex_client\<lparr>ShouldRetryTx := \<lambda>_ _ _. Inr True\<rparr>) ''0xcd'' RetryRecvExpiry 20 =
      Inr True" by simp
  moreover have "db_fault (storage ex_retry_env) = (\<lambda>_. None)"
    by (simp add: ex_retry_env_def ex_env_def ex_db_env_def)
  ultimately have "ProcessingError t' = Some (Sentinel ErrRetryingRecvPacket)"
    using retry_forgets_recv [OF _ _ _ _ _ _ _ _ _ _ _ out [unfolded ex_retry_out_def]] by blast
  with out show ?thesis by (metis snd_conv)
qed

section \<open>Batches\<close>

text \<open>
  C14. A receive batch that succeeds asked the proof service for exactly the sequence numbers of
  the transfers that go on, in the order of the batch, delivered the answer to the destination
  chain once, and recorded it: one pending submission, a mapping row per transfer, and rows
  that agree with the transfers, which all carry the hash of the delivered transaction.
\<close>

theorem recv_batch_recorded:
  assumes "BatchRecvPacket_Process R E w ts = (w', Inr ts')"
    "\<forall>t \<in> set ts. ProcessingError t = None \<and> coherent (db w) t" "distinct (map transferKey ts)"
    "\<exists>t \<in> set ts'. ProcessingError t = None"
  shows "\<exists>ids tx. batch_recorded E w w' (destinationChainID R) (recv_request R ids) RECV_PACKET tx
      (filter (\<lambda>t. ProcessingError t = None) ts') \<and>
    (\<forall>t \<in> set ts'. ProcessingError t = None \<longrightarrow> RecvTxHash t = Some (Hash tx))"
  using submit_batch_recorded [OF recv_submission.batch_submission_axioms
      assms(1) [unfolded BatchRecvPacket_Process_def] assms(2-4)]
  by (fastforce simp: mark_recv_def)

definition ex_batch_out :: "world \<times> IBCV2Transfer list result" where
  "ex_batch_out = BatchRecvPacket_Process ex_route (ex_env 50) (fst (ex_end 6)) [snd (ex_end 6)]"

lemma ex_batch:
  obtains w' t' where "ex_batch_out = (w', Inr [t'])" "ProcessingError t' = None"
proof -
  have "case snd ex_batch_out of Inr [t'] \<Rightarrow> ProcessingError t' = None | _ \<Rightarrow> False" by code_simp
  then obtain t' where t': "snd ex_batch_out = Inr [t']" "ProcessingError t' = None"
    by (auto split: sum.splits list.splits)
  then show thesis using that [of "fst ex_batch_out" t'] by (simp add: prod_eq_iff)
qed

lemma ex_batch_coherent: "coherent (db (fst (ex_end 6))) (snd (ex_end 6))"
proof (rule ex_coherent)
  show "ex_run ex_opts (replicate 6 (ex_env 50)) \<noteq> None" by code_simp
  show "ProcessingError (snd (ex_end 6)) = None" by code_simp
qed simp

theorem recv_batch_recorded_witness:
  "\<exists>w' ts'. ex_batch_out = (w', Inr ts') \<and>
     (\<exists>ids tx. batch_recorded (ex_env 50) (fst (ex_end 6)) w' (destinationChainID ex_route)
        (recv_request ex_route ids) RECV_PACKET tx (filter (\<lambda>t. ProcessingError t = None) ts') \<and>
      (\<forall>t \<in> set ts'. ProcessingError t = None \<longrightarrow> RecvTxHash t = Some (Hash tx)))"
proof -
  obtain w' t' where out: "ex_batch_out = (w', Inr [t'])" "ProcessingError t' = None"
    by (rule ex_batch)
  have "ProcessingError (snd (ex_end 6)) = None" by code_simp
  then have "\<forall>t \<in> set [snd (ex_end 6)]. ProcessingError t = None \<and> coherent (db (fst (ex_end 6))) t"
    using ex_batch_coherent by simp
  then have "\<exists>ids tx. batch_recorded (ex_env 50) (fst (ex_end 6)) w' (destinationChainID ex_route)
        (recv_request ex_route ids) RECV_PACKET tx (filter (\<lambda>t. ProcessingError t = None) [t']) \<and>
      (\<forall>t \<in> set [t']. ProcessingError t = None \<longrightarrow> RecvTxHash t = Some (Hash tx))"
    by (rule recv_batch_recorded [OF out(1) [unfolded ex_batch_out_def]]) (use out(2) in simp_all)
  with out(1) show ?thesis by blast
qed

text \<open>
  The same for the ack and the timeout batches, whose transactions go to the source chain
  with the sequence numbers on the destination side of the request.
\<close>

theorem ack_timeout_batches_recorded:
  assumes "\<forall>t \<in> set ts. ProcessingError t = None \<and> coherent (db w) t" "distinct (map transferKey ts)"
    "\<exists>t \<in> set ts'. ProcessingError t = None"
  shows "(BatchAckPacket_Process R E w ts = (w', Inr ts') \<longrightarrow>
     (\<exists>ids tx. batch_recorded E w w' (sourceChainID R) (ack_request R ids) ACK_PACKET tx
        (filter (\<lambda>t. ProcessingError t = None) ts') \<and>
      (\<forall>t \<in> set ts'. ProcessingError t = None \<longrightarrow> AckTxHash t = Some (Hash tx)))) \<and>
    (BatchTimeoutPacket_Process R E w ts = (w', Inr ts') \<longrightarrow>
     (\<exists>ids tx. batch_recorded E w w' (sourceChainID R) (timeout_request R ids) TIMEOUT_PACKET tx
        (filter (\<lambda>t. ProcessingError t = None) ts') \<and>
      (\<forall>t \<in> set ts'. ProcessingError t = None \<longrightarrow> TimeoutTxHash t = Some (Hash tx))))"
proof (intro conjI impI)
  assume "BatchAckPacket_Process R E w ts = (w', Inr ts')"
  from submit_batch_recorded [OF ack_submission.batch_submission_axioms
      this [unfolded BatchAckPacket_Process_def] assms]
  show "\<exists>ids tx. batch_recorded E w w' (sourceChainID R) (ack_request R ids) ACK_PACKET tx
        (filter (\<lambda>t. ProcessingError t = None) ts') \<and>
      (\<forall>t \<in> set ts'. ProcessingError t = None \<longrightarrow> AckTxHash t = Some (Hash tx))"
    by (fastforce simp: mark_ack_def)
next
  assume "BatchTimeoutPacket_Process R E w ts = (w', Inr ts')"
  from submit_batch_recorded [OF timeout_submission.batch_submission_axioms
      this [unfolded BatchTimeoutPacket_Process_def] assms]
  show "\<exists>ids tx. batch_recorded E w w' (sourceChainID R) (timeout_request R ids) TIMEOUT_PACKET tx
        (filter (\<lambda>t. ProcessingError t = None) ts') \<and>
      (\<forall>t \<in> set ts'. ProcessingError t = None \<longrightarrow> TimeoutTxHash t = Some (Hash tx))"
    by (fastforce simp: mark_timeout_def)
qed

definition ex_ack_out :: "world \<times> IBCV2Transfer list result" where
  "ex_ack_out = BatchAckPacket_Process ex_route (ex_env 50) (fst (ex_end 11)) [snd (ex_end 11)]"

theorem ack_timeout_batches_recorded_witness:
  "\<exists>w' ts'. ex_ack_out = (w', Inr ts') \<and>
     (\<exists>ids tx. batch_recorded (ex_env 50) (fst (ex_end 11)) w' (sourceChainID ex_route)
        (ack_request ex_route ids) ACK_PACKET tx (filter (\<lambda>t. ProcessingError t = None) ts'))"
proof -
  have "case snd ex_ack_out of Inr [t'] \<Rightarrow> ProcessingError t' = None | _ \<Rightarrow> False" by code_simp
  then obtain t' where t': "snd ex_ack_out = Inr [t']" "ProcessingError t' = None"
    by (auto split: sum.splits list.splits)
  then obtain w' where out: "ex_ack_out = (w', Inr [t'])" by (metis prod.collapse)
  have ok: "ProcessingError (snd (ex_end 11)) = None" by code_simp
  have "coherent (db (fst (ex_end 11))) (snd (ex_end 11))"
  proof (rule ex_coherent)
    show "ex_run ex_opts (replicate 11 (ex_env 50)) \<noteq> None" by code_simp
  qed (simp_all add: ok)
  then have "\<forall>t \<in> set [snd (ex_end 11)]. ProcessingError t = None \<and> coherent (db (fst (ex_end 11))) t"
    using ok by simp
  then show ?thesis
    using ack_timeout_batches_recorded [of "[snd (ex_end 11)]" "fst (ex_end 11)" "[t']" ex_route
        "ex_env 50" w'] t'(2) out unfolding ex_ack_out_def by fastforce
qed


definition ex_fault_out :: "world \<times> IBCV2Transfer list result" where
  "ex_fault_out = ProcessB (BatchRecvPacketProcessor ex_route)
     ((ex_env 50)\<lparr>storage := ex_db_env\<lparr>commit_fault := Some (External ''connection lost'')\<rparr>\<rparr>)
     (fst (ex_end 6)) [snd (ex_end 6)]"


text \<open>
  A batch stage loses and invents no transfer: what it emits is, up to order, what went in,
  whatever fails inside.
\<close>

theorem batch_stages_conserve:
  assumes "IBCV2BatchProcessorMW_Process b E w ts = (w', Emitted ts')"
    "b \<in> {BatchRecvPacketProcessor R, BatchAckPacketProcessor R s e, BatchTimeoutPacketProcessor R}"
  shows "mset (map identity ts') = mset (map identity ts)"
  using assms batch_recv.mwB_emits(1) batch_ack.mwB_emits(1) batch_timeout.mwB_emits(1) by blast

theorem batch_stages_conserve_witness:
  "\<exists>w'. IBCV2BatchProcessorMW_Process (BatchRecvPacketProcessor ex_route) (ex_env 50) ex_world [snd ex_bad] =
     (w', Emitted [snd ex_bad]) \<and> mset (map identity [snd ex_bad]) = mset (map identity [snd ex_bad])"
proof -
  have "Error (snd ex_bad) \<noteq> []" by code_simp
  then have "IBCV2BatchProcessorMW_Process (BatchRecvPacketProcessor ex_route) (ex_env 50) ex_world
      [snd ex_bad] = (ex_world, Emitted [snd ex_bad])"
    by (simp add: IBCV2BatchProcessorMW_Process_def)
  with batch_stages_conserve [OF this, of ex_route True True] show ?thesis by simp
qed

section \<open>Timeouts\<close>

text \<open>
  C16. A transfer that the timeout stage took is not received in the same pass, as long as the
  clock does not run backwards: the receive stage leaves it, its row and the chains alone.
\<close>

theorem timed_out_not_received:
  assumes "IBCV2BatchProcessorMW_Process (BatchTimeoutPacketProcessor R) E w ts = (w', Emitted ts')"
    "t' \<in> set ts'" "t' \<notin> set ts" "Error t' = []"
    "now E (transferKey t') \<le> now E' (transferKey t')"
  shows "IBCV2BatchProcessorMW_Process (BatchRecvPacketProcessor R') E' w'' [t'] = (w'', Emitted [t'])"
proof -
  obtain t where t: "identity t' = identity t" "BatchTimeoutPacket_ShouldProcess E t"
    using batch_timeout.mwB_output [OF assms(1,2)] assms(3,4)
    by (auto simp: BatchTimeoutPacketProcessor_def)
  have "IsTimedOut (now E (transferKey t')) t'"
    using t identity_key [OF t(1)]
    by (simp add: BatchTimeoutPacket_ShouldProcess_def IsTimedOut_def identity_def)
  then have "IsTimedOut (now E' (transferKey t')) t'"
    using assms(5) by (rule IsTimedOut_mono)
  then show ?thesis
    by (simp add: IBCV2BatchProcessorMW_Process_def BatchRecvPacketProcessor_def
        BatchRecvPacket_ShouldProcess_def)
qed

definition ex_late_out :: "world \<times> IBCV2Transfer list outcome" where
  "ex_late_out = IBCV2BatchProcessorMW_Process (BatchTimeoutPacketProcessor ex_route) (ex_env 200)
     ex_world [ex_transfer]"

theorem timed_out_not_received_witness:
  "\<exists>t'. snd ex_late_out = Emitted [t'] \<and> TimeoutTxHash t' = Some ''0xcd'' \<and>
     IBCV2BatchProcessorMW_Process (BatchRecvPacketProcessor ex_route) (ex_env 201) ex_world [t'] =
       (ex_world, Emitted [t'])"
proof -
  have "case snd ex_late_out of Emitted [t'] \<Rightarrow> TimeoutTxHash t' = Some ''0xcd'' \<and> Error t' = [] | _ \<Rightarrow> False"
    by code_simp
  then obtain t' where t': "snd ex_late_out = Emitted [t']" "TimeoutTxHash t' = Some ''0xcd''" "Error t' = []"
    by (auto split: outcome.splits list.splits)
  then obtain w' where out: "ex_late_out = (w', Emitted [t'])" by (metis prod.collapse)
  have "t' \<notin> set [ex_transfer]" using t'(2) by (auto simp: ex_defs)
  then have "IBCV2BatchProcessorMW_Process (BatchRecvPacketProcessor ex_route) (ex_env 201) ex_world [t'] =
       (ex_world, Emitted [t'])"
    using t'(3) by (intro timed_out_not_received [OF out [unfolded ex_late_out_def]]) (simp_all add: ex_env_def)
  with t' show ?thesis by blast
qed

text \<open>
  C17. A transfer that is due for a timeout when the finality check looks at it only passes the
  check without an error if the destination chain answered that the packet's timeout is final.
\<close>

theorem timeout_after_finality:
  assumes "IBCV2ProcessorMW_Process (CheckTimeoutFinalityProcessor offset) E w (Some t) = (w', Emitted t')"
    "Error t = []" "State t \<noteq> FAILED" "Error t' = []"
    "BatchTimeoutPacket_ShouldProcess E t"
  shows "\<exists>c. clients E (DestinationChainID t) = Some c \<and>
    IsTimestampFinalized c (PacketTimeoutTimestamp t) offset = Inr True"
  using assms(1)
proof (cases rule: check_timeout.mw_output)
  case (processed w1)
  then show ?thesis
    by (auto simp: CheckTimeoutFinalityProcessor_def CheckTimeoutFinality_Process_def GetClient_def
        split: sum.splits option.splits if_splits)
qed (use assms in \<open>auto simp: CheckTimeoutFinalityProcessor_def CheckTimeoutFinality_ShouldProcess_def
      BatchTimeoutPacket_ShouldProcess_def\<close>)

definition ex_tfin_out :: "world \<times> IBCV2Transfer outcome" where
  "ex_tfin_out = IBCV2ProcessorMW_Process (CheckTimeoutFinalityProcessor None) (ex_env 200) ex_world
     (Some ex_transfer)"

theorem timeout_after_finality_witness:
  "\<exists>c. clients (ex_env 200) (DestinationChainID ex_transfer) = Some c \<and>
     IsTimestampFinalized c (PacketTimeoutTimestamp ex_transfer) None = Inr True"
proof -
  have "case snd ex_tfin_out of Emitted t' \<Rightarrow> Error t' = [] | _ \<Rightarrow> False" by code_simp
  then obtain t' where t': "snd ex_tfin_out = Emitted t'" "Error t' = []" by (auto split: outcome.splits)
  then obtain w' where out: "ex_tfin_out = (w', Emitted t')" by (metis prod.collapse)
  show ?thesis
  proof (rule timeout_after_finality [OF out [unfolded ex_tfin_out_def]])
    show "Error ex_transfer = []" by code_simp
    show "State ex_transfer \<noteq> FAILED" by code_simp
    show "BatchTimeoutPacket_ShouldProcess (ex_env 200) ex_transfer" by code_simp
  qed (rule t'(2))
qed

definition ex_unfinal_env :: "time \<Rightarrow> env" where
  "ex_unfinal_env n = (ex_env n)\<lparr>clients :=
     (\<lambda>c. Some (ex_client\<lparr>IsTimestampFinalized := \<lambda>_ _. Inr False\<rparr>))\<rparr>"

text \<open>
  The check and the submission read the clock separately. A packet that expires between the
  two is timed out although the destination chain would have answered that its timeout is not
  final: the check skips it, the timeout stage submits for it.
\<close>

theorem timeout_finality_race:
  "case solo_run [(Single (CheckTimeoutFinalityProcessor None), ex_unfinal_env 100),
       (Batched 1 (BatchTimeoutPacketProcessor ex_route), ex_unfinal_env 101)] (ex_world, ex_transfer) of
     None \<Rightarrow> False
   | Some (w, t) \<Rightarrow> TimeoutTxHash t = Some ''0xcd'' \<and> EvDeliverTx ''A'' [1] ''to'' \<in> set (events w)"
  by code_simp

end
