(* ===== verification/Dispatcher.thy ===== *)
theory Dispatcher
  imports Guarantees
begin

text \<open>
  \<^verbatim>\<open>relayer/ibcv2/relay_dispatcher.go\<close> and the pipeline manager of \<^verbatim>\<open>relayer/ibcv2/pipeline.go\<close>:
  the pipelines by route, the dispatch of unfinished rows, and the steps of the whole relayer,
  in which every pipeline works on the same database. The dispatch is one step here; what a
  dispatch that is overtaken by a pipeline does is shown separately.
\<close>

section \<open>The pipeline manager\<close>

definition newPipelineKey :: "IBCV2Transfer \<Rightarrow> route" where
  "newPipelineKey t =
     \<lparr>sourceChainID = GetSourceChainID t,
      sourceClientID = GetPacketSourceClientID t,
      destinationChainID = GetDestinationChainID t,
      destinationClientID = GetPacketDestinationClientID t\<rparr>"

text \<open>A deduper with the pipeline behind it: its stages, what is inside, what it remembers.\<close>

record running =
  stages :: "stage list"
  queue :: "item multiset"
  tracked :: "transfer_key set"

record relayer =
  rworld :: world
  pipelines :: "route \<rightharpoonup> running"

definition as_pipe :: "world \<Rightarrow> running \<Rightarrow> pipe" where
  "as_pipe w p = \<lparr>pworld = w, items = queue p, inPipeline = tracked p\<rparr>"

definition put_pipe :: "route \<Rightarrow> running \<Rightarrow> pipe \<Rightarrow> relayer \<Rightarrow> relayer" where
  "put_pipe R p st s =
     s\<lparr>rworld := pworld st,
       pipelines := (pipelines s)(R \<mapsto> p\<lparr>queue := items st, tracked := inPipeline st\<rparr>)\<rparr>"

definition newPipelineForTransfer :: "configReader \<Rightarrow> bool \<Rightarrow> IBCV2Transfer \<Rightarrow> running result" where
  "newPipelineForTransfer cfg havePriceClient t =
     (case NewPipelineOpts cfg t of
        Inl err \<Rightarrow> Inl (Wrapf ''creating pipeline options'' err)
      | Inr opts \<Rightarrow>
          Inr \<lparr>stages = NewPipeline opts havePriceClient (newPipelineKey t), queue = {#}, tracked = {}\<rparr>)"

definition IBCV2PipelineManager_Pipeline ::
  "configReader \<Rightarrow> bool \<Rightarrow> IBCV2Transfer \<Rightarrow> relayer \<Rightarrow> relayer \<times> running result" where
  "IBCV2PipelineManager_Pipeline cfg havePriceClient t s =
     (case pipelines s (newPipelineKey t) of
        Some existing \<Rightarrow> (s, Inr existing)
      | None \<Rightarrow>
          (case newPipelineForTransfer cfg havePriceClient t of
             Inl err \<Rightarrow> (s, Inl (Wrapf ''creating new pipeline for transfer'' err))
           | Inr created \<Rightarrow>
               (s\<lparr>pipelines := (pipelines s)(newPipelineKey t \<mapsto> created)\<rparr>, Inr created)))"

section \<open>The dispatcher\<close>

definition SubmitTransfer ::
  "configReader \<Rightarrow> bool \<Rightarrow> IBCV2Transfer \<Rightarrow> relayer \<Rightarrow> relayer \<times> go_error option" where
  "SubmitTransfer cfg havePriceClient t s =
     (case IBCV2PipelineManager_Pipeline cfg havePriceClient t s of
        (s1, Inl err) \<Rightarrow> (s1, Some (Wrapf ''getting pipeline to push transfer onto from manager'' err))
      | (s1, Inr p) \<Rightarrow>
          (case PipelineDeduper_Push t (as_pipe (rworld s1) p) of
             (st, pushed) \<Rightarrow>
               (put_pipe (newPipelineKey t) p st s1,
                if pushed then None else Some (Sentinel ErrTransferAlreadyInPipeline))))"

text \<open>The loop body; an error of the update to FAILED is only logged.\<close>

definition submit_row ::
  "configReader \<Rightarrow> bool \<Rightarrow> db_env \<Rightarrow> Ibcv2Transfer \<Rightarrow> relayer \<Rightarrow> relayer" where
  "submit_row cfg havePriceClient D r s =
     (let t = NewIBCV2Transfer r in
      case SubmitTransfer cfg havePriceClient t s of
        (s1, None) \<Rightarrow> s1
      | (s1, Some err) \<Rightarrow>
          if errors_is err ErrTransferAlreadyInPipeline then s1
          else
            s1\<lparr>rworld := fst (on_db (UpdateTransferState D (transferKey t) FAILED) (rworld s1))\<rparr>)"

definition SubmitWaitingUnfinishedTransfers ::
  "configReader \<Rightarrow> bool \<Rightarrow> db_env \<Rightarrow> relayer \<Rightarrow> relayer \<times> go_error option" where
  "SubmitWaitingUnfinishedTransfers cfg havePriceClient D s =
     (case GetUnfinishedIBCV2Transfers D (db (rworld s)) of
        Inl err \<Rightarrow> (s, Some (Wrapf ''getting unfinished ibcv2 transfers from storage'' err))
      | Inr rows \<Rightarrow> (fold (submit_row cfg havePriceClient D) rows s, None))"

section \<open>Steps of the relayer\<close>

text \<open>
  What the api and the cost tracker do: rows of transfers that exist stay as they are, new ones
  may be added.
\<close>

definition rows_extended :: "database \<Rightarrow> database \<Rightarrow> bool" where
  "rows_extended d d' \<longleftrightarrow>
     (\<forall>k r. lookup_transfer d k = Some r \<longrightarrow> lookup_transfer d' k = Some r) \<and>
     (keys_distinct d \<longrightarrow> keys_distinct d')"

inductive relayer_step :: "configReader \<Rightarrow> bool \<Rightarrow> relayer \<Rightarrow> relayer \<Rightarrow> bool"
  for cfg :: configReader and hp :: bool where
  dispatch: "SubmitWaitingUnfinishedTransfers cfg hp D s = (s', x) \<Longrightarrow> relayer_step cfg hp s s'"
| pipeline_work: "pipelines s R = Some p \<Longrightarrow> pipe_work (stages p) (as_pipe (rworld s) p) st \<Longrightarrow>
     relayer_step cfg hp s (put_pipe R p st s)"
| storage_step: "rows_extended (db (rworld s)) (db w') \<Longrightarrow> relayer_step cfg hp s (s\<lparr>rworld := w'\<rparr>)"

definition relayer_init :: "world \<Rightarrow> relayer" where
  "relayer_init w = \<lparr>rworld = w, pipelines = Map.empty\<rparr>"

definition relayer_reachable :: "configReader \<Rightarrow> bool \<Rightarrow> relayer \<Rightarrow> bool" where
  "relayer_reachable cfg hp s \<longleftrightarrow>
     (\<exists>w. keys_distinct (db w) \<and> (relayer_step cfg hp)\<^sup>*\<^sup>* (relayer_init w) s)"

section \<open>The invariant\<close>

definition row_route :: "Ibcv2Transfer \<Rightarrow> route" where
  "row_route r = newPipelineKey (NewIBCV2Transfer r)"

definition pipe_ok :: "bool \<Rightarrow> world \<Rightarrow> route \<Rightarrow> running \<Rightarrow> bool" where
  "pipe_ok hp w R p \<longleftrightarrow>
     (\<exists>opts. stages p = NewPipeline opts hp R) \<and> pipe_reachable (stages p) (as_pipe w p) \<and>
     (\<forall>k \<in> tracked p. \<exists>r. lookup_transfer (db w) k = Some r \<and> row_route r = R)"

definition relayer_inv :: "bool \<Rightarrow> relayer \<Rightarrow> bool" where
  "relayer_inv hp s \<longleftrightarrow> keys_distinct (db (rworld s)) \<and>
     (\<forall>R p. pipelines s R = Some p \<longrightarrow> pipe_ok hp (rworld s) R p)"

lemma row_route_ends: "row_ends r = row_ends r' \<Longrightarrow> row_route r = row_route r'"
  by (auto simp: row_ends_def row_key_def row_route_def newPipelineKey_def NewIBCV2Transfer_def
      GetSourceChainID_def GetPacketSourceClientID_def GetDestinationChainID_def
      GetPacketDestinationClientID_def)

lemma as_pipe_simps [simp]:
  "pworld (as_pipe w p) = w" "items (as_pipe w p) = queue p" "inPipeline (as_pipe w p) = tracked p"
  by (simp_all add: as_pipe_def)

lemma as_pipe_put [simp]:
  "as_pipe w (p\<lparr>queue := items st, tracked := inPipeline st\<rparr>) = st\<lparr>pworld := w\<rparr>"
  by (simp add: as_pipe_def)

lemma find_ends:
  "map row_ends xs = map row_ends ys \<Longrightarrow>
     rel_option (\<lambda>a b. row_ends a = row_ends b) (find (\<lambda>r. row_key r = k) xs) (find (\<lambda>r. row_key r = k) ys)"
proof (induction xs arbitrary: ys)
  case (Cons x xs)
  then obtain y ys' where "ys = y # ys'" "row_ends x = row_ends y" "map row_ends xs = map row_ends ys'"
    by (cases ys) auto
  moreover from this have "row_key x = row_key y" by (simp add: row_ends_def)
  ultimately show ?case using Cons.IH [of ys'] by simp
qed simp

lemma framed_route:
  assumes "rows_framed K d d'" "lookup_transfer d k = Some r"
  obtains r' where "lookup_transfer d' k = Some r'" "row_route r' = row_route r"
proof -
  have "rel_option (\<lambda>a b. row_ends a = row_ends b) (lookup_transfer d k) (lookup_transfer d' k)"
    using assms(1) find_ends [of "transfers d" "transfers d'" k]
    by (simp add: rows_framed_def lookup_transfer_def)
  then obtain r' where r': "lookup_transfer d' k = Some r'" "row_ends r = row_ends r'"
    using assms(2) by (auto simp: option_rel_Some1)
  show thesis by (rule that [OF r'(1) row_route_ends [OF r'(2), symmetric]])
qed

lemma framed_distinct: "rows_framed K d d' \<Longrightarrow> keys_distinct d \<Longrightarrow> keys_distinct d'"
  by (simp add: rows_framed_def keys_distinct_def)

lemma find_distinct:
  "distinct (map row_key xs) \<Longrightarrow> r \<in> set xs \<Longrightarrow> find (\<lambda>r'. row_key r' = row_key r) xs = Some r"
  by (induction xs) (auto simp: image_iff)

lemma lookup_member:
  "keys_distinct d \<Longrightarrow> r \<in> set (transfers d) \<Longrightarrow> lookup_transfer d (row_key r) = Some r"
  by (simp add: keys_distinct_def lookup_transfer_def find_distinct)

lemma tracked_row:
  assumes "pipe_ok hp w R p" "k \<in> tracked p"
  obtains r where "lookup_transfer (db w) k = Some r" "row_route r = R"
  using assms unfolding pipe_ok_def by blast

lemma reachable_step: "pipe_reachable S st \<Longrightarrow> pipe_step S st st' \<Longrightarrow> pipe_reachable S st'"
  unfolding pipe_reachable_def by (meson rtranclp.rtrancl_into_rtrancl)

lemma reachable_outside:
  assumes "pipe_reachable S (as_pipe w p)" "rows_framed_on (tracked p) (db w) (db w')"
  shows "pipe_reachable S (as_pipe w' p)"
proof -
  have "pipe_step S (as_pipe w p) ((as_pipe w p)\<lparr>pworld := w'\<rparr>)"
    by (rule pipe_step.outside) (simp add: assms(2))
  moreover have "(as_pipe w p)\<lparr>pworld := w'\<rparr> = as_pipe w' p" by (simp add: as_pipe_def)
  ultimately show ?thesis using assms(1) reachable_step by metis
qed

lemma pipe_ok_reachable: "pipe_ok hp w R p \<Longrightarrow> pipe_reachable (stages p) (as_pipe w p)"
  by (simp add: pipe_ok_def)

lemma pipe_ok_inv: "pipe_ok hp w R p \<Longrightarrow> pipe_inv (as_pipe w p)"
  unfolding pipe_ok_def using ibcv2.reachable_inv by metis

lemma pipe_ok_framed:
  assumes ok: "pipe_ok hp w R p" and frame: "rows_framed K (db w) (db w')" and apart: "K \<inter> tracked p = {}"
  shows "pipe_ok hp w' R p"
proof -
  have "rows_framed_on (tracked p) (db w) (db w')"
    using frame apart by (auto simp: rows_framed_on_def rows_framed_def)
  then have "pipe_reachable (stages p) (as_pipe w' p)"
    by (rule reachable_outside [OF pipe_ok_reachable [OF ok]])
  moreover have "\<exists>r. lookup_transfer (db w') k = Some r \<and> row_route r = R" if "k \<in> tracked p" for k
    using tracked_row [OF ok that] framed_route [OF frame] by metis
  ultimately show ?thesis using ok by (simp add: pipe_ok_def)
qed

lemma pipe_ok_extended:
  assumes ok: "pipe_ok hp w R p" and ext: "rows_extended (db w) (db w')"
  shows "pipe_ok hp w' R p"
proof -
  have kept: "lookup_transfer (db w') k = lookup_transfer (db w) k" if k: "k \<in> tracked p" for k
  proof -
    obtain r where "lookup_transfer (db w) k = Some r" using ok k by (rule tracked_row)
    then show ?thesis using ext unfolding rows_extended_def by metis
  qed
  then have "rows_framed_on (tracked p) (db w) (db w')" by (simp add: rows_framed_on_def)
  then have "pipe_reachable (stages p) (as_pipe w' p)"
    by (rule reachable_outside [OF pipe_ok_reachable [OF ok]])
  then show ?thesis using ok kept by (simp add: pipe_ok_def)
qed

lemma routes_apart:
  assumes "pipe_ok hp w R p" "pipe_ok hp w R' p'" "R \<noteq> R'"
  shows "tracked p \<inter> tracked p' = {}"
proof (rule equals0I)
  fix k assume k: "k \<in> tracked p \<inter> tracked p'"
  obtain r where r: "lookup_transfer (db w) k = Some r" "row_route r = R"
    using k tracked_row [OF assms(1), of k] by blast
  obtain r' where r': "lookup_transfer (db w) k = Some r'" "row_route r' = R'"
    using k tracked_row [OF assms(2), of k] by blast
  show False using r r' assms(3) by simp
qed

lemma work_pipe_ok:
  assumes ok: "pipe_ok hp w R p" and step: "pipe_work (stages p) (as_pipe w p) st"
  shows "pipe_ok hp (pworld st) R (p\<lparr>queue := items st, tracked := inPipeline st\<rparr>) \<and>
    rows_framed (tracked p) (db w) (db (pworld st))"
proof -
  obtain opts where S: "stages p = NewPipeline opts hp R" using ok by (auto simp: pipe_ok_def)
  have inv: "pipe_inv (as_pipe w p)" using ok by (rule pipe_ok_inv)
  have reach: "pipe_reachable (stages p) st"
    using ok reachable_step [OF _ pipe_step.work [OF step]] by (simp add: pipe_ok_def)
  have frame: "rows_framed (tracked p) (db w) (db (pworld st))" "inPipeline st \<subseteq> tracked p"
    using ibcv2.work_framed [OF step [unfolded S] inv] by simp_all
  have "\<exists>r. lookup_transfer (db (pworld st)) k = Some r \<and> row_route r = R" if "k \<in> inPipeline st" for k
    using tracked_row [OF ok] that frame(2) framed_route [OF frame(1)] by (metis subsetD)
  then show ?thesis using reach S frame(1) by (auto simp: pipe_ok_def)
qed

lemma relayer_inv_put:
  assumes inv: "relayer_inv hp s" and p: "pipelines s R = Some p"
    and frame: "rows_framed (tracked p) (db (rworld s)) (db (pworld st))"
    and ok: "pipe_ok hp (pworld st) R (p\<lparr>queue := items st, tracked := inPipeline st\<rparr>)"
  shows "relayer_inv hp (put_pipe R p st s)"
proof -
  have "pipe_ok hp (pworld st) R' p'" if "R' \<noteq> R" "pipelines s R' = Some p'" for R' p'
  proof (rule pipe_ok_framed [OF _ frame])
    show "pipe_ok hp (rworld s) R' p'" using inv that by (simp add: relayer_inv_def)
    then show "tracked p \<inter> tracked p' = {}"
      using inv p that routes_apart by (metis relayer_inv_def)
  qed
  then show ?thesis
    using inv ok framed_distinct [OF frame] by (auto simp: relayer_inv_def put_pipe_def)
qed

section \<open>Dispatching keeps it\<close>

lemma push_pipe_ok:
  assumes ok: "pipe_ok hp w R p" and r: "lookup_transfer (db w) (row_key r) = Some r" "row_route r = R"
    and push: "PipelineDeduper_Push (NewIBCV2Transfer r) (as_pipe w p) = (st, b)"
  shows "pipe_ok hp w R (p\<lparr>queue := items st, tracked := inPipeline st\<rparr>) \<and> pworld st = w"
proof -
  have w: "pworld st = w" and tr: "inPipeline st \<subseteq> insert (transferKey (NewIBCV2Transfer r)) (tracked p)"
    using push by (auto simp: PipelineDeduper_Push_def split: if_splits)
  have "pipe_step (stages p) (as_pipe w p) st" using pipe_step.push [OF _ push] r(1) by simp
  with pipe_ok_reachable [OF ok] have "pipe_reachable (stages p) st" by (rule reachable_step)
  moreover have "\<exists>r. lookup_transfer (db w) k = Some r \<and> row_route r = R" if "k \<in> inPipeline st" for k
  proof (cases "k = row_key r")
    case False
    then have "k \<in> tracked p" using that tr by auto
    then show ?thesis using tracked_row [OF ok] by blast
  qed (use r in simp)
  moreover have "st\<lparr>pworld := w\<rparr> = st" using w by (cases st) simp
  then have "pipe_reachable (stages p) (st\<lparr>pworld := w\<rparr>)"
    using \<open>pipe_reachable (stages p) st\<close> by (rule ssubst)
  ultimately show ?thesis using ok w by (simp add: pipe_ok_def)
qed

lemma new_pipeline_ok:
  "newPipelineForTransfer cfg hp t = Inr p \<Longrightarrow> pipe_ok hp w (newPipelineKey t) p"
  by (auto simp: newPipelineForTransfer_def pipe_ok_def as_pipe_def pipe_reachable_def pipe_init_def
      split: sum.splits)

lemma manager_inv:
  assumes "IBCV2PipelineManager_Pipeline cfg hp t s = (s', x)" "relayer_inv hp s"
  shows "relayer_inv hp s'" "rworld s' = rworld s"
    "\<And>p. x = Inr p \<Longrightarrow> pipelines s' (newPipelineKey t) = Some p"
    "\<And>e. x = Inl e \<Longrightarrow> pipelines s (newPipelineKey t) = None \<and> s' = s"
  using assms new_pipeline_ok [of cfg hp t]
  by (auto simp: IBCV2PipelineManager_Pipeline_def relayer_inv_def split: option.splits sum.splits if_splits)

lemma untracked:
  assumes "relayer_inv hp s" "lookup_transfer (db (rworld s)) k = Some r"
    "pipelines s (row_route r) = None" "pipelines s R = Some p"
  shows "k \<notin> tracked p"
proof
  assume k: "k \<in> tracked p"
  have "pipe_ok hp (rworld s) R p" using assms(1,4) by (simp add: relayer_inv_def)
  then have "row_route r = R" using k assms(2) by (metis option.inject tracked_row)
  then show False using assms(3,4) by simp
qed

lemma submit_transfer_inv:
  assumes inv: "relayer_inv hp s" and r: "lookup_transfer (db (rworld s)) (row_key r) = Some r"
    and submit: "SubmitTransfer cfg hp (NewIBCV2Transfer r) s = (s', x)"
  shows "relayer_inv hp s'" "rworld s' = rworld s"
    "\<And>e. x = Some e \<Longrightarrow> \<not> errors_is e ErrTransferAlreadyInPipeline \<Longrightarrow>
       pipelines s (row_route r) = None \<and> s' = s"
proof -
  let ?t = "NewIBCV2Transfer r" and ?R = "row_route r"
  obtain s1 y where m: "IBCV2PipelineManager_Pipeline cfg hp ?t s = (s1, y)" by fastforce
  note m_inv = manager_inv [OF m inv, folded row_route_def]
  show "relayer_inv hp s'" "rworld s' = rworld s"
    "\<And>e. x = Some e \<Longrightarrow> \<not> errors_is e ErrTransferAlreadyInPipeline \<Longrightarrow>
       pipelines s (row_route r) = None \<and> s' = s"
  proof (atomize (full), cases y)
    case (Inl e)
    then show "relayer_inv hp s' \<and> rworld s' = rworld s \<and>
      (\<forall>e. x = Some e \<longrightarrow> \<not> errors_is e ErrTransferAlreadyInPipeline \<longrightarrow> pipelines s ?R = None \<and> s' = s)"
      using submit m m_inv(4) inv by (auto simp: SubmitTransfer_def)
  next
    case (Inr p)
    obtain st b where push: "PipelineDeduper_Push ?t (as_pipe (rworld s1) p) = (st, b)" by fastforce
    have s': "s' = put_pipe ?R p st s1" "x = (if b then None else Some (Sentinel ErrTransferAlreadyInPipeline))"
      using submit m Inr push by (simp_all add: SubmitTransfer_def row_route_def)
    have p: "pipelines s1 ?R = Some p" using m_inv(3) Inr by simp
    then have "pipe_ok hp (rworld s1) ?R p" using m_inv(1) by (simp add: relayer_inv_def)
    from push_pipe_ok [OF this _ refl push] r m_inv(2)
    have ok: "pipe_ok hp (rworld s1) ?R (p\<lparr>queue := items st, tracked := inPipeline st\<rparr>)" "pworld st = rworld s1"
      by simp_all
    then have "relayer_inv hp s'" unfolding s'(1) by (intro relayer_inv_put [OF m_inv(1) p]) simp_all
    then show "relayer_inv hp s' \<and> rworld s' = rworld s \<and>
      (\<forall>e. x = Some e \<longrightarrow> \<not> errors_is e ErrTransferAlreadyInPipeline \<longrightarrow> pipelines s ?R = None \<and> s' = s)"
      using s' ok(2) m_inv(2) by (simp add: put_pipe_def)
  qed
qed

lemma submit_row_inv:
  assumes inv: "relayer_inv hp s" and r: "lookup_transfer (db (rworld s)) (row_key r) = Some r"
  shows "relayer_inv hp (submit_row cfg hp D r s) \<and>
    (\<forall>k. k \<noteq> row_key r \<longrightarrow>
       lookup_transfer (db (rworld (submit_row cfg hp D r s))) k = lookup_transfer (db (rworld s)) k)"
proof -
  obtain s1 x where m: "SubmitTransfer cfg hp (NewIBCV2Transfer r) s = (s1, x)" by fastforce
  note m_inv = submit_transfer_inv [OF inv r m]
  show ?thesis
  proof (cases "case x of None \<Rightarrow> True | Some e \<Rightarrow> errors_is e ErrTransferAlreadyInPipeline")
    case True
    then have "submit_row cfg hp D r s = s1" using m by (auto simp: submit_row_def split: option.splits)
    then show ?thesis using m_inv(1,2) by simp
  next
    case False
    then obtain e where e: "x = Some e" "\<not> errors_is e ErrTransferAlreadyInPipeline"
      by (auto split: option.splits)
    have s1: "pipelines s (row_route r) = None" "s1 = s" using m_inv(3) [OF e] by simp_all
    obtain w' y where u: "on_db (UpdateTransferState D (row_key r) FAILED) (rworld s) = (w', y)" by fastforce
    then obtain d' where d': "UpdateTransferState D (row_key r) FAILED (db (rworld s)) = (d', y)" "db w' = d'"
      by (auto simp: on_db_eq)
    have row: "submit_row cfg hp D r s = s\<lparr>rworld := w'\<rparr>"
      using m e s1 u by (simp add: submit_row_def)
    have frame: "rows_framed {row_key r} (db (rworld s)) (db w')"
      using upd_state.stmt_framed [OF d'(1)] d'(2) by simp
    have "pipe_ok hp w' R p" if "pipelines s R = Some p" for R p
      using inv that untracked [OF inv r s1(1) that]
      by (intro pipe_ok_framed [OF _ frame]) (simp_all add: relayer_inv_def)
    then show ?thesis
      using row inv framed_distinct [OF frame] upd_state.stmt_frame [OF d'(1)] d'(2)
      by (simp add: relayer_inv_def)
  qed
qed

lemma submit_rows_inv:
  assumes "relayer_inv hp s" "distinct (map row_key rs)"
    "\<forall>r \<in> set rs. lookup_transfer (db (rworld s)) (row_key r) = Some r"
  shows "relayer_inv hp (fold (submit_row cfg hp D) rs s) \<and>
    (\<forall>k. k \<notin> set (map row_key rs) \<longrightarrow>
       lookup_transfer (db (rworld (fold (submit_row cfg hp D) rs s))) k = lookup_transfer (db (rworld s)) k)"
  using assms
proof (induction rs arbitrary: s)
  case (Cons r rs)
  let ?s = "submit_row cfg hp D r s"
  have s: "relayer_inv hp ?s \<and>
    (\<forall>k. k \<noteq> row_key r \<longrightarrow> lookup_transfer (db (rworld ?s)) k = lookup_transfer (db (rworld s)) k)"
    using Cons.prems by (intro submit_row_inv) simp_all
  have "lookup_transfer (db (rworld ?s)) (row_key r') = Some r'" if "r' \<in> set rs" for r'
  proof -
    have "row_key r' \<in> row_key ` set rs" using that by (rule imageI)
    then have "row_key r' \<noteq> row_key r" using Cons.prems(2) by auto
    then show ?thesis using s Cons.prems(3) that by (metis list.set_intros(2))
  qed
  then have "relayer_inv hp (fold (submit_row cfg hp D) rs ?s) \<and>
    (\<forall>k. k \<notin> set (map row_key rs) \<longrightarrow>
       lookup_transfer (db (rworld (fold (submit_row cfg hp D) rs ?s))) k = lookup_transfer (db (rworld ?s)) k)"
    using Cons.prems(2) s by (intro Cons.IH) simp_all
  then show ?case using s by simp
qed simp

lemma dispatch_inv:
  assumes "SubmitWaitingUnfinishedTransfers cfg hp D s = (s', x)" "relayer_inv hp s"
  shows "relayer_inv hp s'"
proof (cases "GetUnfinishedIBCV2Transfers D (db (rworld s))")
  case (Inl e)
  then show ?thesis using assms by (simp add: SubmitWaitingUnfinishedTransfers_def)
next
  case (Inr rs)
  have kd: "keys_distinct (db (rworld s))" using assms(2) by (simp add: relayer_inv_def)
  have rs: "rs = filter (\<lambda>r. \<not> finished_status (r_Status r)) (transfers (db (rworld s)))"
    using Inr by (simp add: GetUnfinishedIBCV2Transfers_def split: option.splits)
  have "distinct (map row_key rs)"
    unfolding rs using kd by (simp add: keys_distinct_def distinct_map_filter)
  moreover have "\<forall>r \<in> set rs. lookup_transfer (db (rworld s)) (row_key r) = Some r"
    unfolding rs using lookup_member [OF kd] by simp
  moreover have "s' = fold (submit_row cfg hp D) rs s"
    using assms(1) Inr by (simp add: SubmitWaitingUnfinishedTransfers_def)
  ultimately show ?thesis using submit_rows_inv [OF assms(2)] by simp
qed

lemma relayer_step_inv: "relayer_step cfg hp s s' \<Longrightarrow> relayer_inv hp s \<Longrightarrow> relayer_inv hp s'"
proof (induction rule: relayer_step.induct)
  case (dispatch D s s' x)
  then show ?case by (rule dispatch_inv)
next
  case (pipeline_work s R p st)
  have "pipe_ok hp (rworld s) R p" using pipeline_work by (simp add: relayer_inv_def)
  from work_pipe_ok [OF this pipeline_work.hyps(2)] show ?case
    by (intro relayer_inv_put [OF pipeline_work.prems pipeline_work.hyps(1)]) simp_all
next
  case (storage_step s w')
  have "keys_distinct (db w')"
    using storage_step.hyps storage_step.prems unfolding rows_extended_def relayer_inv_def by (elim conjE) (rule mp)
  moreover have "pipe_ok hp w' R p" if "pipelines s R = Some p" for R p
    using storage_step.prems that by (intro pipe_ok_extended [OF _ storage_step.hyps]) (simp add: relayer_inv_def)
  ultimately show ?case by (simp add: relayer_inv_def)
qed

lemma reachable_relayer_inv: "relayer_reachable cfg hp s \<Longrightarrow> relayer_inv hp s"
  unfolding relayer_reachable_def
proof (elim exE conjE)
  fix w assume "keys_distinct (db w)" "(relayer_step cfg hp)\<^sup>*\<^sup>* (relayer_init w) s"
  from this(2,1) show "relayer_inv hp s"
  proof (induction rule: rtranclp_induct)
    case base
    then show ?case by (simp add: relayer_init_def relayer_inv_def)
  next
    case (step y z)
    then show ?case using relayer_step_inv by blast
  qed
qed

section \<open>What a dispatch does to a row\<close>

definition dispatched :: "configReader \<Rightarrow> db_env \<Rightarrow> Ibcv2Transfer \<Rightarrow> relayer \<Rightarrow> bool" where
  "dispatched cfg D r s \<longleftrightarrow>
     (case pipelines s (row_route r) of
        Some p \<Rightarrow> row_key r \<in> tracked p
      | None \<Rightarrow>
          (\<exists>e. NewPipelineOpts cfg (NewIBCV2Transfer r) = Inl e) \<and>
          (db_fault D (QUpdateTransferState (row_key r)) = None \<longrightarrow>
             (\<exists>r'. lookup_transfer (db (rworld s)) (row_key r) = Some r' \<and> r_Status r' = FAILED)))"

lemma submit_transfer_pipelines:
  assumes "SubmitTransfer cfg hp t s = (s', x)"
  shows "pipelines s' R =
    (if R = newPipelineKey t then
       (case IBCV2PipelineManager_Pipeline cfg hp t s of
          (_, Inl _) \<Rightarrow> None
        | (_, Inr p) \<Rightarrow>
            let st = fst (PipelineDeduper_Push t (as_pipe (rworld s) p))
            in Some (p\<lparr>queue := items st, tracked := inPipeline st\<rparr>))
     else pipelines s R)"
  using assms
  by (auto simp: SubmitTransfer_def IBCV2PipelineManager_Pipeline_def put_pipe_def Let_def
      split: option.splits sum.splits prod.splits if_splits)

lemma push_tracks: "inPipeline (fst (PipelineDeduper_Push t st)) = insert (transferKey t) (inPipeline st)"
  by (auto simp: PipelineDeduper_Push_def)

lemma submit_row_pipelines: "pipelines (submit_row cfg hp D r s) = pipelines (fst (SubmitTransfer cfg hp (NewIBCV2Transfer r) s))"
  by (auto simp: submit_row_def Let_def split: prod.splits option.splits)

lemma submit_row_dispatched:
  assumes inv: "relayer_inv hp s" and r: "lookup_transfer (db (rworld s)) (row_key r) = Some r"
  shows "dispatched cfg D r (submit_row cfg hp D r s)"
proof -
  let ?t = "NewIBCV2Transfer r" and ?R = "row_route r"
  obtain s1 x where sub: "SubmitTransfer cfg hp ?t s = (s1, x)" by fastforce
  obtain s2 y where man: "IBCV2PipelineManager_Pipeline cfg hp ?t s = (s2, y)" by fastforce
  note pl = submit_transfer_pipelines [OF sub, of ?R, folded row_route_def]
  show ?thesis
  proof (cases y)
    case (Inr p)
    then obtain p' where "pipelines s1 ?R = Some p'" "row_key r \<in> tracked p'"
      using pl man by (simp add: Let_def push_tracks)
    then show ?thesis using sub by (simp add: dispatched_def submit_row_pipelines)
  next
    case (Inl e)
    have none: "pipelines s1 ?R = None" using pl man Inl by simp
    have s1: "s1 = s" "x = Some (Wrapf ''getting pipeline to push transfer onto from manager'' e)"
      using sub man Inl manager_inv(4) [OF man inv] by (simp_all add: SubmitTransfer_def)
    have opts: "\<exists>e. NewPipelineOpts cfg ?t = Inl e" and e: "\<not> errors_is e ErrTransferAlreadyInPipeline"
      using man Inl
      by (auto simp: IBCV2PipelineManager_Pipeline_def newPipelineForTransfer_def NewPipelineOpts_def
          GetChainConfig_def chain_not_found_def split: option.splits sum.splits)
    have "\<exists>r'. lookup_transfer (db (rworld (submit_row cfg hp D r s))) (row_key r) = Some r' \<and> r_Status r' = FAILED"
      if "db_fault D (QUpdateTransferState (row_key r)) = None"
    proof -
      obtain d' z where u: "UpdateTransferState D (row_key r) FAILED (db (rworld s)) = (d', z)" by fastforce
      then have z: "z = None" using that by (auto simp: UpdateTransferState_def set_rows_def exec_query_def)
      have "rworld (submit_row cfg hp D r s) = (rworld s)\<lparr>db := d'\<rparr>"
        using sub s1 e u by (simp add: submit_row_def on_db_def)
      then show ?thesis using upd_state.stmt_lookup [OF u [unfolded z]] r by simp
    qed
    then show ?thesis using none sub opts by (simp add: dispatched_def submit_row_pipelines)
  qed
qed

lemma submit_row_keeps_dispatched:
  assumes d: "dispatched cfg D r s" and inv: "relayer_inv hp s"
    and other: "lookup_transfer (db (rworld s)) (row_key r') = Some r'" "row_key r' \<noteq> row_key r"
  shows "dispatched cfg D r (submit_row cfg hp D r' s)"
proof -
  let ?s = "submit_row cfg hp D r' s"
  obtain s1 x where sub: "SubmitTransfer cfg hp (NewIBCV2Transfer r') s = (s1, x)" by fastforce
  have same: "lookup_transfer (db (rworld ?s)) (row_key r) = lookup_transfer (db (rworld s)) (row_key r)"
    using submit_row_inv [OF inv other(1), of cfg D] other(2) by metis
  note pl = submit_transfer_pipelines [OF sub, of "row_route r", folded row_route_def]
  have pls: "pipelines ?s = pipelines s1" using sub by (simp add: submit_row_pipelines)
  show ?thesis
  proof (cases "row_route r = row_route r'")
    case False
    then have "pipelines ?s (row_route r) = pipelines s (row_route r)" using pl pls by simp
    then show ?thesis using d unfolding dispatched_def same by simp
  next
    case True
    show ?thesis
    proof (cases "pipelines s (row_route r)")
      case (Some p)
      then have "IBCV2PipelineManager_Pipeline cfg hp (NewIBCV2Transfer r') s = (s, Inr p)"
        using True by (simp add: IBCV2PipelineManager_Pipeline_def row_route_def)
      then show ?thesis using pl pls d True Some by (simp add: dispatched_def Let_def push_tracks)
    next
      case None
      have same_opts: "NewPipelineOpts cfg (NewIBCV2Transfer r') = NewPipelineOpts cfg (NewIBCV2Transfer r)"
        using True unfolding NewPipelineOpts_def row_route_def newPipelineKey_def by (simp only: route.iffs)
      then obtain e where "IBCV2PipelineManager_Pipeline cfg hp (NewIBCV2Transfer r') s = (s, Inl e)"
        using d None True
        by (auto simp: dispatched_def IBCV2PipelineManager_Pipeline_def newPipelineForTransfer_def row_route_def)
      then have "pipelines ?s (row_route r) = None" using pl pls True by simp
      then show ?thesis using d None unfolding dispatched_def same by simp
    qed
  qed
qed

lemma submit_rows_dispatched:
  assumes "relayer_inv hp s" "distinct (map row_key rs)" "r \<in> set rs"
    "\<forall>r \<in> set rs. lookup_transfer (db (rworld s)) (row_key r) = Some r"
  shows "dispatched cfg D r (fold (submit_row cfg hp D) rs s)"
  using assms(2-)
proof (induction rs rule: rev_induct)
  case (snoc r' rs)
  let ?s = "fold (submit_row cfg hp D) rs s"
  have fold: "relayer_inv hp ?s \<and>
    (\<forall>k. k \<notin> set (map row_key rs) \<longrightarrow> lookup_transfer (db (rworld ?s)) k = lookup_transfer (db (rworld s)) k)"
    using snoc.prems by (intro submit_rows_inv [OF assms(1)]) simp_all
  then have inv: "relayer_inv hp ?s" by simp
  have fresh: "row_key r' \<notin> set (map row_key rs)" using snoc.prems(1) by simp
  have "lookup_transfer (db (rworld s)) (row_key r') = Some r'" using snoc.prems(3) by simp
  then have r': "lookup_transfer (db (rworld ?s)) (row_key r') = Some r'"
    using fold fresh by metis
  show ?case
  proof (cases "r = r'")
    case True
    then show ?thesis using submit_row_dispatched [OF inv r'] by simp
  next
    case False
    then have r: "r \<in> set rs" using snoc.prems(2) by simp
    then have "row_key r \<in> set (map row_key rs)" by simp
    then have "row_key r' \<noteq> row_key r" using fresh by metis
    moreover have "dispatched cfg D r ?s" using snoc r by simp
    ultimately show ?thesis using submit_row_keeps_dispatched [OF _ inv r'] by simp
  qed
qed simp

section \<open>Example\<close>

definition ex_ibcv2 :: "string \<Rightarrow> string \<Rightarrow> IBCV2Config" where
  "ex_ibcv2 client counterparty =
     \<lparr>CounterpartyChains = [client \<mapsto> counterparty], FinalityOffset = None, cfgAckBatchSize = 0,
      cfgAckBatchTimeout = 0, cfgAckBatchConcurrency = 0, cfgRecvBatchSize = 5, cfgRecvBatchTimeout = 0,
      cfgRecvBatchConcurrency = 0, cfgTimeoutBatchSize = 0, cfgTimeoutBatchTimeout = 0,
      cfgTimeoutBatchConcurrency = 0, cfgShouldRelaySuccessAcks = True, cfgShouldRelayErrorAcks = True\<rparr>"

definition ex_chain :: "string \<Rightarrow> ChainType \<Rightarrow> IBCV2Config \<Rightarrow> ChainConfig" where
  "ex_chain i ty v2 =
     \<lparr>ChainName = i, ChainID = i, Type = ty, Environment = ''testnet'', Cosmos = None, Evm = None,
      Svm = None, GasTokenSymbol = ''TKN'', GasTokenCoingeckoID = None, GasTokenDecimals = 6,
      SignerGasAlertThresholds = Map.empty, IBCV2 = Some v2, SupportedBridges = [BridgeTypeIBCV2]\<rparr>"

definition ex_config :: config where
  "ex_config =
     \<lparr>Postgres = \<lparr>Hostname = ''db'', Port = ''5432'', Database = ''relayer'', IAMAuthEnabled = False,
        IAMAuthRegion = []\<rparr>,
      Chains = [(''a'', ex_chain ''A'' COSMOS (ex_ibcv2 ''ca'' ''B'')),
        (''b'', ex_chain ''B'' EVM (ex_ibcv2 ''cb'' ''A''))],
      PrometheusAddress = [], RelayerAPIAddress = ''0.0.0.0:9000'',
      Coingecko = \<lparr>BaseURL = [], RequestsPerMinute = 30, APIKey = [], CacheRefreshInterval = 0\<rparr>,
      IBCV2ProofAPI = \<lparr>ProofGRPCAddress = [], ProofGRPCTLSEnabled = False\<rparr>,
      Signing = \<lparr>KeysPath = [], SigningGRPCAddress = [], SigningGRPCTLSEnabled = False,
        CosmosWalletKey = [], EVMWalletKey = [], SVMWalletKey = []\<rparr>\<rparr>"

definition ex_cfg :: configReader where
  "ex_cfg = NewConfigReader ex_config"

definition ex_relayer :: relayer where
  "ex_relayer = fst (SubmitWaitingUnfinishedTransfers ex_cfg False ex_db_env (relayer_init ex_world))"

definition ex_running :: running where
  "ex_running = the (pipelines ex_relayer ex_route)"

lemma ex_relayer_reachable: "relayer_reachable ex_cfg False ex_relayer"
proof -
  have "relayer_step ex_cfg False (relayer_init ex_world) ex_relayer"
    unfolding ex_relayer_def by (rule relayer_step.dispatch [OF prod.collapse [symmetric]])
  moreover have "keys_distinct (db ex_world)" by code_simp
  ultimately show ?thesis by (auto simp: relayer_reachable_def)
qed

lemma ex_routes: "row_route ex_row = ex_route" "row_key ex_row = (''A'', ''ca'', 7)"
  by code_simp+

lemma ex_unfinished: "GetUnfinishedIBCV2Transfers ex_db_env (db ex_world) = Inr [ex_row]"
  by (simp add: GetUnfinishedIBCV2Transfers_def ex_db_env_def ex_defs finished_status_def)

lemma ex_dispatched: "dispatched ex_cfg ex_db_env ex_row ex_relayer"
proof -
  have inv: "relayer_inv False (relayer_init ex_world)"
    by (simp add: relayer_inv_def relayer_init_def keys_distinct_def ex_defs)
  have "lookup_transfer (db (rworld (relayer_init ex_world))) (row_key ex_row) = Some ex_row"
    by (simp add: relayer_init_def lookup_transfer_def ex_world_def ex_db_def)
  from submit_row_dispatched [OF inv this] show ?thesis
    using ex_unfinished by (simp add: ex_relayer_def SubmitWaitingUnfinishedTransfers_def relayer_init_def)
qed

definition ex_stale_row :: Ibcv2Transfer where
  "ex_stale_row = ex_row\<lparr>r_RecvTxHash := Some ''0xcd''\<rparr>"

definition ex_stale :: "relayer \<times> go_error option" where
  "ex_stale =
     SubmitTransfer ex_cfg False (NewIBCV2Transfer ex_row)
       (relayer_init (ex_world\<lparr>db := ex_db\<lparr>transfers := [ex_stale_row]\<rparr>\<rparr>))"

lemma coherent_code [code]:
  "coherent d t \<longleftrightarrow> (case lookup_transfer d (transferKey t) of None \<Rightarrow> False | Some r \<Rightarrow> agrees r t)"
  by (auto simp: coherent_def split: option.splits)

section \<open>Guarantees of the whole relayer\<close>




lemma ex_running_queue: "queue ex_running = {#(0, False, ex_transfer)#}"
  by (simp add: ex_running_def ex_relayer_def SubmitWaitingUnfinishedTransfers_def relayer_init_def
      ex_unfinished submit_row_def SubmitTransfer_def IBCV2PipelineManager_Pipeline_def) code_simp






text \<open>
  A dispatch reads all rows first and pushes them one by one. A transfer that was in a
  pipeline when its row was read and has left it when its turn comes is accepted with the old
  row: here the row has a receive transaction by then, and the transfer pushed has none, so the
  receive stage would submit a second one.
\<close>

theorem stale_dispatch_accepted:
  "case ex_stale of (s, x) \<Rightarrow>
     x = None \<and>
     (case pipelines s ex_route of
        None \<Rightarrow> False
      | Some p \<Rightarrow> tracked p = {row_key ex_stale_row}) \<and>
     map r_RecvTxHash (transfers (db (rworld s))) = [Some ''0xcd''] \<and>
     \<not> coherent (db (rworld s)) (NewIBCV2Transfer ex_row) \<and>
     BatchRecvPacket_ShouldProcess (ex_env 50) (NewIBCV2Transfer ex_row)"
  by code_simp

end
