(* ===== verification/RelayerApi.thy ===== *)
theory RelayerApi
  imports Dispatcher
begin

text \<open>
  The gRPC service of \<^verbatim>\<open>relayerapi/services/relayerapi/service.go\<close>: the relay and the status
  endpoints, with the list of sanctioned addresses of \<^verbatim>\<open>shared/utils/validate_address_list.go\<close>.
  An answer is a message, a gRPC status, or a plain error, which gRPC reports as unknown. The
  clients, the configuration and the faults of the database are arguments.
\<close>

section \<open>Messages\<close>

datatype code = InvalidArgument | NotFound | Internal | Unavailable | FailedPrecondition

datatype 'a rpc = RpcOk 'a | RpcStatus code string | RpcError go_error

datatype TransferState =
  TRANSFER_STATE_UNKNOWN | TRANSFER_STATE_PENDING | TRANSFER_STATE_COMPLETE | TRANSFER_STATE_FAILED

record TransactionInfo =
  TxHash :: string
  ChainId :: string

record PacketStatus =
  PktState :: TransferState
  SequenceNumber :: u64
  SourceClientId :: string
  SendTx :: TransactionInfo
  RecvTx :: "TransactionInfo option"
  AckTx :: "TransactionInfo option"
  TimeoutTx :: "TransactionInfo option"

definition mapDBStatusToProto :: "Ibcv2RelayStatus \<Rightarrow> TransferState" where
  "mapDBStatusToProto s =
     (if s \<in> {COMPLETE_WITH_ACK, COMPLETE_WITH_TIMEOUT, COMPLETE_WITH_WRITE_ACK_SUCCESS,
               COMPLETE_WITH_WRITE_ACK_ERROR} then TRANSFER_STATE_COMPLETE
      else if s = FAILED then TRANSFER_STATE_FAILED
      else TRANSFER_STATE_PENDING)"

definition toTxInfo :: "string option \<Rightarrow> string \<Rightarrow> TransactionInfo option" where
  "toTxInfo hash chainID =
     (case hash of None \<Rightarrow> None | Some h \<Rightarrow> Some \<lparr>TxHash = h, ChainId = chainID\<rparr>)"

section \<open>Status\<close>

definition packet_status :: "Ibcv2Transfer \<Rightarrow> PacketStatus" where
  "packet_status t =
     \<lparr>PktState = mapDBStatusToProto (r_Status t),
      SequenceNumber = scast (r_PacketSequenceNumber t),
      SourceClientId = r_PacketSourceClientID t,
      SendTx = \<lparr>TxHash = r_SourceTxHash t, ChainId = r_SourceChainID t\<rparr>,
      RecvTx = toTxInfo (r_RecvTxHash t) (r_DestinationChainID t),
      AckTx = toTxInfo (r_AckTxHash t) (r_SourceChainID t),
      TimeoutTx = toTxInfo (r_TimeoutTxHash t) (r_SourceChainID t)\<rparr>"

definition Status :: "db_env \<Rightarrow> database \<Rightarrow> string \<Rightarrow> string \<Rightarrow> PacketStatus list rpc" where
  "Status D d txHash chainID =
     (if txHash = [] \<or> chainID = [] then RpcStatus InvalidArgument ''tx_hash and chain_id are required''
      else
        (case GetRelayRequest D chainID txHash d of
           Inl err \<Rightarrow>
             if errors_is err ErrNoRows then RpcStatus NotFound ''transaction not submitted to relayer''
             else RpcStatus Internal ''failed to query relay request''
         | Inr _ \<Rightarrow>
             (case GetTransfersBySourceTx D chainID txHash d of
                Inl err \<Rightarrow> RpcStatus Internal ''failed to query transfers''
              | Inr ts \<Rightarrow> RpcOk (map packet_status ts))))"

section \<open>Sanctioned addresses\<close>

definition OFACAddressMap :: "string list" where
  "OFACAddressMap =
    [''0x04dba1194ee10112fe6c3207c0687def0e78bacf'',
     ''0x08723392ed15743cc38513c4925f5e6be5c17243'',
     ''0x08b2efdcd8822efe5ad0eae55517cf5dc544251'',
     ''0x0931ca4d13bb4ba75d9b7132ab690265d749a5e7'',
     ''0x098b716b8aaf21512996dc57eb0615e2383e2f96'',
     ''0x0ee5067b06776a89ccc7dc8ee369984ad7db5e06'',
     ''0x12de548f79a50d2bd05481c8515c1ef5183666a9'',
     ''0x1967d8af5bd86a497fb3dd7899a020e47560daaf'',
     ''0x1999ef52700c34de7ec2b68a28aafb37db0c5ade'',
     ''0x19f8f2b0915daa12a3f5c9cf01df9e24d53794f7'',
     ''0x19aa5fe80d33a56d56c78e82ea5e50e5d80b4dff'',
     ''0x1da5821544e25c636c1417ba96ade4cf6d2f9b5a'',
     ''0x21b8d56bda776bbe68655a16895afd96f5534fed'',
     ''0x2f389ce8bd8ff92de3402ffce4691d17fc4f6535'',
     ''0x308ed4b7b49797e1a98d3818bff6fe5385410370'',
     ''0x35fb6f6db4fb05e6a4ce86f2c93691425626d4b1'',
     ''0x39d908dac893cbcb53cc86e0ecc369aa4def1a29'',
     ''0x3ad9db589d201a710ed237c829c7860ba86510fc'',
     ''0x3cffd56b47b7b41c56258d9c7731abadc360e073'',
     ''0x3cbded43efdaf0fc77b9c55f6fc9988fcc9b757d'',
     ''0x3e37627deaa754090fbfbb8bd226c1ce66d255e9'',
     ''0x43fa21d92141ba9db43052492e0deee5aa5f0a93'',
     ''0x48549a34ae37b12f6a30566245176994e17c6b4a'',
     ''0x4f47bc496083c727c5fbe3ce9cdf2b0f6496270c'',
     ''0x502371699497d08d5339c870851898d6d72521dd'',
     ''0x530a64c0ce595026a4a556b703644228179e2d57'',
     ''0x532b77b33a040587e9fd1800088225f99b8b0e8a'',
     ''0x53b6936513e738f44fb50d2b9476730c0ab3bfc1'',
     ''0x5512d943ed1f7c8a43f3435c85f7ab68b30121b0'',
     ''0x57ec89a0c056163a0314e413320f9b3abe761259'',
     ''0x5a14e72060c11313e38738009254a90968f58f51'',
     ''0x5a7a51bfb49f190e5a6060a5bc6052ac14a3b59f'',
     ''0x5d5b5dafecbf31bdb08bfd3edad4f2694372d0ef'',
     ''0x5f48c2a71b2cc96e3f0ccae4e39318ff0dc375b2'',
     ''0x67d40ee1a85bf4a4bb7ffae16de985e8427b6b45'',
     ''0x6be0ae71e6c41f2f9d0d1a3b8d0f75e6f6a0b46e'',
     ''0x6f1ca141a28907f78ebaa64fb83a9088b02a8352'',
     ''0x72a5843cc08275c8171e582972aa4fda8c397b2a'',
     ''0x797d7ae72ebddcdea2a346c1834e04d1f8df102b'',
     ''0x7ced75026204ac29c34bea98905d4c949f27361e'',
     ''0x7db418b5d567a4e0e8c59ad71be1fce48f3e6107'',
     ''0x7f19720a857f834887fc9a7bc0a0fbe7fc7f8102'',
     ''0x7f367cc41522ce07553e823bf3be79a889debe1b'',
     ''0x7ff9cfad3877f21d41da833e2f775db0569ee3d9'',
     ''0x83e5bc4ffa856bb84bb88581f5dd62a433a25e0d'',
     ''0x8576acc5c05d6ce88f4e49bf65bdf0c62f91353c'',
     ''0x8dce2aac0de82bdcaf6b4373b79f94331b8e4995'',
     ''0x901bb9583b24d97e995513c6778dc6888ab6870e'',
     ''0x931546d9e66836abf687d2bc64b30407bac8c568'',
     ''0x961c5be54a2ffc17cf4cb021d863c42dacd47fc1'',
     ''0x97b1043abd9e6fc31681635166d430a458d14f9c'',
     ''0x983a81ca6fb1e441266d2fbcb7d8e530ac2e05a2'',
     ''0x9c2bc757b66f24d60f016b6237f8cdd414a879fa'',
     ''0x9f4cda013e354b8fc285bf4b9a60460cee7f7ea9'',
     ''0xd8500c631dc32fa18645b7436344a99e4825e10e'',
     ''0xe950dc316b836e4eefb8308bf32bf7c72a1358ff'',
     ''0xefe301d259f525ca1ba74a7977b80d5b060b3cca'',
     ''0xf7b31119c2682c88d88d455dbb9d5932c65cf1be'',
     ''0xa0e1c89ef1a489c9c7de96311ed5ce5d32c20e4b'',
     ''0xa7e5d5a720f06526557c513402f2e6b5fa20b008'',
     ''0xb338962b92cd818d6aef0a32a9ecd01212a71f33'',
     ''0xb6f5ec1a0a9cd1526536d3f0426c429529471f40'',
     ''0xc103b7dc095c904b92081eef0c1640081ec01c10'',
     ''0xc2a3829f459b3edd87791c74cd45402ba0a20be3'',
     ''0xc455f7fd3e0e12afd51fba5c106909934d8a0e4a'',
     ''0xd0975b32cea532eadddfc9c60481976e39db3472'',
     ''0xd5ed34b52ac4ab84d8fa8a231a3218bbf01ed510'',
     ''0xd882cfc20f52f2599d84b8e8d58c7fb62cfe344b'',
     ''0xdb2720ebad55399117ddb4c4a4afd9a4ccada8fe'',
     ''0xdcbefbfeccce100cce9e4b153c4e15cb885643193'',
     ''0xe1d865c3d669dcc8c57c8d023140cb204e672ee4'',
     ''0xe1e4c5e5ed8f03ae61b581e2def126025f2b9401'',
     ''0xe3d35f68383732649669aa990832e017340dbca5'',
     ''0xe7aa314c77f4233c18c6cc84384a9247c0cf367b'',
     ''0xed6e0a7e4ac94d976eebfb82ccf777a3c6bad921'',
     ''0xf3701f445b6bdafedbca97d1e477357839e4120d'',
     ''0xf4377eda661e04b6dda78969796ed31658d602d4'']"

fun ValidateNoOFACAddress :: "string list \<Rightarrow> unit rpc" where
  "ValidateNoOFACAddress [] = RpcOk ()"
| "ValidateNoOFACAddress (address # rest) =
     (if address \<in> set OFACAddressMap then RpcStatus InvalidArgument ''address is sanctioned''
      else ValidateNoOFACAddress rest)"

section \<open>Relay\<close>

fun insert_packets ::
  "db_env \<Rightarrow> configReader \<Rightarrow> string \<Rightarrow> string \<Rightarrow> PacketInfo list \<Rightarrow> database \<Rightarrow> database \<times> go_error option" where
  "insert_packets D cfg chain txHash [] d = (d, None)"
| "insert_packets D cfg chain txHash (p # ps) d =
     (case GetClientCounterpartyChainID cfg chain (SourceClient p) of
        Inl _ \<Rightarrow> insert_packets D cfg chain txHash ps d
      | Inr destChainID \<Rightarrow>
          (case InsertIBCV2Transfer D chain destChainID txHash (PacketTimestamp p) (ucast (Sequence p))
                  (SourceClient p) (DestinationClient p) (TimeoutTimestamp p) d of
             (d', Some err) \<Rightarrow> (d', Some (Wrapf ''inserting packet sequence'' err))
           | (d', None) \<Rightarrow> insert_packets D cfg chain txHash ps d'))"

definition ErrCodeDuplicateKey :: string where
  "ErrCodeDuplicateKey = ''23505''"

text \<open>The function given to \<^verbatim>\<open>ExecTx\<close>.\<close>

definition persist_relay ::
  "db_env \<Rightarrow> configReader \<Rightarrow> string \<Rightarrow> string \<Rightarrow> PacketInfo list \<Rightarrow> database \<Rightarrow> database \<times> go_error option" where
  "persist_relay D cfg chain txHash packets d =
     (case InsertRelayRequest D chain txHash d of
        (d1, Some err) \<Rightarrow>
          (d1, Some (if pg_code err = Some ErrCodeDuplicateKey then Sentinel ErrAlreadySubmitted
                     else Wrapf ''inserting relay request'' err))
      | (d1, None) \<Rightarrow> insert_packets D cfg chain txHash packets d1)"

text \<open>The checks before anything is stored: the packets to store, or the answer.\<close>

definition relay_packets :: "ClientManager \<Rightarrow> string \<Rightarrow> string \<Rightarrow> PacketInfo list rpc" where
  "relay_packets m txHash chain =
     (if txHash = [] \<or> chain = [] then RpcStatus InvalidArgument ''tx_hash and chain_id are required''
      else
        (case GetClient m chain of
           Inl _ \<Rightarrow> RpcStatus InvalidArgument ''unsupported chain''
         | Inr client \<Rightarrow>
             (case GetTxExecutionStatus client txHash of
                Inl err \<Rightarrow>
                  if errors_is err ErrTxNotFound then RpcStatus NotFound ''tx not found on chain''
                  else RpcStatus Unavailable (error_string err)
              | Inr st \<Rightarrow>
                  if ExecStatus st \<noteq> TxExecutionStatusSuccess
                  then RpcStatus FailedPrecondition ''tx did not succeed on chain''
                  else
                    (case (if ClientChainType client = EVM then
                             (case GetTransactionSender client txHash of
                                Inl err \<Rightarrow> Some (RpcError (Wrapf ''checking OFAC Blacklist - error getting transaction sender'' err))
                              | Inr sender \<Rightarrow>
                                  if ToLower sender \<in> set OFACAddressMap
                                  then Some (RpcStatus InvalidArgument ''Transaction sender is blacklisted - cannot relay'')
                                  else None)
                           else None) of
                       Some refusal \<Rightarrow> refusal
                     | None \<Rightarrow>
                         (case SendPacketsFromTx client chain txHash of
                            Inl err \<Rightarrow> RpcStatus Internal ''failed to get packets from tx''
                          | Inr packets \<Rightarrow> RpcOk packets)))))"

definition Relay ::
  "ClientManager \<Rightarrow> configReader \<Rightarrow> db_env \<Rightarrow> string \<Rightarrow> string \<Rightarrow> database \<Rightarrow> database \<times> unit rpc" where
  "Relay m cfg D txHash chain d =
     (case relay_packets m txHash chain of
        RpcStatus c msg \<Rightarrow> (d, RpcStatus c msg)
      | RpcError err \<Rightarrow> (d, RpcError err)
      | RpcOk packets \<Rightarrow>
          (case ExecTx D (persist_relay D cfg chain txHash packets) d of
             (d', None) \<Rightarrow> (d', RpcOk ())
           | (d', Some txErr) \<Rightarrow>
               if errors_is txErr ErrAlreadySubmitted then (d', RpcOk ())
               else (d', RpcStatus Internal ''failed to persist relay submission'')))"

section \<open>What is stored\<close>

definition known_packet :: "configReader \<Rightarrow> string \<Rightarrow> PacketInfo \<Rightarrow> bool" where
  "known_packet cfg chain p \<longleftrightarrow>
     (case GetClientCounterpartyChainID cfg chain (SourceClient p) of Inl _ \<Rightarrow> False | Inr _ \<Rightarrow> True)"

definition packet_row ::
  "db_env \<Rightarrow> configReader \<Rightarrow> string \<Rightarrow> string \<Rightarrow> PacketInfo \<Rightarrow> Ibcv2Transfer \<Rightarrow> bool" where
  "packet_row D cfg chain txHash p r \<longleftrightarrow>
     (\<exists>i dest. GetClientCounterpartyChainID cfg chain (SourceClient p) = Inr dest \<and>
        r = new_row D i chain dest txHash (PacketTimestamp p) (ucast (Sequence p)) (SourceClient p)
              (DestinationClient p) (TimeoutTimestamp p))"

lemma row_key_new [simp]: "row_key (new_row D i c dc h tm sq cl dcl ts) = (c, cl, sq)"
  by (simp add: row_key_def new_row_def)

lemma insert_transfer_cases:
  assumes "InsertIBCV2Transfer D c dc h tm sq cl dcl ts d = (d', x)"
  obtains (stored) i where "x = None" "transfers d' = transfers d @ [new_row D i c dc h tm sq cl dcl ts]"
      "(c, cl, sq) \<notin> row_key ` set (transfers d)"
    | (refused) e where "x = Some e" "transfers d' = transfers d"
proof -
  have "(x = None \<and> (c, cl, sq) \<notin> row_key ` set (transfers d) \<and>
      (\<exists>i. transfers d' = transfers d @ [new_row D i c dc h tm sq cl dcl ts])) \<or>
    (x \<noteq> None \<and> transfers d' = transfers d)"
  proof (cases "db_fault D (QInsertIBCV2Transfer (c, cl, sq))")
    case None
    then show ?thesis
      using assms by (auto simp: InsertIBCV2Transfer_def Let_def image_iff split: option.splits if_splits)
  next
    case (Some e)
    then have "x = Some e" "d' = d" using assms by (simp_all add: InsertIBCV2Transfer_def)
    then show ?thesis by simp
  qed
  then show thesis using that by blast
qed

lemma insert_transfer_tables:
  assumes "InsertIBCV2Transfer D c dc h tm sq cl dcl ts d = (d', x)"
  shows "relay_requests d' = relay_requests d" "tx_submissions d' = tx_submissions d"
    "transfer_tx_submissions d' = transfer_tx_submissions d"
  using assms by (auto simp: InsertIBCV2Transfer_def Let_def split: option.splits if_splits)

lemma rows_extended_refl [simp]: "rows_extended d d"
  by (simp add: rows_extended_def)

lemma rows_extended_trans: "rows_extended d d1 \<Longrightarrow> rows_extended d1 d2 \<Longrightarrow> rows_extended d d2"
  unfolding rows_extended_def by metis

lemma rows_extended_same: "transfers d' = transfers d \<Longrightarrow> rows_extended d d'"
  by (simp add: rows_extended_def lookup_transfer_def keys_distinct_def)

lemma rows_extended_append:
  assumes "transfers d' = transfers d @ [r]" "row_key r \<notin> row_key ` set (transfers d)"
  shows "rows_extended d d'"
proof -
  have "find P (xs @ ys) = Some a" if "find P xs = Some a" for P :: "Ibcv2Transfer \<Rightarrow> bool" and xs ys a
    using that by (induction xs) (auto split: if_splits)
  then show ?thesis
    unfolding rows_extended_def lookup_transfer_def keys_distinct_def using assms by simp
qed

lemma insert_packets_keeps:
  assumes "insert_packets D cfg chain h ps d = (d', x)"
  shows "rows_extended d d' \<and> relay_requests d' = relay_requests d \<and> tx_submissions d' = tx_submissions d \<and>
    transfer_tx_submissions d' = transfer_tx_submissions d"
  using assms
proof (induction ps arbitrary: d)
  case (Cons p ps)
  show ?case
  proof (cases "GetClientCounterpartyChainID cfg chain (SourceClient p)")
    case (Inl e)
    then show ?thesis using Cons by simp
  next
    case (Inr dest)
    obtain d1 y where ins: "InsertIBCV2Transfer D chain dest h (PacketTimestamp p) (ucast (Sequence p))
        (SourceClient p) (DestinationClient p) (TimeoutTimestamp p) d = (d1, y)" by fastforce
    from ins have ext: "rows_extended d d1"
      by (cases rule: insert_transfer_cases) (simp_all add: rows_extended_append rows_extended_same)
    show ?thesis
    proof (cases y)
      case None
      then have "insert_packets D cfg chain h ps d1 = (d', x)" using Cons.prems Inr ins by simp
      from Cons.IH [OF this] show ?thesis
        using ext insert_transfer_tables [OF ins] rows_extended_trans by metis
    next
      case (Some e)
      then show ?thesis using Cons.prems Inr ins ext insert_transfer_tables [OF ins] by simp
    qed
  qed
qed simp

lemma insert_packets_rows:
  assumes "insert_packets D cfg chain h ps d = (d', None)"
  shows "\<exists>rows. transfers d' = transfers d @ rows \<and>
    list_all2 (packet_row D cfg chain h) (filter (known_packet cfg chain) ps) rows"
  using assms
proof (induction ps arbitrary: d)
  case (Cons p ps)
  show ?case
  proof (cases "GetClientCounterpartyChainID cfg chain (SourceClient p)")
    case (Inl e)
    then show ?thesis using Cons by (simp add: known_packet_def)
  next
    case (Inr dest)
    obtain d1 where ins: "InsertIBCV2Transfer D chain dest h (PacketTimestamp p) (ucast (Sequence p))
        (SourceClient p) (DestinationClient p) (TimeoutTimestamp p) d = (d1, None)"
      and rest: "insert_packets D cfg chain h ps d1 = (d', None)"
      using Cons.prems Inr by (auto split: prod.splits option.splits)
    obtain i where d1: "transfers d1 = transfers d @ [new_row D i chain dest h (PacketTimestamp p)
        (ucast (Sequence p)) (SourceClient p) (DestinationClient p) (TimeoutTimestamp p)]"
      using ins by (cases rule: insert_transfer_cases) simp_all
    obtain rows where rows: "transfers d' = transfers d1 @ rows"
        "list_all2 (packet_row D cfg chain h) (filter (known_packet cfg chain) ps) rows"
      using Cons.IH [OF rest] by blast
    have "packet_row D cfg chain h p (new_row D i chain dest h (PacketTimestamp p)
        (ucast (Sequence p)) (SourceClient p) (DestinationClient p) (TimeoutTimestamp p))"
      using Inr by (auto simp: packet_row_def)
    moreover have "known_packet cfg chain p" using Inr by (simp add: known_packet_def)
    ultimately show ?thesis using rows d1 by auto
  qed
qed simp

lemma insert_packets_fresh:
  assumes "insert_packets D cfg chain h ps d = (d', None)" "p \<in> set ps" "known_packet cfg chain p"
  shows "(chain, SourceClient p, ucast (Sequence p)) \<notin> row_key ` set (transfers d)"
  using assms(1,2)
proof (induction ps arbitrary: d)
  case (Cons q ps)
  show ?case
  proof (cases "GetClientCounterpartyChainID cfg chain (SourceClient q)")
    case (Inl e)
    then have "q \<noteq> p" using assms(3) by (auto simp: known_packet_def)
    then show ?thesis using Cons Inl by simp
  next
    case (Inr dest)
    obtain d1 where ins: "InsertIBCV2Transfer D chain dest h (PacketTimestamp q) (ucast (Sequence q))
        (SourceClient q) (DestinationClient q) (TimeoutTimestamp q) d = (d1, None)"
      and rest: "insert_packets D cfg chain h ps d1 = (d', None)"
      using Cons.prems Inr by (auto split: prod.splits option.splits)
    from ins have q: "(chain, SourceClient q, ucast (Sequence q)) \<notin> row_key ` set (transfers d)"
      "set (transfers d) \<subseteq> set (transfers d1)"
      by (cases rule: insert_transfer_cases, auto)+
    show ?thesis
    proof (cases "q = p")
      case False
      then have "(chain, SourceClient p, ucast (Sequence p)) \<notin> row_key ` set (transfers d1)"
        using Cons.IH [OF rest] Cons.prems(2) by simp
      then show ?thesis using q(2) by (meson image_mono subsetD)
    qed (use q in simp)
  qed
qed simp

lemma insert_request:
  assumes "InsertRelayRequest D chain h d = (d', x)"
  shows "transfers d' = transfers d" "tx_submissions d' = tx_submissions d"
    "transfer_tx_submissions d' = transfer_tx_submissions d"
    "x = None \<Longrightarrow> \<exists>q \<in> set (relay_requests d'). rr_SourceChainID q = chain \<and> rr_SourceTxHash q = h"
  using assms by (auto simp: InsertRelayRequest_def Let_def split: option.splits if_splits)

lemma persist_keeps:
  assumes "persist_relay D cfg chain h ps d = (d', x)"
  shows "rows_extended d d' \<and> tx_submissions d' = tx_submissions d \<and>
    transfer_tx_submissions d' = transfer_tx_submissions d"
proof -
  obtain d1 y where r: "InsertRelayRequest D chain h d = (d1, y)" by fastforce
  note r_keeps = insert_request(1-3) [OF r]
  have ext: "rows_extended d d1" using r_keeps(1) by (rule rows_extended_same)
  show ?thesis
  proof (cases y)
    case None
    then have "insert_packets D cfg chain h ps d1 = (d', x)" using assms r by (simp add: persist_relay_def)
    from insert_packets_keeps [OF this] show ?thesis using ext r_keeps rows_extended_trans by metis
  next
    case (Some e)
    then show ?thesis using assms r ext r_keeps by (simp add: persist_relay_def)
  qed
qed

lemma persist_stored:
  assumes "persist_relay D cfg chain h ps d = (d', None)"
  shows "(\<exists>rows. transfers d' = transfers d @ rows \<and>
      list_all2 (packet_row D cfg chain h) (filter (known_packet cfg chain) ps) rows) \<and>
    (\<exists>q \<in> set (relay_requests d'). rr_SourceChainID q = chain \<and> rr_SourceTxHash q = h)"
proof -
  obtain d1 where r: "InsertRelayRequest D chain h d = (d1, None)" and
      ins: "insert_packets D cfg chain h ps d1 = (d', None)"
    using assms by (auto simp: persist_relay_def split: prod.splits option.splits)
  show ?thesis
    using insert_packets_rows [OF ins] insert_packets_keeps [OF ins] insert_request(1,4) [OF r] by simp
qed

lemma Relay_cases:
  assumes "Relay m cfg D h chain d = (d', res)"
  obtains (refused) "d' = d" "\<And>u. res \<noteq> RpcOk u" "\<And>ps. relay_packets m h chain \<noteq> RpcOk ps"
    | (stored) ps where "relay_packets m h chain = RpcOk ps" "res = RpcOk ()"
        "persist_relay D cfg chain h ps d = (d', None)"
    | (aborted) ps d1 where "relay_packets m h chain = RpcOk ps" "d' = rollback d d1"
proof (cases "relay_packets m h chain")
  case (RpcOk ps)
  obtain x where ex: "ExecTx D (persist_relay D cfg chain h ps) d = (d', x)"
    "res = (case x of None \<Rightarrow> RpcOk () | Some e \<Rightarrow> if errors_is e ErrAlreadySubmitted then RpcOk ()
              else RpcStatus Internal ''failed to persist relay submission'')"
    using assms RpcOk by (auto simp: Relay_def split: prod.splits option.splits if_splits)
  from ex(1) show thesis
  proof (cases rule: ExecTx_cases)
    case commit
    then show thesis using that(2) RpcOk ex(2) by simp
  next
    case (abort d1)
    then show thesis using that(3) RpcOk by simp
  qed
qed (use assms that(1) in \<open>auto simp: Relay_def\<close>)

section \<open>A database that answers\<close>

definition faultless :: "db_env \<Rightarrow> bool" where
  "faultless D \<longleftrightarrow>
     (\<forall>q. db_fault D q = None) \<and> begin_fault D = None \<and> rollback_fault D = None \<and> commit_fault D = None"

lemma insert_packets_error:
  assumes "faultless D" "insert_packets D cfg chain h ps d = (d', Some e)"
  shows "\<not> errors_is e s"
  using assms(2)
proof (induction ps arbitrary: d)
  case (Cons p ps)
  then show ?case
    using assms(1)
    by (auto simp: InsertIBCV2Transfer_def faultless_def Let_def seq_exhausted_def unique_violation_def
        split: sum.splits prod.splits option.splits if_splits)
qed simp

lemma persist_error:
  assumes "faultless D" "persist_relay D cfg chain h ps d = (d', Some e)"
  shows "\<not> errors_is e ErrAlreadySubmitted"
  using assms insert_packets_error [OF assms(1)]
  by (auto simp: persist_relay_def InsertRelayRequest_def faultless_def Let_def seq_exhausted_def
      ErrCodeDuplicateKey_def split: prod.splits option.splits if_splits)

lemma Relay_faultless:
  assumes "faultless D" "relay_packets m h chain = RpcOk ps" "Relay m cfg D h chain d = (d', res)"
  shows "case persist_relay D cfg chain h ps d of
      (d1, None) \<Rightarrow> d' = d1 \<and> res = RpcOk ()
    | (d1, Some e) \<Rightarrow> d' = rollback d d1 \<and> res = RpcStatus Internal ''failed to persist relay submission''"
  using assms persist_error [OF assms(1)]
  by (auto simp: Relay_def ExecTx_def faultless_def split: prod.splits option.splits if_splits)

lemma relay_packets_named: "relay_packets m h chain = RpcOk ps \<Longrightarrow> h \<noteq> [] \<and> chain \<noteq> []"
  by (auto simp: relay_packets_def)

section \<open>Sequence numbers\<close>

lemma scast_ucast_iff:
  fixes s :: u64
  shows "(scast (ucast s :: i32) :: u64) = s \<longleftrightarrow> s < 2 ^ 31 \<or> s \<ge> - (2 ^ 31)"
proof -
  define n where "n = uint s"
  define k where "k = (n + 2 ^ 31) mod 2 ^ 32 - 2 ^ 31"
  have n: "0 \<le> n" "n < 2 ^ 64" using unsigned_greater_eq [of s] unsigned_less [of s] by (simp_all add: n_def)
  have k: "- (2 ^ 31) \<le> k" "k < 2 ^ 31" by (simp_all add: k_def)
  have "sint (ucast s :: i32) = k"
    by (simp add: k_def n_def signed_ucast_eq signed_take_bit_eq_take_bit_shift take_bit_eq_mod)
  then have "uint (scast (ucast s :: i32) :: u64) = k mod 2 ^ 64"
    by (simp add: scast_eq uint_word_of_int)
  then have eq: "(scast (ucast s :: i32) :: u64) = s \<longleftrightarrow> k mod 2 ^ 64 = n"
    by (simp add: n_def word_uint_eq_iff)
  have low: "s < 2 ^ 31 \<longleftrightarrow> n < 2 ^ 31" by (simp add: n_def word_less_def)
  have high: "s \<ge> - (2 ^ 31) \<longleftrightarrow> n \<ge> 2 ^ 64 - 2 ^ 31"
    by (simp add: n_def word_le_def uint_word_ariths)
  have mod: "k mod 2 ^ 64 = (if k < 0 then k + 2 ^ 64 else k)"
    using k mod_pos_pos_trivial [of k "2 ^ 64"] mod_pos_pos_trivial [of "k + 2 ^ 64" "2 ^ 64"]
      mod_add_self2 [of k "2 ^ 64"] by simp
  have near: "n < 2 ^ 31 \<Longrightarrow> k = n" using n by (simp add: k_def mod_pos_pos_trivial)
  have far: "k = n - 2 ^ 64" if "n \<ge> 2 ^ 64 - 2 ^ 31"
  proof -
    have "(n + 2 ^ 31) mod 2 ^ 32 = (n + 2 ^ 31 - 2 ^ 64 + 2 ^ 32 * 2 ^ 32) mod 2 ^ 32" by (simp add: add.commute)
    also have "\<dots> = n + 2 ^ 31 - 2 ^ 64" using that n by (simp only: mod_mult_self2) (simp add: mod_pos_pos_trivial)
    finally show ?thesis by (simp add: k_def)
  qed
  show ?thesis
    unfolding eq low high mod using k n near far by auto
qed

section \<open>Guarantees\<close>

definition ex_packet :: PacketInfo where
  "ex_packet = \<lparr>Sequence = 9, SourceClient = ''ca'', DestinationClient = ''cb'', TimeoutTimestamp = 500,
     PacketTimestamp = 40\<rparr>"

definition ex_packets :: "PacketInfo list" where
  "ex_packets = [ex_packet, ex_packet\<lparr>Sequence := 11, SourceClient := ''other''\<rparr>, ex_packet\<lparr>Sequence := 12\<rparr>]"

definition ex_api_clients :: ClientManager where
  "ex_api_clients = [''A'' \<mapsto> ex_client\<lparr>SendPacketsFromTx := \<lambda>_ _. Inr ex_packets\<rparr>]"

definition ex_relay :: "database \<times> unit rpc" where
  "ex_relay = Relay ex_api_clients ex_cfg ex_db_env ''0xee'' ''A'' ex_db"

definition ex_relay_again :: "database \<times> unit rpc" where
  "ex_relay_again = Relay ex_api_clients ex_cfg ex_db_env ''0xee'' ''A'' (fst ex_relay)"

lemma ex_faultless: "faultless ex_db_env"
  by (simp add: faultless_def ex_db_env_def)

lemma ex_relay_ok: "Relay ex_api_clients ex_cfg ex_db_env ''0xee'' ''A'' ex_db = (fst ex_relay, RpcOk ())"
proof -
  have "snd ex_relay = RpcOk ()" by code_simp
  then show ?thesis unfolding ex_relay_def by (metis prod.collapse)
qed

lemma ex_relay_packets: "relay_packets ex_api_clients ''0xee'' ''A'' = RpcOk ex_packets"
  by (simp add: relay_packets_def ex_api_clients_def GetClient_def ex_client_def TxExecutionStatusSuccess_def)

text \<open>
  C18. The relay endpoint stores nothing unless the chain is configured, the transaction was
  executed successfully on it, and, on an EVM chain, its sender is known and not sanctioned; and
  whenever it stores something it answers OK.
\<close>

theorem relay_stores_only_valid:
  assumes "Relay m cfg D h chain d = (d', res)"
    "(transfers d', relay_requests d') \<noteq> (transfers d, relay_requests d)"
  shows "res = RpcOk () \<and> h \<noteq> [] \<and>
    (\<exists>c st. m chain = Some c \<and> GetTxExecutionStatus c h = Inr st \<and> ExecStatus st = TxExecutionStatusSuccess \<and>
      (ClientChainType c = EVM \<longrightarrow>
         (\<exists>a. GetTransactionSender c h = Inr a \<and> ToLower a \<notin> set OFACAddressMap)))"
  using assms(1)
proof (cases rule: Relay_cases)
  case (stored ps)
  then show ?thesis
    by (auto simp: relay_packets_def GetClient_def split: if_splits sum.splits option.splits)
qed (use assms(2) in auto)

theorem relay_stores_only_valid_witness:
  "transfers (fst ex_relay) \<noteq> transfers ex_db \<and>
   (\<exists>c st. ex_api_clients ''A'' = Some c \<and> GetTxExecutionStatus c ''0xee'' = Inr st \<and>
      ExecStatus st = TxExecutionStatusSuccess)"
proof -
  have "transfers (fst ex_relay) \<noteq> transfers ex_db" by code_simp
  then show ?thesis using relay_stores_only_valid [OF ex_relay_ok] by blast
qed

text \<open>
  C19. A relay request is stored whole or not at all: either the tables are as before, or the
  answer is OK, the request is on record, and the rows are the old ones followed by one pending
  row for each packet of the transaction whose client has a configured counterparty, in order.
\<close>

theorem relay_all_or_nothing:
  assumes "Relay m cfg D h chain d = (d', res)"
  shows "(transfers d', relay_requests d') = (transfers d, relay_requests d) \<or>
    (\<exists>ps rows. relay_packets m h chain = RpcOk ps \<and> res = RpcOk () \<and> transfers d' = transfers d @ rows \<and>
       list_all2 (packet_row D cfg chain h) (filter (known_packet cfg chain) ps) rows \<and>
       (\<exists>q \<in> set (relay_requests d'). rr_SourceChainID q = chain \<and> rr_SourceTxHash q = h))"
  using assms
proof (cases rule: Relay_cases)
  case (stored ps)
  then show ?thesis using persist_stored [OF stored(3)] by blast
qed simp_all

theorem relay_all_or_nothing_witness:
  "length (transfers (fst ex_relay)) = 3 \<and>
   (\<exists>ps rows. relay_packets ex_api_clients ''0xee'' ''A'' = RpcOk ps \<and> transfers (fst ex_relay) = transfers ex_db @ rows \<and>
      list_all2 (packet_row ex_db_env ex_cfg ''A'' ''0xee'') (filter (known_packet ex_cfg ''A'') ps) rows)"
proof -
  have "length (transfers (fst ex_relay)) = 3" "transfers (fst ex_relay) \<noteq> transfers ex_db" by code_simp+
  then show ?thesis using relay_all_or_nothing [OF ex_relay_ok] by auto
qed



text \<open>
  The status reports the sequence number of a stored packet exactly when the number fits a
  signed 32 bit column, up to the sign extension at the top of the 64 bit range: storing truncates
  and reading back extends the sign.
\<close>

theorem status_sequence_exact:
  "SequenceNumber (packet_status (new_row D i chain dest h tm (ucast sq) client dclient ts)) = sq \<longleftrightarrow>
     sq < 2 ^ 31 \<or> sq \<ge> - (2 ^ 31)"
  by (simp add: packet_status_def new_row_def scast_ucast_iff)

text \<open>
  The status of a named transaction is "not found" exactly when no relay request for it is
  on record.
\<close>

theorem status_not_found_iff:
  assumes "faultless D" "h \<noteq> []" "chain \<noteq> []"
  shows "Status D d h chain = RpcStatus NotFound ''transaction not submitted to relayer'' \<longleftrightarrow>
    (\<nexists>q. q \<in> set (relay_requests d) \<and> rr_SourceChainID q = chain \<and> rr_SourceTxHash q = h)"
  using assms
  by (auto simp: Status_def GetRelayRequest_def GetTransfersBySourceTx_def faultless_def find_None_iff
      find_Some_iff split: option.splits)

theorem status_not_found_iff_witness:
  "Status ex_db_env ex_db ''0xee'' ''A'' = RpcStatus NotFound ''transaction not submitted to relayer'' \<and>
   Status ex_db_env (fst ex_relay) ''0xee'' ''A'' \<noteq> RpcStatus NotFound ''transaction not submitted to relayer''"
proof -
  have "\<exists>q \<in> set (relay_requests (fst ex_relay)). rr_SourceChainID q = ''A'' \<and> rr_SourceTxHash q = ''0xee''"
    by code_simp
  then have "\<exists>q. q \<in> set (relay_requests (fst ex_relay)) \<and> rr_SourceChainID q = ''A'' \<and> rr_SourceTxHash q = ''0xee''"
    by blast
  then show ?thesis
    using status_not_found_iff [OF ex_faultless, of "''0xee''" "''A''" ex_db]
      status_not_found_iff [OF ex_faultless, of "''0xee''" "''A''" "fst ex_relay"]
    by (simp add: ex_db_def)
qed



text \<open>
  A call of the relay endpoint is a storage step of the running relayer: it leaves the rows
  of the transfers in flight alone, so the guarantees of the pipelines survive it.
\<close>

theorem relay_is_storage_step:
  assumes "Relay m cfg' D h chain (db (rworld s)) = (d', res)"
  shows "relayer_step cfg hp s (s\<lparr>rworld := (rworld s)\<lparr>db := d'\<rparr>\<rparr>)"
proof (rule relayer_step.storage_step)
  show "rows_extended (db (rworld s)) (db ((rworld s)\<lparr>db := d'\<rparr>))"
    using assms
    by (cases rule: Relay_cases) (auto dest: persist_keeps intro: rows_extended_same)
qed

theorem relay_is_storage_step_witness:
  "relayer_step ex_cfg False (relayer_init ex_world)
     ((relayer_init ex_world)\<lparr>rworld := (rworld (relayer_init ex_world))\<lparr>db := fst ex_relay\<rparr>\<rparr>)"
  using relay_is_storage_step [of ex_api_clients ex_cfg ex_db_env "''0xee''" "''A''" "relayer_init ex_world"
      "fst ex_relay" "RpcOk ()"] ex_relay_ok
  by (simp add: relayer_init_def ex_world_def)

text \<open>
  Two entries of the list of sanctioned addresses do not have the 40 digits of an address,
  so the check of a transaction sender can never find them.
\<close>

theorem ofac_malformed_entries:
  "filter (\<lambda>a. length a \<noteq> 42) OFACAddressMap =
     [''0x08b2efdcd8822efe5ad0eae55517cf5dc544251'', ''0xdcbefbfeccce100cce9e4b153c4e15cb885643193'']"
  by code_simp

end
