(* ===== verification/CostTracker.thy ===== *)
theory CostTracker
  imports RelayerApi
begin

text \<open>
  \<^verbatim>\<open>relayer/ibcv2/tx_submission_cost_tracker.go\<close>: resolves the transactions the relayer has
  submitted to their outcome and cost. The clients, the price client, the configuration, the
  clock and the conversion of an integer to the database's numeric type, which the driver does,
  are given in a record. Neither implementation of \<^verbatim>\<open>TxFee\<close> returns a nil fee without an
  error, so the case the code guards against does not appear.
\<close>

section \<open>The tracker\<close>

record SubmittedTxCostTracker =
  pollInterval :: duration
  batchSize :: i32
  attemptExpiry :: duration

definition NewSubmittedTxCostTracker :: "duration \<Rightarrow> i32 \<Rightarrow> duration \<Rightarrow> SubmittedTxCostTracker" where
  "NewSubmittedTxCostTracker poll batch expiry =
     \<lparr>pollInterval = (if poll \<le> 0 then 5 * second else poll),
      batchSize = (if sint batch \<le> 0 then 100 else batch),
      attemptExpiry = expiry\<rparr>"

record cost_env =
  cost_clients :: ClientManager
  priceClient :: "(string \<Rightarrow> u8 \<Rightarrow> int \<Rightarrow> numeric option result) option"
  cost_config :: configReader
  clock :: "i32 \<Rightarrow> time"
  bigIntToNumeric :: "int \<Rightarrow> numeric result"
  cost_storage :: db_env

definition getGasCostUSD :: "cost_env \<Rightarrow> string \<Rightarrow> int \<Rightarrow> numeric option result" where
  "getGasCostUSD X chainID amount =
     (if amount = 0 then Inr (Some (Numeric 0 0))
      else
        (case priceClient X of
           None \<Rightarrow> Inr None
         | Some usdValue \<Rightarrow>
             (case GetChainConfig (cost_config X) chainID of
                Inl err \<Rightarrow> Inl (Wrapf ''getting chain config for chain'' err)
              | Inr chain \<Rightarrow>
                  (case GasTokenCoingeckoID chain of
                     None \<Rightarrow> Inr None
                   | Some coin \<Rightarrow>
                       if coin = [] \<or> GasTokenDecimals chain = 0 then Inr None
                       else usdValue coin (GasTokenDecimals chain) amount))))"

definition resolveGasCosts ::
  "cost_env \<Rightarrow> Ibcv2RelayerTxSubmission \<Rightarrow> BridgeClient \<Rightarrow> (int \<times> numeric option) result" where
  "resolveGasCosts X s client =
     (case TxFee client (s_TxHash s) of
        Inl err \<Rightarrow> Inl (Wrapf ''unable to get native gas cost'' err)
      | Inr amount \<Rightarrow>
          (case getGasCostUSD X (s_ChainID s) amount of
             Inl _ \<Rightarrow> Inr (amount, None)
           | Inr usd \<Rightarrow> Inr (amount, usd)))"

text \<open>The database rejects a status that is not a value of the enum.\<close>

definition submission_status :: "string \<Rightarrow> Ibcv2RelayerTxSubmissionStatus option" where
  "submission_status st =
     (if st = ''PENDING'' then Some SUB_PENDING else if st = ''SUCCESS'' then Some SUB_SUCCESS
      else if st = ''FAILED'' then Some SUB_FAILED else if st = ''EXPIRED'' then Some SUB_EXPIRED
      else None)"

definition isExpired :: "SubmittedTxCostTracker \<Rightarrow> cost_env \<Rightarrow> Ibcv2RelayerTxSubmission \<Rightarrow> bool" where
  "isExpired T X s \<longleftrightarrow>
     s_Status s = SUB_PENDING \<and>
     (case s_SubmittedAt s of None \<Rightarrow> False | Some t \<Rightarrow> t + attemptExpiry T < clock X (s_ID s))"

definition trackSubmission ::
  "SubmittedTxCostTracker \<Rightarrow> cost_env \<Rightarrow> Ibcv2RelayerTxSubmission \<Rightarrow> database \<Rightarrow> database \<times> go_error option" where
  "trackSubmission T X s d =
     (if isExpired T X s then
        (case ExpirePendingIBCV2RelayerTxSubmission (cost_storage X) (s_ID s) d of
           (d', Some err) \<Rightarrow> (d', Some (Wrapf ''marking submission expired'' err))
         | (d', None) \<Rightarrow> (d', None))
      else
        (case GetClient (cost_clients X) (s_ChainID s) of
           Inl err \<Rightarrow> (d, Some (Wrapf ''getting bridge client for chain'' err))
         | Inr client \<Rightarrow>
        (case GetTxExecutionStatus client (s_TxHash s) of
           Inl err \<Rightarrow> (d, Some (Wrapf ''getting execution status for tx'' err))
         | Inr st \<Rightarrow>
        (case resolveGasCosts X s client of
           Inl err \<Rightarrow> (d, Some (Wrapf ''resolving gas costs for tx'' err))
         | Inr (amount, usd) \<Rightarrow>
        (case bigIntToNumeric X amount of
           Inl err \<Rightarrow> (d, Some (Wrapf ''converting gas cost to numeric for submission'' err))
         | Inr cost \<Rightarrow>
        (case submission_status (ExecStatus st) of
           None \<Rightarrow> (d, Some (Wrapf ''updating gas costs for submission'' (PgError ''22P02'')))
         | Some status \<Rightarrow>
             (case UpdateIBCV2RelayerTxSubmissionTracking (cost_storage X) (s_ID s) (Some cost) usd status
                     (if ErrorMessage st \<noteq> [] then Some (ErrorMessage st) else None) d of
                (d', Some err) \<Rightarrow> (d', Some (Wrapf ''updating gas costs for submission'' err))
              | (d', None) \<Rightarrow> (d', None))))))))"

text \<open>The loop; an error of one submission is only logged.\<close>

definition Track :: "SubmittedTxCostTracker \<Rightarrow> cost_env \<Rightarrow> database \<Rightarrow> database \<times> go_error option" where
  "Track T X d =
     (case GetUnresolvedIBCV2RelayerTxSubmissions (cost_storage X) (batchSize T) d of
        Inl err \<Rightarrow> (d, Some (Wrapf ''getting unresolved submitted txs'' err))
      | Inr ss \<Rightarrow> (fold (\<lambda>s d. fst (trackSubmission T X s d)) ss d, None))"

section \<open>Rows of submissions\<close>

definition resolve_submission ::
  "time \<Rightarrow> numeric \<Rightarrow> numeric option \<Rightarrow> Ibcv2RelayerTxSubmissionStatus \<Rightarrow> string option \<Rightarrow>
     Ibcv2RelayerTxSubmission \<Rightarrow> Ibcv2RelayerTxSubmission" where
  "resolve_submission t amt usd st e s =
     s\<lparr>s_ResolvedAt := Some t, s_GasCostAmount := Some amt, s_GasCostUsd := usd, s_Status := st,
       s_ExecutionError := e\<rparr>"

definition expire_submission :: "time \<Rightarrow> Ibcv2RelayerTxSubmission \<Rightarrow> Ibcv2RelayerTxSubmission" where
  "expire_submission t s =
     (if s_Status s = SUB_PENDING
      then s\<lparr>s_ResolvedAt := Some t, s_Status := SUB_EXPIRED, s_ExecutionError := None\<rparr> else s)"

interpretation resolve_row: keyed_update s_ID "resolve_submission t amt usd st e" for t amt usd st e
  by unfold_locales (simp add: resolve_submission_def)

interpretation expire_row: keyed_update s_ID "expire_submission t" for t
  by unfold_locales (simp add: expire_submission_def)

definition set_submission ::
  "Ibcv2RelayerTxSubmission \<Rightarrow> (Ibcv2RelayerTxSubmission \<Rightarrow> Ibcv2RelayerTxSubmission) \<Rightarrow> database \<Rightarrow> database" where
  "set_submission s f d = d\<lparr>tx_submissions := update_where (\<lambda>r. s_ID r = s_ID s) f (tx_submissions d)\<rparr>"

lemma expire_query:
  "ExpirePendingIBCV2RelayerTxSubmission D (s_ID s) d =
     (case db_fault D (QExpirePendingIBCV2RelayerTxSubmission (s_ID s)) of
        Some err \<Rightarrow> (d, Some err)
      | None \<Rightarrow> (set_submission s (expire_submission (db_now D)) d, None))"
  by (simp add: ExpirePendingIBCV2RelayerTxSubmission_def set_submissions_def exec_query_def update_where_def
      set_submission_def expire_submission_def if_distrib cong: if_cong split: option.splits)

lemma resolve_query:
  "UpdateIBCV2RelayerTxSubmissionTracking D (s_ID s) (Some amt) usd st e d =
     (case db_fault D (QUpdateIBCV2RelayerTxSubmissionTracking (s_ID s)) of
        Some err \<Rightarrow> (d, Some err)
      | None \<Rightarrow> (set_submission s (resolve_submission (db_now D) amt usd st e) d, None))"
  by (simp add: UpdateIBCV2RelayerTxSubmissionTracking_def set_submissions_def exec_query_def
      set_submission_def resolve_submission_def [abs_def] split: option.splits)

text \<open>One submission only ever changes its own row, and an error changes nothing.\<close>

lemma trackSubmission_cases:
  assumes "trackSubmission T X s d = (d', x)"
  obtains (kept) "x \<noteq> None" "d' = d"
    | (expired) "isExpired T X s" "x = None"
        "d' = set_submission s (expire_submission (db_now (cost_storage X))) d"
    | (resolved) c st amt usd cost status where "\<not> isExpired T X s" "x = None"
        "cost_clients X (s_ChainID s) = Some c" "GetTxExecutionStatus c (s_TxHash s) = Inr st"
        "TxFee c (s_TxHash s) = Inr amt" "bigIntToNumeric X amt = Inr cost"
        "submission_status (ExecStatus st) = Some status"
        "d' = set_submission s (resolve_submission (db_now (cost_storage X)) cost usd status
           (if ErrorMessage st \<noteq> [] then Some (ErrorMessage st) else None)) d"
proof -
  have "(x \<noteq> None \<and> d' = d) \<or>
    (isExpired T X s \<and> x = None \<and> d' = set_submission s (expire_submission (db_now (cost_storage X))) d) \<or>
    (\<not> isExpired T X s \<and> x = None \<and>
     (\<exists>c st amt usd cost status. cost_clients X (s_ChainID s) = Some c \<and>
        GetTxExecutionStatus c (s_TxHash s) = Inr st \<and> TxFee c (s_TxHash s) = Inr amt \<and>
        bigIntToNumeric X amt = Inr cost \<and> submission_status (ExecStatus st) = Some status \<and>
        d' = set_submission s (resolve_submission (db_now (cost_storage X)) cost usd status
           (if ErrorMessage st \<noteq> [] then Some (ErrorMessage st) else None)) d))"
    using assms
    unfolding trackSubmission_def expire_query resolve_query resolveGasCosts_def GetClient_def
    by (cases "isExpired T X s") (fastforce split: option.splits sum.splits prod.splits)+
  then show thesis using that by blast
qed

section \<open>A pass of the tracker\<close>

abbreviation track_all ::
  "SubmittedTxCostTracker \<Rightarrow> cost_env \<Rightarrow> Ibcv2RelayerTxSubmission list \<Rightarrow> database \<Rightarrow> database" where
  "track_all T X ss d \<equiv> fold (\<lambda>s d. fst (trackSubmission T X s d)) ss d"

lemma set_submission_tables [simp]:
  "transfers (set_submission s f d) = transfers d" "relay_requests (set_submission s f d) = relay_requests d"
  "transfer_tx_submissions (set_submission s f d) = transfer_tx_submissions d"
  by (simp_all add: set_submission_def)

lemma set_submission_rows:
  "r \<in> set (tx_submissions (set_submission s f d)) \<longleftrightarrow>
     (r \<in> set (tx_submissions d) \<and> s_ID r \<noteq> s_ID s) \<or>
     (\<exists>r0 \<in> set (tx_submissions d). s_ID r0 = s_ID s \<and> r = f r0)"
  by (auto simp: set_submission_def update_where_def)

lemma track_one:
  assumes "trackSubmission T X s d = (d', x)"
  shows "transfers d' = transfers d" "relay_requests d' = relay_requests d"
    "transfer_tx_submissions d' = transfer_tx_submissions d"
    "\<And>r. s_ID r \<noteq> s_ID s \<Longrightarrow> r \<in> set (tx_submissions d') \<longleftrightarrow> r \<in> set (tx_submissions d)"
proof -
  have keeps: "s_ID (f r0) = s_ID r0" if "keyed_update s_ID f" for f and r0 :: Ibcv2RelayerTxSubmission
    using that by (rule keyed_update.key_f)
  from assms show "transfers d' = transfers d" "relay_requests d' = relay_requests d"
    "transfer_tx_submissions d' = transfer_tx_submissions d"
    by (cases rule: trackSubmission_cases; simp)+
  from assms show "r \<in> set (tx_submissions d') \<longleftrightarrow> r \<in> set (tx_submissions d)" if "s_ID r \<noteq> s_ID s" for r
  proof (cases rule: trackSubmission_cases)
    case expired
    then show ?thesis using that expire_row.key_f by (auto simp: set_submission_rows)
  next
    case (resolved c st amt usd cost status)
    then show ?thesis using that resolve_row.key_f by (auto simp: set_submission_rows)
  qed simp
qed

lemma track_all_keeps:
  "transfers (track_all T X ss d) = transfers d \<and> relay_requests (track_all T X ss d) = relay_requests d \<and>
   (\<forall>r. s_ID r \<notin> s_ID ` set ss \<longrightarrow>
      (r \<in> set (tx_submissions (track_all T X ss d)) \<longleftrightarrow> r \<in> set (tx_submissions d)))"
proof (induction ss arbitrary: d)
  case (Cons s ss)
  obtain d1 x where t: "trackSubmission T X s d = (d1, x)" by fastforce
  show ?case using Cons.IH [of d1] track_one [OF t] t by simp
qed simp

lemma expire_not_pending [simp]: "s_Status (expire_submission t r) \<noteq> SUB_PENDING"
  by (simp add: expire_submission_def)

text \<open>What is needed to resolve a submission.\<close>

definition answered :: "cost_env \<Rightarrow> Ibcv2RelayerTxSubmission \<Rightarrow> bool" where
  "answered X s \<longleftrightarrow>
     (case cost_clients X (s_ChainID s) of
        None \<Rightarrow> False
      | Some c \<Rightarrow>
          (case (GetTxExecutionStatus c (s_TxHash s), TxFee c (s_TxHash s)) of
             (Inr st, Inr amt) \<Rightarrow>
               ExecStatus st \<in> {TxExecutionStatusSuccess, TxExecutionStatusFailed} \<and>
               (case bigIntToNumeric X amt of Inl _ \<Rightarrow> False | Inr _ \<Rightarrow> True)
           | _ \<Rightarrow> False))"

definition undisturbed :: "cost_env \<Rightarrow> bool" where
  "undisturbed X \<longleftrightarrow> (\<forall>q. db_fault (cost_storage X) q = None)"

lemma answered_tracked:
  assumes "answered X s" "undisturbed X" "trackSubmission T X s d = (d', x)"
  shows "x = None"
  using assms(2,3) assms(1)
  unfolding trackSubmission_def expire_query resolve_query resolveGasCosts_def GetClient_def undisturbed_def answered_def
  by (auto simp: submission_status_def TxExecutionStatusSuccess_def TxExecutionStatusFailed_def
      split: if_splits option.splits sum.splits prod.splits)

lemma track_one_resolves:
  assumes "answered X s" "undisturbed X" "trackSubmission T X s d = (d', x)"
    "r \<in> set (tx_submissions d')" "s_ID r = s_ID s"
  shows "s_Status r \<noteq> SUB_PENDING"
  using assms(3)
proof (cases rule: trackSubmission_cases)
  case kept
  then show ?thesis using answered_tracked [OF assms(1-3)] by simp
next
  case expired
  then show ?thesis using assms(4,5) by (auto simp: set_submission_rows)
next
  case (resolved c st amt usd cost status)
  have "status \<noteq> SUB_PENDING"
    using assms(1) resolved
    by (auto simp: answered_def submission_status_def TxExecutionStatusSuccess_def TxExecutionStatusFailed_def
        split: if_splits)
  then show ?thesis using resolved assms(4,5) by (auto simp: set_submission_rows resolve_submission_def)
qed

lemma track_all_resolves:
  assumes "\<forall>s \<in> set ss. answered X s" "undisturbed X"
    "r \<in> set (tx_submissions (track_all T X ss d))" "s_ID r \<in> s_ID ` set ss"
  shows "s_Status r \<noteq> SUB_PENDING"
  using assms(1,3,4)
proof (induction ss rule: rev_induct)
  case (snoc s ss)
  obtain d1 x where t: "trackSubmission T X s (track_all T X ss d) = (d1, x)" by fastforce
  have r: "r \<in> set (tx_submissions d1)" using snoc.prems(2) t by simp
  show ?case
  proof (cases "s_ID r = s_ID s")
    case True
    then show ?thesis using track_one_resolves [OF _ assms(2) t r] snoc.prems(1) by simp
  next
    case False
    then have "r \<in> set (tx_submissions (track_all T X ss d))" using track_one(4) [OF t False] r by simp
    then show ?thesis using snoc.IH snoc.prems(1,3) False by auto
  qed
qed simp

lemma unresolved_selected:
  assumes "GetUnresolvedIBCV2RelayerTxSubmissions D limit d = Inr ss"
  shows "set ss \<subseteq> {s \<in> set (tx_submissions d). s_Status s = SUB_PENDING}"
    and "length (filter (\<lambda>s. s_Status s = SUB_PENDING) (tx_submissions d)) \<le> nat (sint limit) \<Longrightarrow>
      set ss = {s \<in> set (tx_submissions d). s_Status s = SUB_PENDING}"
proof -
  let ?ps = "filter (\<lambda>s. s_Status s = SUB_PENDING) (tx_submissions d)"
  let ?all = "sort_key (\<lambda>s. the (s_SubmittedAt s)) (filter (\<lambda>s. s_SubmittedAt s \<noteq> None) ?ps) @
    filter (\<lambda>s. s_SubmittedAt s = None) ?ps"
  have ss: "ss = take (nat (sint limit)) ?all"
    using assms by (auto simp: GetUnresolvedIBCV2RelayerTxSubmissions_def Let_def split: option.splits if_splits)
  have all: "set ?all = {s \<in> set (tx_submissions d). s_Status s = SUB_PENDING}" by auto
  show "set ss \<subseteq> {s \<in> set (tx_submissions d). s_Status s = SUB_PENDING}"
    unfolding ss all [symmetric] by (rule set_take_subset)
  have "length (filter P xs) + length (filter (\<lambda>x. \<not> P x) xs) = length xs" for P and xs :: "Ibcv2RelayerTxSubmission list"
    by (rule sum_length_filter_compl)
  from this [of "\<lambda>s. s_SubmittedAt s \<noteq> None" ?ps] have len: "length ?all = length ?ps" by simp
  show "set ss = {s \<in> set (tx_submissions d). s_Status s = SUB_PENDING}" if "length ?ps \<le> nat (sint limit)"
  proof -
    have "ss = ?all" unfolding ss using that len by (intro take_all) simp
    then show ?thesis using all by simp
  qed
qed

section \<open>Guarantees\<close>

definition ex_submission :: Ibcv2RelayerTxSubmission where
  "ex_submission =
     \<lparr>s_ID = 1, s_TxHash = ''0xcd'', s_ChainID = ''A'', s_TxType = RECV_PACKET, s_RelayerAddress = ''me'',
      s_SubmittedAt = Some 100, s_ResolvedAt = None, s_GasCostAmount = None, s_GasCostUsd = None,
      s_Status = SUB_PENDING, s_ExecutionError = None\<rparr>"

definition ex_cost_db :: database where
  "ex_cost_db = ex_db\<lparr>tx_submissions :=
     [ex_submission, ex_submission\<lparr>s_ID := 2, s_SubmittedAt := Some 5\<rparr>,
      ex_submission\<lparr>s_ID := 3, s_Status := SUB_FAILED\<rparr>]\<rparr>"

definition ex_tracker :: SubmittedTxCostTracker where
  "ex_tracker = NewSubmittedTxCostTracker 0 0 50"

definition ex_cost_env :: cost_env where
  "ex_cost_env =
     \<lparr>cost_clients = [''A'' \<mapsto> ex_client], priceClient = None, cost_config = ex_cfg, clock = \<lambda>_. 120,
      bigIntToNumeric = \<lambda>n. Inr (Numeric n 0), cost_storage = ex_db_env\<rparr>"

definition ex_tracked :: database where
  "ex_tracked = fst (Track ex_tracker ex_cost_env ex_cost_db)"

lemma ex_track_ok: "Track ex_tracker ex_cost_env ex_cost_db = (ex_tracked, None)"
proof -
  have "snd (Track ex_tracker ex_cost_env ex_cost_db) = None" by code_simp
  then show ?thesis unfolding ex_tracked_def by (metis prod.collapse)
qed



text \<open>
  C23. The tracker never touches a submission that is resolved, nor the transfers: whatever the
  chains answer and whatever fails, a settled row is still there unchanged after a pass, and the
  pass is a storage step of the running relayer.
\<close>

theorem track_keeps_settled:
  assumes "Track T X (db (rworld s)) = (d', x)" "distinct (map s_ID (tx_submissions (db (rworld s))))"
    "r \<in> set (tx_submissions (db (rworld s)))" "s_Status r \<noteq> SUB_PENDING"
  shows "r \<in> set (tx_submissions d') \<and> relayer_step cfg hp s (s\<lparr>rworld := (rworld s)\<lparr>db := d'\<rparr>\<rparr>)"
proof -
  let ?d = "db (rworld s)"
  have "r \<in> set (tx_submissions d') \<and> transfers d' = transfers ?d"
  proof (cases "GetUnresolvedIBCV2RelayerTxSubmissions (cost_storage X) (batchSize T) ?d")
    case (Inl e)
    then show ?thesis using assms(1,3) by (simp add: Track_def)
  next
    case (Inr ss)
    have "s_ID r \<notin> s_ID ` set ss"
    proof
      assume "s_ID r \<in> s_ID ` set ss"
      then obtain r' where r': "r' \<in> set ss" "s_ID r' = s_ID r" by auto
      then have "r' \<in> set (tx_submissions ?d)" "s_Status r' = SUB_PENDING"
        using unresolved_selected(1) [OF Inr] by auto
      moreover from this have "r' = r"
        using r'(2) assms(2,3) by (simp add: distinct_map inj_on_def)
      ultimately show False using assms(4) by simp
    qed
    then show ?thesis
      using track_all_keeps [of T X ss ?d] assms(1,3) Inr by (auto simp: Track_def)
  qed
  then show ?thesis
    by (auto intro!: relayer_step.storage_step rows_extended_same)
qed

theorem track_keeps_settled_witness:
  "ex_submission\<lparr>s_ID := 3, s_Status := SUB_FAILED\<rparr> \<in> set (tx_submissions ex_tracked)"
proof -
  let ?s = "relayer_init (ex_world\<lparr>db := ex_cost_db\<rparr>)"
  have d: "db (rworld ?s) = ex_cost_db" by (simp add: relayer_init_def)
  show ?thesis
    using track_keeps_settled [of ex_tracker ex_cost_env ?s ex_tracked None
        "ex_submission\<lparr>s_ID := 3, s_Status := SUB_FAILED\<rparr>"] ex_track_ok
    unfolding d by (simp add: ex_cost_db_def ex_submission_def)
qed

text \<open>
  C24. A submission is expired by the tracker exactly when it is pending, has a submission time
  and that time lies more than the expiry in the past; the chain is not asked then. Otherwise it
  is resolved only with the status and the fee its chain reports.
\<close>

theorem track_outcome:
  assumes "trackSubmission T X s d = (d', None)" "r \<in> set (tx_submissions d)" "s_ID r = s_ID s"
    "s_Status r = SUB_PENDING" "s_Status s = SUB_PENDING" "s_SubmittedAt s = Some t"
  shows "(if t + attemptExpiry T < clock X (s_ID s)
          then expire_submission (db_now (cost_storage X)) r \<in> set (tx_submissions d')
          else \<exists>c st amt cost usd status e. cost_clients X (s_ChainID s) = Some c \<and>
            GetTxExecutionStatus c (s_TxHash s) = Inr st \<and> TxFee c (s_TxHash s) = Inr amt \<and>
            bigIntToNumeric X amt = Inr cost \<and> submission_status (ExecStatus st) = Some status \<and>
            resolve_submission (db_now (cost_storage X)) cost usd status e r \<in> set (tx_submissions d'))"
  using assms(1)
proof (cases rule: trackSubmission_cases)
  case expired
  then show ?thesis using assms by (auto simp: isExpired_def set_submission_rows)
next
  case (resolved c st amt usd cost status)
  then show ?thesis using assms(2-) by (fastforce simp: isExpired_def set_submission_rows)
qed simp

theorem track_outcome_witness:
  "expire_submission 10 (ex_submission\<lparr>s_ID := 2, s_SubmittedAt := Some 5\<rparr>) \<in>
     set (tx_submissions (fst (trackSubmission ex_tracker ex_cost_env
       (ex_submission\<lparr>s_ID := 2, s_SubmittedAt := Some 5\<rparr>) ex_cost_db)))"
proof -
  let ?s = "ex_submission\<lparr>s_ID := 2, s_SubmittedAt := Some 5\<rparr>"
  let ?d = "fst (trackSubmission ex_tracker ex_cost_env ?s ex_cost_db)"
  have "snd (trackSubmission ex_tracker ex_cost_env ?s ex_cost_db) = None" by code_simp
  then have "trackSubmission ex_tracker ex_cost_env ?s ex_cost_db = (?d, None)" by (metis prod.collapse)
  from track_outcome [OF this, of ?s 5] show ?thesis
    by (simp add: ex_cost_db_def ex_submission_def ex_tracker_def NewSubmittedTxCostTracker_def
        ex_cost_env_def ex_db_env_def)
qed

end
