(* ===== verification/Once.thy ===== *)
theory Once
  imports Prelude
begin

text \<open>
  The keyed cache of \<^verbatim>\<open>shared/bridges/ibcv2/once.go\<close>. A caller looks its key up under the
  lock, or puts a new \<^verbatim>\<open>onceWithTimeout\<close> there, and then calls \<^verbatim>\<open>once\<close> outside of the
  lock: the first caller runs the action and the others wait for its answer. Entries are
  pointers, so a caller may hold one that the map has replaced; the \<open>heap\<close> holds them by
  position. Every key the bridge clients use is a string.
\<close>

section \<open>Entries\<close>

text \<open>\<open>once_value\<close> is what \<^verbatim>\<open>sync.OnceValues\<close> remembers, \<open>None\<close> until the action has answered.\<close>

record 'a onceWithTimeout =
  once_value :: "'a result option"
  o_errorTimeout :: time
  o_successTimeout :: time
  o_err :: "go_error option"

text \<open>\<open>te\<close> and \<open>ts\<close> are the two readings of the clock.\<close>

definition newOnceWithTimeout :: "duration \<Rightarrow> duration \<Rightarrow> time \<Rightarrow> time \<Rightarrow> 'a onceWithTimeout" where
  "newOnceWithTimeout sTimeout eTimeout te ts =
     \<lparr>once_value = None, o_errorTimeout = te + eTimeout, o_successTimeout = ts + sTimeout, o_err = None\<rparr>"

definition once_timed_out :: "time \<Rightarrow> 'a onceWithTimeout \<Rightarrow> bool" where
  "once_timed_out now o1 \<longleftrightarrow>
     (\<not> now < o_errorTimeout o1 \<and> o_err o1 \<noteq> None) \<or>
     (\<not> now < o_successTimeout o1 \<and> o_err o1 = None)"

definition SetError :: "go_error \<Rightarrow> 'a onceWithTimeout \<Rightarrow> 'a onceWithTimeout" where
  "SetError err o1 = o1\<lparr>o_err := Some err\<rparr>"

section \<open>The cache\<close>

record 'a OnceWithKey =
  onces :: "string \<rightharpoonup> nat"
  heap :: "'a onceWithTimeout list"
  successTimeout :: duration
  errorTimeout :: duration

definition NewOnceWithKey :: "duration \<Rightarrow> duration \<Rightarrow> 'a OnceWithKey" where
  "NewOnceWithKey sTimeout eTimeout =
     \<lparr>onces = Map.empty, heap = [], successTimeout = sTimeout, errorTimeout = eTimeout\<rparr>"

text \<open>What the clock shows in one call: at the check, and twice when an entry is made.\<close>

record once_clock =
  at_check :: time
  at_error :: time
  at_success :: time

definition clock_ok :: "once_clock \<Rightarrow> bool" where
  "clock_ok c \<longleftrightarrow> at_check c \<le> at_error c \<and> at_error c \<le> at_success c"

text \<open>The first locked section of \<^verbatim>\<open>Do\<close>; the flag says that a new entry was made.\<close>

definition once_expired :: "time \<Rightarrow> string \<Rightarrow> 'a OnceWithKey \<Rightarrow> bool" where
  "once_expired now key s \<longleftrightarrow>
     (case onces s key of None \<Rightarrow> True | Some i \<Rightarrow> once_timed_out now (heap s ! i))"

definition put_once :: "once_clock \<Rightarrow> string \<Rightarrow> 'a OnceWithKey \<Rightarrow> 'a OnceWithKey" where
  "put_once c key s =
     s\<lparr>onces := (onces s)(key \<mapsto> length (heap s)),
       heap := heap s @ [newOnceWithTimeout (successTimeout s) (errorTimeout s) (at_error c) (at_success c)]\<rparr>"

definition get_once :: "once_clock \<Rightarrow> string \<Rightarrow> 'a OnceWithKey \<Rightarrow> 'a OnceWithKey \<times> nat" where
  "get_once c key s =
     (if once_expired (at_check c) key s then (put_once c key s, length (heap s))
      else (s, the (onces s key)))"

text \<open>\<open>sync.OnceValues\<close>: \<open>answer\<close> is what the action gives if it has to be run.\<close>

definition call_once :: "nat \<Rightarrow> 'a result \<Rightarrow> 'a OnceWithKey \<Rightarrow> 'a OnceWithKey \<times> 'a result" where
  "call_once i answer s =
     (case once_value (heap s ! i) of
        Some r \<Rightarrow> (s, r)
      | None \<Rightarrow> (s\<lparr>heap := (heap s)[i := (heap s ! i)\<lparr>once_value := Some answer\<rparr>]\<rparr>, answer))"

definition set_once_error :: "nat \<Rightarrow> go_error \<Rightarrow> 'a OnceWithKey \<Rightarrow> 'a OnceWithKey" where
  "set_once_error i err s = s\<lparr>heap := (heap s)[i := SetError err (heap s ! i)]\<rparr>"

text \<open>
  The second locked section of \<^verbatim>\<open>Do\<close> deletes the key \<open>once\<close>, the pointer to the entry. No
  string is a pointer, so the map stays as it is.
\<close>

definition Do :: "once_clock \<Rightarrow> string \<Rightarrow> 'a result \<Rightarrow> 'a OnceWithKey \<Rightarrow> 'a OnceWithKey \<times> 'a result" where
  "Do c key answer s =
     (case get_once c key s of
        (s1, i) \<Rightarrow>
          (case call_once i answer s1 of
             (s2, Inl err) \<Rightarrow> (set_once_error i err s2, Inl err)
           | (s2, Inr v) \<Rightarrow> (s2, Inr v)))"

section \<open>Concurrent callers\<close>

text \<open>
  The steps of any number of callers in any order. The second component is the history of the
  actions that were started, the third the latest reading of the clock.
\<close>

type_synonym 'a once_run = "'a OnceWithKey \<times> (string \<times> time) list \<times> time"

inductive once_step :: "'a once_run \<Rightarrow> 'a once_run \<Rightarrow> bool" where
  enter: "T \<le> at_check c \<Longrightarrow> clock_ok c \<Longrightarrow> get_once c key s = (s', i) \<Longrightarrow>
    once_step (s, h, T)
      (s', if once_expired (at_check c) key s then h @ [(key, at_check c)] else h, at_success c)"
| answered: "i < length (heap s) \<Longrightarrow> call_once i answer s = (s', r) \<Longrightarrow> once_step (s, h, T) (s', h, T)"
| failed: "i < length (heap s) \<Longrightarrow> once_value (heap s ! i) = Some (Inl err) \<Longrightarrow>
    once_step (s, h, T) (set_once_error i err s, h, T)"

definition once_reachable :: "duration \<Rightarrow> duration \<Rightarrow> 'a once_run \<Rightarrow> bool" where
  "once_reachable sTimeout eTimeout = (\<lambda>x. \<exists>T. once_step\<^sup>*\<^sup>* (NewOnceWithKey sTimeout eTimeout, [], T) x)"

section \<open>Entries live as long as they say\<close>

text \<open>
  The map points into the heap, and the entry of a key times out no earlier than its timeouts
  after the last action of the key was started.
\<close>

definition last_start :: "string \<Rightarrow> (string \<times> time) list \<Rightarrow> time \<Rightarrow> bool" where
  "last_start key h t \<longleftrightarrow> (key, t) \<in> set h \<and> (\<forall>t'. (key, t') \<in> set h \<longrightarrow> t' \<le> t)"

definition spaced :: "duration \<Rightarrow> (string \<times> time) list \<Rightarrow> bool" where
  "spaced gap h \<longleftrightarrow>
     (\<forall>i j. i < j \<and> j < length h \<and> fst (h ! i) = fst (h ! j) \<longrightarrow> snd (h ! i) + gap \<le> snd (h ! j))"

definition once_inv :: "duration \<Rightarrow> duration \<Rightarrow> 'a once_run \<Rightarrow> bool" where
  "once_inv sTimeout eTimeout = (\<lambda>(s, h, T).
     successTimeout s = sTimeout \<and> errorTimeout s = eTimeout \<and>
     (\<forall>key i. onces s key = Some i \<longrightarrow> i < length (heap s) \<and>
        (\<exists>t. last_start key h t \<and> t + eTimeout \<le> o_errorTimeout (heap s ! i) \<and>
             t + sTimeout \<le> o_successTimeout (heap s ! i))) \<and>
     (\<forall>key. onces s key = None \<longrightarrow> key \<notin> fst ` set h) \<and>
     spaced (min sTimeout eTimeout) h)"

lemma spaced_snoc:
  assumes "spaced gap h" and "\<And>t'. (key, t') \<in> set h \<Longrightarrow> t' + gap \<le> t"
  shows "spaced gap (h @ [(key, t)])"
  unfolding spaced_def
proof (intro allI impI)
  fix i j
  assume a: "i < j \<and> j < length (h @ [(key, t)]) \<and> fst ((h @ [(key, t)]) ! i) = fst ((h @ [(key, t)]) ! j)"
  show "snd ((h @ [(key, t)]) ! i) + gap \<le> snd ((h @ [(key, t)]) ! j)"
  proof (cases "j = length h")
    case True
    with a have i: "i < length h" and k: "fst (h ! i) = key" by (auto simp: nth_append)
    then have "(key, snd (h ! i)) \<in> set h" by (metis nth_mem prod.collapse)
    with assms(2) True i show ?thesis by (simp add: nth_append)
  next
    case False
    with a assms(1) show ?thesis by (auto simp: nth_append spaced_def)
  qed
qed

lemma last_start_snoc:
  assumes "\<And>t'. (key, t') \<in> set h \<Longrightarrow> t' \<le> t"
  shows "last_start key (h @ [(key, t)]) t"
  using assms by (auto simp: last_start_def)

lemma last_start_other: "k \<noteq> key \<Longrightarrow> last_start k (h @ [(key, t)]) u = last_start k h u"
  by (auto simp: last_start_def)

text \<open>A field that an update of the heap keeps.\<close>

lemma nth_update_field: "g y = g (xs ! i) \<Longrightarrow> g (xs[i := y] ! j) = g (xs ! j)"
  by (cases "i < length xs"; cases "i = j") (simp_all add: list_update_beyond)

definition same_deadlines :: "'a OnceWithKey \<Rightarrow> 'a OnceWithKey \<Rightarrow> bool" where
  "same_deadlines s s' \<longleftrightarrow>
     onces s' = onces s \<and> successTimeout s' = successTimeout s \<and> errorTimeout s' = errorTimeout s \<and>
     length (heap s') = length (heap s) \<and>
     (\<forall>j. o_errorTimeout (heap s' ! j) = o_errorTimeout (heap s ! j) \<and>
          o_successTimeout (heap s' ! j) = o_successTimeout (heap s ! j))"

lemma call_once_same_deadlines: "call_once i answer s = (s', r) \<Longrightarrow> same_deadlines s s'"
  by (auto simp: call_once_def same_deadlines_def nth_update_field [where g = o_errorTimeout]
      nth_update_field [where g = o_successTimeout] split: option.splits)

lemma set_once_error_same_deadlines: "same_deadlines s (set_once_error i err s)"
  by (simp add: set_once_error_def SetError_def same_deadlines_def nth_update_field [where g = o_errorTimeout]
      nth_update_field [where g = o_successTimeout])

lemma once_inv_same_deadlines:
  "same_deadlines s s' \<Longrightarrow> once_inv sT eT (s, h, T) \<Longrightarrow> once_inv sT eT (s', h, T')"
  by (simp add: same_deadlines_def once_inv_def)

lemma get_once_cases:
  assumes "get_once c key s = (s', i)"
  obtains (kept) "\<not> once_expired (at_check c) key s" "s' = s" "onces s key = Some i"
    | (made) "once_expired (at_check c) key s" "i = length (heap s)" "s' = put_once c key s"
proof (cases "once_expired (at_check c) key s")
  case True
  with assms show ?thesis by (intro made) (auto simp: get_once_def)
next
  case False
  then have "onces s key \<noteq> None" by (cases "onces s key") (simp_all add: once_expired_def)
  with assms False show ?thesis by (intro kept) (auto simp: get_once_def)
qed

lemma once_inv_entry:
  assumes "once_inv sT eT (s, h, T)" and "onces s key = Some i"
  obtains t where "i < length (heap s)" "last_start key h t"
    "t + eT \<le> o_errorTimeout (heap s ! i)" "t + sT \<le> o_successTimeout (heap s ! i)"
proof -
  have "i < length (heap s) \<and> (\<exists>t. last_start key h t \<and> t + eT \<le> o_errorTimeout (heap s ! i) \<and>
      t + sT \<le> o_successTimeout (heap s ! i))"
    using assms unfolding once_inv_def prod.case by blast
  then show ?thesis using that by blast
qed

text \<open>Where a key has no live entry, its actions were all started a whole timeout ago.\<close>

lemma expired_starts_old:
  assumes inv: "once_inv sT eT (s, h, T)" and old: "once_expired now key s" and h: "(key, t') \<in> set h"
  shows "t' + min sT eT \<le> now"
proof -
  have "onces s key \<noteq> None"
    using inv h unfolding once_inv_def by (force simp: image_iff)
  then obtain i where i: "onces s key = Some i" by blast
  from inv i obtain t where t: "last_start key h t"
      "t + eT \<le> o_errorTimeout (heap s ! i)" "t + sT \<le> o_successTimeout (heap s ! i)"
    by (rule once_inv_entry)
  from old i have "o_errorTimeout (heap s ! i) \<le> now \<or> o_successTimeout (heap s ! i) \<le> now"
    by (auto simp: once_expired_def once_timed_out_def)
  moreover have "t' \<le> t" using t(1) h by (simp add: last_start_def)
  ultimately show ?thesis using t by linarith
qed

lemma once_step_inv:
  assumes "once_step x y" and "0 \<le> min sT eT" and "once_inv sT eT x"
  shows "once_inv sT eT y"
  using assms
proof (induction rule: once_step.induct)
  case (enter T c key s s' i h)
  note inv = \<open>once_inv sT eT (s, h, T)\<close>
  from enter(3) show ?case
  proof (cases rule: get_once_cases)
    case kept
    with inv show ?thesis by (simp add: once_inv_def)
  next
    case made
    have old: "t' + min sT eT \<le> at_check c" if "(key, t') \<in> set h" for t'
      using expired_starts_old [OF inv made(1) that] .
    have start: "last_start key (h @ [(key, at_check c)]) (at_check c)"
      by (rule last_start_snoc) (use old enter(4) in fastforce)
    have "spaced (min sT eT) (h @ [(key, at_check c)])"
      by (rule spaced_snoc) (use inv old in \<open>auto simp: once_inv_def\<close>)
    moreover have "\<exists>t. last_start k (h @ [(key, at_check c)]) t \<and> t + eT \<le> o_errorTimeout (heap s' ! j) \<and>
        t + sT \<le> o_successTimeout (heap s' ! j)" "j < length (heap s')" if "onces s' k = Some j" for k j
    proof -
      have "j < length (heap s') \<and> (\<exists>t. last_start k (h @ [(key, at_check c)]) t \<and>
          t + eT \<le> o_errorTimeout (heap s' ! j) \<and> t + sT \<le> o_successTimeout (heap s' ! j))"
      proof (cases "k = key")
        case True
        with that made have "j = length (heap s)" by (simp add: put_once_def)
        with True start made inv enter(2) show ?thesis
          by (auto simp: put_once_def newOnceWithTimeout_def clock_ok_def once_inv_def intro!: exI [of _ "at_check c"])
      next
        case False
        with that made have "onces s k = Some j" by (simp add: put_once_def)
        with inv obtain t where "j < length (heap s)" "last_start k h t"
            "t + eT \<le> o_errorTimeout (heap s ! j)" "t + sT \<le> o_successTimeout (heap s ! j)"
          by (rule once_inv_entry)
        with False made(3) show ?thesis
          by (auto simp: put_once_def last_start_other nth_append intro!: exI [of _ t])
      qed
      then show "\<exists>t. last_start k (h @ [(key, at_check c)]) t \<and> t + eT \<le> o_errorTimeout (heap s' ! j) \<and>
        t + sT \<le> o_successTimeout (heap s' ! j)" "j < length (heap s')" by simp_all
    qed
    moreover have "onces s' k = None \<longrightarrow> k \<notin> fst ` set (h @ [(key, at_check c)])" for k
      using made inv by (simp add: put_once_def once_inv_def)
    moreover have "successTimeout s' = sT" "errorTimeout s' = eT" using made inv by (simp_all add: put_once_def once_inv_def)
    ultimately show ?thesis using made(1) by (simp add: once_inv_def)
  qed
next
  case (answered i s answer s' r h T)
  then show ?case using call_once_same_deadlines once_inv_same_deadlines by blast
next
  case (failed i s err h T)
  then show ?case using set_once_error_same_deadlines once_inv_same_deadlines by blast
qed

lemma once_reachable_inv:
  assumes "once_reachable sT eT x" and "0 \<le> min sT eT"
  shows "once_inv sT eT x"
proof -
  obtain T where "once_step\<^sup>*\<^sup>* (NewOnceWithKey sT eT, [], T) x"
    using assms(1) by (auto simp: once_reachable_def)
  then show ?thesis
  proof (induction rule: rtranclp_induct)
    case base
    show ?case by (simp add: once_inv_def NewOnceWithKey_def spaced_def)
  next
    case (step y z)
    then show ?case using once_step_inv assms(2) by blast
  qed
qed

section \<open>One caller at a time\<close>

text \<open>A whole call is a sequence of steps, so what holds of the steps holds of the calls.\<close>

lemma Do_is_run:
  assumes "once_inv sT eT (s, h, T)" and "T \<le> at_check c" and "clock_ok c" and "Do c key answer s = (s', r)"
  shows "once_step\<^sup>*\<^sup>* (s, h, T)
    (s', if once_expired (at_check c) key s then h @ [(key, at_check c)] else h, at_success c)"
proof -
  obtain s1 i where g: "get_once c key s = (s1, i)" by fastforce
  obtain s2 r2 where a: "call_once i answer s1 = (s2, r2)" by fastforce
  let ?h = "if once_expired (at_check c) key s then h @ [(key, at_check c)] else h"
  have 1: "once_step (s, h, T) (s1, ?h, at_success c)" using assms(2,3) g by (rule once_step.enter)
  have i: "i < length (heap s1)"
    using g by (cases rule: get_once_cases) (use assms(1) in \<open>auto simp: once_inv_def put_once_def\<close>)
  then have 2: "once_step (s1, ?h, at_success c) (s2, ?h, at_success c)" using a by (rule once_step.answered)
  show ?thesis
  proof (cases r2)
    case (Inl err)
    have "once_value (heap s2 ! i) = Some r2" using a i by (auto simp: call_once_def split: option.splits)
    moreover have "i < length (heap s2)"
      using i call_once_same_deadlines [OF a] by (simp add: same_deadlines_def)
    ultimately have "once_step (s2, ?h, at_success c) (set_once_error i err s2, ?h, at_success c)"
      using Inl by (intro once_step.failed) simp_all
    moreover have "s' = set_once_error i err s2" using assms(4) g a Inl by (simp add: Do_def)
    ultimately show ?thesis using 1 2 by (meson converse_rtranclp_into_rtranclp r_into_rtranclp)
  next
    case (Inr v)
    then have "s' = s2" using assms(4) g a by (simp add: Do_def)
    with 1 2 show ?thesis by (meson converse_rtranclp_into_rtranclp r_into_rtranclp)
  qed
qed

text \<open>Until it times out, the entry of a key holds the answer that was given for it.\<close>

definition cached :: "string \<Rightarrow> 'a result \<Rightarrow> time \<Rightarrow> time \<Rightarrow> 'a OnceWithKey \<Rightarrow> bool" where
  "cached key r errorEnd successEnd s \<longleftrightarrow>
     (\<exists>i. onces s key = Some i \<and> i < length (heap s) \<and>
        heap s ! i = \<lparr>once_value = Some r, o_errorTimeout = errorEnd, o_successTimeout = successEnd,
                      o_err = (case r of Inl e \<Rightarrow> Some e | Inr _ \<Rightarrow> None)\<rparr>)"

lemma Do_caches:
  assumes "once_expired (at_check c) key s"
  shows "Do c key answer s = (fst (Do c key answer s), answer)"
    and "cached key answer (at_error c + errorTimeout s) (at_success c + successTimeout s) (fst (Do c key answer s))"
  using assms
  by (cases answer; simp add: Do_def get_once_def put_once_def call_once_def newOnceWithTimeout_def cached_def
      set_once_error_def SetError_def)+

lemma Do_cached:
  assumes "cached key r eEnd sEnd s" and "at_check c < (case r of Inl _ \<Rightarrow> eEnd | Inr _ \<Rightarrow> sEnd)"
  shows "Do c key answer s = (s, r)"
proof -
  obtain i where i: "onces s key = Some i" "i < length (heap s)"
      "heap s ! i = \<lparr>once_value = Some r, o_errorTimeout = eEnd, o_successTimeout = sEnd,
                     o_err = (case r of Inl e \<Rightarrow> Some e | Inr _ \<Rightarrow> None)\<rparr>"
    using assms(1) by (auto simp: cached_def)
  with assms(2) have "\<not> once_expired (at_check c) key s"
    by (auto simp: once_expired_def once_timed_out_def split: sum.splits)
  then have g: "get_once c key s = (s, i)" using i by (simp add: get_once_def)
  have a: "call_once i answer s = (s, r)" using i by (simp add: call_once_def)
  show ?thesis
  proof (cases r)
    case (Inl e)
    then have "SetError e (heap s ! i) = heap s ! i" using i by (simp add: SetError_def)
    then have "set_once_error i e s = s" unfolding set_once_error_def by simp
    with g a Inl show ?thesis by (simp add: Do_def)
  next
    case (Inr v)
    with g a show ?thesis by (simp add: Do_def)
  qed
qed

lemma once_step_keeps_keys:
  assumes "once_step x y"
  shows "dom (onces (fst x)) \<subseteq> dom (onces (fst y))"
  using assms
proof (induction rule: once_step.induct)
  case (enter T c key s s' i h)
  from enter(3) show ?case by (cases rule: get_once_cases) (auto simp: put_once_def)
next
  case (answered i s answer s' r h T)
  then show ?case using call_once_same_deadlines by (fastforce simp: same_deadlines_def)
next
  case (failed i s err h T)
  then show ?case by (simp add: set_once_error_def)
qed

section \<open>What the cache guarantees\<close>


text \<open>Two callers at the start, a third one after the answer has failed and timed out.\<close>

definition ex_clock :: "time \<Rightarrow> once_clock" where
  "ex_clock t = \<lparr>at_check = t, at_error = t, at_success = t\<rparr>"

definition ex_once :: "time \<Rightarrow> nat OnceWithKey \<Rightarrow> nat OnceWithKey" where
  "ex_once t = (\<lambda>s. fst (Do (ex_clock t) ''tx'' (Inl (External ''not found'')) s))"

lemma ex_once_step:
  assumes "once_step\<^sup>*\<^sup>* (NewOnceWithKey sT eT, [], T0) (s, h, T)" "0 \<le> min sT eT" "T \<le> t"
  shows "once_step\<^sup>*\<^sup>* (NewOnceWithKey sT eT, [], T0)
    (ex_once t s, if once_expired t ''tx'' s then h @ [(''tx'', t)] else h, t)"
proof -
  have "once_inv sT eT (s, h, T)"
    using assms(1,2) by (intro once_reachable_inv) (auto simp: once_reachable_def)
  moreover obtain r where "Do (ex_clock t) ''tx'' (Inl (External ''not found'')) s = (ex_once t s, r)"
    unfolding ex_once_def by (metis prod.collapse)
  ultimately have "once_step\<^sup>*\<^sup>* (s, h, T)
      (ex_once t s, if once_expired (at_check (ex_clock t)) ''tx'' s then h @ [(''tx'', at_check (ex_clock t))] else h,
       at_success (ex_clock t))"
    using assms(3) by (intro Do_is_run) (simp_all add: ex_clock_def clock_ok_def)
  from rtranclp_trans [OF assms(1) this] show ?thesis unfolding ex_clock_def once_clock.simps .
qed


text \<open>
  Until its entry times out, every call for a key gets the answer of the action that was run
  for it, a success for the success timeout and an error for the error timeout; no action is run and
  the cache stays as it is.
\<close>

theorem once_answer_shared:
  assumes "once_expired (at_check c) key s" and "Do c key answer s = (s', r)"
    and "at_check c' < (case answer of Inl _ \<Rightarrow> at_error c + errorTimeout s | Inr _ \<Rightarrow> at_success c + successTimeout s)"
  shows "r = answer \<and> Do c' key answer' s' = (s', answer)"
proof -
  have "r = answer" "cached key answer (at_error c + errorTimeout s) (at_success c + successTimeout s) s'"
    using Do_caches [OF assms(1), of answer] assms(2) by simp_all
  with assms(3) show ?thesis by (simp add: Do_cached)
qed

theorem once_answer_shared_witness:
  "snd (Do (ex_clock (4 * second)) ''tx'' (Inr 7) (ex_once 0 (NewOnceWithKey (60 * second) (5 * second)))) =
     Inl (External ''not found'')"
proof -
  let ?s = "NewOnceWithKey (60 * second) (5 * second) :: nat OnceWithKey"
  let ?r = "Inl (External ''not found'') :: nat result"
  obtain r where d: "Do (ex_clock 0) ''tx'' ?r ?s = (ex_once 0 ?s, r)"
    unfolding ex_once_def by (metis prod.collapse)
  have e: "once_expired (at_check (ex_clock 0)) ''tx'' ?s" by code_simp
  have "at_check (ex_clock (4 * second)) <
      (case ?r of Inl _ \<Rightarrow> at_error (ex_clock 0) + errorTimeout ?s | Inr _ \<Rightarrow> at_success (ex_clock 0) + successTimeout ?s)"
    by code_simp
  from once_answer_shared [OF e d this] show ?thesis by simp
qed

text \<open>
  No step removes a key from the map: the deletion at the end of \<^verbatim>\<open>Do\<close> names the entry
  and not its key, so the map keeps one entry for every transaction it was ever asked for.
\<close>

theorem once_map_never_shrinks:
  assumes "once_step\<^sup>*\<^sup>* x y"
  shows "dom (onces (fst x)) \<subseteq> dom (onces (fst y))"
  using assms by (induction rule: rtranclp_induct) (auto dest!: once_step_keeps_keys)

theorem once_map_never_shrinks_witness:
  "dom (onces (NewOnceWithKey (60 * second) (5 * second) :: nat OnceWithKey)) \<subseteq>
   dom (onces (ex_once 0 (NewOnceWithKey (60 * second) (5 * second))))"
  using once_map_never_shrinks [OF ex_once_step [OF rtranclp.rtrancl_refl, where T = 0 and t = 0]]
  by (simp add: second_def)

end
