(* ===== verification/Floats.thy ===== *)
theory Floats
  imports Prelude Complex_Main "HOL-Library.Log_Nat"
begin

text \<open>
  The floating point arithmetic the bridge clients use for fees: \<^verbatim>\<open>float64\<close> and
  \<^verbatim>\<open>math/big.Float\<close>. A finite value is a rational number; an operation gives the exact result
  rounded to the precision of its target, to the nearest value with ties to even. Precisions are
  numbers of mantissa bits; no value of the program comes near the ends of the exponent range.
\<close>

section \<open>Binary exponents\<close>

definition ilog2 :: "rat \<Rightarrow> int" where
  "ilog2 q =
     (case quotient_of q of
        (n, d) \<Rightarrow> let k = bitlen n - bitlen d in if q < 2 powi k then k - 1 else k)"

lemma bitlen_rat:
  assumes "0 < (n :: int)"
  shows "(2 :: rat) powi (bitlen n - 1) \<le> of_int n" "of_int n < (2 :: rat) powi bitlen n"
proof -
  have b: "0 < bitlen n" using assms bitlen_eq_zero_iff [of n] bitlen_nonneg [of n] by linarith
  have "2 ^ nat (bitlen n - 1) \<le> n" "n < 2 ^ nat (bitlen n)" using bitlen_bounds [OF assms] by simp_all
  then have "(of_int (2 ^ nat (bitlen n - 1)) :: rat) \<le> of_int n" "(of_int n :: rat) < of_int (2 ^ nat (bitlen n))"
    by (simp_all only: of_int_le_iff of_int_less_iff)
  with b show "(2 :: rat) powi (bitlen n - 1) \<le> of_int n" "of_int n < (2 :: rat) powi bitlen n"
    by (simp_all add: power_int_def)
qed

lemma ilog2_bounds:
  assumes "0 < q"
  shows "2 powi ilog2 q \<le> q" "q < 2 powi (ilog2 q + 1)"
proof -
  obtain n d where nd: "quotient_of q = (n, d)" by fastforce
  have d: "0 < d" using nd by (rule quotient_of_denom_pos)
  have q: "q = of_int n / of_int d" using nd by (rule quotient_of_div)
  have n: "0 < n" using assms d unfolding q by (simp add: zero_less_divide_iff)
  let ?k = "bitlen n - bitlen d"
  have "q < 2 powi bitlen n / 2 powi (bitlen d - 1)"
    unfolding q using bitlen_rat [OF n] bitlen_rat [OF d] d n by (intro frac_less) simp_all
  also have "\<dots> = 2 powi (?k + 1)" by (simp add: power_int_diff power_int_add)
  finally have up: "q < 2 powi (?k + 1)" .
  have "2 powi (?k - 1) = (2 :: rat) powi (bitlen n - 1) / 2 powi bitlen d" by (simp add: power_int_diff)
  also have "\<dots> \<le> q"
    unfolding q using bitlen_rat [OF n] bitlen_rat [OF d] d n by (intro frac_le) simp_all
  finally have low: "2 powi (?k - 1) \<le> q" .
  show "2 powi ilog2 q \<le> q" "q < 2 powi (ilog2 q + 1)"
    using up low by (simp_all add: ilog2_def nd Let_def)
qed

lemma ilog2_less:
  assumes "0 < q" "q < 2 powi k"
  shows "ilog2 q < k"
proof -
  have "(2 :: rat) powi ilog2 q < 2 powi k" using ilog2_bounds(1) [OF assms(1)] assms(2) by linarith
  then show ?thesis using power_int_increasing [of k "ilog2 q" "2 :: rat"] by fastforce
qed

section \<open>Rounding\<close>

definition round_even :: "rat \<Rightarrow> int" where
  "round_even x =
     (let f = \<lfloor>x\<rfloor>; r = x - of_int f in
      if r < 1 / 2 then f else if 1 / 2 < r then f + 1 else if even f then f else f + 1)"

lemma round_even_ge: "of_int n \<le> x \<Longrightarrow> n \<le> round_even x"
  by (auto simp: round_even_def Let_def le_floor_iff intro: order_trans [of n "\<lfloor>x\<rfloor>"])

lemma round_even_le:
  assumes "x \<le> of_int n"
  shows "round_even x \<le> n"
proof (cases "x = of_int n")
  case True
  then show ?thesis by (simp add: round_even_def)
next
  case False
  with assms have "\<lfloor>x\<rfloor> < n" by (simp add: floor_less_iff)
  then show ?thesis by (auto simp: round_even_def Let_def)
qed

lemma round_even_int [simp]: "round_even (of_int n) = n"
  using round_even_ge [of n "of_int n"] round_even_le [of "of_int n" n] by simp

text \<open>A value rounded to \<open>p\<close> bits.\<close>

definition float_round :: "nat \<Rightarrow> rat \<Rightarrow> rat" where
  "float_round p q =
     (if q = 0 then 0
      else let s = int p - 1 - ilog2 \<bar>q\<bar> in of_int (round_even (q * 2 powi s)) * 2 powi (- s))"

lemma float_round_scaled:
  assumes "0 < q" "q < 2 powi (int p - int j)"
  obtains s where "j \<le> s" "float_round p q = of_int (round_even (q * 2 ^ s)) / 2 ^ s"
proof -
  let ?s = "int p - 1 - ilog2 q"
  have "ilog2 q < int p - int j" using assms by (rule ilog2_less)
  then have s: "int (nat ?s) = ?s" "j \<le> nat ?s" by simp_all
  have "float_round p q = of_int (round_even (q * 2 powi ?s)) * 2 powi (- ?s)"
    using assms(1) by (simp add: float_round_def Let_def)
  also have "\<dots> = of_int (round_even (q * 2 powi int (nat ?s))) * 2 powi (- int (nat ?s))" using s(1) by simp
  also have "\<dots> = of_int (round_even (q * 2 ^ nat ?s)) / 2 ^ nat ?s"
    unfolding power_int_minus power_int_of_nat by (rule divide_inverse [symmetric])
  finally show ?thesis using s(2) that by blast
qed

text \<open>Below the precision, rounding stays between the integers around a value.\<close>

lemma float_round_ge_int:
  assumes "0 < q" "q < 2 ^ p" "of_int n \<le> q"
  shows "of_int n \<le> float_round p q"
proof -
  obtain s where s: "float_round p q = of_int (round_even (q * 2 ^ s)) / 2 ^ s"
    using float_round_scaled [of q p 0] assms(1,2) by auto
  have "of_int (n * 2 ^ s) \<le> q * 2 ^ s" using assms(3) by simp
  then have "n * 2 ^ s \<le> round_even (q * 2 ^ s)" by (rule round_even_ge)
  then have "(of_int (n * 2 ^ s) :: rat) \<le> of_int (round_even (q * 2 ^ s))" by (simp only: of_int_le_iff)
  with s show ?thesis by (simp add: pos_le_divide_eq)
qed

lemma float_round_le_int:
  assumes "0 < q" "q < 2 ^ p" "q \<le> of_int n"
  shows "float_round p q \<le> of_int n"
proof -
  obtain s where s: "float_round p q = of_int (round_even (q * 2 ^ s)) / 2 ^ s"
    using float_round_scaled [of q p 0] assms(1,2) by auto
  have "q * 2 ^ s \<le> of_int (n * 2 ^ s)" using assms(3) by simp
  then have "round_even (q * 2 ^ s) \<le> n * 2 ^ s" by (rule round_even_le)
  then have "of_int (round_even (q * 2 ^ s)) \<le> (of_int (n * 2 ^ s) :: rat)" by (simp only: of_int_le_iff)
  with s show ?thesis by (simp add: pos_divide_le_eq)
qed

text \<open>A value with at most \<open>p\<close> significant bits is exact.\<close>

lemma float_round_exact:
  assumes "0 \<le> m" "m < 2 ^ p"
  shows "float_round p (of_int m / 2 ^ j) = of_int m / 2 ^ j"
proof (cases "m = 0")
  case True
  then show ?thesis by (simp add: float_round_def)
next
  case False
  let ?q = "of_int m / 2 ^ j :: rat"
  have q: "0 < ?q" using assms False by simp
  have "(of_int m :: rat) < of_int (2 ^ p)" using assms(2) by (simp only: of_int_less_iff)
  then have "?q < 2 powi (int p - int j)" by (simp add: power_int_diff divide_strict_right_mono)
  with q obtain s where s: "j \<le> s" "float_round p ?q = of_int (round_even (?q * 2 ^ s)) / 2 ^ s"
    by (rule float_round_scaled)
  have "?q * 2 ^ s = of_int (m * 2 ^ (s - j))"
    using s(1) by (simp add: le_imp_diff_is_add flip: power_add) (simp add: power_diff)
  then have "of_int (round_even (?q * 2 ^ s)) = ?q * 2 ^ s" by (simp only: round_even_int)
  with s show ?thesis by simp
qed

section \<open>The operations\<close>

text \<open>\<^verbatim>\<open>(*big.Float).Int\<close> truncates.\<close>

definition big_Int :: "rat \<Rightarrow> int" where
  "big_Int q = (if 0 \<le> q then \<lfloor>q\<rfloor> else \<lceil>q\<rceil>)"

text \<open>\<^verbatim>\<open>new(big.Float).Mul(x, y)\<close>: the result has the larger of the precisions of \<open>x\<close> and \<open>y\<close>.\<close>

definition big_Mul :: "nat \<Rightarrow> nat \<Rightarrow> rat \<Rightarrow> rat \<Rightarrow> rat" where
  "big_Mul px py x y = float_round (max px py) (x * y)"

text \<open>The precisions of \<^verbatim>\<open>NewFloat\<close>, of \<^verbatim>\<open>SetInt64\<close> and of \<^verbatim>\<open>SetInt\<close>, none of which rounds.\<close>

definition prec_NewFloat :: nat where
  "prec_NewFloat = 53"

definition prec_SetInt64 :: nat where
  "prec_SetInt64 = 64"

definition prec_SetInt :: "int \<Rightarrow> nat" where
  "prec_SetInt x = max (nat (bitlen \<bar>x\<bar>)) 64"

lemma float_round_nonneg:
  assumes "0 \<le> q"
  shows "0 \<le> float_round p q"
proof -
  have "0 \<le> round_even (q * 2 powi (int p - 1 - ilog2 \<bar>q\<bar>))" using assms round_even_ge [of 0] by simp
  then show ?thesis by (simp add: float_round_def Let_def)
qed

lemma big_Int_Mul_nonneg: "0 \<le> x \<Longrightarrow> 0 \<le> y \<Longrightarrow> 0 \<le> big_Int (big_Mul px py x y)"
  by (simp add: big_Int_def big_Mul_def float_round_nonneg)

definition float64 :: "rat \<Rightarrow> rat" where
  "float64 q = float_round 53 q"

end
