(* ===== verification/EvmBridge.thy ===== *)
theory EvmBridge
  imports Bridge Once Floats
begin

text \<open>
  The EVM bridge client of \<^verbatim>\<open>shared/bridges/ibcv2/evm_bridge_client.go\<close>. The node's answers are
  the record \<open>EVMClient\<close>, the interface of that name in the code; hashing, the ABI and the types
  of go-ethereum are the record \<open>geth\<close>; the signer is an argument. What the client keeps
  between calls is the record \<open>EVMBridgeClient\<close>. A method that goes through one of the caches
  returns the client it leaves.
\<close>

section \<open>The node and its library\<close>

type_synonym hash = bytes
type_synonym address = bytes
type_synonym Transaction = bytes

record Header =
  h_Number :: int
  h_Time :: u64
  h_BaseFee :: int

record Log =
  log_Topics :: "hash list"
  log_Data :: bytes
  log_BlockNumber :: u64
  log_TxHash :: hash

record Receipt =
  rc_Status :: u64
  rc_BlockNumber :: int
  rc_Logs :: "Log option list"
  rc_EffectiveGasPrice :: int
  rc_GasUsed :: u64

datatype topic = TopicHash hash | TopicString string | TopicUint64 u64

record FilterQuery =
  fq_Addresses :: "address list"
  fq_Topics :: "hash list list"

record DynamicFeeTx =
  tx_To :: address
  tx_Nonce :: u64
  tx_GasFeeCap :: int
  tx_GasTipCap :: int
  tx_Gas :: u64
  tx_Data :: bytes

record EVMClient =
  FilterLogs :: "FilterQuery \<Rightarrow> Log list result"
  HeaderByNumber :: "int option \<Rightarrow> Header result"
  TransactionReceipt :: "hash \<Rightarrow> Receipt result"
  TransactionByHash :: "hash \<Rightarrow> Transaction result"
  PendingNonceAt :: "address \<Rightarrow> u64 result"
  NonceAt :: "address \<Rightarrow> u64 result"
  SuggestGasTipCap :: "int result"
  PendingCodeAt :: "address \<Rightarrow> bytes result"
  EstimateGas :: "address \<Rightarrow> address \<Rightarrow> bytes \<Rightarrow> u64 result"
  BalanceAt :: "address \<Rightarrow> int result"
  SendTransaction :: "Transaction \<Rightarrow> go_error option"

text \<open>A packet as the router's ABI has it; the payloads are not read.\<close>

record RouterPacket =
  pk_Sequence :: u64
  pk_SourceClient :: string
  pk_DestClient :: string
  pk_TimeoutTimestamp :: u64

text \<open>\<open>getCommitment\<close> is the call of the router contract, \<open>GetAbi\<close> the identifiers of its events.\<close>

record geth =
  HexToHash :: "string \<Rightarrow> hash"
  BytesToHash :: "bytes \<Rightarrow> hash"
  HexToAddress :: "string \<Rightarrow> address"
  HashString :: "hash \<Rightarrow> string"
  AddressString :: "address \<Rightarrow> string"
  Keccak256Hash :: "bytes \<Rightarrow> hash"
  Uint64ToBigEndian :: "u64 \<Rightarrow> bytes"
  getCommitment :: "hash \<Rightarrow> hash result"
  GetAbi :: "(string \<Rightarrow> hash) result"
  MakeTopics :: "topic list list \<Rightarrow> hash list list result"
  UnpackLog :: "string \<Rightarrow> Log \<Rightarrow> (RouterPacket \<times> bytes list) result"
  NewTx :: "DynamicFeeTx \<Rightarrow> Transaction"
  TxHash :: "Transaction \<Rightarrow> hash"
  Sender :: "int \<Rightarrow> Transaction \<Rightarrow> address result"
  FinalizedBlockNumber :: int

record evm_env =
  lib :: geth
  node :: EVMClient
  sign :: "address \<Rightarrow> Transaction \<Rightarrow> Transaction result"

text \<open>\<open>time.Unix(int64(t), 0)\<close>, and \<open>(*big.Int).Uint64\<close> and \<open>Int64\<close>, which keep the low 64 bits.\<close>

definition unix_time :: "u64 \<Rightarrow> time" where
  "unix_time t = sint t * second"

definition big_Uint64 :: "int \<Rightarrow> u64" where
  "big_Uint64 z = word_of_int z"

definition big_Int64 :: "int \<Rightarrow> int" where
  "big_Int64 z = sint (word_of_int z :: u64)"

section \<open>The contract binding\<close>

record ContractEvent =
  ev_Packet :: RouterPacket
  ev_Acknowledgements :: "bytes list"
  ev_Raw :: Log

definition parse_event :: "geth \<Rightarrow> string \<Rightarrow> Log \<Rightarrow> ContractEvent result" where
  "parse_event g name lg =
     (case UnpackLog g name lg of
        Inl err \<Rightarrow> Inl err
      | Inr (p, acks) \<Rightarrow> Inr \<lparr>ev_Packet = p, ev_Acknowledgements = acks, ev_Raw = lg\<rparr>)"

definition ParseWriteAcknowledgement :: "geth \<Rightarrow> Log \<Rightarrow> ContractEvent result" where
  "ParseWriteAcknowledgement g = parse_event g ''WriteAcknowledgement''"

definition ParseSendPacket :: "geth \<Rightarrow> Log \<Rightarrow> ContractEvent result" where
  "ParseSendPacket g = parse_event g ''SendPacket''"

definition ParseAckPacket :: "geth \<Rightarrow> Log \<Rightarrow> ContractEvent result" where
  "ParseAckPacket g = parse_event g ''AckPacket''"

definition ParseTimeoutPacket :: "geth \<Rightarrow> Log \<Rightarrow> ContractEvent result" where
  "ParseTimeoutPacket g = parse_event g ''TimeoutPacket''"

section \<open>The client\<close>

text \<open>\<open>sent\<close> is the log of the transactions the node accepted, with the time of each.\<close>

record EVMBridgeClient =
  evm_chainID :: string
  routerAddress :: address
  signerAddress :: address
  lastSubmissionTime :: time
  txSubmissionDelay :: duration
  txOnce :: "Receipt OnceWithKey"
  latestTimestampOnce :: "time OnceWithKey"
  gasFeeCapMultiplier :: "rat option"
  gasTipCapMultiplier :: "rat option"
  sent :: "(time \<times> Transaction) list"

definition NewEVMBridgeClient ::
  "geth \<Rightarrow> string \<Rightarrow> string \<Rightarrow> bytes \<Rightarrow> rat option \<Rightarrow> rat option \<Rightarrow> duration option \<Rightarrow> EVMBridgeClient result" where
  "NewEVMBridgeClient g chain routerContractAddress signerAddressBytes feeMultiplier tipMultiplier delay =
     (if length signerAddressBytes \<noteq> 20 then Inl (NewError ''invalid signer address length'')
      else Inr
        \<lparr>evm_chainID = chain,
         routerAddress = HexToAddress g routerContractAddress,
         signerAddress = signerAddressBytes,
         lastSubmissionTime = zero_time,
         txSubmissionDelay = (case delay of None \<Rightarrow> 2 * second | Some d \<Rightarrow> d),
         txOnce = NewOnceWithKey minute (5 * second),
         latestTimestampOnce = NewOnceWithKey (12 * second) (200 * millisecond),
         gasFeeCapMultiplier = feeMultiplier,
         gasTipCapMultiplier = tipMultiplier,
         sent = []\<rparr>)"

section \<open>Packet commitments\<close>

datatype packable = PBytes bytes | PByte u8 | PString string | POther

fun encodePacked :: "packable list \<Rightarrow> bytes result" where
  "encodePacked [] = Inr []"
| "encodePacked (v # vs) =
     (case v of
        POther \<Rightarrow> Inl (NewError ''unsupported value type'')
      | PBytes b \<Rightarrow> map_sum id (\<lambda>r. b @ r) (encodePacked vs)
      | PByte b \<Rightarrow> map_sum id (\<lambda>r. [b] @ r) (encodePacked vs)
      | PString s \<Rightarrow> map_sum id (\<lambda>r. string_bytes s @ r) (encodePacked vs))"

definition unwritten :: bytes where
  "unwritten = (case hex_decode ''0000000000000000000000000000000000000000'' of Inl _ \<Rightarrow> [] | Inr b \<Rightarrow> b)"

definition EVM_IsPacketReceived :: "evm_env \<Rightarrow> string \<Rightarrow> u64 \<Rightarrow> bool result" where
  "EVM_IsPacketReceived E packetDestinationClientID sequence =
     (case encodePacked [PString packetDestinationClientID, PByte 2, PBytes (Uint64ToBigEndian (lib E) sequence)] of
        Inl err \<Rightarrow> Inl (Wrapf ''encoding packed client id'' err)
      | Inr calldata \<Rightarrow>
          (case getCommitment (lib E) (Keccak256Hash (lib E) calldata) of
             Inl err \<Rightarrow> Inl (Wrapf ''getting commitment for packet'' err)
           | Inr commitment \<Rightarrow> Inr (commitment \<noteq> BytesToHash (lib E) unwritten)))"

definition EVM_IsPacketCommitted :: "evm_env \<Rightarrow> string \<Rightarrow> u64 \<Rightarrow> bool result" where
  "EVM_IsPacketCommitted E packetSourceClientID sequence =
     (case encodePacked [PString packetSourceClientID, PByte 1, PBytes (Uint64ToBigEndian (lib E) sequence)] of
        Inl err \<Rightarrow> Inl (Wrapf ''encoding packed client id'' err)
      | Inr calldata \<Rightarrow>
          (case getCommitment (lib E) (Keccak256Hash (lib E) calldata) of
             Inl err \<Rightarrow> Inl (Wrapf ''getting commitment for packet'' err)
           | Inr commitment \<Rightarrow> Inr (commitment \<noteq> BytesToHash (lib E) unwritten)))"

section \<open>Finding transactions\<close>

definition EVM_txSigner :: "evm_env \<Rightarrow> EVMBridgeClient \<Rightarrow> hash \<Rightarrow> string result" where
  "EVM_txSigner E C h =
     (case SetString10 (evm_chainID C) of
        None \<Rightarrow> Inl (NewError ''could not convert chain id to *big.Int'')
      | Some chain \<Rightarrow>
          (case TransactionByHash (node E) h of
             Inl err \<Rightarrow> Inl (Wrapf ''getting transaction for hash'' err)
           | Inr tx \<Rightarrow>
               (case Sender (lib E) chain tx of
                  Inl err \<Rightarrow> Inl (Wrapf ''getting transaction sender'' err)
                | Inr sender \<Rightarrow> Inr (AddressString (lib E) sender))))"

text \<open>
  The body the three searches share: the logs of the router with the event's identifier, the
  client and the sequence as topics. A signer that cannot be determined is left empty.
\<close>

definition find_event_tx ::
  "evm_env \<Rightarrow> EVMBridgeClient \<Rightarrow> string \<Rightarrow> (geth \<Rightarrow> Log \<Rightarrow> ContractEvent result) \<Rightarrow> string \<Rightarrow> u64 \<Rightarrow> BridgeTx result" where
  "find_event_tx E C eventName parse clientID sequence =
     (case GetAbi (lib E) of
        Inl err \<Rightarrow> Inl (Wrapf ''getting ics26 router abi'' err)
      | Inr ids \<Rightarrow>
     (case MakeTopics (lib E) [[TopicHash (ids eventName)], [TopicString clientID], [TopicUint64 sequence]] of
        Inl err \<Rightarrow> Inl (Wrapf ''creating topics for filter logs query'' err)
      | Inr topics \<Rightarrow>
     (case FilterLogs (node E) \<lparr>fq_Addresses = [routerAddress C], fq_Topics = topics\<rparr> of
        Inl err \<Rightarrow> Inl (Wrapf ''filtering for logs'' err)
      | Inr [] \<Rightarrow> Inl (Sentinel ErrTxNotFound)
      | Inr [lg] \<Rightarrow>
          (case parse (lib E) lg of
             Inl err \<Rightarrow> Inl (Wrapf ''parsing log'' err)
           | Inr event \<Rightarrow>
               (case HeaderByNumber (node E) (Some (sint (log_BlockNumber (ev_Raw event)))) of
                  Inl err \<Rightarrow> Inl (Wrapf ''getting block header'' err)
                | Inr header \<Rightarrow>
                    Inr \<lparr>Hash = HashString (lib E) (log_TxHash (ev_Raw event)),
                         Timestamp = unix_time (h_Time header),
                         RelayerAddress =
                           (case EVM_txSigner E C (log_TxHash (ev_Raw event)) of Inl _ \<Rightarrow> [] | Inr s \<Rightarrow> s)\<rparr>))
      | Inr _ \<Rightarrow> Inl (NewError ''expected to receive 1 log''))))"

definition EVM_FindRecvTx :: "evm_env \<Rightarrow> EVMBridgeClient \<Rightarrow> string \<Rightarrow> string \<Rightarrow> u64 \<Rightarrow> time \<Rightarrow> BridgeTx result" where
  "EVM_FindRecvTx E C sourceClientID destinationClientID sequence timeoutTimestamp =
     find_event_tx E C ''WriteAcknowledgement'' ParseWriteAcknowledgement destinationClientID sequence"

definition EVM_FindAckTx :: "evm_env \<Rightarrow> EVMBridgeClient \<Rightarrow> string \<Rightarrow> string \<Rightarrow> u64 \<Rightarrow> BridgeTx result" where
  "EVM_FindAckTx E C sourceClientID _ sequence =
     find_event_tx E C ''AckPacket'' ParseAckPacket sourceClientID sequence"

definition EVM_FindTimeoutTx :: "evm_env \<Rightarrow> EVMBridgeClient \<Rightarrow> string \<Rightarrow> string \<Rightarrow> u64 \<Rightarrow> BridgeTx result" where
  "EVM_FindTimeoutTx E C sourceClientID _ sequence =
     find_event_tx E C ''TimeoutPacket'' ParseTimeoutPacket sourceClientID sequence"

section \<open>Delivering transactions\<close>

definition maxPendingAndConfirmedNonceDifference :: u64 where
  "maxPendingAndConfirmedNonceDifference = 5"

definition selectNonceWithFallback :: "u64 \<Rightarrow> u64 \<Rightarrow> u64" where
  "selectNonceWithFallback pendingNonce confirmedNonce =
     (if pendingNonce > confirmedNonce \<and>
         pendingNonce - confirmedNonce > maxPendingAndConfirmedNonceDifference
      then confirmedNonce else pendingNonce)"

definition adjustGasFeeCap :: "EVMBridgeClient \<Rightarrow> int \<Rightarrow> int" where
  "adjustGasFeeCap C gasFeeCap =
     (case gasFeeCapMultiplier C of
        None \<Rightarrow> gasFeeCap
      | Some m \<Rightarrow> big_Int (big_Mul (prec_SetInt gasFeeCap) prec_NewFloat (of_int gasFeeCap) m))"

definition adjustGasTipCap :: "EVMBridgeClient \<Rightarrow> int \<Rightarrow> int" where
  "adjustGasTipCap C gasTipCap =
     (case gasTipCapMultiplier C of
        None \<Rightarrow> gasTipCap
      | Some m \<Rightarrow> big_Int (big_Mul (prec_SetInt gasTipCap) prec_NewFloat (of_int gasTipCap) m))"

definition EVM_newTx :: "evm_env \<Rightarrow> EVMBridgeClient \<Rightarrow> bytes \<Rightarrow> string \<Rightarrow> DynamicFeeTx result" where
  "EVM_newTx E C bz addr =
     (let to = HexToAddress (lib E) addr in
      case HeaderByNumber (node E) None of
        Inl err \<Rightarrow> Inl (Wrapf ''getting latest block header'' err)
      | Inr head \<Rightarrow>
     (case SuggestGasTipCap (node E) of
        Inl err \<Rightarrow> Inl (Wrapf ''getting suggested gas price for chain'' err)
      | Inr gasTipCap \<Rightarrow>
     (case PendingCodeAt (node E) to of
        Inl err \<Rightarrow> Inl (Wrapf ''getting pending code at for address'' err)
      | Inr cd \<Rightarrow>
          if cd = [] then Inl (NewError ''code no length response when getting pending code'')
          else
     (case EstimateGas (node E) (signerAddress C) to bz of
        Inl err \<Rightarrow> Inl (Wrapf ''estimating gas to deliver msg'' err)
      | Inr gasLimit \<Rightarrow>
     (case PendingNonceAt (node E) (signerAddress C) of
        Inl err \<Rightarrow> Inl (Wrapf ''getting pending nonce for address'' err)
      | Inr pendingNonce \<Rightarrow>
     (case NonceAt (node E) (signerAddress C) of
        Inl err \<Rightarrow> Inl (Wrapf ''getting confirmed nonce for address'' err)
      | Inr confirmedNonce \<Rightarrow>
          Inr \<lparr>tx_To = to,
               tx_Nonce = selectNonceWithFallback pendingNonce confirmedNonce,
               tx_GasFeeCap = adjustGasFeeCap C (gasTipCap + h_BaseFee head * 2),
               tx_GasTipCap = adjustGasTipCap C gasTipCap,
               tx_Gas = gasLimit,
               tx_Data = bz\<rparr>))))))"

definition EVM_signAndSubmitData ::
  "evm_env \<Rightarrow> time \<Rightarrow> EVMBridgeClient \<Rightarrow> bytes \<Rightarrow> string \<Rightarrow> EVMBridgeClient \<times> hash result" where
  "EVM_signAndSubmitData E t C bz addr =
     (case EVM_newTx E C bz addr of
        Inl err \<Rightarrow> (C, Inl (Wrapf ''creating tx to sign and submit'' err))
      | Inr inner \<Rightarrow>
          (case sign E (signerAddress C) (NewTx (lib E) inner) of
             Inl err \<Rightarrow> (C, Inl (Wrapf ''signing tx'' err))
           | Inr signedTx \<Rightarrow>
               (case SendTransaction (node E) signedTx of
                  Some err \<Rightarrow> (C, Inl (Wrapf ''sending signed transaction'' err))
                | None \<Rightarrow> (C\<lparr>sent := sent C @ [(t, signedTx)]\<rparr>, Inr (TxHash (lib E) signedTx)))))"

text \<open>
  One delivery: when the lock was taken, how late the timer fired, how long the rest took, and
  whether the context was done first. A timer never fires early. The deferred function records
  the time unless \<^verbatim>\<open>err\<close> is set, which it is not when the context was done.
\<close>

record delivery =
  d_locked :: time
  d_late :: nat
  d_took :: nat
  d_canceled :: bool

definition woke :: "delivery \<Rightarrow> time \<Rightarrow> duration \<Rightarrow> time" where
  "woke k lastTime delay = max (d_locked k) (lastTime + delay) + int (d_late k)"

definition EVM_DeliverTx ::
  "evm_env \<Rightarrow> delivery \<Rightarrow> EVMBridgeClient \<Rightarrow> bytes \<Rightarrow> string \<Rightarrow> EVMBridgeClient \<times> BridgeTx result" where
  "EVM_DeliverTx E k C bz addr =
     (if d_canceled k then
        (C\<lparr>lastSubmissionTime := d_locked k + int (d_took k)\<rparr>, Inl (Sentinel ContextCanceled))
      else
        (let t = woke k (lastSubmissionTime C) (txSubmissionDelay C); fin = t + int (d_took k) in
         case EVM_signAndSubmitData E t C bz addr of
           (C1, Inl err) \<Rightarrow> (C1, Inl (Wrapf ''signing and submitting data'' err))
         | (C1, Inr h) \<Rightarrow>
             (C1\<lparr>lastSubmissionTime := fin\<rparr>,
              Inr \<lparr>Hash = HashString (lib E) h, Timestamp = fin,
                   RelayerAddress = AddressString (lib E) (signerAddress C)\<rparr>)))"

section \<open>Receipts\<close>

definition receipt_once ::
  "evm_env \<Rightarrow> once_clock \<Rightarrow> EVMBridgeClient \<Rightarrow> string \<Rightarrow> EVMBridgeClient \<times> Receipt result" where
  "receipt_once E k C txHash =
     (case Do k txHash (TransactionReceipt (node E) (HexToHash (lib E) txHash)) (txOnce C) of
        (s, r) \<Rightarrow> (C\<lparr>txOnce := s\<rparr>, r))"

definition says_not_found :: "go_error \<Rightarrow> bool" where
  "says_not_found err \<longleftrightarrow> contains (error_string err) ''not found''"

text \<open>\<^verbatim>\<open>sha256.Sum256([]byte("UNIVERSAL_ERROR_ACKNOWLEDGEMENT"))\<close>.\<close>

definition ErrorAcknowledgement :: bytes where
  "ErrorAcknowledgement =
     (case hex_decode ''4774d4a575993f963b1c06573736617a457abef8589178db8d10c94b4ab511ab'' of
        Inl _ \<Rightarrow> [] | Inr b \<Rightarrow> b)"

definition ack_status :: "bytes list \<Rightarrow> Ibcv2WriteAckStatus" where
  "ack_status acks =
     (if length acks = 1 \<and> acks ! 0 = ErrorAcknowledgement then WACK_ERROR else WACK_SUCCESS)"

text \<open>The loops skip nil logs, logs without topics and logs of other events.\<close>

definition is_event :: "hash \<Rightarrow> Log option \<Rightarrow> bool" where
  "is_event eventID l \<longleftrightarrow>
     (case l of None \<Rightarrow> False | Some lg \<Rightarrow> log_Topics lg \<noteq> [] \<and> eventID = log_Topics lg ! 0)"

fun write_ack_loop ::
  "geth \<Rightarrow> hash \<Rightarrow> u64 \<Rightarrow> string \<Rightarrow> string \<Rightarrow> Log option list \<Rightarrow> Ibcv2WriteAckStatus result" where
  "write_ack_loop g eventID sequence sourceClientID destClientID [] = Inl (Sentinel ErrWriteAckNotFoundForPacket)"
| "write_ack_loop g eventID sequence sourceClientID destClientID (l # ls) =
     (if \<not> is_event eventID l then write_ack_loop g eventID sequence sourceClientID destClientID ls
      else
        (case ParseWriteAcknowledgement g (the l) of
           Inl err \<Rightarrow> Inl (Wrapf ''parsing write packet event from log'' err)
         | Inr writeAck \<Rightarrow>
             if pk_Sequence (ev_Packet writeAck) = sequence \<and>
                pk_SourceClient (ev_Packet writeAck) = sourceClientID \<and>
                pk_DestClient (ev_Packet writeAck) = destClientID
             then Inr (ack_status (ev_Acknowledgements writeAck))
             else write_ack_loop g eventID sequence sourceClientID destClientID ls))"

definition EVM_PacketWriteAckStatus ::
  "evm_env \<Rightarrow> once_clock \<Rightarrow> EVMBridgeClient \<Rightarrow> string \<Rightarrow> u64 \<Rightarrow> string \<Rightarrow> string \<Rightarrow>
     EVMBridgeClient \<times> Ibcv2WriteAckStatus result" where
  "EVM_PacketWriteAckStatus E k C txHash sequence sourceClientID destClientID =
     (case GetAbi (lib E) of
        Inl err \<Rightarrow> (C, Inl (Wrapf ''getting ics26 router abi'' err))
      | Inr ids \<Rightarrow>
          (case receipt_once E k C txHash of
             (C1, Inl err) \<Rightarrow>
               (C1, if says_not_found err then Inl (Sentinel ErrTxNotFound)
                    else Inl (Wrapf ''getting transaction receipt'' err))
           | (C1, Inr receipt) \<Rightarrow>
               (C1, write_ack_loop (lib E) (ids ''WriteAcknowledgement'') sequence sourceClientID destClientID
                      (rc_Logs receipt))))"

fun send_packet_loop :: "geth \<Rightarrow> hash \<Rightarrow> Log option list \<Rightarrow> PacketInfo list \<Rightarrow> PacketInfo list result" where
  "send_packet_loop g eventID [] packets = Inr packets"
| "send_packet_loop g eventID (l # ls) packets =
     (if \<not> is_event eventID l then send_packet_loop g eventID ls packets
      else
        (case ParseSendPacket g (the l) of
           Inl err \<Rightarrow> Inl (Wrapf ''parsing send packet event from tx'' err)
         | Inr sendPacket \<Rightarrow>
             send_packet_loop g eventID ls
               (packets @
                [\<lparr>Sequence = pk_Sequence (ev_Packet sendPacket),
                  SourceClient = pk_SourceClient (ev_Packet sendPacket),
                  DestinationClient = pk_DestClient (ev_Packet sendPacket),
                  TimeoutTimestamp = unix_time (pk_TimeoutTimestamp (ev_Packet sendPacket)),
                  PacketTimestamp = zero_time\<rparr>])))"

definition EVM_SendPacketsFromTx :: "evm_env \<Rightarrow> string \<Rightarrow> string \<Rightarrow> PacketInfo list result" where
  "EVM_SendPacketsFromTx E sourceChainID txHash =
     (case GetAbi (lib E) of
        Inl err \<Rightarrow> Inl (Wrapf ''getting contract ics26RouterABI for ics_26 router'' err)
      | Inr ids \<Rightarrow>
     (case TransactionReceipt (node E) (HexToHash (lib E) txHash) of
        Inl err \<Rightarrow> Inl (Wrapf ''getting transaction receipt for tx'' err)
      | Inr receipt \<Rightarrow>
     (case send_packet_loop (lib E) (ids ''SendPacket'') (rc_Logs receipt) [] of
        Inl err \<Rightarrow> Inl err
      | Inr packets \<Rightarrow>
          if packets = [] then Inr []
          else
            (case HeaderByNumber (node E) (Some (rc_BlockNumber receipt)) of
               Inl err \<Rightarrow> Inl (Wrapf ''getting block header for height'' err)
             | Inr header \<Rightarrow>
                 Inr (map (\<lambda>p. p\<lparr>PacketTimestamp := unix_time (h_Time header)\<rparr>) packets)))))"

definition EVM_ShouldRetryTx ::
  "evm_env \<Rightarrow> once_clock \<Rightarrow> EVMBridgeClient \<Rightarrow> string \<Rightarrow> duration \<Rightarrow> time \<Rightarrow> EVMBridgeClient \<times> bool result" where
  "EVM_ShouldRetryTx E k C txHash expiry sentTs =
     (case receipt_once E k C txHash of
        (C1, Inl err) \<Rightarrow>
          (C1,
           if says_not_found err then
             (case HeaderByNumber (node E) None of
                Inl err \<Rightarrow> Inl (Wrapf ''getting latest block header'' err)
              | Inr header \<Rightarrow>
                  if sentTs + expiry < unix_time (h_Time header) then Inr True
                  else Inl (Sentinel ErrTxNotFound))
           else Inl (Wrapf ''could not get transaction receipt for tx'' err))
      | (C1, Inr receipt) \<Rightarrow> (C1, Inr (rc_Status receipt \<noteq> 1)))"

definition EVM_TxFee :: "evm_env \<Rightarrow> once_clock \<Rightarrow> EVMBridgeClient \<Rightarrow> string \<Rightarrow> EVMBridgeClient \<times> int result" where
  "EVM_TxFee E k C txHash =
     (case receipt_once E k C txHash of
        (C1, Inl err) \<Rightarrow> (C1, Inl (Wrapf ''getting transaction receipt for tx hash'' err))
      | (C1, Inr receipt) \<Rightarrow> (C1, Inr (rc_EffectiveGasPrice receipt * uint (rc_GasUsed receipt))))"

definition EVM_TxExecutionStatus ::
  "evm_env \<Rightarrow> once_clock \<Rightarrow> EVMBridgeClient \<Rightarrow> string \<Rightarrow> EVMBridgeClient \<times> TxExecutionStatus result" where
  "EVM_TxExecutionStatus E k C txHash =
     (case receipt_once E k C txHash of
        (C1, Inl err) \<Rightarrow>
          (C1, if errors_is err EthereumNotFound then Inl (Joinf (Sentinel ErrTxNotFound) err)
               else Inl (Wrapf ''getting transaction receipt for tx hash'' err))
      | (C1, Inr receipt) \<Rightarrow>
          (C1, Inr (if rc_Status receipt = 1
                    then \<lparr>ExecStatus = TxExecutionStatusSuccess, ErrorMessage = []\<rparr>
                    else \<lparr>ExecStatus = TxExecutionStatusFailed, ErrorMessage = ''evm transaction execution failed''\<rparr>)))"

section \<open>Finality\<close>

definition EVM_IsTxFinalized :: "evm_env \<Rightarrow> string \<Rightarrow> u64 option \<Rightarrow> bool result" where
  "EVM_IsTxFinalized E txHash offset =
     (case TransactionReceipt (node E) (HexToHash (lib E) txHash) of
        Inl err \<Rightarrow>
          if says_not_found err then Inl (Sentinel ErrTxNotFound) else Inl (Wrapf ''getting receipt for tx'' err)
      | Inr receipt \<Rightarrow>
          (case offset of
             None \<Rightarrow>
               (case HeaderByNumber (node E) (Some (FinalizedBlockNumber (lib E))) of
                  Inl err \<Rightarrow> Inl (Wrapf ''getting finalized block height'' err)
                | Inr finalizedHeader \<Rightarrow> Inr (big_Int64 (rc_BlockNumber receipt) \<le> h_Number finalizedHeader))
           | Some off \<Rightarrow>
               (case HeaderByNumber (node E) None of
                  Inl err \<Rightarrow> Inl (Wrapf ''getting latest block height'' err)
                | Inr latestHeader \<Rightarrow>
                    (let txBlockNumber = big_Uint64 (rc_BlockNumber receipt);
                         latestBlockNumber = big_Uint64 (h_Number latestHeader) in
                     Inr (latestBlockNumber \<ge> txBlockNumber \<and> latestBlockNumber - txBlockNumber \<ge> off)))))"

definition EVM_IsTimestampFinalized :: "evm_env \<Rightarrow> time \<Rightarrow> u64 option \<Rightarrow> bool result" where
  "EVM_IsTimestampFinalized E timestamp offset =
     (case offset of
        None \<Rightarrow>
          (case HeaderByNumber (node E) (Some (FinalizedBlockNumber (lib E))) of
             Inl err \<Rightarrow> Inl (Wrapf ''getting finalized block header'' err)
           | Inr header \<Rightarrow> Inr (\<not> unix_time (h_Time header) < timestamp))
      | Some off \<Rightarrow>
          (case HeaderByNumber (node E) None of
             Inl err \<Rightarrow> Inl (Wrapf ''getting latest block height'' err)
           | Inr latestHeader \<Rightarrow>
               if big_Uint64 (h_Number latestHeader) < off then Inr False
               else
                 (case HeaderByNumber (node E) (Some (sint (big_Uint64 (h_Number latestHeader) - off))) of
                    Inl err \<Rightarrow> Inl (Wrapf ''getting block header at height'' err)
                  | Inr header \<Rightarrow> Inr (\<not> unix_time (h_Time header) < timestamp))))"

section \<open>Timestamps and waiting\<close>

definition EVM_LatestOnChainTimestamp ::
  "evm_env \<Rightarrow> once_clock \<Rightarrow> EVMBridgeClient \<Rightarrow> EVMBridgeClient \<times> time result" where
  "EVM_LatestOnChainTimestamp E k C =
     (case Do k ''key''
             (case HeaderByNumber (node E) None of
                Inl err \<Rightarrow> Inl (Wrapf ''getting latest header on chain'' err)
              | Inr header \<Rightarrow> Inr (unix_time (h_Time header)))
             (latestTimestampOnce C) of
        (s, r) \<Rightarrow> (C\<lparr>latestTimestampOnce := s\<rparr>, r))"

definition EVM_TimestampAtHeight :: "evm_env \<Rightarrow> u64 \<Rightarrow> time result" where
  "EVM_TimestampAtHeight E height =
     (case HeaderByNumber (node E) (Some (sint height)) of
        Inl err \<Rightarrow> Inl (Wrapf ''getting block header at height'' err)
      | Inr header \<Rightarrow> Inr (unix_time (h_Time header)))"

definition EVM_SignerGasTokenBalance :: "evm_env \<Rightarrow> EVMBridgeClient \<Rightarrow> int result" where
  "EVM_SignerGasTokenBalance E C = BalanceAt (node E) (signerAddress C)"

definition EVM_GetTransactionSender :: "evm_env \<Rightarrow> EVMBridgeClient \<Rightarrow> string \<Rightarrow> string result" where
  "EVM_GetTransactionSender E C h = EVM_txSigner E C (HexToHash (lib E) h)"

text \<open>
  The two waiting loops read one element of a list per turn: the context is done, or the ticker
  fires and the node answers at some time. \<open>None\<close> is a loop that is still waiting at the end of
  the list; an infinite wait is \<open>None\<close> on every prefix.
\<close>

datatype 'a tick = CtxDone | Ticked time 'a

fun EVM_WaitForChain :: "time \<Rightarrow> Header result tick list \<Rightarrow> go_error option option" where
  "EVM_WaitForChain start [] = None"
| "EVM_WaitForChain start (CtxDone # ticks) = Some (Some (Sentinel ContextCanceled))"
| "EVM_WaitForChain start (Ticked _ (Inl err) # ticks) = Some (Some (Wrapf ''getting latest block header'' err))"
| "EVM_WaitForChain start (Ticked _ (Inr latest) # ticks) =
     (if start < unix_time (h_Time latest) then Some None else EVM_WaitForChain start ticks)"

text \<open>A receipt that is nil without an error is \<open>Inr None\<close>.\<close>

fun EVM_WaitForTx :: "time \<Rightarrow> Receipt option result tick list \<Rightarrow> go_error option option" where
  "EVM_WaitForTx start [] = None"
| "EVM_WaitForTx start (CtxDone # ticks) = Some (Some (Sentinel ContextCanceled))"
| "EVM_WaitForTx start (Ticked _ (Inl err) # ticks) = EVM_WaitForTx start ticks"
| "EVM_WaitForTx start (Ticked _ (Inr (Some receipt)) # ticks) = Some None"
| "EVM_WaitForTx start (Ticked t (Inr None) # ticks) =
     (if t - start > minute then Some (Some (NewError ''timeout after waiting for transaction receipt''))
      else EVM_WaitForTx start ticks)"

section \<open>Paths and nonces\<close>

text \<open>
  The path of a packet determines the client, the kind of the entry and the sequence, because the
  kind and the sequence take the last nine bytes.
\<close>

lemma encodePacked_path:
  "encodePacked [PString c, PByte b, PBytes s] = Inr (string_bytes c @ b # s)"
  by simp

lemma packed_path_inj:
  assumes "length s = length s'"
  shows "string_bytes c @ b # s = string_bytes c' @ b' # s' \<longleftrightarrow> c = c' \<and> b = b' \<and> s = s'"
proof -
  have "string_bytes c @ b # s = string_bytes c' @ b' # s' \<longleftrightarrow>
      string_bytes c = string_bytes c' \<and> b # s = b' # s'"
    using assms by (intro append_eq_append_conv) simp
  then show ?thesis using string_bytes_inj [of c c'] by auto
qed

text \<open>
  The receipt and the commitment of packets never share a storage slot of the router: the two
  checks ask for the same path only for the same kind of entry, client and sequence number.
\<close>

theorem evm_paths_distinct:
  assumes "\<And>n. length (Uint64ToBigEndian g n) = 8" and "inj (Uint64ToBigEndian g)"
  shows "encodePacked [PString c, PByte b, PBytes (Uint64ToBigEndian g n)] =
           encodePacked [PString c', PByte b', PBytes (Uint64ToBigEndian g n')] \<longleftrightarrow> c = c' \<and> b = b' \<and> n = n'"
  using assms by (simp only: encodePacked_path sum.inject packed_path_inj inj_eq)

lemma unat_selectNonce:
  assumes "confirmed \<le> pending"
  shows "selectNonceWithFallback pending confirmed =
           (if 5 < unat pending - unat confirmed then confirmed else pending)"
  using assms unat_sub [OF assms]
  by (auto simp: selectNonceWithFallback_def maxPendingAndConfirmedNonceDifference_def word_less_nat_alt
      word_le_nat_alt)

text \<open>
  A transaction the client builds carries a nonce that is not below the confirmed nonce, not
  above the pending one and at most five ahead of the confirmed one, and without multipliers its
  tip never exceeds its fee cap.
\<close>

theorem evm_tx_nonce_bounds:
  assumes "EVM_newTx E C bz addr = Inr tx"
    and "PendingNonceAt (node E) (signerAddress C) = Inr pending"
    and "NonceAt (node E) (signerAddress C) = Inr confirmed" and "confirmed \<le> pending"
    and "HeaderByNumber (node E) None = Inr head" and "0 \<le> h_BaseFee head"
    and "gasFeeCapMultiplier C = None" and "gasTipCapMultiplier C = None"
  shows "confirmed \<le> tx_Nonce tx \<and> tx_Nonce tx \<le> pending \<and> unat (tx_Nonce tx) \<le> unat confirmed + 5 \<and>
         tx_GasTipCap tx \<le> tx_GasFeeCap tx"
proof -
  have n: "tx_Nonce tx = selectNonceWithFallback pending confirmed" and f: "tx_GasTipCap tx \<le> tx_GasFeeCap tx"
    using assms by (auto simp: EVM_newTx_def Let_def adjustGasFeeCap_def adjustGasTipCap_def
        split: sum.splits if_splits)
  show ?thesis
    unfolding n unat_selectNonce [OF assms(4)] using f assms(4) by (auto simp: word_le_nat_alt)
qed

section \<open>The loops over logs\<close>

text \<open>The packet information a send log gives, without the time of its block.\<close>

definition packet_of :: "geth \<Rightarrow> Log option \<Rightarrow> PacketInfo result" where
  "packet_of g l =
     (case ParseSendPacket g (the l) of
        Inl err \<Rightarrow> Inl err
      | Inr e \<Rightarrow>
          Inr \<lparr>Sequence = pk_Sequence (ev_Packet e), SourceClient = pk_SourceClient (ev_Packet e),
               DestinationClient = pk_DestClient (ev_Packet e),
               TimeoutTimestamp = unix_time (pk_TimeoutTimestamp (ev_Packet e)), PacketTimestamp = zero_time\<rparr>)"

lemma send_packet_loop_exact:
  "send_packet_loop g eventID ls acc = Inr ps \<longleftrightarrow>
     (\<exists>qs. ps = acc @ qs \<and> list_all2 (\<lambda>l q. packet_of g l = Inr q) (filter (is_event eventID) ls) qs)"
proof (induction ls arbitrary: acc)
  case Nil
  then show ?case by auto
next
  case (Cons l ls)
  show ?case
  proof (cases "is_event eventID l")
    case False
    with Cons show ?thesis by simp
  next
    case True
    show ?thesis
    proof (cases "ParseSendPacket g (the l)")
      case (Inl err)
      with True show ?thesis by (auto simp: packet_of_def list_all2_Cons1)
    next
      case (Inr e)
      then obtain q where q: "packet_of g l = Inr q"
        "send_packet_loop g eventID (l # ls) acc = send_packet_loop g eventID ls (acc @ [q])"
        using True by (simp add: packet_of_def)
      have "send_packet_loop g eventID (l # ls) acc = Inr ps \<longleftrightarrow>
          (\<exists>qs. ps = (acc @ [q]) @ qs \<and> list_all2 (\<lambda>l q. packet_of g l = Inr q) (filter (is_event eventID) ls) qs)"
        unfolding q(2) by (rule Cons.IH)
      with True q(1) show ?thesis by (auto simp: list_all2_Cons1)
    qed
  qed
qed

text \<open>
  C29. The packets of a transaction are exactly those of the send logs of its receipt, one for one
  and in order, each stamped with the time of the block.
\<close>

theorem evm_send_packets_exact:
  assumes "EVM_SendPacketsFromTx E chain txHash = Inr ps"
  shows "\<exists>ids receipt. GetAbi (lib E) = Inr ids \<and>
    TransactionReceipt (node E) (HexToHash (lib E) txHash) = Inr receipt \<and>
    list_all2 (\<lambda>l p. \<exists>q header. packet_of (lib E) l = Inr q \<and>
        HeaderByNumber (node E) (Some (rc_BlockNumber receipt)) = Inr header \<and>
        p = q\<lparr>PacketTimestamp := unix_time (h_Time header)\<rparr>)
      (filter (is_event (ids ''SendPacket'')) (rc_Logs receipt)) ps"
proof -
  obtain ids receipt qs where r: "GetAbi (lib E) = Inr ids"
      "TransactionReceipt (node E) (HexToHash (lib E) txHash) = Inr receipt"
      "send_packet_loop (lib E) (ids ''SendPacket'') (rc_Logs receipt) [] = Inr qs"
    and ps: "(if qs = [] then Inr []
       else (case HeaderByNumber (node E) (Some (rc_BlockNumber receipt)) of
               Inl err \<Rightarrow> Inl (Wrapf ''getting block header for height'' err)
             | Inr header \<Rightarrow> Inr (map (\<lambda>p. p\<lparr>PacketTimestamp := unix_time (h_Time header)\<rparr>) qs))) = Inr ps"
    using assms unfolding EVM_SendPacketsFromTx_def by (auto split: sum.splits)
  have l: "list_all2 (\<lambda>l q. packet_of (lib E) l = Inr q)
      (filter (is_event (ids ''SendPacket'')) (rc_Logs receipt)) qs"
    using r(3) by (simp add: send_packet_loop_exact)
  show ?thesis
  proof (cases "qs = []")
    case True
    with l r(1,2) ps show ?thesis by auto
  next
    case False
    with ps obtain header where h: "HeaderByNumber (node E) (Some (rc_BlockNumber receipt)) = Inr header"
        "ps = map (\<lambda>p. p\<lparr>PacketTimestamp := unix_time (h_Time header)\<rparr>) qs"
      by (auto split: sum.splits)
    with l have "list_all2 (\<lambda>l p. \<exists>q header. packet_of (lib E) l = Inr q \<and>
        HeaderByNumber (node E) (Some (rc_BlockNumber receipt)) = Inr header \<and>
        p = q\<lparr>PacketTimestamp := unix_time (h_Time header)\<rparr>)
      (filter (is_event (ids ''SendPacket'')) (rc_Logs receipt)) ps"
      by (auto simp: list_all2_map2 elim: list_all2_mono)
    with r(1,2) show ?thesis by blast
  qed
qed

section \<open>An example node\<close>

text \<open>
  A library in which hashes and addresses are the bytes of their text, and a node with one
  transaction of two packets in block 100 and 110 as its latest block.
\<close>

definition be64 :: "u64 \<Rightarrow> bytes" where
  "be64 n = map (\<lambda>i. ucast (drop_bit (8 * i) n)) [7, 6, 5, 4, 3, 2, 1, 0]"

lemma length_be64 [simp]: "length (be64 n) = 8"
  by (simp add: be64_def)

lemma be64_inj: "inj be64"
proof (rule injI)
  fix m n :: u64
  assume e: "be64 m = be64 n"
  have byte: "(ucast (drop_bit (8 * i) m) :: u8) = ucast (drop_bit (8 * i) n)" if "i < 8" for i :: nat
  proof -
    have "i = 0 \<or> i = 1 \<or> i = 2 \<or> i = 3 \<or> i = 4 \<or> i = 5 \<or> i = 6 \<or> i = 7" using that by linarith
    then show ?thesis using e unfolding be64_def by auto
  qed
  show "m = n"
  proof (rule bit_word_eqI)
    fix k
    assume "k < LENGTH(64)"
    then have "k div 8 < 8" "8 * (k div 8) + k mod 8 = k" by simp_all
    then show "bit m k = bit n k"
      using arg_cong [OF byte [of "k div 8"], of "\<lambda>w. bit w (k mod 8)"]
      by (simp add: bit_ucast_iff bit_drop_bit_eq)
  qed
qed

definition ex_log :: "string \<Rightarrow> u64 \<Rightarrow> Log option" where
  "ex_log name sequence =
     Some \<lparr>log_Topics = [string_bytes name], log_Data = be64 sequence, log_BlockNumber = 100,
           log_TxHash = string_bytes ''tx''\<rparr>"

definition ex_geth :: geth where
  "ex_geth =
     \<lparr>HexToHash = string_bytes, BytesToHash = (\<lambda>b. replicate (32 - length b) 0 @ b), HexToAddress = string_bytes,
      HashString = map (\<lambda>b. char_of (unat b)), AddressString = map (\<lambda>b. char_of (unat b)), Keccak256Hash = (\<lambda>b. b),
      Uint64ToBigEndian = be64, getCommitment = (\<lambda>h. Inr (replicate 32 0)), GetAbi = Inr string_bytes,
      MakeTopics = (\<lambda>ts. Inr []),
      UnpackLog = (\<lambda>name l. Inr (\<lparr>pk_Sequence = ucast (last (log_Data l)), pk_SourceClient = ''a-0'',
        pk_DestClient = ''b-0'', pk_TimeoutTimestamp = 5\<rparr>, [])),
      NewTx = tx_Data, TxHash = (\<lambda>tx. tx), Sender = (\<lambda>c tx. Inr tx), FinalizedBlockNumber = - 3\<rparr>"

definition ex_node :: EVMClient where
  "ex_node =
     \<lparr>FilterLogs = (\<lambda>q. Inr []),
      HeaderByNumber = (\<lambda>n. Inr \<lparr>h_Number = (case n of None \<Rightarrow> 110 | Some i \<Rightarrow> i), h_Time = 1000, h_BaseFee = 7\<rparr>),
      TransactionReceipt = (\<lambda>h. if h = string_bytes ''tx''
        then Inr \<lparr>rc_Status = 1, rc_BlockNumber = 100,
                  rc_Logs = [ex_log ''SendPacket'' 1, None, ex_log ''Transfer'' 9, ex_log ''SendPacket'' 2],
                  rc_EffectiveGasPrice = 3, rc_GasUsed = 21000\<rparr>
        else Inl (Sentinel EthereumNotFound)),
      TransactionByHash = (\<lambda>h. Inr h), PendingNonceAt = (\<lambda>a. Inr 12), NonceAt = (\<lambda>a. Inr 9),
      SuggestGasTipCap = Inr 2, PendingCodeAt = (\<lambda>a. Inr [1]), EstimateGas = (\<lambda>f t b. Inr 100000),
      BalanceAt = (\<lambda>a. Inr 0), SendTransaction = (\<lambda>tx. None)\<rparr>"

definition ex_evm_env :: evm_env where
  "ex_evm_env = \<lparr>lib = ex_geth, node = ex_node, sign = (\<lambda>a tx. Inr tx)\<rparr>"

definition ex_evm :: EVMBridgeClient where
  "ex_evm =
     (case NewEVMBridgeClient ex_geth ''1'' ''router'' (replicate 20 1) None None (Some (2 * second)) of
        Inr C \<Rightarrow> C | Inl _ \<Rightarrow> undefined)"

lemma ex_evm_new: "NewEVMBridgeClient ex_geth ''1'' ''router'' (replicate 20 1) None None (Some (2 * second)) = Inr ex_evm"
  by (simp add: ex_evm_def NewEVMBridgeClient_def)

theorem evm_paths_distinct_witness:
  "encodePacked [PString ''a-0'', PByte 2, PBytes (Uint64ToBigEndian ex_geth 7)] \<noteq>
   encodePacked [PString ''a-0'', PByte 1, PBytes (Uint64ToBigEndian ex_geth 7)]"
proof -
  have "Uint64ToBigEndian ex_geth = be64" by (simp add: ex_geth_def)
  then show ?thesis
    using evm_paths_distinct [of ex_geth "''a-0''" 2 7 "''a-0''" 1 7] be64_inj by simp
qed

definition ex_tx :: DynamicFeeTx where
  "ex_tx =
     \<lparr>tx_To = string_bytes ''router'', tx_Nonce = 12, tx_GasFeeCap = 16, tx_GasTipCap = 2, tx_Gas = 100000,
      tx_Data = [1, 2]\<rparr>"

theorem evm_tx_nonce_bounds_witness:
  "EVM_newTx ex_evm_env ex_evm [1, 2] ''router'' = Inr ex_tx \<and>
   9 \<le> tx_Nonce ex_tx \<and> tx_Nonce ex_tx \<le> 12 \<and> unat (tx_Nonce ex_tx) \<le> unat (9 :: u64) + 5 \<and>
   tx_GasTipCap ex_tx \<le> tx_GasFeeCap ex_tx"
proof -
  have n: "EVM_newTx ex_evm_env ex_evm [1, 2] ''router'' = Inr ex_tx"
    by (simp add: EVM_newTx_def ex_evm_env_def ex_node_def ex_geth_def ex_tx_def ex_evm_def NewEVMBridgeClient_def
        adjustGasFeeCap_def adjustGasTipCap_def selectNonceWithFallback_def maxPendingAndConfirmedNonceDifference_def)
  then show ?thesis
    using evm_tx_nonce_bounds [OF n, of 12 9]
    by (simp add: ex_evm_env_def ex_node_def ex_evm_def NewEVMBridgeClient_def)
qed

definition ex_packet :: "u64 \<Rightarrow> PacketInfo" where
  "ex_packet sequence =
     \<lparr>Sequence = sequence, SourceClient = ''a-0'', DestinationClient = ''b-0'', TimeoutTimestamp = 5 * second,
      PacketTimestamp = 1000 * second\<rparr>"

theorem evm_send_packets_exact_witness:
  "\<exists>ids receipt. GetAbi ex_geth = Inr ids \<and> TransactionReceipt ex_node (string_bytes ''tx'') = Inr receipt \<and>
     length (filter (is_event (ids ''SendPacket'')) (rc_Logs receipt)) = length [ex_packet 1, ex_packet 2]"
proof -
  have "EVM_SendPacketsFromTx ex_evm_env ''1'' ''tx'' = Inr [ex_packet 1, ex_packet 2]" by code_simp
  from evm_send_packets_exact [OF this] show ?thesis
    by (auto simp: ex_evm_env_def ex_geth_def dest: list_all2_lengthD)
qed

end
