(* ===== verification/Decimal.thy ===== *)
theory Decimal
  imports Config
begin

text \<open>
  Decimal printing and reading of the standard library: \<^verbatim>\<open>fmt\<close>'s \<^verbatim>\<open>%d\<close>, \<^verbatim>\<open>strconv.Itoa\<close> and
  \<^verbatim>\<open>strconv.Atoi\<close>, which the Cosmos bridge client uses on event attributes.
\<close>

definition digit_char :: "nat \<Rightarrow> char" where
  "digit_char d = char_of (48 + d)"

fun dec_nat :: "nat \<Rightarrow> string" where
  "dec_nat n = (if n < 10 then [digit_char n] else dec_nat (n div 10) @ [digit_char (n mod 10)])"

declare dec_nat.simps [simp del]

definition Itoa :: "int \<Rightarrow> string" where
  "Itoa i = (if i < 0 then CHR ''-'' # dec_nat (nat (- i)) else dec_nat (nat i))"

text \<open>\<^verbatim>\<open>int\<close> has 64 bits; a number that does not fit is an error.\<close>

definition Atoi :: "string \<Rightarrow> int result" where
  "Atoi s =
     (case SetString10 s of
        None \<Rightarrow> Inl (NewError ''invalid syntax'')
      | Some i \<Rightarrow> if - (2 ^ 63) \<le> i \<and> i < 2 ^ 63 then Inr i else Inl (NewError ''value out of range''))"

lemma digit_value_char: "d < 10 \<Longrightarrow> digit_value (digit_char d) = Some (int d)"
  by (simp add: digit_value_def digit_char_def Let_def)

lemma parse_digits_append:
  "parse_digits acc (a @ b) = (case parse_digits acc a of None \<Rightarrow> None | Some v \<Rightarrow> parse_digits v b)"
  by (induction a arbitrary: acc) (auto split: option.splits)

lemma parse_dec_nat: "parse_digits 0 (dec_nat n) = Some (int n)"
proof (induction n rule: dec_nat.induct)
  case (1 n)
  show ?case
  proof (cases "n < 10")
    case True
    then show ?thesis by (simp add: dec_nat.simps [of n] digit_value_char)
  next
    case False
    with 1 have "parse_digits 0 (dec_nat (n div 10)) = Some (int (n div 10))" by simp
    moreover have "10 * int (n div 10) + int (n mod 10) = int n"
      by (metis mult_div_mod_eq of_nat_add of_nat_mult of_nat_numeral)
    ultimately show ?thesis using False
      by (simp add: dec_nat.simps [of n] parse_digits_append digit_value_char)
  qed
qed

lemma dec_nat_head: "dec_nat n = c # cs \<Longrightarrow> c \<noteq> CHR ''-'' \<and> c \<noteq> CHR ''+''"
proof (induction n arbitrary: cs rule: dec_nat.induct)
  case (1 n)
  show ?case
  proof (cases "n < 10")
    case True
    with 1(2) have "c = digit_char n" by (simp add: dec_nat.simps [of n])
    with True show ?thesis using digit_value_char [of n] by (auto simp: digit_value_def Let_def split: if_splits)
  next
    case False
    then have "dec_nat n = dec_nat (n div 10) @ [digit_char (n mod 10)]" by (simp add: dec_nat.simps [of n])
    moreover have "dec_nat (n div 10) \<noteq> []" by (simp add: dec_nat.simps [of "n div 10"])
    ultimately show ?thesis using 1(1) [OF False] 1(2) by (cases "dec_nat (n div 10)") auto
  qed
qed

lemma dec_nat_nonempty [simp]: "dec_nat n \<noteq> []"
  by (simp add: dec_nat.simps [of n])

lemma SetString10_dec_nat: "SetString10 (dec_nat n) = Some (int n)"
proof -
  obtain c cs where c: "dec_nat n = c # cs" by (cases "dec_nat n") auto
  then have "c \<noteq> CHR ''-''" "c \<noteq> CHR ''+''" using dec_nat_head by blast+
  then have "SetString10 (dec_nat n) = parse_nonempty (dec_nat n)"
    unfolding c SetString10_def by (simp split: list.splits) (auto split: char.splits bool.splits)
  then show ?thesis by (simp add: parse_nonempty_def parse_dec_nat)
qed

lemma SetString10_Itoa: "SetString10 (Itoa i) = Some i"
proof (cases "i < 0")
  case True
  then show ?thesis by (simp add: Itoa_def SetString10_def parse_nonempty_def parse_dec_nat)
next
  case False
  then show ?thesis by (simp add: Itoa_def SetString10_dec_nat)
qed

lemma Atoi_Itoa: "- (2 ^ 63) \<le> i \<Longrightarrow> i < 2 ^ 63 \<Longrightarrow> Atoi (Itoa i) = Inr i"
  by (simp add: Atoi_def SetString10_Itoa)

lemma Itoa_inj: "Itoa i = Itoa j \<longleftrightarrow> i = j"
  by (metis SetString10_Itoa option.inject)

lemma dec_nat_Itoa: "dec_nat n = Itoa i \<longleftrightarrow> i = int n"
  by (metis SetString10_Itoa SetString10_dec_nat Itoa_def nat_int not_less of_nat_0_le_iff option.inject)

end
