(* ===== verification/CosmosBridge.thy ===== *)
theory CosmosBridge
  imports EvmBridge Decimal
begin

text \<open>
  The Cosmos bridge client of \<^verbatim>\<open>shared/bridges/ibcv2/cosmos_bridge_client.go\<close>. The answers of the
  node over Tendermint RPC and gRPC, the codec of the SDK and the signer are the record
  \<open>cosmos_env\<close>; what the client keeps between calls is the record \<open>CosmosBridgeClient\<close>.
\<close>

section \<open>The node and its library\<close>

record Event =
  e_Type :: string
  e_Attributes :: "(string \<times> string) list"

record ResultTx =
  rt_Hash :: bytes
  rt_Height :: int
  rt_Tx :: bytes
  rt_Code :: u32
  rt_Log :: string
  rt_Events :: "Event list"

text \<open>A message of the SDK: the kinds the client looks at, with the signer where it reads one.\<close>

datatype sdk_msg =
    MsgRecvPacket string bytes
  | MsgAcknowledgement string bytes
  | MsgTimeout string bytes
  | MsgUpdateClient bytes
  | OtherMsg bytes

text \<open>A decoded transaction; \<open>dt_Fee\<close> is \<open>None\<close> when it is not a \<^verbatim>\<open>sdk.FeeTx\<close>.\<close>

record DecodedTx =
  dt_Msgs :: "sdk_msg list"
  dt_Fee :: "(string \<Rightarrow> int option) option"

record TxBuilder =
  tb_Msgs :: "sdk_msg list"
  tb_GasLimit :: u64
  tb_Fee :: "(string \<times> int) option"

record cosmos_env =
  PacketReceipt :: "string \<Rightarrow> u64 \<Rightarrow> bool result"
  PacketCommitment :: "string \<Rightarrow> u64 \<Rightarrow> go_error option"
  FromError :: "go_error \<Rightarrow> u32 option"
  TxSearch :: "string \<Rightarrow> (int \<times> ResultTx list) result"
  TmHeader :: "int option \<Rightarrow> time option result"
  TmTx :: "bytes \<Rightarrow> ResultTx result"
  BroadcastTxSync :: "bytes \<Rightarrow> (u32 \<times> string \<times> bytes) result"
  AccountInfo :: "string \<Rightarrow> (u64 \<times> u64) option result"
  Simulate :: "bytes \<Rightarrow> u64 option result"
  Balance :: "string \<Rightarrow> string \<Rightarrow> int option result"
  HexBytesString :: "bytes \<Rightarrow> string"
  ConvertAndEncode :: "string \<Rightarrow> bytes \<Rightarrow> string result"
  UnmarshalTxBody :: "bytes \<Rightarrow> bytes list result"
  UnpackAny :: "bytes \<Rightarrow> sdk_msg result"
  UnmarshalAck :: "bytes \<Rightarrow> bytes list result"
  TxDecoder :: "bytes \<Rightarrow> DecodedTx result"
  SetMsgs :: "sdk_msg list \<Rightarrow> go_error option"
  SignTx :: "string \<Rightarrow> TxBuilder \<Rightarrow> u64 \<Rightarrow> u64 \<Rightarrow> bytes result"
  TxEncoder :: "bytes \<Rightarrow> bytes result"
  signer_Address :: bytes
  float_overflow :: "rat \<Rightarrow> u64"

definition codes_NotFound :: u32 where
  "codes_NotFound = 5"

section \<open>The client\<close>

definition attributeKeyPacketSourceClient :: string where
  "attributeKeyPacketSourceClient = ''packet_source_client''"

definition attributeKeyPacketDestClient :: string where
  "attributeKeyPacketDestClient = ''packet_dest_client''"

definition attributeKeyPacketSequence :: string where
  "attributeKeyPacketSequence = ''packet_sequence''"

definition attributeKeyPacketTimeoutTimestamp :: string where
  "attributeKeyPacketTimeoutTimestamp = ''packet_timeout_timestamp''"

record CosmosBridgeClient =
  co_chainID :: string
  co_prefix :: string
  co_gasPrice :: rat
  co_feeDenom :: string
  co_feeAmount :: u64
  co_txOnce :: "ResultTx OnceWithKey"
  co_lastSubmissionTime :: time
  co_txSubmissionDelay :: duration
  co_latestTimestampOnce :: "time OnceWithKey"
  co_sent :: "(time \<times> bytes) list"

definition NewCosmosBridgeClient ::
  "string \<Rightarrow> string \<Rightarrow> rat \<Rightarrow> string \<Rightarrow> u64 \<Rightarrow> duration option \<Rightarrow> CosmosBridgeClient" where
  "NewCosmosBridgeClient chain prefix price denom amount delay =
     \<lparr>co_chainID = chain,
      co_prefix = prefix,
      co_gasPrice = price,
      co_feeDenom = denom,
      co_feeAmount = amount,
      co_txOnce = NewOnceWithKey minute (5 * second),
      co_lastSubmissionTime = zero_time,
      co_txSubmissionDelay = (case delay of None \<Rightarrow> 2 * second | Some d \<Rightarrow> d),
      co_latestTimestampOnce = NewOnceWithKey (6 * second) (200 * millisecond),
      co_sent = []\<rparr>"

section \<open>Packet commitments\<close>

definition Cosmos_IsPacketReceived :: "cosmos_env \<Rightarrow> string \<Rightarrow> u64 \<Rightarrow> bool result" where
  "Cosmos_IsPacketReceived E destinationClientID sequence =
     (case PacketReceipt E destinationClientID sequence of
        Inl err \<Rightarrow> Inl (Wrapf ''querying for packet receipt'' err)
      | Inr received \<Rightarrow> Inr received)"

definition Cosmos_IsPacketCommitted :: "cosmos_env \<Rightarrow> string \<Rightarrow> u64 \<Rightarrow> bool result" where
  "Cosmos_IsPacketCommitted E sourceClientID sequence =
     (case PacketCommitment E sourceClientID sequence of
        Some err \<Rightarrow>
          if FromError E err = Some codes_NotFound then Inr False
          else Inl (Wrapf ''querying for packet commitment'' err)
      | None \<Rightarrow> Inr True)"

section \<open>Finding transactions\<close>

fun packet_msg_signer :: "sdk_msg list \<Rightarrow> string result" where
  "packet_msg_signer [] = Inl (NewError ''expected recv packet, ack packet, or timeout packet msg but found none'')"
| "packet_msg_signer (MsgRecvPacket s _ # _) = Inr s"
| "packet_msg_signer (MsgAcknowledgement s _ # _) = Inr s"
| "packet_msg_signer (MsgTimeout s _ # _) = Inr s"
| "packet_msg_signer (_ # ms) = packet_msg_signer ms"

definition Cosmos_txSigner :: "cosmos_env \<Rightarrow> ResultTx \<Rightarrow> string result" where
  "Cosmos_txSigner E res =
     (case TxDecoder E (rt_Tx res) of
        Inl err \<Rightarrow> Inl (Wrapf ''decoding tx result'' err)
      | Inr decoded \<Rightarrow> packet_msg_signer (dt_Msgs decoded))"

text \<open>\<^verbatim>\<open>strings.Join\<close>.\<close>

fun join :: "string \<Rightarrow> string list \<Rightarrow> string" where
  "join sep [] = []"
| "join sep [x] = x"
| "join sep (x # y # xs) = x @ sep @ join sep (y # xs)"

definition eq_text :: "string \<Rightarrow> string \<Rightarrow> string \<Rightarrow> string" where
  "eq_text ty key v = ty @ ''.'' @ key @ ''='' @ [CHR 0x27] @ v @ [CHR 0x27]"

definition eq_num :: "string \<Rightarrow> string \<Rightarrow> int \<Rightarrow> string" where
  "eq_num ty key n = ty @ ''.'' @ key @ ''='' @ Itoa n"

text \<open>What the three searches do with their query. A signer that cannot be determined is left empty.\<close>

definition search_tx :: "cosmos_env \<Rightarrow> string \<Rightarrow> BridgeTx result" where
  "search_tx E query =
     (case TxSearch E query of
        Inl err \<Rightarrow> Inl (Wrapf ''searching for tx'' err)
      | Inr (totalCount, txs) \<Rightarrow>
          if totalCount = 0 then Inl (Sentinel ErrTxNotFound)
          else if totalCount \<noteq> 1 then Inl (NewError ''expected only 1 tx'')
          else
            (case txs of
               [] \<Rightarrow> Inl (External ''panic: index out of range'')
             | tx # _ \<Rightarrow>
                 (case TmHeader E (Some (rt_Height tx)) of
                    Inl err \<Rightarrow> Inl (Wrapf ''fetching block header at tx height'' err)
                  | Inr None \<Rightarrow> Inl (NewError ''fetched block header without err but header was nil'')
                  | Inr (Some headerTime) \<Rightarrow>
                      Inr \<lparr>Hash = HexBytesString E (rt_Hash tx), Timestamp = headerTime,
                           RelayerAddress = (case Cosmos_txSigner E tx of Inl _ \<Rightarrow> [] | Inr s \<Rightarrow> s)\<rparr>)))"

definition Cosmos_FindRecvTx :: "cosmos_env \<Rightarrow> string \<Rightarrow> string \<Rightarrow> u64 \<Rightarrow> time \<Rightarrow> BridgeTx result" where
  "Cosmos_FindRecvTx E sourceClientID destClientID sequence timeoutTimestamp =
     search_tx E
       (join '' AND ''
          [eq_text ''recv_packet'' attributeKeyPacketSourceClient sourceClientID,
           eq_text ''recv_packet'' attributeKeyPacketDestClient destClientID,
           eq_num ''recv_packet'' attributeKeyPacketSequence (uint sequence),
           eq_num ''recv_packet'' attributeKeyPacketTimeoutTimestamp (timeoutTimestamp div second)])"

definition Cosmos_FindAckTx :: "cosmos_env \<Rightarrow> string \<Rightarrow> string \<Rightarrow> u64 \<Rightarrow> BridgeTx result" where
  "Cosmos_FindAckTx E sourceClientID destClientID sequence =
     search_tx E
       (join '' AND ''
          [eq_text ''acknowledge_packet'' attributeKeyPacketSourceClient sourceClientID,
           eq_text ''acknowledge_packet'' attributeKeyPacketDestClient destClientID,
           eq_num ''acknowledge_packet'' attributeKeyPacketSequence (uint sequence)])"

definition Cosmos_FindTimeoutTx :: "cosmos_env \<Rightarrow> string \<Rightarrow> string \<Rightarrow> u64 \<Rightarrow> BridgeTx result" where
  "Cosmos_FindTimeoutTx E sourceClientID destClientID sequence =
     search_tx E
       (join '' AND ''
          [eq_text ''timeout_packet'' attributeKeyPacketSourceClient sourceClientID,
           eq_text ''timeout_packet'' attributeKeyPacketDestClient destClientID,
           eq_num ''timeout_packet'' attributeKeyPacketSequence (uint sequence)])"

section \<open>Fees\<close>

text \<open>\<^verbatim>\<open>sdk.NewCoin\<close> takes an amount that is not negative; \<open>ClientInit\<close> shows that it gets one.\<close>

definition Cosmos_getTxFee :: "CosmosBridgeClient \<Rightarrow> u64 \<Rightarrow> (string \<times> int) result" where
  "Cosmos_getTxFee C gasLimit =
     (if co_feeDenom C = [] then Inl (NewError ''fee denom not set for chain'')
      else if 0 < co_gasPrice C \<and> 0 < co_feeAmount C
      then Inl (NewError ''gas price and fee amount cannot both be set for chain'')
      else if 0 < co_gasPrice C
      then Inr (co_feeDenom C,
                big_Int (big_Mul prec_NewFloat prec_SetInt64 (co_gasPrice C) (of_int (sint gasLimit))) + 1)
      else if 0 < co_feeAmount C then Inr (co_feeDenom C, uint (co_feeAmount C))
      else Inr (co_feeDenom C, 0))"

text \<open>A \<^verbatim>\<open>float64\<close> outside of the range of \<^verbatim>\<open>uint64\<close> converts to whatever the platform gives.\<close>

definition float_to_u64 :: "cosmos_env \<Rightarrow> rat \<Rightarrow> u64" where
  "float_to_u64 E q = (if 0 \<le> q \<and> q < 2 ^ 64 then word_of_int \<lfloor>q\<rfloor> else float_overflow E q)"

definition gas_with_buffer :: "cosmos_env \<Rightarrow> u64 \<Rightarrow> u64" where
  "gas_with_buffer E gasUsed =
     float_to_u64 E (of_int \<lceil>float64 (float64 (of_int (uint gasUsed)) * (3 / 2))\<rceil>)"

definition Cosmos_getEstimatedGasLimit ::
  "cosmos_env \<Rightarrow> CosmosBridgeClient \<Rightarrow> TxBuilder \<Rightarrow> u64 \<times> u64 \<Rightarrow> u64 result" where
  "Cosmos_getEstimatedGasLimit E C txBuilder accountInfo =
     (case SignTx E (co_chainID C) txBuilder (fst accountInfo) (snd accountInfo) of
        Inl err \<Rightarrow> Inl (Wrapf ''signing tx'' err)
      | Inr signedTx \<Rightarrow>
     (case TxEncoder E signedTx of
        Inl err \<Rightarrow> Inl (Wrapf ''encoding signed tx'' err)
      | Inr signedTxBytes \<Rightarrow>
     (case Simulate E signedTxBytes of
        Inl err \<Rightarrow> Inl (Wrapf ''simulating tx to get estimated gas usage'' err)
      | Inr None \<Rightarrow> Inl (NewError ''got nil gas info after simulating tx'')
      | Inr (Some gasUsed) \<Rightarrow> Inr (gas_with_buffer E gasUsed))))"

section \<open>Delivering transactions\<close>

definition broadcast ::
  "cosmos_env \<Rightarrow> time \<Rightarrow> CosmosBridgeClient \<Rightarrow> bytes \<Rightarrow> CosmosBridgeClient \<times> bytes result" where
  "broadcast E t C signedTxBytes =
     (case BroadcastTxSync E signedTxBytes of
        Inl err \<Rightarrow> (C, Inl (Wrapf ''broadcasting tx synchronously'' err))
      | Inr (rcode, rlog, h) \<Rightarrow>
          if rcode \<noteq> 0 then (C, Inl (NewError ''broadcasting cosmos tx returned error code''))
          else (C\<lparr>co_sent := co_sent C @ [(t, signedTxBytes)]\<rparr>, Inr h))"

definition Cosmos_signAndSubmitMessages ::
  "cosmos_env \<Rightarrow> time \<Rightarrow> CosmosBridgeClient \<Rightarrow> sdk_msg list \<Rightarrow> CosmosBridgeClient \<times> bytes result" where
  "Cosmos_signAndSubmitMessages E t C msgs =
     (case ConvertAndEncode E (co_prefix C) (signer_Address E) of
        Inl err \<Rightarrow> (C, Inl (Wrapf ''converting and encoding signer address to bech32'' err))
      | Inr bech32Address \<Rightarrow>
     (case AccountInfo E bech32Address of
        Inl err \<Rightarrow> (C, Inl (Wrapf ''getting account info for cosmos signer'' err))
      | Inr None \<Rightarrow> (C, Inl (NewError ''got no info for cosmos signer account''))
      | Inr (Some accountInfo) \<Rightarrow>
     (case SetMsgs E msgs of
        Some err \<Rightarrow> (C, Inl (Wrapf ''setting message in tx'' err))
      | None \<Rightarrow>
     (case Cosmos_getEstimatedGasLimit E C \<lparr>tb_Msgs = msgs, tb_GasLimit = 0, tb_Fee = None\<rparr> accountInfo of
        Inl err \<Rightarrow> (C, Inl (Wrapf ''getting estimated gas limit for tx'' err))
      | Inr gasLimit \<Rightarrow>
     (case (if co_feeDenom C = [] then Inr None else map_sum id Some (Cosmos_getTxFee C gasLimit)) of
        Inl err \<Rightarrow> (C, Inl (Wrapf ''getting tx fee'' err))
      | Inr fee \<Rightarrow>
     (case SignTx E (co_chainID C) \<lparr>tb_Msgs = msgs, tb_GasLimit = gasLimit, tb_Fee = fee\<rparr>
             (fst accountInfo) (snd accountInfo) of
        Inl err \<Rightarrow> (C, Inl (Wrapf ''signing tx'' err))
      | Inr signedTx \<Rightarrow>
     (case TxEncoder E signedTx of
        Inl err \<Rightarrow> (C, Inl (Wrapf ''encoding signed tx'' err))
      | Inr signedTxBytes \<Rightarrow> broadcast E t C signedTxBytes)))))))"

fun unpack_all :: "cosmos_env \<Rightarrow> bytes list \<Rightarrow> sdk_msg list result" where
  "unpack_all E [] = Inr []"
| "unpack_all E (m # ms) =
     (case UnpackAny E m of
        Inl err \<Rightarrow> Inl (Wrapf ''unpacking msg into sdk.Msg'' err)
      | Inr msg \<Rightarrow> map_sum id (Cons msg) (unpack_all E ms))"

definition is_update :: "sdk_msg \<Rightarrow> bool" where
  "is_update m = (case m of MsgUpdateClient _ \<Rightarrow> True | _ \<Rightarrow> False)"

text \<open>
  The loop that submits client updates one by one, sleeping after each. \<open>Es n\<close> is what the
  node answers around the \<open>n\<close>-th submission and \<open>x n\<close> how much longer than the delay that turn
  takes. It gives the time it ends, the number of submissions, the messages left over and the
  error that ended it.
\<close>

fun submit_updates ::
  "(nat \<Rightarrow> cosmos_env) \<Rightarrow> (nat \<Rightarrow> nat) \<Rightarrow> nat \<Rightarrow> time \<Rightarrow> sdk_msg list \<Rightarrow> CosmosBridgeClient \<Rightarrow>
     CosmosBridgeClient \<times> time \<times> nat \<times> sdk_msg list result" where
  "submit_updates Es x n t [] C = (C, t, n, Inr [])"
| "submit_updates Es x n t (m # ms) C =
     (if \<not> is_update m then
        (case submit_updates Es x n t ms C of
           (C', t', n', r) \<Rightarrow> (C', t', n', map_sum id (Cons m) r))
      else
        (case Cosmos_signAndSubmitMessages (Es n) t C [m] of
           (C1, Inl err) \<Rightarrow> (C1, t, n, Inl (Wrapf ''submitting individual update client message'' err))
         | (C1, Inr h) \<Rightarrow> submit_updates Es x (Suc n) (t + co_txSubmissionDelay C1 + int (x n)) ms C1))"

definition Cosmos_signAndSubmit ::
  "(nat \<Rightarrow> cosmos_env) \<Rightarrow> (nat \<Rightarrow> nat) \<Rightarrow> time \<Rightarrow> CosmosBridgeClient \<Rightarrow> bytes \<Rightarrow>
     CosmosBridgeClient \<times> time \<times> bytes result" where
  "Cosmos_signAndSubmit Es x t C bz =
     (case UnmarshalTxBody (Es 0) bz of
        Inl err \<Rightarrow> (C, t, Inl (Wrapf ''unmarshaling tx bytes'' err))
      | Inr [] \<Rightarrow> (C, t, Inl (NewError ''no messages to relay''))
      | Inr anys \<Rightarrow>
     (case unpack_all (Es 0) anys of
        Inl err \<Rightarrow> (C, t, Inl err)
      | Inr msgs \<Rightarrow>
          if length (filter is_update msgs) > 1 then
            (case submit_updates Es x 0 t msgs C of
               (C1, t1, n, Inl err) \<Rightarrow> (C1, t1, Inl err)
             | (C1, t1, n, Inr nonClientUpdateMsgs) \<Rightarrow>
                 (case Cosmos_signAndSubmitMessages (Es n) t1 C1 nonClientUpdateMsgs of (C2, r) \<Rightarrow> (C2, t1, r)))
          else (case Cosmos_signAndSubmitMessages (Es 0) t C msgs of (C1, r) \<Rightarrow> (C1, t, r))))"

text \<open>The second component is the time the call ends.\<close>

definition Cosmos_DeliverTx ::
  "(nat \<Rightarrow> cosmos_env) \<Rightarrow> delivery \<Rightarrow> (nat \<Rightarrow> nat) \<Rightarrow> CosmosBridgeClient \<Rightarrow> bytes \<Rightarrow>
     CosmosBridgeClient \<times> time \<times> BridgeTx result" where
  "Cosmos_DeliverTx Es k x C bz =
     (if d_canceled k then
        (let fin = d_locked k + int (d_took k) in
         (C\<lparr>co_lastSubmissionTime := fin\<rparr>, fin, Inl (Sentinel ContextCanceled)))
      else
        (let t = woke k (co_lastSubmissionTime C) (co_txSubmissionDelay C) in
         case ConvertAndEncode (Es 0) (co_prefix C) (signer_Address (Es 0)) of
           Inl err \<Rightarrow> (C, t + int (d_took k), Inl (Wrapf ''converting and encoding signer address to bech32'' err))
         | Inr bech32Address \<Rightarrow>
             (case Cosmos_signAndSubmit Es x t C bz of
                (C1, t1, Inl err) \<Rightarrow> (C1, t1 + int (d_took k), Inl (Wrapf ''signing and submitting recv tx'' err))
              | (C1, t1, Inr h) \<Rightarrow>
                  (let fin = t1 + int (d_took k) in
                   (C1\<lparr>co_lastSubmissionTime := fin\<rparr>, fin,
                    Inr \<lparr>Hash = HexBytesString (Es 0) h, Timestamp = fin, RelayerAddress = bech32Address\<rparr>)))))"

section \<open>Results of transactions\<close>

definition result_once ::
  "cosmos_env \<Rightarrow> once_clock \<Rightarrow> CosmosBridgeClient \<Rightarrow> string \<Rightarrow> bytes \<Rightarrow> CosmosBridgeClient \<times> ResultTx result" where
  "result_once E k C txHash hashBytes =
     (case Do k txHash (TmTx E hashBytes) (co_txOnce C) of (s, r) \<Rightarrow> (C\<lparr>co_txOnce := s\<rparr>, r))"

text \<open>The flags for sequence, source client and destination client after one more attribute.\<close>

definition match_attribute ::
  "u64 \<Rightarrow> string \<Rightarrow> string \<Rightarrow> string \<times> string \<Rightarrow> bool \<times> bool \<times> bool \<Rightarrow> bool \<times> bool \<times> bool" where
  "match_attribute sequence sourceClientID destClientID a fl =
     (case (a, fl) of
        ((key, v), (sq, sc, dc)) \<Rightarrow>
          if key = attributeKeyPacketSequence then (if v = Itoa (sint sequence) then (True, sc, dc) else fl)
          else if key = attributeKeyPacketSourceClient then (if v = sourceClientID then (sq, True, dc) else fl)
          else if key = attributeKeyPacketDestClient then (if v = destClientID then (sq, sc, True) else fl)
          else fl)"

fun parse_ack_attributes :: "cosmos_env \<Rightarrow> (string \<times> string) list \<Rightarrow> Ibcv2WriteAckStatus result" where
  "parse_ack_attributes E [] = Inr WACK_UNKNOWN"
| "parse_ack_attributes E ((key, v) # as) =
     (if key \<noteq> ''encoded_acknowledgement_hex'' then parse_ack_attributes E as
      else
        (case hex_decode v of
           Inl err \<Rightarrow> Inl (Joinf (Sentinel ErrWriteAckDecoding) err)
         | Inr protoAckBytes \<Rightarrow>
             (case UnmarshalAck E protoAckBytes of
                Inl err \<Rightarrow> Inl (Joinf (Sentinel ErrWriteAckDecoding) err)
              | Inr acks \<Rightarrow> Inr (ack_status acks))))"

definition parseWriteAckStatusForPacket :: "cosmos_env \<Rightarrow> Event \<Rightarrow> Ibcv2WriteAckStatus result" where
  "parseWriteAckStatusForPacket E event = parse_ack_attributes E (e_Attributes event)"

fun write_ack_events ::
  "cosmos_env \<Rightarrow> u64 \<Rightarrow> string \<Rightarrow> string \<Rightarrow> Event list \<Rightarrow> Ibcv2WriteAckStatus result" where
  "write_ack_events E sequence sourceClientID destClientID [] = Inl (Sentinel ErrWriteAckNotFoundForPacket)"
| "write_ack_events E sequence sourceClientID destClientID (event # es) =
     (if e_Type event \<noteq> ''write_acknowledgement'' then write_ack_events E sequence sourceClientID destClientID es
      else if fold (match_attribute sequence sourceClientID destClientID) (e_Attributes event) (False, False, False)
                = (True, True, True)
      then parseWriteAckStatusForPacket E event
      else write_ack_events E sequence sourceClientID destClientID es)"

definition Cosmos_PacketWriteAckStatus ::
  "cosmos_env \<Rightarrow> once_clock \<Rightarrow> CosmosBridgeClient \<Rightarrow> string \<Rightarrow> u64 \<Rightarrow> string \<Rightarrow> string \<Rightarrow>
     CosmosBridgeClient \<times> Ibcv2WriteAckStatus result" where
  "Cosmos_PacketWriteAckStatus E k C txHash sequence sourceClientID destClientID =
     (case hex_decode txHash of
        Inl err \<Rightarrow> (C, Inl (Wrapf ''hex decoding tx hash string'' err))
      | Inr hashBytes \<Rightarrow>
          (case result_once E k C txHash hashBytes of
             (C1, Inl err) \<Rightarrow>
               (C1, if says_not_found err then Inl (Sentinel ErrTxNotFound)
                    else Inl (Wrapf ''getting tx's result'' err))
           | (C1, Inr res) \<Rightarrow>
               (C1, write_ack_events E sequence sourceClientID destClientID (rt_Events res))))"

definition zero_packet :: PacketInfo where
  "zero_packet =
     \<lparr>Sequence = 0, SourceClient = [], DestinationClient = [], TimeoutTimestamp = zero_time,
      PacketTimestamp = zero_time\<rparr>"

fun packet_attributes :: "(string \<times> string) list \<Rightarrow> PacketInfo \<Rightarrow> PacketInfo result" where
  "packet_attributes [] packet = Inr packet"
| "packet_attributes ((key, v) # as) packet =
     (if key = attributeKeyPacketSequence then
        (case Atoi v of
           Inl err \<Rightarrow> Inl (NewError ''converting packet sequence to int'')
         | Inr sequence \<Rightarrow> packet_attributes as (packet\<lparr>Sequence := word_of_int sequence\<rparr>))
      else if key = attributeKeyPacketSourceClient then packet_attributes as (packet\<lparr>SourceClient := v\<rparr>)
      else if key = attributeKeyPacketDestClient then packet_attributes as (packet\<lparr>DestinationClient := v\<rparr>)
      else if key = attributeKeyPacketTimeoutTimestamp then
        (case Atoi v of
           Inl err \<Rightarrow> Inl (NewError ''converting attribute timeout ts to int'')
         | Inr unixts \<Rightarrow> packet_attributes as (packet\<lparr>TimeoutTimestamp := unixts * second\<rparr>))
      else packet_attributes as packet)"

fun send_packet_events :: "Event list \<Rightarrow> PacketInfo list \<Rightarrow> PacketInfo list result" where
  "send_packet_events [] packets = Inr packets"
| "send_packet_events (event # es) packets =
     (if e_Type event \<noteq> ''send_packet'' then send_packet_events es packets
      else
        (case packet_attributes (e_Attributes event) zero_packet of
           Inl err \<Rightarrow> Inl err
         | Inr packet \<Rightarrow>
             if SourceClient packet = [] \<or> DestinationClient packet = [] then send_packet_events es packets
             else send_packet_events es (packets @ [packet])))"

definition Cosmos_SendPacketsFromTx :: "cosmos_env \<Rightarrow> string \<Rightarrow> string \<Rightarrow> PacketInfo list result" where
  "Cosmos_SendPacketsFromTx E sourceChainID txHash =
     (case hex_decode txHash of
        Inl err \<Rightarrow> Inl (Wrapf ''hex decoding tx hash'' err)
      | Inr hashBytes \<Rightarrow>
     (case TmTx E hashBytes of
        Inl err \<Rightarrow> Inl (Wrapf ''getting tx result'' err)
      | Inr res \<Rightarrow>
     (case send_packet_events (rt_Events res) [] of
        Inl err \<Rightarrow> Inl err
      | Inr packets \<Rightarrow>
          if packets = [] then Inr []
          else
            (case TmHeader E (Some (rt_Height res)) of
               Inl err \<Rightarrow> Inl (Wrapf ''getting header for height'' err)
             | Inr None \<Rightarrow> Inl (NewError ''got nil header at height'')
             | Inr (Some headerTime) \<Rightarrow> Inr (map (\<lambda>p. p\<lparr>PacketTimestamp := headerTime\<rparr>) packets)))))"

definition Cosmos_ShouldRetryTx ::
  "cosmos_env \<Rightarrow> once_clock \<Rightarrow> CosmosBridgeClient \<Rightarrow> string \<Rightarrow> duration \<Rightarrow> time \<Rightarrow> CosmosBridgeClient \<times> bool result" where
  "Cosmos_ShouldRetryTx E k C txHash expiry sentTs =
     (case hex_decode txHash of
        Inl err \<Rightarrow> (C, Inl (Wrapf ''decoding hex tx hash to bytes'' err))
      | Inr txHashBytes \<Rightarrow>
          (case result_once E k C txHash txHashBytes of
             (C1, Inl err) \<Rightarrow>
               (C1,
                if says_not_found err then
                  (case TmHeader E None of
                     Inl err \<Rightarrow> Inl (Wrapf ''getting latest block header'' err)
                   | Inr None \<Rightarrow> Inl (NewError ''fetched block header at latest height without err but header was nil'')
                   | Inr (Some headerTime) \<Rightarrow>
                       if sentTs + expiry < headerTime then Inr True else Inl (Sentinel ErrTxNotFound))
                else Inl (Wrapf ''fetching tx on chain'' err))
           | (C1, Inr res) \<Rightarrow> (C1, Inr (rt_Code res \<noteq> 0))))"

definition Cosmos_TxFee ::
  "cosmos_env \<Rightarrow> once_clock \<Rightarrow> CosmosBridgeClient \<Rightarrow> string \<Rightarrow> CosmosBridgeClient \<times> int result" where
  "Cosmos_TxFee E k C txHash =
     (case hex_decode txHash of
        Inl err \<Rightarrow> (C, Inl (Wrapf ''hex decoding tx hash string'' err))
      | Inr hashBytes \<Rightarrow>
          (case result_once E k C txHash hashBytes of
             (C1, Inl err) \<Rightarrow> (C1, Inl (Wrapf ''getting results for tx hash'' err))
           | (C1, Inr res) \<Rightarrow>
               (C1,
                case TxDecoder E (rt_Tx res) of
                  Inl err \<Rightarrow> Inl (Wrapf ''decoding tx result'' err)
                | Inr decodedTx \<Rightarrow>
                    (case dt_Fee decodedTx of
                       None \<Rightarrow> Inl (NewError ''could not convert decoded tx to sdk.FeeTx'')
                     | Some fee \<Rightarrow> Inr (case fee (co_feeDenom C) of None \<Rightarrow> 0 | Some a \<Rightarrow> a)))))"

definition Cosmos_TxExecutionStatus ::
  "cosmos_env \<Rightarrow> once_clock \<Rightarrow> CosmosBridgeClient \<Rightarrow> string \<Rightarrow> CosmosBridgeClient \<times> TxExecutionStatus result" where
  "Cosmos_TxExecutionStatus E k C txHash =
     (case hex_decode txHash of
        Inl err \<Rightarrow> (C, Inl (Wrapf ''hex decoding tx hash string'' err))
      | Inr hashBytes \<Rightarrow>
          (case result_once E k C txHash hashBytes of
             (C1, Inl err) \<Rightarrow>
               (C1, if says_not_found err then Inl (Joinf (Sentinel ErrTxNotFound) err)
                    else Inl (Wrapf ''getting results for tx hash'' err))
           | (C1, Inr res) \<Rightarrow>
               (C1, Inr (if rt_Code res = 0 then \<lparr>ExecStatus = TxExecutionStatusSuccess, ErrorMessage = []\<rparr>
                         else \<lparr>ExecStatus = TxExecutionStatusFailed, ErrorMessage = rt_Log res\<rparr>))))"

section \<open>Finality, timestamps and waiting\<close>

definition Cosmos_IsTxFinalized :: "string \<Rightarrow> u64 option \<Rightarrow> bool result" where
  "Cosmos_IsTxFinalized txHash offset = Inr True"

definition Cosmos_IsTimestampFinalized :: "cosmos_env \<Rightarrow> time \<Rightarrow> u64 option \<Rightarrow> bool result" where
  "Cosmos_IsTimestampFinalized E timestamp offset =
     (case TmHeader E None of
        Inl err \<Rightarrow> Inl (Wrapf ''getting latest header'' err)
      | Inr None \<Rightarrow> Inl (NewError ''got nil header when fetching latest header'')
      | Inr (Some headerTime) \<Rightarrow> Inr (timestamp < headerTime))"

definition Cosmos_LatestOnChainTimestamp ::
  "cosmos_env \<Rightarrow> once_clock \<Rightarrow> CosmosBridgeClient \<Rightarrow> CosmosBridgeClient \<times> time result" where
  "Cosmos_LatestOnChainTimestamp E k C =
     (case Do k ''key''
             (case TmHeader E None of
                Inl err \<Rightarrow> Inl (Wrapf ''getting latest header'' err)
              | Inr None \<Rightarrow> Inl (NewError ''got nil header when fetching latest header'')
              | Inr (Some headerTime) \<Rightarrow> Inr headerTime)
             (co_latestTimestampOnce C) of
        (s, r) \<Rightarrow> (C\<lparr>co_latestTimestampOnce := s\<rparr>, r))"

definition Cosmos_TimestampAtHeight :: "cosmos_env \<Rightarrow> u64 \<Rightarrow> time result" where
  "Cosmos_TimestampAtHeight E height =
     (case TmHeader E (Some (sint height)) of
        Inl err \<Rightarrow> Inl (Wrapf ''fetching block header at height'' err)
      | Inr None \<Rightarrow> Inl (NewError ''fetched block header without err but header was nil'')
      | Inr (Some headerTime) \<Rightarrow> Inr headerTime)"

definition Cosmos_SignerGasTokenBalance :: "cosmos_env \<Rightarrow> CosmosBridgeClient \<Rightarrow> int result" where
  "Cosmos_SignerGasTokenBalance E C =
     (case ConvertAndEncode E (co_prefix C) (signer_Address E) of
        Inl err \<Rightarrow> Inl (Wrapf ''converting and encoding signer address to bech32'' err)
      | Inr bech32Address \<Rightarrow>
          (case Balance E bech32Address (co_feeDenom C) of
             Inl err \<Rightarrow> Inl (Wrapf ''getting balance for signer on chain'' err)
           | Inr None \<Rightarrow> Inl (NewError ''got nil balance for signer on chain'')
           | Inr (Some amount) \<Rightarrow> Inr amount))"

definition Cosmos_GetTransactionSender :: "string \<Rightarrow> string result" where
  "Cosmos_GetTransactionSender txHash = Inl (NewError ''GetTransactionSender not implemented'')"

fun Cosmos_WaitForChain :: "time \<Rightarrow> time option result tick list \<Rightarrow> go_error option option" where
  "Cosmos_WaitForChain start [] = None"
| "Cosmos_WaitForChain start (CtxDone # ticks) = Some (Some (Sentinel ContextCanceled))"
| "Cosmos_WaitForChain start (Ticked _ (Inl err) # ticks) = Some (Some (Wrapf ''getting latest block header'' err))"
| "Cosmos_WaitForChain start (Ticked _ (Inr None) # ticks) = Some (Some (NewError ''latest header was nil''))"
| "Cosmos_WaitForChain start (Ticked _ (Inr (Some headerTime)) # ticks) =
     (if start < headerTime then Some None else Cosmos_WaitForChain start ticks)"

text \<open>The loop of \<^verbatim>\<open>WaitForTx\<close>, entered when the hash decodes.\<close>

fun wait_for_result :: "time \<Rightarrow> ResultTx option result tick list \<Rightarrow> go_error option option" where
  "wait_for_result start [] = None"
| "wait_for_result start (CtxDone # ticks) = Some (Some (Sentinel ContextCanceled))"
| "wait_for_result start (Ticked _ (Inl err) # ticks) =
     (if says_not_found err then wait_for_result start ticks
      else Some (Some (Wrapf ''getting tx result'' err)))"
| "wait_for_result start (Ticked _ (Inr (Some res)) # ticks) = Some None"
| "wait_for_result start (Ticked t (Inr None) # ticks) =
     (if t - start > minute then Some (Some (NewError ''timeout after waiting for transaction result''))
      else wait_for_result start ticks)"

definition Cosmos_WaitForTx ::
  "string \<Rightarrow> time \<Rightarrow> ResultTx option result tick list \<Rightarrow> go_error option option" where
  "Cosmos_WaitForTx txHash start ticks =
     (case hex_decode txHash of
        Inl err \<Rightarrow> Some (Some (Wrapf ''hex decoding tx hash string'' err))
      | Inr _ \<Rightarrow> wait_for_result start ticks)"

end
