(* ===== verification/ClientInit.thy ===== *)
theory ClientInit
  imports CosmosBridge
begin

text \<open>
  The construction of the bridge clients at startup, \<^verbatim>\<open>NewClientManagerFromConfig\<close> of
  \<^verbatim>\<open>relayer/ibcv2/client_manager.go\<close>: the health check of the remote signer, the fee settings of
  Cosmos chains, keys, endpoints, and the map from chain ids to clients. Dialing, key parsing and
  the remote signer are the record \<open>startup\<close>. A nil pointer or an index out of range that stops the
  process is the error \<open>panicked\<close>.
\<close>

section \<open>What startup is given\<close>

datatype wallet_key = CosmosKey | EthereumKey

record startup =
  os_environ :: environ
  have_remote_signer :: bool
  GetWallet :: "string \<Rightarrow> wallet_key \<Rightarrow> go_error option"
  remote_address :: "string \<Rightarrow> string \<Rightarrow> bytes"
  private_keys :: "string \<rightharpoonup> string"
  HexToECDSA :: "string \<Rightarrow> bytes result"
  UnmarshalAmino :: "bytes \<Rightarrow> bytes result"
  DialEth :: "string \<Rightarrow> string option \<Rightarrow> go_error option"
  DialRPC :: "string \<Rightarrow> string option \<Rightarrow> go_error option"
  DialGRPC :: "string \<Rightarrow> bool \<Rightarrow> go_error option"

definition panicked :: "string \<Rightarrow> go_error" where
  "panicked m = External (''panic: '' @ m)"

datatype bridge = EvmClient EVMBridgeClient | CosmosClient CosmosBridgeClient

section \<open>Signers and connections\<close>

text \<open>A signer is known by its address.\<close>

definition createEthSigner :: "startup \<Rightarrow> string \<Rightarrow> string \<Rightarrow> bytes result" where
  "createEthSigner S chainID walletID =
     (if have_remote_signer S then Inr (remote_address S walletID chainID)
      else
        (case private_keys S chainID of
           None \<Rightarrow> Inl (NewError ''private key not found for chain'')
         | Some key \<Rightarrow>
             (case HexToECDSA S (trim_0x key) of
                Inl err \<Rightarrow> Inl (Wrapf ''converting hex private key to ecdsa'' err)
              | Inr addr \<Rightarrow> Inr addr)))"

text \<open>The Cosmos variant slices the first two bytes off before it compares them.\<close>

definition createCosmosSigner :: "startup \<Rightarrow> string \<Rightarrow> string \<Rightarrow> bytes result" where
  "createCosmosSigner S chainID walletID =
     (if have_remote_signer S then Inr (remote_address S walletID chainID)
      else
        (case private_keys S chainID of
           None \<Rightarrow> Inl (NewError ''private key not found for chain'')
         | Some key \<Rightarrow>
             if length key < 2 then Inl (panicked ''slice bounds out of range'')
             else
               (case hex_decode (if take 2 key = ''0x'' then drop 2 key else key) of
                  Inl err \<Rightarrow> Inl (Wrapf ''hex decoding private key bytes to string'' err)
                | Inr bs \<Rightarrow>
                    (case UnmarshalAmino S bs of
                       Inl err \<Rightarrow> Inl (Wrapf ''unmarshaling private key bytes to amino'' err)
                     | Inr addr \<Rightarrow> Inr addr))))"

definition createEthClient :: "startup \<Rightarrow> configReader \<Rightarrow> string \<Rightarrow> go_error option" where
  "createEthClient S r chainID =
     (case GetRPCEndpoint (os_environ S) r chainID of
        Inl err \<Rightarrow> Some err
      | Inr rpc \<Rightarrow>
          (case GetBasicAuth (os_environ S) r chainID of
             Inl err \<Rightarrow> Some err
           | Inr basicAuth \<Rightarrow> DialEth S rpc basicAuth))"

definition createCosmosRPC :: "startup \<Rightarrow> configReader \<Rightarrow> string \<Rightarrow> go_error option" where
  "createCosmosRPC S r chainID =
     (case GetRPCEndpoint (os_environ S) r chainID of
        Inl err \<Rightarrow> Some (Wrapf ''getting rpc endpoint for chain'' err)
      | Inr rpc \<Rightarrow>
          (case GetBasicAuth (os_environ S) r chainID of
             Inl err \<Rightarrow> Some (Wrapf ''getting basic auth for chain'' err)
           | Inr basicAuth \<Rightarrow>
               (case DialRPC S rpc basicAuth of
                  Some err \<Rightarrow> Some (Wrapf ''creating tmrpc client for chain'' err)
                | None \<Rightarrow> None)))"

definition createCosmosGRPC :: "startup \<Rightarrow> configReader \<Rightarrow> string \<Rightarrow> go_error option" where
  "createCosmosGRPC S r chainID =
     (case GetGRPCEndpoint r chainID of
        Inl err \<Rightarrow> Some (Wrapf ''getting grpc endpoint for chain'' err)
      | Inr (addr, tlsEnabled) \<Rightarrow>
          (case DialGRPC S addr tlsEnabled of
             Some err \<Rightarrow> Some (Wrapf ''creating grpc client at address'' err)
           | None \<Rightarrow> None))"

section \<open>The manager\<close>

definition signer_health ::
  "startup \<Rightarrow> string \<Rightarrow> string \<Rightarrow> ChainConfig list \<Rightarrow> go_error option" where
  "signer_health S cosmosWallet evmWallet cfgs =
     (if \<not> have_remote_signer S then None
      else
        (case (if list_ex (\<lambda>c. Type c = COSMOS) cfgs \<and> cosmosWallet \<noteq> []
               then GetWallet S cosmosWallet CosmosKey else None) of
           Some err \<Rightarrow> Some (Wrapf ''remote signer health check failed for wallet'' err)
         | None \<Rightarrow>
             (case (if list_ex (\<lambda>c. Type c = EVM) cfgs \<and> evmWallet \<noteq> []
                    then GetWallet S evmWallet EthereumKey else None) of
                Some err \<Rightarrow> Some (Wrapf ''remote signer health check failed for wallet'' err)
              | None \<Rightarrow> None)))"

definition fee_settings :: "CosmosConfig \<Rightarrow> go_error option" where
  "fee_settings c =
     (if (0 < GasPrice c \<or> 0 < IBCV2TxFeeAmount c) \<and> IBCV2TxFeeDenom c = []
      then Some (NewError ''ibcv2 gas price or ibcv2 fee amount cannot be specified without setting ibcv2 fee denom'')
      else if IBCV2TxFeeDenom c \<noteq> [] \<and> (GasPrice c = 0 \<and> IBCV2TxFeeAmount c = 0)
      then Some (NewError ''ibcv2 gas price and ibcv2 fee amount cannot be unset when a ibcv2 fee denom is set'')
      else if 0 < GasPrice c \<and> 0 < IBCV2TxFeeAmount c
      then Some (NewError ''ibcv2 fee denom and ibcv2 gas price cannot both be set'')
      else None)"

text \<open>One turn of the loop: \<open>None\<close> for a chain of another type.\<close>

definition chain_bridge ::
  "startup \<Rightarrow> geth \<Rightarrow> configReader \<Rightarrow> string \<Rightarrow> string \<Rightarrow> ChainConfig \<Rightarrow> bridge option result" where
  "chain_bridge S g r cosmosWallet evmWallet chain =
     (case Type chain of
        EVM \<Rightarrow>
          (case createEthSigner S (ChainID chain) evmWallet of
             Inl err \<Rightarrow> Inl (Wrapf ''creating eth signer for chain'' err)
           | Inr signer \<Rightarrow>
          (case createEthClient S r (ChainID chain) of
             Some err \<Rightarrow> Inl (Wrapf ''creating eth client for chain'' err)
           | None \<Rightarrow>
          (case Evm chain of
             None \<Rightarrow> Inl (panicked ''nil pointer dereference'')
           | Some c \<Rightarrow>
          (case NewEVMBridgeClient g (ChainID chain) (ICS26RouterAddress c) signer
                  (GasFeeCapMultiplier c) (GasTipCapMultiplier c) (EVMTxSubmissionDelay c) of
             Inl err \<Rightarrow> Inl (Wrapf ''creating evm bridge client for chain'' err)
           | Inr b \<Rightarrow> Inr (Some (EvmClient b))))))
      | COSMOS \<Rightarrow>
          (case Cosmos chain of
             None \<Rightarrow> Inl (panicked ''nil pointer dereference'')
           | Some c \<Rightarrow>
          (case fee_settings c of
             Some err \<Rightarrow> Inl err
           | None \<Rightarrow>
          (case createCosmosSigner S (ChainID chain) cosmosWallet of
             Inl err \<Rightarrow> Inl (Wrapf ''creating cosmos signer for chain'' err)
           | Inr signer \<Rightarrow>
          (case createCosmosRPC S r (ChainID chain) of
             Some err \<Rightarrow> Inl (Wrapf ''creating cosmos rpc client for chain'' err)
           | None \<Rightarrow>
          (case createCosmosGRPC S r (ChainID chain) of
             Some err \<Rightarrow> Inl (Wrapf ''creating cosmos grpc connection for chain'' err)
           | None \<Rightarrow>
               Inr (Some (CosmosClient
                 (NewCosmosBridgeClient (ChainID chain) (AddressPrefix c) (GasPrice c) (IBCV2TxFeeDenom c)
                    (IBCV2TxFeeAmount c) (CosmosTxSubmissionDelay c)))))))))
      | _ \<Rightarrow> Inr None)"

fun create_bridges ::
  "startup \<Rightarrow> geth \<Rightarrow> configReader \<Rightarrow> string \<Rightarrow> string \<Rightarrow> ChainConfig list \<Rightarrow> (string \<rightharpoonup> bridge) \<Rightarrow> (string \<rightharpoonup> bridge) result" where
  "create_bridges S g r cw ew [] m = Inr m"
| "create_bridges S g r cw ew (chain # cfgs) m =
     (case chain_bridge S g r cw ew chain of
        Inl err \<Rightarrow> Inl err
      | Inr None \<Rightarrow> create_bridges S g r cw ew cfgs m
      | Inr (Some b) \<Rightarrow> create_bridges S g r cw ew cfgs (m(ChainID chain \<mapsto> b)))"

definition NewClientManagerFromConfig ::
  "startup \<Rightarrow> geth \<Rightarrow> configReader \<Rightarrow> string \<Rightarrow> string \<Rightarrow> ChainConfig list \<Rightarrow> (string \<rightharpoonup> bridge) result" where
  "NewClientManagerFromConfig S g r cosmosWallet evmWallet cfgs =
     (case signer_health S cosmosWallet evmWallet cfgs of
        Some err \<Rightarrow> Inl err
      | None \<Rightarrow> create_bridges S g r cosmosWallet evmWallet cfgs Map.empty)"

section \<open>What startup guarantees\<close>

text \<open>
  A client that was made from a configuration: its chain is configured, its delay is the
  configured one, and the fee settings of a Cosmos client are consistent.
\<close>

definition bridge_ok :: "ChainConfig list \<Rightarrow> string \<Rightarrow> bridge \<Rightarrow> bool" where
  "bridge_ok cfgs cid b \<longleftrightarrow>
     (\<exists>chain \<in> set cfgs. ChainID chain = cid \<and>
        (case b of
           EvmClient C \<Rightarrow> Type chain = EVM \<and> evm_chainID C = cid \<and> length (signerAddress C) = 20 \<and> sent C = []
         | CosmosClient C \<Rightarrow> Type chain = COSMOS \<and> co_chainID C = cid \<and> co_sent C = [] \<and>
             (\<exists>c. Cosmos chain = Some c \<and> fee_settings c = None \<and> co_gasPrice C = GasPrice c \<and>
                co_feeDenom C = IBCV2TxFeeDenom c \<and> co_feeAmount C = IBCV2TxFeeAmount c)))"

lemma chain_bridge_ok:
  assumes "chain_bridge S g r cw ew chain = Inr (Some b)" and "chain \<in> set cfgs"
  shows "bridge_ok cfgs (ChainID chain) b"
proof (cases "Type chain")
  case COSMOS
  with assms show ?thesis
    by (auto simp: chain_bridge_def bridge_ok_def NewCosmosBridgeClient_def split: option.splits sum.splits)
next
  case EVM
  with assms show ?thesis
    by (auto simp: chain_bridge_def bridge_ok_def NewEVMBridgeClient_def split: option.splits sum.splits if_splits)
qed (use assms in \<open>simp_all add: chain_bridge_def\<close>)

lemma create_bridges_ok:
  assumes "create_bridges S g r cw ew cfgs m = Inr m'" and "set cfgs \<subseteq> set all"
    and "\<And>c b. m c = Some b \<Longrightarrow> bridge_ok all c b" and "m' c = Some b"
  shows "bridge_ok all c b"
  using assms
proof (induction S g r cw ew cfgs m rule: create_bridges.induct)
  case (2 S g r cw ew chain cfgs m)
  from "2.prems"(1) consider
      "chain_bridge S g r cw ew chain = Inr None" "create_bridges S g r cw ew cfgs m = Inr m'"
    | x where "chain_bridge S g r cw ew chain = Inr (Some x)"
        "create_bridges S g r cw ew cfgs (m(ChainID chain \<mapsto> x)) = Inr m'"
    by (auto split: sum.splits option.splits)
  then show ?case
  proof cases
    case 1
    with 2 show ?thesis by simp
  next
    case (2 x)
    have "bridge_ok all c' b'" if "(m(ChainID chain \<mapsto> x)) c' = Some b'" for c' b'
      using that 2(1) "2.prems"(2,3) chain_bridge_ok [OF 2(1)] by (auto split: if_splits)
    moreover have "set cfgs \<subseteq> set all" using "2.prems"(2) by simp
    ultimately show ?thesis using "2.IH"(2) [OF 2(1) refl 2(2)] "2.prems"(4) by blast
  qed
qed auto

lemma below_half_nonneg:
  assumes "(w :: u64) < 2 ^ 63"
  shows "0 \<le> sint w"
proof -
  have "uint w < 2 ^ 63" using assms by (simp add: word_less_def)
  then have "sint w = uint w" by (simp add: sint_uint signed_take_bit_int_eq_self_iff order_trans [OF _ uint_ge_0])
  then show ?thesis by simp
qed

text \<open>
  C33. Every client of a manager that startup built is for a configured chain of its kind, an EVM
  client has a signer address of twenty bytes, and a Cosmos client with a fee denom and without a
  negative gas price always pays: for every gas limit below two to the 63 the computed fee is
  a positive amount of that denom.
\<close>

theorem clients_well_configured:
  assumes "NewClientManagerFromConfig S g r cosmosWallet evmWallet cfgs = Inr m" and "m cid = Some b"
  shows "bridge_ok cfgs cid b \<and>
    (\<forall>C gasLimit. b = CosmosClient C \<and> co_feeDenom C \<noteq> [] \<and> 0 \<le> co_gasPrice C \<and> gasLimit < 2 ^ 63 \<longrightarrow>
       (\<exists>fee. Cosmos_getTxFee C gasLimit = Inr (co_feeDenom C, fee) \<and> 0 < fee))"
proof -
  have "create_bridges S g r cosmosWallet evmWallet cfgs Map.empty = Inr m"
    using assms(1) by (auto simp: NewClientManagerFromConfig_def split: option.splits)
  then have ok: "bridge_ok cfgs cid b"
    by (rule create_bridges_ok) (use assms(2) in auto)
  moreover have "\<exists>fee. Cosmos_getTxFee C gasLimit = Inr (co_feeDenom C, fee) \<and> 0 < fee"
    if C: "b = CosmosClient C" "co_feeDenom C \<noteq> []" "0 \<le> co_gasPrice C" and l: "gasLimit < 2 ^ 63"
    for C and gasLimit :: u64
  proof -
    obtain c where "fee_settings c = None" "co_gasPrice C = GasPrice c" "co_feeDenom C = IBCV2TxFeeDenom c"
      "co_feeAmount C = IBCV2TxFeeAmount c"
      using ok C(1) by (auto simp: bridge_ok_def)
    with C(2) have priced: "co_gasPrice C \<noteq> 0 \<or> co_feeAmount C \<noteq> 0" "\<not> (0 < co_gasPrice C \<and> 0 < co_feeAmount C)"
      by (auto simp: fee_settings_def split: if_splits)
    show ?thesis
    proof (cases "0 < co_gasPrice C")
      case True
      have "0 \<le> sint gasLimit" using l by (rule below_half_nonneg)
      with C(3) have "0 \<le> big_Int (big_Mul prec_NewFloat prec_SetInt64 (co_gasPrice C) (of_int (sint gasLimit)))"
        by (intro big_Int_Mul_nonneg) (simp_all only: of_int_0_le_iff)
      with C(2) priced True show ?thesis by (simp add: Cosmos_getTxFee_def)
    next
      case False
      with C(3) priced have "0 < co_feeAmount C" by (simp add: word_neq_0_conv)
      with C(2) False show ?thesis by (simp add: Cosmos_getTxFee_def word_less_def)
    qed
  qed
  ultimately show ?thesis by blast
qed

text \<open>A Cosmos chain with a gas price and a local key.\<close>

definition ex_chain :: ChainConfig where
  "ex_chain =
     \<lparr>ChainName = ''hub'', ChainID = ''cosmos-1'', Type = COSMOS, Environment = ''testnet'',
      Cosmos = Some \<lparr>GasPrice = 1 / 4, IBCV2TxFeeDenom = ''uatom'', IBCV2TxFeeAmount = 0, CosmosRPC = ''http://rpc'',
        CosmosRPCBasicAuthVar = [], GRPC = ''grpc:9090'', GRPCTLSEnabled = True, AddressPrefix = ''cosmos'',
        CosmosTxSubmissionDelay = None\<rparr>,
      Evm = None, Svm = None, GasTokenSymbol = ''ATOM'', GasTokenCoingeckoID = None, GasTokenDecimals = 6,
      SignerGasAlertThresholds = Map.empty, IBCV2 = None, SupportedBridges = []\<rparr>"

definition ex_reader :: configReader where
  "ex_reader = \<lparr>Config = undefined, chainIDIndex = [''cosmos-1'' \<mapsto> ex_chain], chainIDToKey = [''cosmos-1'' \<mapsto> ''hub'']\<rparr>"

definition ex_startup :: startup where
  "ex_startup =
     \<lparr>os_environ = (\<lambda>_. None), have_remote_signer = False, GetWallet = (\<lambda>_ _. None), remote_address = (\<lambda>_ _. []),
      private_keys = [''cosmos-1'' \<mapsto> ''0xab''], HexToECDSA = (\<lambda>_. Inr []), UnmarshalAmino = (\<lambda>b. Inr b),
      DialEth = (\<lambda>_ _. None), DialRPC = (\<lambda>_ _. None), DialGRPC = (\<lambda>_ _. None)\<rparr>"

definition ex_made :: CosmosBridgeClient where
  "ex_made = NewCosmosBridgeClient ''cosmos-1'' ''cosmos'' (1 / 4) ''uatom'' 0 None"

theorem clients_well_configured_witness:
  "bridge_ok [ex_chain] ''cosmos-1'' (CosmosClient ex_made) \<and>
   (\<exists>fee. Cosmos_getTxFee ex_made 1500 = Inr (''uatom'', fee) \<and> 0 < fee)"
proof -
  have hex: "hex_digit CHR ''a'' = Some 10" "hex_digit CHR ''b'' = Some 11" by code_simp+
  have m: "NewClientManagerFromConfig ex_startup ex_geth ex_reader [] [] [ex_chain] = Inr [''cosmos-1'' \<mapsto> CosmosClient ex_made]"
    by (simp add: NewClientManagerFromConfig_def signer_health_def chain_bridge_def fee_settings_def createCosmosSigner_def
        createCosmosRPC_def createCosmosGRPC_def GetRPCEndpoint_def GetBasicAuth_def GetGRPCEndpoint_def ex_startup_def
        ex_reader_def ex_chain_def ex_made_def hex)
  from clients_well_configured [OF m, of "''cosmos-1''" "CosmosClient ex_made"] show ?thesis
    by (auto simp: ex_made_def NewCosmosBridgeClient_def)
qed

end
