(* ===== verification/Signers.thy ===== *)
theory Signers
  imports ClientInit
begin

text \<open>
  The signers of \<^verbatim>\<open>shared/signing\<close>, \<^verbatim>\<open>relayer/ibcv2/remote_*_signer.go\<close> and the manager of
  the remote signing service, \<^verbatim>\<open>signer_service/signer_manager.go\<close>. Cryptography, the Cosmos SDK's
  transaction builder and go-ethereum's signing functions are the record \<open>sign_lib\<close>; the remote
  service is the record \<open>signer_service\<close>. Keys are byte strings.
\<close>

section \<open>Transactions\<close>

record SignatureV2 =
  sv_PubKey :: bytes
  sv_SignMode :: nat
  sv_Signature :: bytes
  sv_Sequence :: u64

text \<open>An \<^verbatim>\<open>sdk.Tx\<close>: what was built, and the signatures it carries.\<close>

record SdkTx =
  st_Body :: TxBuilder
  st_Signatures :: "SignatureV2 list"

record CosmosTransaction =
  ct_Tx :: SdkTx
  ct_AccountNumber :: u64
  ct_Sequence :: u64

text \<open>The interface \<^verbatim>\<open>signing.Transaction\<close> by dynamic type; \<open>NilTransaction\<close> is the nil interface.\<close>

datatype signing_tx =
    CosmosTransactionPtr CosmosTransaction
  | EthereumTransactionPtr Transaction
  | OtherTransactionPtr string
  | NilTransaction

fun same_kind :: "signing_tx \<Rightarrow> signing_tx \<Rightarrow> bool" where
  "same_kind (CosmosTransactionPtr _) (CosmosTransactionPtr _) = True"
| "same_kind (EthereumTransactionPtr _) (EthereumTransactionPtr _) = True"
| "same_kind (OtherTransactionPtr a) (OtherTransactionPtr b) = (a = b)"
| "same_kind _ _ = False"

record SignerData =
  sd_ChainID :: string
  sd_AccountNumber :: u64
  sd_Sequence :: u64

record sign_lib =
  EncodeTx :: "SdkTx \<Rightarrow> bytes result"
  DecodeTx :: "bytes \<Rightarrow> SdkTx result"
  WrapTxBuilder :: "SdkTx \<Rightarrow> go_error option"
  SetSignatures :: "SdkTx \<Rightarrow> SignatureV2 \<Rightarrow> go_error option"
  GetSignBytes :: "nat \<Rightarrow> SignerData \<Rightarrow> SdkTx \<Rightarrow> bytes result"
  DefaultMode :: nat
  cosmos_PubKey :: "bytes \<Rightarrow> bytes"
  cosmos_Sign :: "bytes \<Rightarrow> bytes \<Rightarrow> bytes result"
  cosmos_Address :: "bytes \<Rightarrow> bytes"
  eth_MarshalBinary :: "Transaction \<Rightarrow> bytes result"
  eth_SignTx :: "Transaction \<Rightarrow> int \<Rightarrow> bytes \<Rightarrow> Transaction result"
  eth_SignerHash :: "int option \<Rightarrow> Transaction \<Rightarrow> hash"
  Ecrecover :: "hash \<Rightarrow> bytes \<Rightarrow> bytes result"
  WithSignature :: "int option \<Rightarrow> Transaction \<Rightarrow> bytes \<Rightarrow> Transaction result"
  eth_PublicKey :: "bytes \<Rightarrow> bytes"
  UnmarshalPubkey :: "bytes \<Rightarrow> bytes result"
  PubkeyToAddress :: "bytes \<Rightarrow> bytes"
  solana_PublicKey :: "bytes \<Rightarrow> bytes"
  ToBase64 :: "bytes \<Rightarrow> string result"

definition NewCosmosTransaction :: "SdkTx \<Rightarrow> u64 \<Rightarrow> u64 \<Rightarrow> CosmosTransaction" where
  "NewCosmosTransaction tx accountNumber sequence =
     \<lparr>ct_Tx = tx, ct_AccountNumber = accountNumber, ct_Sequence = sequence\<rparr>"

definition CosmosTransaction_MarshalBinary :: "sign_lib \<Rightarrow> CosmosTransaction \<Rightarrow> bytes result" where
  "CosmosTransaction_MarshalBinary L t = EncodeTx L (ct_Tx t)"

text \<open>The transaction is assigned before the error is returned; the library gives nil with an error.\<close>

definition CosmosTransaction_UnmarshalBinary ::
  "sign_lib \<Rightarrow> CosmosTransaction \<Rightarrow> bytes \<Rightarrow> CosmosTransaction result" where
  "CosmosTransaction_UnmarshalBinary L t data =
     (case DecodeTx L data of Inl err \<Rightarrow> Inl err | Inr tx \<Rightarrow> Inr (t\<lparr>ct_Tx := tx\<rparr>))"

section \<open>The signing service\<close>

datatype SignPayload = CosmosPayload bytes | EvmPayload string bytes | SolanaPayload string

datatype SignResponse = CosmosSignature bytes | EvmSignature bytes bytes bytes | SolanaSignature bytes

record signer_service =
  svc_Sign :: "string \<Rightarrow> SignPayload \<Rightarrow> SignResponse result"
  svc_GetWallet :: "string \<Rightarrow> wallet_key \<Rightarrow> bytes result"

text \<open>The generated getters give empty values for another kind of response.\<close>

fun GetCosmosSignature :: "SignResponse \<Rightarrow> bytes" where
  "GetCosmosSignature (CosmosSignature s) = s"
| "GetCosmosSignature _ = []"

fun GetEvmSignature :: "SignResponse \<Rightarrow> bytes" where
  "GetEvmSignature (EvmSignature r s v) = r @ s @ v"
| "GetEvmSignature _ = []"

fun GetSolanaSignature :: "SignResponse \<Rightarrow> bytes" where
  "GetSolanaSignature (SolanaSignature s) = s"
| "GetSolanaSignature _ = []"

definition SIGN_MODE_DIRECT :: nat where
  "SIGN_MODE_DIRECT = 1"

definition set_signature :: "sign_lib \<Rightarrow> SdkTx \<Rightarrow> SignatureV2 \<Rightarrow> SdkTx result" where
  "set_signature L tx s =
     (case SetSignatures L tx s of Some err \<Rightarrow> Inl err | None \<Rightarrow> Inr (tx\<lparr>st_Signatures := [s]\<rparr>))"

definition SignCosmosTransaction ::
  "sign_lib \<Rightarrow> signer_service \<Rightarrow> SdkTx \<Rightarrow> u64 \<Rightarrow> u64 \<Rightarrow> string \<Rightarrow> string \<Rightarrow> SdkTx result" where
  "SignCosmosTransaction L V tx accountNumber sequence chainID walletID =
     (case GetSignBytes L SIGN_MODE_DIRECT
             \<lparr>sd_ChainID = chainID, sd_AccountNumber = accountNumber, sd_Sequence = sequence\<rparr> tx of
        Inl err \<Rightarrow> Inl (Wrapf ''getting bytes to sign'' err)
      | Inr signDocBz \<Rightarrow>
     (case svc_Sign V walletID (CosmosPayload signDocBz) of
        Inl err \<Rightarrow> Inl (Wrapf ''failed to sign transaction. Error'' err)
      | Inr signResp \<Rightarrow>
     (case svc_GetWallet V walletID CosmosKey of
        Inl err \<Rightarrow> Inl (Wrapf ''failed to get wallet from signer to retrieve public key. Error'' err)
      | Inr pubKeyBytes \<Rightarrow>
          set_signature L tx
            \<lparr>sv_PubKey = pubKeyBytes, sv_SignMode = SIGN_MODE_DIRECT, sv_Signature = GetCosmosSignature signResp,
             sv_Sequence = sequence\<rparr>)))"

text \<open>A Solana transaction is its message and its signatures.\<close>

definition SignSolanaTransaction ::
  "sign_lib \<Rightarrow> signer_service \<Rightarrow> string \<Rightarrow> bytes \<times> bytes list \<Rightarrow> (bytes \<times> bytes list) result" where
  "SignSolanaTransaction L V walletID tx =
     (case ToBase64 L (fst tx) of
        Inl err \<Rightarrow> Inl (Wrapf ''failed to convert solana transaction to base64 while signing. Error'' err)
      | Inr base64Tx \<Rightarrow>
     (case svc_Sign V walletID (SolanaPayload base64Tx) of
        Inl err \<Rightarrow> Inl (Wrapf ''failed to sign transaction. Error'' err)
      | Inr signResp \<Rightarrow> Inr (fst tx, snd tx @ [GetSolanaSignature signResp])))"

text \<open>The recovered key is thrown away, and a chain id that is not a number is passed on as nil.\<close>

definition RemoteSignerToBindSignerFn ::
  "sign_lib \<Rightarrow> signer_service \<Rightarrow> string \<Rightarrow> string \<Rightarrow> Transaction \<Rightarrow> Transaction result" where
  "RemoteSignerToBindSignerFn L V chainID walletID tx =
     (case eth_MarshalBinary L tx of
        Inl err \<Rightarrow> Inl (Wrapf ''failed to marshal transaction'' err)
      | Inr txBytes \<Rightarrow>
     (case svc_Sign V walletID (EvmPayload chainID txBytes) of
        Inl err \<Rightarrow> Inl (Wrapf ''failed to sign transaction. Error'' err)
      | Inr signResp \<Rightarrow>
          (let chainIDInt = SetString10 chainID; h = eth_SignerHash L chainIDInt tx; sig = GetEvmSignature signResp in
           case Ecrecover L h sig of
             Inl err \<Rightarrow> Inl (Wrapf ''failed to get public key from evm signature. Error'' err)
           | Inr _ \<Rightarrow>
               (case WithSignature L chainIDInt tx sig of
                  Inl err \<Rightarrow> Inl (Wrapf ''failed to set signature on evm tx. Error'' err)
                | Inr signedTx \<Rightarrow> Inr signedTx))))"

section \<open>Local signing\<close>

definition SignCosmosTx ::
  "sign_lib \<Rightarrow> bytes \<Rightarrow> string \<Rightarrow> u64 \<Rightarrow> u64 \<Rightarrow> SdkTx \<Rightarrow> SdkTx result" where
  "SignCosmosTx L privateKey chainID accountNumber sequence tx =
     (case WrapTxBuilder L tx of
        Some err \<Rightarrow> Inl err
      | None \<Rightarrow>
     (case set_signature L tx
             \<lparr>sv_PubKey = cosmos_PubKey L privateKey, sv_SignMode = DefaultMode L, sv_Signature = [], sv_Sequence = sequence\<rparr> of
        Inl err \<Rightarrow> Inl err
      | Inr tx1 \<Rightarrow>
     (case GetSignBytes L (DefaultMode L)
             \<lparr>sd_ChainID = chainID, sd_AccountNumber = accountNumber, sd_Sequence = sequence\<rparr> tx1 of
        Inl err \<Rightarrow> Inl err
      | Inr signBytes \<Rightarrow>
     (case cosmos_Sign L privateKey signBytes of
        Inl err \<Rightarrow> Inl err
      | Inr sig \<Rightarrow>
          set_signature L tx1
            \<lparr>sv_PubKey = cosmos_PubKey L privateKey, sv_SignMode = DefaultMode L, sv_Signature = sig,
             sv_Sequence = sequence\<rparr>))))"

section \<open>The signers\<close>

datatype Signer =
    LocalCosmosSigner bytes
  | LocalEthereumSigner bytes
  | LocalSolanaSigner bytes
  | NopSigner
  | RemoteCosmosSigner string
  | RemoteEVMSigner string

text \<open>\<^verbatim>\<open>Sign\<close> of each signer; \<open>Sign\<close> is the call through the interface.\<close>

definition LocalCosmosSigner_Sign :: "sign_lib \<Rightarrow> bytes \<Rightarrow> string \<Rightarrow> signing_tx \<Rightarrow> signing_tx result" where
  "LocalCosmosSigner_Sign L key chainID tx =
     (case tx of
        CosmosTransactionPtr c \<Rightarrow>
          map_sum id (\<lambda>signedTx. CosmosTransactionPtr (c\<lparr>ct_Tx := signedTx\<rparr>))
            (SignCosmosTx L key chainID (ct_AccountNumber c) (ct_Sequence c) (ct_Tx c))
      | _ \<Rightarrow> Inl (NewError ''unsupported transaction type''))"

definition LocalEthereumSigner_Sign :: "sign_lib \<Rightarrow> bytes \<Rightarrow> string \<Rightarrow> signing_tx \<Rightarrow> signing_tx result" where
  "LocalEthereumSigner_Sign L key chainID tx =
     (case tx of
        EthereumTransactionPtr e \<Rightarrow>
          (case SetString10 chainID of
             None \<Rightarrow> Inl (NewError ''invalid chain ID'')
           | Some intChainID \<Rightarrow> map_sum id EthereumTransactionPtr (eth_SignTx L e intChainID key))
      | _ \<Rightarrow> Inl (NewError ''unsupported transaction type''))"

definition LocalSolanaSigner_Sign :: "signing_tx \<Rightarrow> signing_tx result" where
  "LocalSolanaSigner_Sign tx = Inr NilTransaction"

definition NopSigner_Sign :: "signing_tx \<Rightarrow> signing_tx result" where
  "NopSigner_Sign tx = Inr tx"

definition RemoteCosmosSigner_Sign ::
  "sign_lib \<Rightarrow> signer_service \<Rightarrow> string \<Rightarrow> string \<Rightarrow> signing_tx \<Rightarrow> signing_tx result" where
  "RemoteCosmosSigner_Sign L V walletID chainID tx =
     (case tx of
        CosmosTransactionPtr c \<Rightarrow>
          (case WrapTxBuilder L (ct_Tx c) of
             Some err \<Rightarrow> Inl (Wrapf ''wrapping tx as builder'' err)
           | None \<Rightarrow>
               (case SignCosmosTransaction L V (ct_Tx c) (ct_AccountNumber c) (ct_Sequence c) chainID walletID of
                  Inl err \<Rightarrow> Inl (Wrapf ''remote signing failed'' err)
                | Inr signedTx \<Rightarrow> Inr (CosmosTransactionPtr (c\<lparr>ct_Tx := signedTx\<rparr>))))
      | _ \<Rightarrow> Inl (NewError ''expected CosmosTransaction''))"

definition RemoteEVMSigner_Sign ::
  "sign_lib \<Rightarrow> signer_service \<Rightarrow> string \<Rightarrow> string \<Rightarrow> signing_tx \<Rightarrow> signing_tx result" where
  "RemoteEVMSigner_Sign L V walletID chainID tx =
     (case tx of
        EthereumTransactionPtr e \<Rightarrow>
          (case RemoteSignerToBindSignerFn L V chainID walletID e of
             Inl err \<Rightarrow> Inl (Wrapf ''remote EVM signing failed'' err)
           | Inr signedTx \<Rightarrow> Inr (EthereumTransactionPtr signedTx))
      | _ \<Rightarrow> Inl (NewError ''expected *types.Transaction''))"

fun Sign :: "sign_lib \<Rightarrow> signer_service \<Rightarrow> Signer \<Rightarrow> string \<Rightarrow> signing_tx \<Rightarrow> signing_tx result" where
  "Sign L V (LocalCosmosSigner key) chainID tx = LocalCosmosSigner_Sign L key chainID tx"
| "Sign L V (LocalEthereumSigner key) chainID tx = LocalEthereumSigner_Sign L key chainID tx"
| "Sign L V (LocalSolanaSigner key) chainID tx = LocalSolanaSigner_Sign tx"
| "Sign L V NopSigner chainID tx = NopSigner_Sign tx"
| "Sign L V (RemoteCosmosSigner walletID) chainID tx = RemoteCosmosSigner_Sign L V walletID chainID tx"
| "Sign L V (RemoteEVMSigner walletID) chainID tx = RemoteEVMSigner_Sign L V walletID chainID tx"

text \<open>\<^verbatim>\<open>Address\<close> of each signer; a wallet that cannot be read has no address.\<close>

definition RemoteCosmosSigner_Address :: "sign_lib \<Rightarrow> signer_service \<Rightarrow> string \<Rightarrow> bytes" where
  "RemoteCosmosSigner_Address L V walletID =
     (case svc_GetWallet V walletID CosmosKey of Inl _ \<Rightarrow> [] | Inr pubKey \<Rightarrow> cosmos_Address L pubKey)"

definition RemoteEVMSigner_Address :: "sign_lib \<Rightarrow> signer_service \<Rightarrow> string \<Rightarrow> bytes" where
  "RemoteEVMSigner_Address L V walletID =
     (case svc_GetWallet V walletID EthereumKey of
        Inl _ \<Rightarrow> []
      | Inr pubKeyBytes \<Rightarrow>
          (case UnmarshalPubkey L pubKeyBytes of Inl _ \<Rightarrow> [] | Inr pubKey \<Rightarrow> PubkeyToAddress L pubKey))"

fun signer_address :: "sign_lib \<Rightarrow> signer_service \<Rightarrow> Signer \<Rightarrow> bytes" where
  "signer_address L V (LocalCosmosSigner key) = cosmos_Address L (cosmos_PubKey L key)"
| "signer_address L V (LocalEthereumSigner key) = PubkeyToAddress L (eth_PublicKey L key)"
| "signer_address L V (LocalSolanaSigner key) = solana_PublicKey L key"
| "signer_address L V NopSigner = []"
| "signer_address L V (RemoteCosmosSigner walletID) = RemoteCosmosSigner_Address L V walletID"
| "signer_address L V (RemoteEVMSigner walletID) = RemoteEVMSigner_Address L V walletID"

lemmas signer_defs [simp] =
  LocalCosmosSigner_Sign_def LocalEthereumSigner_Sign_def LocalSolanaSigner_Sign_def NopSigner_Sign_def
  RemoteCosmosSigner_Sign_def RemoteEVMSigner_Sign_def RemoteCosmosSigner_Address_def RemoteEVMSigner_Address_def

definition EthereumSignerToBindSignerFn ::
  "sign_lib \<Rightarrow> signer_service \<Rightarrow> Signer \<Rightarrow> string \<Rightarrow> address \<Rightarrow> Transaction \<Rightarrow> Transaction result" where
  "EthereumSignerToBindSignerFn L V s chainID _ tx =
     (case Sign L V s chainID (EthereumTransactionPtr tx) of
        Inl err \<Rightarrow> Inl err
      | Inr (EthereumTransactionPtr rawTx) \<Rightarrow> Inr rawTx
      | Inr _ \<Rightarrow> Inl (NewError ''invalid transaction type''))"

section \<open>The console\<close>

text \<open>
  Each turn of the prompt reads one line, or fails to; \<open>None\<close> means that the loop is still asking
  when the answers end. Blank is ASCII white space.
\<close>

definition is_space :: "char \<Rightarrow> bool" where
  "is_space c \<longleftrightarrow> c = CHR '' '' \<or> (9 \<le> (of_char c :: nat) \<and> (of_char c :: nat) \<le> 13)"

definition TrimSpace :: "string \<Rightarrow> string" where
  "TrimSpace s = rev (dropWhile is_space (rev (dropWhile is_space s)))"

fun promptYesNo :: "string result list \<Rightarrow> bool option" where
  "promptYesNo [] = None"
| "promptYesNo (Inl _ # ls) = promptYesNo ls"
| "promptYesNo (Inr line # ls) =
     (let response = ToLower (TrimSpace line) in
      if response = ''y'' \<or> response = ''yes'' then Some True
      else if response = ''n'' \<or> response = ''no'' then Some False
      else promptYesNo ls)"

definition ConsoleSigner_Sign ::
  "sign_lib \<Rightarrow> signer_service \<Rightarrow> string result list \<Rightarrow> (signing_tx \<Rightarrow> go_error option) \<Rightarrow> Signer \<Rightarrow> string \<Rightarrow>
     signing_tx \<Rightarrow> signing_tx result option" where
  "ConsoleSigner_Sign L V answers MarshalJSON s chainID tx =
     (case MarshalJSON tx of
        Some err \<Rightarrow> Some (Inl err)
      | None \<Rightarrow>
          (case promptYesNo answers of
             None \<Rightarrow> None
           | Some False \<Rightarrow> Some (Inl (NewError ''user abandoned transaction''))
           | Some True \<Rightarrow> Some (Sign L V s chainID tx)))"

section \<open>What a signer promises\<close>

lemma set_signature_ok:
  "set_signature L tx s = Inr tx' \<Longrightarrow> st_Body tx' = st_Body tx \<and> st_Signatures tx' = [s]"
  by (auto simp: set_signature_def split: option.splits)

text \<open>
  The interface \<^verbatim>\<open>Signer\<close> as the Cosmos client uses it. It asserts the type of the answer without
  a check, signs once to simulate and once to send, and relies on the transaction being the one it
  built, with the sequence of the account.
\<close>

locale cosmos_signing =
  fixes sgn :: "string \<Rightarrow> signing_tx \<Rightarrow> signing_tx result"
  assumes only_cosmos: "sgn chainID tx = Inr tx' \<Longrightarrow> \<exists>c. tx = CosmosTransactionPtr c"
    and signed: "sgn chainID (CosmosTransactionPtr c) = Inr tx' \<Longrightarrow>
      \<exists>c' s. tx' = CosmosTransactionPtr c' \<and> st_Body (ct_Tx c') = st_Body (ct_Tx c) \<and>
        ct_AccountNumber c' = ct_AccountNumber c \<and> ct_Sequence c' = ct_Sequence c \<and>
        st_Signatures (ct_Tx c') = [s] \<and> sv_Sequence s = ct_Sequence c"
begin

lemma assertion_holds: "sgn chainID (CosmosTransactionPtr c) = Inr tx' \<Longrightarrow> same_kind (CosmosTransactionPtr c) tx'"
  using signed by fastforce

lemma signed_again:
  assumes "sgn chainID (CosmosTransactionPtr c) = Inr (CosmosTransactionPtr c1)"
    and "sgn chainID (CosmosTransactionPtr (c1\<lparr>ct_Tx := (ct_Tx c1)\<lparr>st_Body := b\<rparr>\<rparr>)) = Inr (CosmosTransactionPtr c2)"
  shows "st_Body (ct_Tx c2) = b \<and> length (st_Signatures (ct_Tx c2)) = 1 \<and> ct_Sequence c2 = ct_Sequence c"
  using signed [OF assms(1)] signed [OF assms(2)] by auto

end

interpretation local_cosmos: cosmos_signing "Sign L V (LocalCosmosSigner key)" for L V key
proof
  fix chainID c tx'
  assume "Sign L V (LocalCosmosSigner key) chainID (CosmosTransactionPtr c) = Inr tx'"
  then obtain t where "tx' = CosmosTransactionPtr (c\<lparr>ct_Tx := t\<rparr>)"
    "SignCosmosTx L key chainID (ct_AccountNumber c) (ct_Sequence c) (ct_Tx c) = Inr t"
    by (cases "SignCosmosTx L key chainID (ct_AccountNumber c) (ct_Sequence c) (ct_Tx c)") auto
  then show "\<exists>c' s. tx' = CosmosTransactionPtr c' \<and> st_Body (ct_Tx c') = st_Body (ct_Tx c) \<and>
        ct_AccountNumber c' = ct_AccountNumber c \<and> ct_Sequence c' = ct_Sequence c \<and>
        st_Signatures (ct_Tx c') = [s] \<and> sv_Sequence s = ct_Sequence c"
    by (auto simp: SignCosmosTx_def split: option.splits sum.splits dest!: set_signature_ok)
qed (auto split: signing_tx.splits)

interpretation remote_cosmos: cosmos_signing "Sign L V (RemoteCosmosSigner walletID)" for L V walletID
proof
  fix chainID c tx'
  assume "Sign L V (RemoteCosmosSigner walletID) chainID (CosmosTransactionPtr c) = Inr tx'"
  then obtain t where "tx' = CosmosTransactionPtr (c\<lparr>ct_Tx := t\<rparr>)"
    "SignCosmosTransaction L V (ct_Tx c) (ct_AccountNumber c) (ct_Sequence c) chainID walletID = Inr t"
    by (auto split: option.splits sum.splits)
  then show "\<exists>c' s. tx' = CosmosTransactionPtr c' \<and> st_Body (ct_Tx c') = st_Body (ct_Tx c) \<and>
        ct_AccountNumber c' = ct_AccountNumber c \<and> ct_Sequence c' = ct_Sequence c \<and>
        st_Signatures (ct_Tx c') = [s] \<and> sv_Sequence s = ct_Sequence c"
    by (auto simp: SignCosmosTransaction_def split: sum.splits dest!: set_signature_ok)
qed (auto split: signing_tx.splits)


section \<open>The sender of an EVM transaction\<close>

text \<open>What go-ethereum documents of its signing functions, and a service that signs with its wallet's key.\<close>

definition geth_signing :: "geth \<Rightarrow> sign_lib \<Rightarrow> int \<Rightarrow> bool" where
  "geth_signing g L c \<longleftrightarrow>
     (\<forall>tx k tx'. eth_SignTx L tx c k = Inr tx' \<longrightarrow> Sender g c tx' = Inr (PubkeyToAddress L (eth_PublicKey L k))) \<and>
     (\<forall>tx sig pub k tx'. Ecrecover L (eth_SignerHash L (Some c) tx) sig = Inr pub \<longrightarrow> UnmarshalPubkey L pub = Inr k \<longrightarrow>
        WithSignature L (Some c) tx sig = Inr tx' \<longrightarrow> Sender g c tx' = Inr (PubkeyToAddress L k))"

definition honest_service :: "sign_lib \<Rightarrow> signer_service \<Rightarrow> string \<Rightarrow> string \<Rightarrow> int \<Rightarrow> bool" where
  "honest_service L V walletID chainID c \<longleftrightarrow>
     (\<forall>tx bs resp. eth_MarshalBinary L tx = Inr bs \<longrightarrow> svc_Sign V walletID (EvmPayload chainID bs) = Inr resp \<longrightarrow>
        (\<exists>pub. svc_GetWallet V walletID EthereumKey = Inr pub \<and>
           Ecrecover L (eth_SignerHash L (Some c) tx) (GetEvmSignature resp) = Inr pub))"

lemma bind_signer_sender:
  assumes "s = LocalEthereumSigner key \<or> s = RemoteEVMSigner walletID \<and> honest_service L V walletID chainID c"
    and "geth_signing g L c" "SetString10 chainID = Some c" "signer_address L V s \<noteq> []"
    and "EthereumSignerToBindSignerFn L V s chainID a tx = Inr tx'"
  shows "Sender g c tx' = Inr (signer_address L V s)"
  using assms(1)
proof
  assume s: "s = LocalEthereumSigner key"
  then have "eth_SignTx L tx c key = Inr tx'"
    using assms(3,5) by (cases "eth_SignTx L tx c key") (simp_all add: EthereumSignerToBindSignerFn_def)
  with s assms(2) show ?thesis by (simp add: geth_signing_def)
next
  assume s: "s = RemoteEVMSigner walletID \<and> honest_service L V walletID chainID c"
  then have "RemoteSignerToBindSignerFn L V chainID walletID tx = Inr tx'"
    using assms(5) by (auto simp: EthereumSignerToBindSignerFn_def split: sum.splits)
  then obtain bs resp where r: "eth_MarshalBinary L tx = Inr bs" "svc_Sign V walletID (EvmPayload chainID bs) = Inr resp"
    "WithSignature L (Some c) tx (GetEvmSignature resp) = Inr tx'"
    using assms(3) by (auto simp: RemoteSignerToBindSignerFn_def Let_def split: sum.splits)
  then obtain pub where p: "svc_GetWallet V walletID EthereumKey = Inr pub"
    "Ecrecover L (eth_SignerHash L (Some c) tx) (GetEvmSignature resp) = Inr pub"
    using s unfolding honest_service_def by blast
  then obtain k where "UnmarshalPubkey L pub = Inr k" using assms(4) s by (auto split: sum.splits)
  moreover from this p s have "signer_address L V s = PubkeyToAddress L k" by simp
  ultimately show ?thesis using p(2) r(3) assms(2) by (auto simp: geth_signing_def)
qed

lemma submit_sent:
  assumes "EVM_signAndSubmitData E t C bz addr = (C1, Inr h)"
  shows "\<exists>tx signed. sign E (signerAddress C) tx = Inr signed \<and> sent C1 = sent C @ [(t, signed)] \<and>
    h = TxHash (lib E) signed"
  using assms by (auto simp: EVM_signAndSubmitData_def split: sum.splits option.splits)

text \<open>
  C36. Deliveries are attributed to the account that pays for them. When an EVM client with a
  local key, or with a remote signer whose service signs with the wallet's key, delivers a
  transaction, what the node accepted was sent from the client's own address; that address is
  the relayer address of the answer, and it is what the client finds later when it looks the
  transaction up.
\<close>

theorem evm_delivery_sender:
  assumes "s = LocalEthereumSigner key \<or> s = RemoteEVMSigner walletID \<and> honest_service L V walletID (evm_chainID C) c"
    and "geth_signing (lib E) L c" and "SetString10 (evm_chainID C) = Some c"
    and "signerAddress C = signer_address L V s" and "length (signerAddress C) = 20"
    and "sign E = EthereumSignerToBindSignerFn L V s (evm_chainID C)"
    and "EVM_DeliverTx E k C bz addr = (C', Inr tx)"
  shows "\<exists>t signed. sent C' = sent C @ [(t, signed)] \<and> Sender (lib E) c signed = Inr (signerAddress C) \<and>
    Hash tx = HashString (lib E) (TxHash (lib E) signed) \<and>
    (\<forall>E'. lib E' = lib E \<and> TransactionByHash (node E') (TxHash (lib E) signed) = Inr signed \<longrightarrow>
       EVM_txSigner E' C (TxHash (lib E) signed) = Inr (RelayerAddress tx))"
proof -
  obtain t C1 h where d: "EVM_signAndSubmitData E t C bz addr = (C1, Inr h)" "sent C' = sent C1"
    "Hash tx = HashString (lib E) h" "RelayerAddress tx = AddressString (lib E) (signerAddress C)"
    using assms(7) by (auto simp: EVM_DeliverTx_def Let_def split: if_splits prod.splits sum.splits)
  from submit_sent [OF d(1)] obtain raw signed where x: "sign E (signerAddress C) raw = Inr signed"
    "sent C1 = sent C @ [(t, signed)]" "h = TxHash (lib E) signed" by blast
  have "signer_address L V s \<noteq> []" using assms(4,5) by auto
  then have "Sender (lib E) c signed = Inr (signerAddress C)"
    using bind_signer_sender [OF assms(1,2,3)] x(1) assms(4,6) by simp
  then show ?thesis using d x assms(3) by (auto simp: EVM_txSigner_def)
qed

text \<open>
  Without that assumption nothing holds the service to the wallet: the key that is recovered from
  the signature is not compared with it.
\<close>

lemma recovered_key_ignored:
  assumes "eth_MarshalBinary L tx = Inr bs" "svc_Sign V walletID (EvmPayload chainID bs) = Inr resp"
    and "SetString10 chainID = Some c" "Ecrecover L (eth_SignerHash L (Some c) tx) (GetEvmSignature resp) = Inr other"
    and "WithSignature L (Some c) tx (GetEvmSignature resp) = Inr tx'"
  shows "Sign L V (RemoteEVMSigner walletID) chainID (EthereumTransactionPtr tx) = Inr (EthereumTransactionPtr tx')"
  using assms by (simp add: RemoteSignerToBindSignerFn_def)

text \<open>The console asks until it is answered; a closed input is never an answer.\<close>

lemma prompt_answers: "promptYesNo ls = Some b \<Longrightarrow> \<exists>line. Inr line \<in> set ls \<and>
    ToLower (TrimSpace line) \<in> (if b then {''y'', ''yes''} else {''n'', ''no''})"
  by (induction ls rule: promptYesNo.induct) (auto simp: Let_def split: if_splits)

lemma prompt_closed_input: "list_all isl ls \<Longrightarrow> promptYesNo ls = None"
  by (induction ls rule: promptYesNo.induct) simp_all

section \<open>Examples\<close>

text \<open>Signatures that are the address of the key, appended to the transaction.\<close>

definition ex_address :: "bytes \<Rightarrow> bytes" where
  "ex_address p = take 20 (p @ replicate 20 0)"

definition ex_sign_lib :: sign_lib where
  "ex_sign_lib =
     \<lparr>EncodeTx = (\<lambda>_. Inr []), DecodeTx = (\<lambda>_. Inl (NewError ''decode'')), WrapTxBuilder = (\<lambda>_. None), SetSignatures = (\<lambda>_ _. None),
      GetSignBytes = (\<lambda>_ _ _. Inr [7]), DefaultMode = 1, cosmos_PubKey = (\<lambda>k. k), cosmos_Sign = (\<lambda>k b. Inr (k @ b)),
      cosmos_Address = (\<lambda>p. p), eth_MarshalBinary = Inr, eth_SignTx = (\<lambda>tx c k. Inr (tx @ ex_address k)),
      eth_SignerHash = (\<lambda>c tx. tx), Ecrecover = (\<lambda>h sig. Inr sig), WithSignature = (\<lambda>c tx sig. Inr (tx @ ex_address sig)),
      eth_PublicKey = (\<lambda>k. k), UnmarshalPubkey = Inr, PubkeyToAddress = ex_address, solana_PublicKey = (\<lambda>k. k),
      ToBase64 = (\<lambda>_. Inr [])\<rparr>"

definition ex_service :: signer_service where
  "ex_service =
     \<lparr>svc_Sign = (\<lambda>w p. case p of CosmosPayload b \<Rightarrow> Inr (CosmosSignature b) | _ \<Rightarrow> Inr (EvmSignature (replicate 20 1) [] [])),
      svc_GetWallet = (\<lambda>w k. Inr (replicate 20 1))\<rparr>"

definition ex_signed_env :: evm_env where
  "ex_signed_env =
     \<lparr>lib = ex_geth\<lparr>Sender := (\<lambda>c tx. Inr (drop (length tx - 20) tx))\<rparr>, node = ex_node,
      sign = EthereumSignerToBindSignerFn ex_sign_lib ex_service (RemoteEVMSigner ''w'') ''1''\<rparr>"

definition ex_signed_delivery :: delivery where
  "ex_signed_delivery = \<lparr>d_locked = 0, d_late = 0, d_took = 1, d_canceled = False\<rparr>"

definition ex_unsigned :: CosmosTransaction where
  "ex_unsigned = \<lparr>ct_Tx = \<lparr>st_Body = \<lparr>tb_Msgs = [], tb_GasLimit = 5, tb_Fee = None\<rparr>, st_Signatures = []\<rparr>,
     ct_AccountNumber = 3, ct_Sequence = 8\<rparr>"

lemma ex_address_length [simp]: "length (ex_address p) = 20"
  by (simp add: ex_address_def)


theorem evm_delivery_sender_witness:
  "\<exists>C' tx t signed. EVM_DeliverTx ex_signed_env ex_signed_delivery ex_evm [1, 2] ''router'' = (C', Inr tx) \<and>
     sent C' = [(t, signed)] \<and> Sender (lib ex_signed_env) 1 signed = Inr (replicate 20 1)"
proof -
  have C: "evm_chainID ex_evm = ''1''" "signerAddress ex_evm = replicate 20 1" "sent ex_evm = []"
    by (simp_all add: ex_evm_def NewEVMBridgeClient_def)
  have a: "signer_address ex_sign_lib ex_service (RemoteEVMSigner ''w'') = replicate 20 1" by code_simp
  have l: "geth_signing (lib ex_signed_env) ex_sign_lib 1"
    by (simp add: geth_signing_def ex_signed_env_def ex_sign_lib_def)
  have h: "honest_service ex_sign_lib ex_service ''w'' ''1'' 1"
    by (simp add: honest_service_def ex_sign_lib_def ex_service_def)
  have n: "SetString10 ''1'' = Some 1" by code_simp
  have "\<exists>C' tx. EVM_DeliverTx ex_signed_env ex_signed_delivery ex_evm [1, 2] ''router'' = (C', Inr tx)"
    by (simp add: EVM_DeliverTx_def EVM_signAndSubmitData_def EVM_newTx_def ex_signed_env_def ex_signed_delivery_def ex_node_def
        ex_geth_def ex_sign_lib_def ex_service_def EthereumSignerToBindSignerFn_def RemoteSignerToBindSignerFn_def Let_def)
  then obtain C' tx where d: "EVM_DeliverTx ex_signed_env ex_signed_delivery ex_evm [1, 2] ''router'' = (C', Inr tx)" by blast
  have s: "sign ex_signed_env = EthereumSignerToBindSignerFn ex_sign_lib ex_service (RemoteEVMSigner ''w'') (evm_chainID ex_evm)"
    by (simp add: C ex_signed_env_def)
  from evm_delivery_sender [of "RemoteEVMSigner ''w''" "[]" "''w''" ex_sign_lib ex_service ex_evm 1 ex_signed_env, OF _ l _ _ _ s d]
  show ?thesis using d h n a by (auto simp: C)
qed

end
