(* ===== verification/Programs.thy ===== *)
theory Programs
  imports Signers
begin

text \<open>
  The command line programs \<^verbatim>\<open>cmd/transfer\<close> and \<^verbatim>\<open>cmd/relay\<close>, and what only they use of the bridge
  clients: \<^verbatim>\<open>SendTransfer\<close>, \<^verbatim>\<open>IFTTransfer\<close> and \<^verbatim>\<open>ClientState\<close>. The contract bindings are the record
  \<open>contracts\<close>: a transaction is signed and sent by the binding, and what the program asked for is
  kept in order. A program that still waits for a receipt has no result yet.
\<close>

section \<open>Contracts\<close>

record SendTransferMsg =
  sm_Denom :: address
  sm_Amount :: int
  sm_Receiver :: string
  sm_SourceClient :: string
  sm_DestPort :: string
  sm_TimeoutTimestamp :: u64
  sm_Memo :: string

datatype contract_call =
    Approve address address int
  | SendTransfer address SendTransferMsg
  | IftTransfer address string string int u64

record contracts =
  ics20_NewContract :: "address \<Rightarrow> go_error option"
  erc20_NewContract :: "address \<Rightarrow> go_error option"
  ift_NewContract :: "address \<Rightarrow> go_error option"
  Allowance :: "address \<Rightarrow> address \<Rightarrow> address \<Rightarrow> int result"
  Transact :: "contract_call \<Rightarrow> Transaction result"

text \<open>\<^verbatim>\<open>uint64(time.Now().Add(timeout).UTC().Unix())\<close>.\<close>

definition timeout_timestamp :: "time \<Rightarrow> duration \<Rightarrow> u64" where
  "timeout_timestamp t timeout = word_of_int ((t + timeout) div second)"

section \<open>Sending a transfer\<close>

text \<open>
  One transaction of a contract: the call, and the wait for its receipt. \<open>w\<close> is when the wait
  starts and what its turns see. The result is \<open>None\<close> while the program waits.
\<close>

type_synonym receipt_wait = "time \<times> Receipt option result tick list"

definition transact_and_wait ::
  "evm_env \<Rightarrow> contracts \<Rightarrow> receipt_wait \<Rightarrow> string \<Rightarrow> string \<Rightarrow> contract_call \<Rightarrow> string result option" where
  "transact_and_wait E K w sendErr waitErr call =
     (case Transact K call of
        Inl err \<Rightarrow> Some (Inl (Wrapf sendErr err))
      | Inr tx \<Rightarrow>
          (case EVM_WaitForTx (fst w) (snd w) of
             None \<Rightarrow> None
           | Some (Some err) \<Rightarrow> Some (Inl (Wrapf waitErr err))
           | Some None \<Rightarrow> Some (Inr (HashString (lib E) (TxHash (lib E) tx)))))"

definition EVM_SendTransfer ::
  "evm_env \<Rightarrow> contracts \<Rightarrow> receipt_wait \<Rightarrow> receipt_wait \<Rightarrow> time \<Rightarrow> EVMBridgeClient \<Rightarrow> string \<Rightarrow> string \<Rightarrow> string \<Rightarrow>
     string \<Rightarrow> int \<Rightarrow> string \<Rightarrow> duration \<Rightarrow> contract_call list \<times> string result option" where
  "EVM_SendTransfer E K w1 w2 t C ics20Address clientID denom receiver amount memo timeout =
     (let transferAddress = HexToAddress (lib E) ics20Address; token = HexToAddress (lib E) denom;
          approval = Approve token transferAddress amount;
          send = SendTransfer transferAddress
            \<lparr>sm_Denom = token, sm_Amount = amount, sm_Receiver = receiver, sm_SourceClient = clientID,
             sm_DestPort = ''transfer'', sm_TimeoutTimestamp = timeout_timestamp t timeout, sm_Memo = memo\<rparr>;
          sending = transact_and_wait E K w2 ''sending transfer'' ''waiting for receipt of send transfer tx'' send in
      case ics20_NewContract K transferAddress of
        Some err \<Rightarrow> ([], Some (Inl (Wrapf ''creating ics20 transfer contract binding'' err)))
      | None \<Rightarrow>
     (case erc20_NewContract K token of
        Some err \<Rightarrow> ([], Some (Inl (Wrapf ''creating erc20 contract for denom'' err)))
      | None \<Rightarrow>
     (case Allowance K token (signerAddress C) transferAddress of
        Inl err \<Rightarrow> ([], Some (Inl (Wrapf ''getting current allowance for ics20 transfer'' err)))
      | Inr currentApproval \<Rightarrow>
          if currentApproval < amount then
            (case transact_and_wait E K w1 ''approving'' ''waiting for receipt of erc20 approval tx'' approval of
               None \<Rightarrow> ([approval], None)
             | Some (Inl err) \<Rightarrow> ([approval], Some (Inl err))
             | Some (Inr _) \<Rightarrow> ([approval, send], sending))
          else ([send], sending))))"

definition EVM_IFTTransfer ::
  "evm_env \<Rightarrow> contracts \<Rightarrow> receipt_wait \<Rightarrow> time \<Rightarrow> EVMBridgeClient \<Rightarrow> string \<Rightarrow> string \<Rightarrow> string \<Rightarrow> int \<Rightarrow> duration \<Rightarrow>
     contract_call list \<times> string result option" where
  "EVM_IFTTransfer E K w t C iftAddress clientID receiver amount timeout =
     (let contract = HexToAddress (lib E) iftAddress;
          call = IftTransfer contract clientID receiver amount (timeout_timestamp t timeout) in
      case ift_NewContract K contract of
        Some err \<Rightarrow> ([], Some (Inl (Wrapf ''creating ift contract binding'' err)))
      | None \<Rightarrow>
          ([call], transact_and_wait E K w ''sending ift transfer'' ''waiting for receipt of ift transfer tx'' call))"

definition Cosmos_SendTransfer :: "contract_call list \<times> string result option" where
  "Cosmos_SendTransfer = ([], Some (Inl (panicked ''unimplemented'')))"

definition Cosmos_IFTTransfer :: "contract_call list \<times> string result option" where
  "Cosmos_IFTTransfer = ([], Some (Inl (panicked ''unimplemented'')))"

section \<open>Client states\<close>

record TendermintClientState =
  TrustingPeriod :: duration
  LatestHeight :: u64

record WasmClientState =
  LatestExecutionBlockNumber :: u64

datatype ClientState = WasmState WasmClientState | TendermintState TendermintClientState

text \<open>\<open>GetClient\<close> of the router, and the trusting period and height of the light client at an address.\<close>

record light_clients =
  router_GetClient :: "string \<Rightarrow> address result"
  sp1_NewContract :: "address \<Rightarrow> go_error option"
  sp1_ClientState :: "address \<Rightarrow> (u32 \<times> u64) result"

text \<open>\<^verbatim>\<open>time.Duration\<close> has 64 bits.\<close>

definition EVM_ClientState :: "light_clients \<Rightarrow> string \<Rightarrow> ClientState result" where
  "EVM_ClientState K clientID =
     (case router_GetClient K clientID of
        Inl err \<Rightarrow> Inl (Wrapf ''getting client'' err)
      | Inr addr \<Rightarrow>
          if addr = replicate 20 0 then Inl (NewError ''could not find client'')
          else
            (case sp1_NewContract K addr of
               Some err \<Rightarrow> Inl (Wrapf ''creating new instance of sp1 ics07 tendermint contract'' err)
             | None \<Rightarrow>
                 (case sp1_ClientState K addr of
                    Inl err \<Rightarrow> Inl (Wrapf ''getting tendermint client state'' err)
                  | Inr (period, height) \<Rightarrow>
                      Inr (TendermintState
                        \<lparr>TrustingPeriod = sint (word_of_int (uint period * second) :: u64), LatestHeight = height\<rparr>))))"

text \<open>The query answers with a type URL and a value, either of which may be missing.\<close>

record client_query =
  q_ClientState :: "string \<Rightarrow> (string \<times> bytes option) option result"
  unmarshal_wasm :: "bytes \<Rightarrow> bytes result"
  json_wasm :: "bytes \<Rightarrow> WasmClientState result"

definition Cosmos_ClientState :: "client_query \<Rightarrow> string \<Rightarrow> ClientState result" where
  "Cosmos_ClientState Q clientID =
     (case q_ClientState Q clientID of
        Inl err \<Rightarrow> Inl (Wrapf ''querying for state of client'' err)
      | Inr None \<Rightarrow> Inl (NewError ''got nil client state'')
      | Inr (Some (typeUrl, None)) \<Rightarrow> Inl (NewError ''got nil client state value'')
      | Inr (Some (typeUrl, Some v)) \<Rightarrow>
          if typeUrl = ''/ibc.lightclients.wasm.v1.ClientState'' then
            (case unmarshal_wasm Q v of
               Inl err \<Rightarrow> Inl (Wrapf ''proto decoding full wasm client state'' err)
             | Inr data \<Rightarrow>
                 (case json_wasm Q data of
                    Inl err \<Rightarrow> Inl (Wrapf ''json decoding wasm client state data'' err)
                  | Inr st \<Rightarrow> Inr (WasmState st)))
          else Inl (NewError ''unsupported client state type url''))"

lemma trusting_period_exact:
  assumes "EVM_ClientState K clientID = Inr (TendermintState s)"
  shows "\<exists>addr period. router_GetClient K clientID = Inr addr \<and> sp1_ClientState K addr = Inr (period, LatestHeight s) \<and>
    TrustingPeriod s = uint period * second"
proof -
  have "sint (word_of_int (uint p * second) :: u64) = uint p * second" for p :: u32
    using uint_lt2p [of p] by (intro sint_fits) (simp_all add: second_def)
  with assms show ?thesis by (auto simp: EVM_ClientState_def split: sum.splits if_splits option.splits)
qed

section \<open>cmd/transfer\<close>

record flags =
  fl_sourceChainID :: string
  fl_destChainID :: string
  fl_sourceClientID :: string
  fl_receiver :: string
  fl_amount :: u64
  fl_timeout :: duration
  fl_relayerGRPCURL :: string
  fl_privateKey :: string
  fl_denom :: string
  fl_memo :: string
  fl_ics20Address :: string
  fl_iftAddress :: string

text \<open>\<open>tool_config\<close> is the parsed configuration file.\<close>

record tool_env =
  tool_config :: "config result"
  IsHexAddress :: "string \<Rightarrow> bool"
  bech32_Decode :: "string \<Rightarrow> go_error option"
  NewRelayerConn :: "string \<Rightarrow> go_error option"
  RelayRPC :: "string \<Rightarrow> string \<Rightarrow> go_error option"
  tool_startup :: startup
  tool_evm :: evm_env
  tool_contracts :: contracts
  tool_approval :: receipt_wait
  tool_sending :: receipt_wait
  tool_now :: time

definition LoadConfig :: "config result \<Rightarrow> config result" where
  "LoadConfig parsed =
     (case parsed of
        Inl err \<Rightarrow> Inl err
      | Inr c \<Rightarrow> (case Validate c of Some err \<Rightarrow> Inl err | None \<Rightarrow> Inr c))"

text \<open>The checks of the two chains and the receiver, the same for both kinds of transfer.\<close>

definition checked_route :: "string \<Rightarrow> tool_env \<Rightarrow> configReader \<Rightarrow> flags \<Rightarrow> ChainConfig result" where
  "checked_route kind T r F =
     (case GetChainConfig r (fl_sourceChainID F) of
        Inl err \<Rightarrow> Inl (Wrapf ''loading source chain config'' err)
      | Inr sourceChain \<Rightarrow>
          if BridgeTypeIBCV2 \<notin> set (SupportedBridges sourceChain) then Inl (NewError ''source chain does not support ibcv2'')
          else if Evm sourceChain = None then Inl (NewError (kind @ '' transfers require an evm source chain''))
          else
     (case GetChainConfig r (fl_destChainID F) of
        Inl err \<Rightarrow> Inl (Wrapf ''loading dest chain config'' err)
      | Inr destChain \<Rightarrow>
          if BridgeTypeIBCV2 \<notin> set (SupportedBridges destChain) then Inl (NewError ''dest chain does not support ibcv2'')
          else if Cosmos destChain \<noteq> None then
            (case bech32_Decode T (fl_receiver F) of
               Some err \<Rightarrow> Inl (Wrapf ''receiver is not a valid bech32 address'' err)
             | None \<Rightarrow> Inr sourceChain)
          else if Evm destChain \<noteq> None then
            (if IsHexAddress T (fl_receiver F) then Inr sourceChain
             else Inl (NewError ''receiver is not a valid hex address (EVM destination)''))
          else Inl (NewError ''dest chain must be evm or cosmos type'')))"

definition checked_client :: "configReader \<Rightarrow> flags \<Rightarrow> go_error option" where
  "checked_client r F =
     (case GetIBCV2Config r (fl_sourceChainID F) of
        Inl err \<Rightarrow> Some (Wrapf ''loading source chain ibcv2 config'' err)
      | Inr None \<Rightarrow> Some (panicked ''nil pointer dereference'')
      | Inr (Some c) \<Rightarrow>
          (case CounterpartyChains c (fl_sourceClientID F) of
             None \<Rightarrow> Some (NewError ''could not determine counterparty chain id for source client'')
           | Some counterparty \<Rightarrow>
               if counterparty \<noteq> fl_destChainID F
               then Some (NewError ''source client counterparty chain id does not match the dest chain id'')
               else None))"

text \<open>From the amount to the client of the source chain.\<close>

definition source_client :: "tool_env \<Rightarrow> configReader \<Rightarrow> flags \<Rightarrow> ChainConfig \<Rightarrow> bridge result" where
  "source_client T r F sourceChain =
     (if fl_amount F = 0 then Inl (NewError ''amount must be positive'')
      else
     (case checked_client r F of
        Some err \<Rightarrow> Inl err
      | None \<Rightarrow>
          if fl_relayerGRPCURL F = [] then Inl (NewError ''--relayer-grpc-url is required'')
          else
     (case NewRelayerConn T (fl_relayerGRPCURL F) of
        Some err \<Rightarrow> Inl (Wrapf ''creating grpc connection to relayer'' err)
      | None \<Rightarrow>
     (case NewClientManagerFromConfig
             ((tool_startup T)\<lparr>have_remote_signer := False, private_keys := [fl_sourceChainID F \<mapsto> fl_privateKey F]\<rparr>)
             (lib (tool_evm T)) r [] [] [sourceChain] of
        Inl err \<Rightarrow> Inl (Wrapf ''creating ibcv2 client manager'' err)
      | Inr m \<Rightarrow>
          (case m (fl_sourceChainID F) of
             None \<Rightarrow> Inl (Wrapf ''getting ibcv2 client for source chain id''
                            (NewError ''no configured ibcv2 bridge client for chain ID''))
           | Some b \<Rightarrow> Inr b)))))"

datatype tool_event = Called contract_call | RelayRequested string string

text \<open>
  What follows the checks: the transfer, and the relay request with its hash. The result is
  \<open>None\<close> while the program waits for a receipt and \<open>Some None\<close> when it succeeded.
\<close>

definition send_and_relay ::
  "tool_env \<Rightarrow> flags \<Rightarrow> string \<Rightarrow> contract_call list \<times> string result option \<Rightarrow> tool_event list \<times> go_error option option" where
  "send_and_relay T F sendErr s =
     (case s of
        (calls, None) \<Rightarrow> (map Called calls, None)
      | (calls, Some (Inl err)) \<Rightarrow> (map Called calls, Some (Some (Wrapf sendErr err)))
      | (calls, Some (Inr sendTxHash)) \<Rightarrow>
          (map Called calls @ [RelayRequested sendTxHash (fl_sourceChainID F)],
           Some (map_option (Wrapf ''submitting relay request'') (RelayRPC T sendTxHash (fl_sourceChainID F)))))"

definition ics20Transfer :: "tool_env \<Rightarrow> flags \<Rightarrow> tool_event list \<times> go_error option option" where
  "ics20Transfer T F =
     (case LoadConfig (tool_config T) of
        Inl err \<Rightarrow> ([], Some (Some (Wrapf ''loading config'' err)))
      | Inr cfg \<Rightarrow>
     (let r = NewConfigReader cfg in
      case checked_route ''ics20'' T r F of
        Inl err \<Rightarrow> ([], Some (Some err))
      | Inr sourceChain \<Rightarrow>
          if \<not> IsHexAddress T (fl_ics20Address F) then ([], Some (Some (NewError ''ics20-address is not a valid hex address'')))
          else if \<not> IsHexAddress T (fl_denom F) then ([], Some (Some (NewError ''denom is not a valid hex address'')))
          else
     (case source_client T r F sourceChain of
        Inl err \<Rightarrow> ([], Some (Some err))
      | Inr b \<Rightarrow>
          send_and_relay T F ''sending ics20 transfer''
            (case b of
               EvmClient C \<Rightarrow>
                 EVM_SendTransfer (tool_evm T) (tool_contracts T) (tool_approval T) (tool_sending T) (tool_now T) C
                   (fl_ics20Address F) (fl_sourceClientID F) (fl_denom F) (fl_receiver F) (uint (fl_amount F)) (fl_memo F)
                   (fl_timeout F)
             | CosmosClient _ \<Rightarrow> Cosmos_SendTransfer))))"

definition iftTransfer :: "tool_env \<Rightarrow> flags \<Rightarrow> tool_event list \<times> go_error option option" where
  "iftTransfer T F =
     (case LoadConfig (tool_config T) of
        Inl err \<Rightarrow> ([], Some (Some (Wrapf ''loading config'' err)))
      | Inr cfg \<Rightarrow>
     (let r = NewConfigReader cfg in
      case checked_route ''ift'' T r F of
        Inl err \<Rightarrow> ([], Some (Some err))
      | Inr sourceChain \<Rightarrow>
          if \<not> IsHexAddress T (fl_iftAddress F) then ([], Some (Some (NewError ''ift-address is not a valid hex address'')))
          else
     (case source_client T r F sourceChain of
        Inl err \<Rightarrow> ([], Some (Some err))
      | Inr b \<Rightarrow>
          send_and_relay T F ''sending ift transfer''
            (case b of
               EvmClient C \<Rightarrow>
                 EVM_IFTTransfer (tool_evm T) (tool_contracts T) (tool_sending T) (tool_now T) C
                   (fl_iftAddress F) (fl_sourceClientID F) (fl_receiver F) (uint (fl_amount F)) (fl_timeout F)
             | CosmosClient _ \<Rightarrow> Cosmos_IFTTransfer))))"

text \<open>\<open>Some (Some _)\<close> is \<^verbatim>\<open>Fatal\<close>.\<close>

definition transfer_main :: "tool_env \<Rightarrow> flags \<Rightarrow> string list \<Rightarrow> tool_event list \<times> go_error option option" where
  "transfer_main T F args =
     (case args of
        [] \<Rightarrow> ([], Some (Some (NewError ''too few arguments, expected 'transfer transfer_type' (ics20 or ift)'')))
      | transferType # _ \<Rightarrow>
          if transferType = ''ics20'' then ics20Transfer T F
          else if transferType = ''ift'' then iftTransfer T F
          else ([], Some (Some (NewError ''unexpected transfer type''))))"

section \<open>cmd/relay\<close>

definition relay_main ::
  "(string \<Rightarrow> go_error option) \<Rightarrow> (string \<Rightarrow> string \<Rightarrow> go_error option) \<Rightarrow> string \<Rightarrow> string \<Rightarrow> string \<Rightarrow>
     tool_event list \<times> go_error option" where
  "relay_main conn rpc sourceChainID txHash relayerGRPCURL =
     (if sourceChainID = [] \<or> txHash = [] \<or> relayerGRPCURL = []
      then ([], Some (NewError ''source-chain-id, tx-hash, and relayer-grpc-url are required''))
      else
        (case conn relayerGRPCURL of
           Some err \<Rightarrow> ([], Some (Wrapf ''creating grpc connection to relayer'' err))
         | None \<Rightarrow>
             ([RelayRequested txHash sourceChainID],
              map_option (Wrapf ''submitting relay request'') (rpc txHash sourceChainID))))"

section \<open>What the transfer tool sends\<close>

text \<open>The checks that have to pass before anything is sent.\<close>

definition route_checked :: "tool_env \<Rightarrow> flags \<Rightarrow> ChainConfig \<Rightarrow> bool" where
  "route_checked T F source \<longleftrightarrow>
     (\<exists>cfg dest c. tool_config T = Inr cfg \<and> Validate cfg = None \<and>
        GetChainConfig (NewConfigReader cfg) (fl_sourceChainID F) = Inr source \<and> Evm source \<noteq> None \<and>
        GetChainConfig (NewConfigReader cfg) (fl_destChainID F) = Inr dest \<and>
        BridgeTypeIBCV2 \<in> set (SupportedBridges source) \<inter> set (SupportedBridges dest) \<and>
        (if Cosmos dest \<noteq> None then bech32_Decode T (fl_receiver F) = None
         else Evm dest \<noteq> None \<and> IsHexAddress T (fl_receiver F)) \<and>
        IBCV2 source = Some c \<and> CounterpartyChains c (fl_sourceClientID F) = Some (fl_destChainID F) \<and>
        0 < uint (fl_amount F))"

lemma source_client_checked:
  assumes "LoadConfig (tool_config T) = Inr cfg" and "checked_route kind T (NewConfigReader cfg) F = Inr source"
    and "source_client T (NewConfigReader cfg) F source = Inr b"
  shows "route_checked T F source"
proof -
  have cfg: "tool_config T = Inr cfg" "Validate cfg = None"
    using assms(1) by (auto simp: LoadConfig_def split: sum.splits option.splits)
  have amount: "0 < uint (fl_amount F)" and c: "checked_client (NewConfigReader cfg) F = None"
    using assms(3) by (auto simp: source_client_def word_less_def uint_0_iff order_less_le
        split: if_splits option.splits)
  obtain dest where d: "GetChainConfig (NewConfigReader cfg) (fl_sourceChainID F) = Inr source" "Evm source \<noteq> None"
    "GetChainConfig (NewConfigReader cfg) (fl_destChainID F) = Inr dest"
    "BridgeTypeIBCV2 \<in> set (SupportedBridges source) \<inter> set (SupportedBridges dest)"
    "if Cosmos dest \<noteq> None then bech32_Decode T (fl_receiver F) = None
     else Evm dest \<noteq> None \<and> IsHexAddress T (fl_receiver F)"
    using assms(2) by (auto simp: checked_route_def split: sum.splits if_splits option.splits)
  obtain ic where "IBCV2 source = Some ic" "CounterpartyChains ic (fl_sourceClientID F) = Some (fl_destChainID F)"
    using c d(1) by (auto simp: checked_client_def GetIBCV2Config_def split: sum.splits option.splits if_splits)
  with cfg amount d show ?thesis unfolding route_checked_def by blast
qed

lemma transact_and_wait_hash:
  "transact_and_wait E K w a b call = Some (Inr h) \<Longrightarrow>
     \<exists>tx. Transact K call = Inr tx \<and> h = HashString (lib E) (TxHash (lib E) tx)"
  by (auto simp: transact_and_wait_def split: sum.splits option.splits)

text \<open>A transfer is the send, with the approval before it exactly if the allowance is too small.\<close>

lemma SendTransfer_shape:
  assumes "EVM_SendTransfer E K w1 w2 t C ics20Address clientID denom receiver amount memo timeout = (calls, r)" "calls \<noteq> []"
  defines "approval \<equiv> Approve (HexToAddress (lib E) denom) (HexToAddress (lib E) ics20Address) amount"
    and "send \<equiv> SendTransfer (HexToAddress (lib E) ics20Address)
      \<lparr>sm_Denom = HexToAddress (lib E) denom, sm_Amount = amount, sm_Receiver = receiver, sm_SourceClient = clientID,
       sm_DestPort = ''transfer'', sm_TimeoutTimestamp = timeout_timestamp t timeout, sm_Memo = memo\<rparr>"
  obtains a where "Allowance K (HexToAddress (lib E) denom) (signerAddress C) (HexToAddress (lib E) ics20Address) = Inr a"
    and "a < amount \<and> (calls = [approval] \<and> (\<forall>h. r \<noteq> Some (Inr h)) \<or> calls = [approval, send]) \<or> amount \<le> a \<and> calls = [send]"
    and "\<And>h. r = Some (Inr h) \<Longrightarrow> \<exists>tx. Transact K send = Inr tx \<and> h = HashString (lib E) (TxHash (lib E) tx)"
proof -
  let ?a = "Allowance K (HexToAddress (lib E) denom) (signerAddress C) (HexToAddress (lib E) ics20Address)"
  obtain a where a: "?a = Inr a"
    using assms(1,2) by (auto simp: EVM_SendTransfer_def Let_def split: option.splits sum.splits)
  show ?thesis
  proof (rule that [OF a])
    show "a < amount \<and> (calls = [approval] \<and> (\<forall>h. r \<noteq> Some (Inr h)) \<or> calls = [approval, send]) \<or> amount \<le> a \<and> calls = [send]"
      using assms(1,2) a
      by (auto simp: EVM_SendTransfer_def Let_def approval_def send_def split: option.splits sum.splits if_splits)
  next
    fix h assume "r = Some (Inr h)"
    then have "transact_and_wait E K w2 ''sending transfer'' ''waiting for receipt of send transfer tx'' send = Some (Inr h)"
      using assms(1,2) a by (auto simp: EVM_SendTransfer_def Let_def send_def split: option.splits sum.splits if_splits)
    then show "\<exists>tx. Transact K send = Inr tx \<and> h = HashString (lib E) (TxHash (lib E) tx)"
      by (rule transact_and_wait_hash)
  qed
qed

lemma send_and_relay_cases:
  assumes "send_and_relay T F m (calls, r) = (evs, res)"
  obtains (unsent) "evs = map Called calls" "res \<noteq> Some None" "\<forall>h. r \<noteq> Some (Inr h)"
    | (relayed) h where "r = Some (Inr h)" "evs = map Called calls @ [RelayRequested h (fl_sourceChainID F)]"
        "res = Some None \<longleftrightarrow> RelayRPC T h (fl_sourceChainID F) = None"
  using assms by (auto simp: send_and_relay_def split: option.splits sum.splits)


text \<open>A receipt is enough for the wait, whatever it says: a transfer that failed on chain is relayed as well.\<close>

lemma failed_receipt_accepted:
  "rc_Status receipt = 0 \<Longrightarrow> EVM_WaitForTx t (Ticked t' (Inr (Some receipt)) # ticks) = Some None"
  by simp

section \<open>Example\<close>

text \<open>An EVM chain with a client for the Cosmos chain, and a token with no allowance yet.\<close>

definition ex_ibcv2 :: IBCV2Config where
  "ex_ibcv2 =
     \<lparr>CounterpartyChains = [''c-0'' \<mapsto> ''cosmos-1''], FinalityOffset = None, cfgAckBatchSize = 0, cfgAckBatchTimeout = 0,
      cfgAckBatchConcurrency = 0, cfgRecvBatchSize = 0, cfgRecvBatchTimeout = 0, cfgRecvBatchConcurrency = 0,
      cfgTimeoutBatchSize = 0, cfgTimeoutBatchTimeout = 0, cfgTimeoutBatchConcurrency = 0,
      cfgShouldRelaySuccessAcks = True, cfgShouldRelayErrorAcks = True\<rparr>"

definition ex_evm_chain :: ChainConfig where
  "ex_evm_chain =
     ex_chain\<lparr>ChainName := ''eth'', ChainID := ''1'', Type := EVM, Cosmos := None,
       Evm := Some \<lparr>EVMRPC = ''http://eth'', EVMRPCBasicAuthVar = [], ICS26RouterAddress = ''router'',
         ICS20TransferAddress = ''ics20'', GasFeeCapMultiplier = None, GasTipCapMultiplier = None, EVMTxSubmissionDelay = None\<rparr>,
       IBCV2 := Some ex_ibcv2, SupportedBridges := [BridgeTypeIBCV2]\<rparr>"

definition ex_config :: config where
  "ex_config =
     \<lparr>Postgres = \<lparr>Hostname = [], Port = [], Database = [], IAMAuthEnabled = False, IAMAuthRegion = []\<rparr>,
      Chains = [(''eth'', ex_evm_chain), (''hub'', ex_chain\<lparr>SupportedBridges := [BridgeTypeIBCV2]\<rparr>)],
      PrometheusAddress = [], RelayerAPIAddress = '':9000'',
      Coingecko = \<lparr>BaseURL = [], RequestsPerMinute = 0, APIKey = [], CacheRefreshInterval = 0\<rparr>,
      IBCV2ProofAPI = \<lparr>ProofGRPCAddress = [], ProofGRPCTLSEnabled = False\<rparr>,
      Signing = \<lparr>KeysPath = [], SigningGRPCAddress = [], SigningGRPCTLSEnabled = False, CosmosWalletKey = [], EVMWalletKey = [],
        SVMWalletKey = []\<rparr>\<rparr>"

definition ex_wait :: receipt_wait where
  "ex_wait = (0, [Ticked 3 (Inl (Sentinel EthereumNotFound)),
     Ticked 6 (Inr (Some \<lparr>rc_Status = 1, rc_BlockNumber = 100, rc_Logs = [], rc_EffectiveGasPrice = 3, rc_GasUsed = 21000\<rparr>))])"

definition ex_tool :: tool_env where
  "ex_tool =
     \<lparr>tool_config = Inr ex_config, IsHexAddress = (\<lambda>_. True), bech32_Decode = (\<lambda>_. None), NewRelayerConn = (\<lambda>_. None),
      RelayRPC = (\<lambda>_ _. None), tool_startup = ex_startup\<lparr>HexToECDSA := (\<lambda>_. Inr (replicate 20 1))\<rparr>, tool_evm = ex_evm_env,
      tool_contracts = \<lparr>ics20_NewContract = (\<lambda>_. None), erc20_NewContract = (\<lambda>_. None), ift_NewContract = (\<lambda>_. None),
        Allowance = (\<lambda>_ _ _. Inr 0), Transact = (\<lambda>c. case c of Approve _ _ _ \<Rightarrow> Inr [1] | _ \<Rightarrow> Inr [65])\<rparr>,
      tool_approval = ex_wait, tool_sending = ex_wait, tool_now = 0\<rparr>"

definition ex_flags :: flags where
  "ex_flags =
     \<lparr>fl_sourceChainID = ''1'', fl_destChainID = ''cosmos-1'', fl_sourceClientID = ''c-0'', fl_receiver = ''cosmos1xyz'', fl_amount = 25,
      fl_timeout = 12 * hour, fl_relayerGRPCURL = ''localhost:9000'', fl_privateKey = ''0xab'', fl_denom = ''token'', fl_memo = [],
      fl_ics20Address = ''ics20'', fl_iftAddress = []\<rparr>"

lemmas ex_tool_defs = ex_tool_def ex_flags_def ex_config_def ex_evm_chain_def ex_ibcv2_def ex_wait_def ex_startup_def
  ex_evm_env_def ex_geth_def

lemma ex_char: "char_of (65 :: nat) = CHR ''A''"
  by code_simp

lemma ex_tool_run:
  "\<exists>send. ics20Transfer ex_tool ex_flags =
     ([Called (Approve (string_bytes ''token'') (string_bytes ''ics20'') 25), Called send, RelayRequested ''A'' ''1''], Some None)"
  by (simp add: ex_tool_defs ics20Transfer_def LoadConfig_def Validate_def NewConfigReader_def checked_route_def source_client_def
      checked_client_def GetChainConfig_def GetIBCV2Config_def NewClientManagerFromConfig_def signer_health_def chain_bridge_def
      createEthSigner_def createEthClient_def GetRPCEndpoint_def GetBasicAuth_def Getenv_def NewEVMBridgeClient_def
      EVM_SendTransfer_def transact_and_wait_def send_and_relay_def ex_chain_def string_bytes_def ex_char Let_def)


end
