(* ===== verification/Monitors.thy ===== *)
theory Monitors
  imports Bridge Floats
begin

text \<open>
  What watches the relayer: the transfer counts of \<^verbatim>\<open>transferstats\<close>, the gas balances of
  \<^verbatim>\<open>gasmonitor\<close>, the latencies and alerts of \<^verbatim>\<open>ibcv2_transfer_metrics.go\<close>, and the cached price
  client. A metric that is set or incremented is the value the definition returns.
\<close>

section \<open>Transfer counts\<close>

fun relay_status_text :: "Ibcv2RelayStatus \<Rightarrow> string" where
  "relay_status_text PENDING = ''PENDING''"
| "relay_status_text CHECK_RECV_PACKET_DELIVERY = ''CHECK_RECV_PACKET_DELIVERY''"
| "relay_status_text GET_RECV_PACKET = ''GET_RECV_PACKET''"
| "relay_status_text DELIVER_RECV_PACKET = ''DELIVER_RECV_PACKET''"
| "relay_status_text WAIT_FOR_WRITE_ACK = ''WAIT_FOR_WRITE_ACK''"
| "relay_status_text CHECK_ACK_PACKET_DELIVERY = ''CHECK_ACK_PACKET_DELIVERY''"
| "relay_status_text GET_ACK_PACKET = ''GET_ACK_PACKET''"
| "relay_status_text DELIVER_ACK_PACKET = ''DELIVER_ACK_PACKET''"
| "relay_status_text CHECK_TIMEOUT_PACKET_DELIVERY = ''CHECK_TIMEOUT_PACKET_DELIVERY''"
| "relay_status_text GET_TIMEOUT_PACKET = ''GET_TIMEOUT_PACKET''"
| "relay_status_text DELIVER_TIMEOUT_PACKET = ''DELIVER_TIMEOUT_PACKET''"
| "relay_status_text COMPLETE_WITH_ACK = ''COMPLETE_WITH_ACK''"
| "relay_status_text COMPLETE_WITH_TIMEOUT = ''COMPLETE_WITH_TIMEOUT''"
| "relay_status_text FAILED = ''FAILED''"
| "relay_status_text AWAITING_SEND_FINALITY = ''AWAITING_SEND_FINALITY''"
| "relay_status_text AWAITING_WRITE_ACK_FINALITY = ''AWAITING_WRITE_ACK_FINALITY''"
| "relay_status_text COMPLETE_WITH_WRITE_ACK_SUCCESS = ''COMPLETE_WITH_WRITE_ACK_SUCCESS''"
| "relay_status_text AWAITING_TIMEOUT_FINALITY = ''AWAITING_TIMEOUT_FINALITY''"
| "relay_status_text COMPLETE_WITH_WRITE_ACK_ERROR = ''COMPLETE_WITH_WRITE_ACK_ERROR''"
| "relay_status_text CALCULATING_RECV_TX_GAS_COST = ''CALCULATING_RECV_TX_GAS_COST''"
| "relay_status_text CALCULATING_ACK_TX_GAS_COST = ''CALCULATING_ACK_TX_GAS_COST''"
| "relay_status_text CALCULATING_TIMEOUT_TX_GAS_COST = ''CALCULATING_TIMEOUT_TX_GAS_COST''"

text \<open>The enum of the database in the order of its migrations.\<close>

definition all_relay_statuses :: "Ibcv2RelayStatus list" where
  "all_relay_statuses =
     [PENDING, CHECK_RECV_PACKET_DELIVERY, GET_RECV_PACKET, DELIVER_RECV_PACKET, WAIT_FOR_WRITE_ACK,
      CHECK_ACK_PACKET_DELIVERY, GET_ACK_PACKET, DELIVER_ACK_PACKET, CHECK_TIMEOUT_PACKET_DELIVERY,
      GET_TIMEOUT_PACKET, DELIVER_TIMEOUT_PACKET, COMPLETE_WITH_ACK, COMPLETE_WITH_TIMEOUT, FAILED,
      AWAITING_SEND_FINALITY, AWAITING_WRITE_ACK_FINALITY, COMPLETE_WITH_WRITE_ACK_SUCCESS,
      AWAITING_TIMEOUT_FINALITY, COMPLETE_WITH_WRITE_ACK_ERROR, CALCULATING_RECV_TX_GAS_COST,
      CALCULATING_ACK_TX_GAS_COST, CALCULATING_TIMEOUT_TX_GAS_COST]"

definition ListRelayStatuses :: "db_env \<Rightarrow> database \<Rightarrow> string list result" where
  "ListRelayStatuses D d =
     (case db_fault D QListRelayStatuses of
        Some err \<Rightarrow> Inl err
      | None \<Rightarrow> Inr (map relay_status_text all_relay_statuses))"

record CountRow =
  c_SourceChainID :: string
  c_DestinationChainID :: string
  c_Status :: Ibcv2RelayStatus
  c_Count :: int

definition row_group :: "Ibcv2Transfer \<Rightarrow> string \<times> string \<times> Ibcv2RelayStatus" where
  "row_group r = (r_SourceChainID r, r_DestinationChainID r, r_Status r)"

definition group_row :: "database \<Rightarrow> string \<times> string \<times> Ibcv2RelayStatus \<Rightarrow> CountRow" where
  "group_row d g =
     (case g of (src, dst, s) \<Rightarrow>
        \<lparr>c_SourceChainID = src, c_DestinationChainID = dst, c_Status = s,
         c_Count = int (length (filter (\<lambda>r. row_group r = g) (transfers d)))\<rparr>)"

text \<open>\<^verbatim>\<open>GROUP BY\<close> gives one row per group that occurs.\<close>

definition CountTransfersByChainPairAndStatus :: "db_env \<Rightarrow> database \<Rightarrow> CountRow list result" where
  "CountTransfersByChainPairAndStatus D d =
     (case db_fault D QCountTransfersByChainPairAndStatus of
        Some err \<Rightarrow> Inl err
      | None \<Rightarrow> Inr (map (group_row d) (remdups (map row_group (transfers d)))))"

definition chain_name_env :: "configReader \<Rightarrow> string \<Rightarrow> string \<times> string \<times> bool" where
  "chain_name_env cfg chainID =
     (case GetChainConfig cfg chainID of
        Inl _ \<Rightarrow> (chainID, [], False)
      | Inr c \<Rightarrow> (ChainName c, Environment c, True))"

record transfer_count =
  g_source :: string
  g_destination :: string
  g_source_name :: string
  g_destination_name :: string
  g_environment :: string
  g_status :: string
  g_value :: rat

type_synonym counts = "string \<times> string \<Rightarrow> (string \<Rightarrow> int option) option"

definition put_count :: "CountRow \<Rightarrow> counts \<Rightarrow> counts" where
  "put_count r m =
     (let p = (c_SourceChainID r, c_DestinationChainID r);
          by_status = (case m p of None \<Rightarrow> Map.empty | Some b \<Rightarrow> b) in
      m(p \<mapsto> by_status(relay_status_text (c_Status r) \<mapsto> c_Count r)))"

definition count_gauge :: "configReader \<Rightarrow> counts \<Rightarrow> string \<times> string \<Rightarrow> string \<Rightarrow> transfer_count" where
  "count_gauge cfg m p s =
     \<lparr>g_source = fst p, g_destination = snd p, g_source_name = fst (chain_name_env cfg (fst p)),
      g_destination_name = fst (chain_name_env cfg (snd p)),
      g_environment = fst (snd (chain_name_env cfg (fst p))), g_status = s,
      g_value = float64 (case m p of None \<Rightarrow> 0 | Some b \<Rightarrow> (case b s of None \<Rightarrow> 0 | Some n \<Rightarrow> of_int n))\<rparr>"

text \<open>The range over the map visits every pair once, in an order the language leaves open.\<close>

definition tick_stats :: "configReader \<Rightarrow> db_env \<Rightarrow> database \<Rightarrow> transfer_count list" where
  "tick_stats cfg D d =
     (case ListRelayStatuses D d of
        Inl _ \<Rightarrow> []
      | Inr statuses \<Rightarrow>
          (case CountTransfersByChainPairAndStatus D d of
             Inl _ \<Rightarrow> []
           | Inr rows \<Rightarrow>
               (let m = fold put_count rows Map.empty in
                concat (map (\<lambda>p. map (count_gauge cfg m p) statuses)
                  (remdups (map (\<lambda>r. (c_SourceChainID r, c_DestinationChainID r)) rows))))))"

subsection \<open>The counts are right\<close>

lemma relay_status_text_inj: "relay_status_text s = relay_status_text s' \<longleftrightarrow> s = s'"
  by (cases s; cases s'; simp)

definition count_of :: "counts \<Rightarrow> string \<times> string \<Rightarrow> string \<Rightarrow> int" where
  "count_of m p s = (case m p of None \<Rightarrow> 0 | Some b \<Rightarrow> (case b s of None \<Rightarrow> 0 | Some n \<Rightarrow> n))"

lemma count_of_put:
  "count_of (put_count r m) p s =
     (if p = (c_SourceChainID r, c_DestinationChainID r) \<and> s = relay_status_text (c_Status r) then c_Count r
      else count_of m p s)"
  by (auto simp: put_count_def count_of_def Let_def split: option.splits)

definition row_key3 :: "CountRow \<Rightarrow> string \<times> string \<times> Ibcv2RelayStatus" where
  "row_key3 r = (c_SourceChainID r, c_DestinationChainID r, c_Status r)"

lemma count_of_fold:
  assumes "distinct (map row_key3 rows)"
  shows "count_of (fold put_count rows m) (src, dst) (relay_status_text s) =
    (case find (\<lambda>r. row_key3 r = (src, dst, s)) rows of None \<Rightarrow> count_of m (src, dst) (relay_status_text s) | Some r \<Rightarrow> c_Count r)"
  using assms
proof (induction rows arbitrary: m)
  case (Cons r rows)
  show ?case
  proof (cases "row_key3 r = (src, dst, s)")
    case True
    then have "find (\<lambda>r. row_key3 r = (src, dst, s)) rows = None"
      using Cons.prems by (force simp: find_None_iff image_iff)
    with True Cons show ?thesis by (simp add: count_of_put row_key3_def)
  next
    case False
    with Cons show ?thesis by (auto simp: count_of_put row_key3_def relay_status_text_inj split: option.splits)
  qed
qed simp

lemma row_key3_group [simp]: "row_key3 (group_row d g) = g"
  by (cases g) (simp add: row_key3_def group_row_def)

lemma find_group:
  "find (\<lambda>r. row_key3 r = g) (map (group_row d) gs) = (if g \<in> set gs then Some (group_row d g) else None)"
  by (induction gs) auto

lemma tick_count:
  "count_of (fold put_count (map (group_row d) (remdups (map row_group (transfers d)))) Map.empty) (src, dst) (relay_status_text s) =
     int (length (filter (\<lambda>r. row_group r = (src, dst, s)) (transfers d)))"
proof -
  have "distinct (map row_key3 (map (group_row d) (remdups (map row_group (transfers d)))))"
    by (simp add: comp_def)
  note f = count_of_fold [OF this, of Map.empty src dst s]
  show ?thesis
  proof (cases "(src, dst, s) \<in> row_group ` set (transfers d)")
    case True
    then show ?thesis unfolding f find_group by (simp add: group_row_def)
  next
    case False
    then have "filter (\<lambda>r. row_group r = (src, dst, s)) (transfers d) = []" by (auto simp: filter_empty_conv image_iff)
    with False show ?thesis unfolding f find_group by (simp add: count_of_def)
  qed
qed

definition gauge_for :: "string \<times> string \<Rightarrow> string \<Rightarrow> transfer_count \<Rightarrow> bool" where
  "gauge_for p st g \<longleftrightarrow> g_source g = fst p \<and> g_destination g = snd p \<and> g_status g = st"

lemma gauge_for_count [simp]: "gauge_for p st (count_gauge cfg m q s) \<longleftrightarrow> q = p \<and> s = st"
  by (auto simp: gauge_for_def count_gauge_def prod_eq_iff)

lemma filter_gauges_one:
  assumes "distinct sts"
  shows "filter (gauge_for p st) (map (count_gauge cfg m q) sts) =
    (if q = p \<and> st \<in> set sts then [count_gauge cfg m p st] else [])"
  using assms by (induction sts) auto

lemma filter_gauges:
  assumes "distinct sts" "distinct ps"
  shows "filter (gauge_for p st) (concat (map (\<lambda>q. map (count_gauge cfg m q) sts) ps)) =
    (if p \<in> set ps \<and> st \<in> set sts then [count_gauge cfg m p st] else [])"
  using assms(2)
proof (induction ps)
  case (Cons q ps)
  then show ?case by (auto simp: filter_gauges_one [OF assms(1)])
qed simp

lemma statuses_complete: "s \<in> set all_relay_statuses"
  by (cases s) (simp_all add: all_relay_statuses_def)

lemma statuses_distinct: "distinct (map relay_status_text all_relay_statuses)"
  by (auto simp: distinct_map inj_on_def relay_status_text_inj all_relay_statuses_def)

text \<open>
  C34. For every pair of chains with a stored transfer and every status, a tick sets exactly one
  gauge, and its value is the number of stored transfers of that pair in that status, zero
  included, rounded to a double precision float.
\<close>

theorem transfer_counts_exact:
  assumes "db_fault D QListRelayStatuses = None" and "db_fault D QCountTransfersByChainPairAndStatus = None"
    and "r \<in> set (transfers d)"
  shows "map g_value (filter (gauge_for (r_SourceChainID r, r_DestinationChainID r) (relay_status_text s)) (tick_stats cfg D d)) =
    [float64 (of_nat (length (filter (\<lambda>r'. row_group r' = (r_SourceChainID r, r_DestinationChainID r, s)) (transfers d))))]"
proof -
  let ?rows = "map (group_row d) (remdups (map row_group (transfers d)))"
  let ?ps = "remdups (map (\<lambda>r. (c_SourceChainID r, c_DestinationChainID r)) ?rows)"
  let ?p = "(r_SourceChainID r, r_DestinationChainID r)"
  let ?m = "fold put_count ?rows Map.empty"
  have "?p \<in> set ?ps" using assms(3) by (force simp: group_row_def row_group_def image_iff)
  moreover have "relay_status_text s \<in> set (map relay_status_text all_relay_statuses)" using statuses_complete by simp
  ultimately have "filter (gauge_for ?p (relay_status_text s))
      (concat (map (\<lambda>q. map (count_gauge cfg ?m q) (map relay_status_text all_relay_statuses)) ?ps)) =
      [count_gauge cfg ?m ?p (relay_status_text s)]"
    by (simp only: filter_gauges [OF statuses_distinct distinct_remdups]) simp
  moreover have "tick_stats cfg D d =
      concat (map (\<lambda>q. map (count_gauge cfg ?m q) (map relay_status_text all_relay_statuses)) ?ps)"
    using assms(1,2)
    by (simp only: tick_stats_def ListRelayStatuses_def CountTransfersByChainPairAndStatus_def option.case sum.case Let_def)
  moreover have "g_value (count_gauge cfg ?m ?p (relay_status_text s)) = float64 (of_int (count_of ?m ?p (relay_status_text s)))"
    by (auto simp: count_gauge_def count_of_def split: option.splits)
  ultimately show ?thesis by (simp only: tick_count list.map) simp
qed

section \<open>Gas balances\<close>

text \<open>
  \<^verbatim>\<open>SetGasBalance\<close> of \<^verbatim>\<open>metrics.go\<close> compares the amounts before they become floats; the state is
  0, 1 for a warning and 2 for a critical balance.
\<close>

definition gas_balance_state :: "int \<Rightarrow> int \<Rightarrow> int \<Rightarrow> nat" where
  "gas_balance_state gasBalance warningThreshold criticalThreshold =
     (if gasBalance < criticalThreshold then 2 else if gasBalance < warningThreshold then 1 else 0)"

text \<open>One chain: \<open>None\<close> for a chain without a signer; otherwise whether the log reports a low balance, and the state.\<close>

definition monitorIBCV2GasBalances ::
  "configReader \<Rightarrow> ClientManager \<Rightarrow> string \<Rightarrow> (bool \<times> nat) option result" where
  "monitorIBCV2GasBalances cfg m chainID =
     (case GetSignerGasAlertThresholds cfg chainID BridgeTypeIBCV2 of
        Inl err \<Rightarrow>
          if err = ErrNoSignerForBridge then Inr None
          else Inl (Wrapf ''getting ibcv2 signer gas alert thresholds on chain'' err)
      | Inr (warningThreshold, criticalThreshold) \<Rightarrow>
          (case GetClient m chainID of
             Inl err \<Rightarrow> Inl (Wrapf ''getting ibcv2 client for chain'' err)
           | Inr client \<Rightarrow>
               (case SignerGasTokenBalance client of
                  Inl err \<Rightarrow> Inl (Wrapf ''getting gas token balance for eurkea signer on chain'' err)
                | Inr balance \<Rightarrow>
                    Inr (Some (balance < criticalThreshold,
                               gas_balance_state balance warningThreshold criticalThreshold)))))"

text \<open>One turn of the ticker over the EVM, Cosmos and SVM chains; errors are only logged.\<close>

definition gas_tick :: "configReader \<Rightarrow> ClientManager \<Rightarrow> (string \<times> bool \<times> nat) list" where
  "gas_tick cfg m =
     concat (map (\<lambda>chain.
         case monitorIBCV2GasBalances cfg m (ChainID chain) of
           Inr (Some (low, st)) \<Rightarrow> [(ChainID chain, low, st)]
         | _ \<Rightarrow> [])
       (GetAllChainConfigsOfType cfg EVM @ GetAllChainConfigsOfType cfg COSMOS @ GetAllChainConfigsOfType cfg SVM))"

lemma low_log_agrees_with_state:
  assumes "monitorIBCV2GasBalances cfg m chainID = Inr (Some (low, st))"
  shows "low \<longleftrightarrow> st = 2"
  using assms
  by (auto simp: monitorIBCV2GasBalances_def gas_balance_state_def split: sum.splits if_splits)

section \<open>Latencies and alerts\<close>

datatype RelayType = IBCV2SendToRecvRelayType | IBCV2SendToTimeoutRelayType | IBCV2RecvToAckRelayType

definition ongoingRelayType :: "time \<Rightarrow> IBCV2Transfer \<Rightarrow> bool \<Rightarrow> bool \<Rightarrow> RelayType option" where
  "ongoingRelayType t e shouldRelaySuccessAcks shouldRelayErrorAcks =
     (if IsComplete e shouldRelaySuccessAcks shouldRelayErrorAcks then None
      else if \<not> snd (GetWriteAckTxHash e) then
        (if GetPacketTimeoutTimestamp e < t then Some IBCV2SendToTimeoutRelayType else Some IBCV2SendToRecvRelayType)
      else Some IBCV2RecvToAckRelayType)"

definition evmSourceExcessiveLatency :: duration where
  "evmSourceExcessiveLatency = 60 * minute"

definition evmSourceFinality :: duration where
  "evmSourceFinality = 15 * minute"

definition cosmosSourceExcessiveLatency :: duration where
  "cosmosSourceExcessiveLatency = 30 * minute"

text \<open>
  The observation that is recorded, names of the chains first; \<open>None\<close> when there is none. \<open>t 0\<close>,
  \<open>t 1\<close> and \<open>t 2\<close> are what the clock shows at its successive readings. A source chain without an IBC v2 section
  stops the process.
\<close>

datatype alert = NoAlert | Alert string string string RelayType | AlertPanic

definition excessive :: "ChainType \<Rightarrow> duration \<Rightarrow> bool" where
  "excessive ty waited \<longleftrightarrow>
     (ty = EVM \<and> evmSourceExcessiveLatency < waited) \<or> (ty = COSMOS \<and> cosmosSourceExcessiveLatency < waited)"

definition AlertOnExcessiveRelayLatency :: "configReader \<Rightarrow> (nat \<Rightarrow> time) \<Rightarrow> IBCV2Transfer \<Rightarrow> alert" where
  "AlertOnExcessiveRelayLatency cfg t e =
     (case GetChainConfig cfg (GetSourceChainID e) of
        Inl _ \<Rightarrow> NoAlert
      | Inr sourceConfig \<Rightarrow>
     (case GetChainConfig cfg (GetDestinationChainID e) of
        Inl _ \<Rightarrow> NoAlert
      | Inr destConfig \<Rightarrow>
     (case IBCV2 sourceConfig of
        None \<Rightarrow> AlertPanic
      | Some c \<Rightarrow>
     (case ongoingRelayType (t 0) e (cfgShouldRelaySuccessAcks c) (cfgShouldRelayErrorAcks c) of
        None \<Rightarrow> NoAlert
      | Some IBCV2SendToRecvRelayType \<Rightarrow>
          if excessive (Type sourceConfig) (t 1 - GetSourceTxTime e)
          then Alert (ChainName sourceConfig) (ChainName destConfig) (Environment sourceConfig) IBCV2SendToRecvRelayType
          else NoAlert
      | Some IBCV2RecvToAckRelayType \<Rightarrow>
          if excessive (Type destConfig) (t 1 - fst (GetWriteAckTxTime e))
          then Alert (ChainName destConfig) (ChainName sourceConfig) (Environment sourceConfig) IBCV2RecvToAckRelayType
          else NoAlert
      | Some IBCV2SendToTimeoutRelayType \<Rightarrow>
          if t 1 - GetPacketTimeoutTimestamp e < 5 * minute then NoAlert
          else if Type sourceConfig = EVM \<and> t 2 - GetSourceTxTime e < evmSourceFinality then NoAlert
          else Alert (ChainName sourceConfig) (ChainName destConfig) (Environment sourceConfig)
                 IBCV2SendToTimeoutRelayType))))"

text \<open>
  An alert names what the transfer is waiting for: a timeout only if the packet expired at least
  five minutes ago, was not received, and the transfer is not complete; a receive only if the
  packet has not expired; an ack only if the write ack is known and has waited at least half an
  hour. A transfer that is complete raises none.
\<close>

theorem alerts_justified:
  assumes "AlertOnExcessiveRelayLatency cfg t e = Alert src dst en ty"
  shows "(\<forall>s c. GetChainConfig cfg (GetSourceChainID e) = Inr s \<and> IBCV2 s = Some c \<longrightarrow>
      \<not> IsComplete e (cfgShouldRelaySuccessAcks c) (cfgShouldRelayErrorAcks c)) \<and>
    (case ty of
       IBCV2SendToTimeoutRelayType \<Rightarrow> WriteAckTxHash e = None \<and> PacketTimeoutTimestamp e + 5 * minute \<le> t 1
     | IBCV2SendToRecvRelayType \<Rightarrow>
         WriteAckTxHash e = None \<and> t 0 \<le> PacketTimeoutTimestamp e \<and> SourceTxTime e + 30 * minute < t 1
     | IBCV2RecvToAckRelayType \<Rightarrow>
         WriteAckTxHash e \<noteq> None \<and> fst (GetWriteAckTxTime e) + 30 * minute < t 1)"
proof -
  have m: "0 < minute" by (simp add: minute_def second_def)
  obtain s d c where g: "GetChainConfig cfg (GetSourceChainID e) = Inr s"
      "GetChainConfig cfg (GetDestinationChainID e) = Inr d" "IBCV2 s = Some c"
    using assms by (auto simp: AlertOnExcessiveRelayLatency_def split: sum.splits option.splits)
  obtain r where r: "ongoingRelayType (t 0) e (cfgShouldRelaySuccessAcks c) (cfgShouldRelayErrorAcks c) = Some r"
    using assms g by (auto simp: AlertOnExcessiveRelayLatency_def split: option.splits)
  have n: "\<not> IsComplete e (cfgShouldRelaySuccessAcks c) (cfgShouldRelayErrorAcks c)"
    using r by (auto simp: ongoingRelayType_def split: if_splits)
  have "ty = r" using assms g r by (cases r) (auto simp: AlertOnExcessiveRelayLatency_def split: if_splits)
  moreover have "case r of
       IBCV2SendToTimeoutRelayType \<Rightarrow> WriteAckTxHash e = None \<and> PacketTimeoutTimestamp e + 5 * minute \<le> t 1
     | IBCV2SendToRecvRelayType \<Rightarrow>
         WriteAckTxHash e = None \<and> t 0 \<le> PacketTimeoutTimestamp e \<and> SourceTxTime e + 30 * minute < t 1
     | IBCV2RecvToAckRelayType \<Rightarrow> WriteAckTxHash e \<noteq> None \<and> fst (GetWriteAckTxTime e) + 30 * minute < t 1"
    using assms g r n m
    by (cases r)
      (auto simp: AlertOnExcessiveRelayLatency_def ongoingRelayType_def excessive_def evmSourceExcessiveLatency_def
        cosmosSourceExcessiveLatency_def GetWriteAckTxHash_def GetPacketTimeoutTimestamp_def GetSourceTxTime_def
        split: if_splits)
  ultimately show ?thesis using g n by simp
qed

text \<open>
  The labels of the counter of completed relays: source chain and client, destination chain and
  client, kind.
\<close>

type_synonym relay_labels = "string \<times> string \<times> string \<times> string \<times> RelayType"

definition RecordRecvRelayed :: "IBCV2Transfer \<Rightarrow> relay_labels" where
  "RecordRecvRelayed e =
     (GetSourceChainID e, GetPacketSourceClientID e, GetDestinationChainID e, GetPacketDestinationClientID e,
      IBCV2SendToRecvRelayType)"

definition RecordTimeoutRelayed :: "IBCV2Transfer \<Rightarrow> relay_labels" where
  "RecordTimeoutRelayed e =
     (GetSourceChainID e, GetPacketSourceClientID e, GetDestinationChainID e, GetPacketDestinationClientID e,
      IBCV2SendToRecvRelayType)"

definition RecordAckRelayed :: "IBCV2Transfer \<Rightarrow> relay_labels" where
  "RecordAckRelayed e =
     (GetDestinationChainID e, GetPacketDestinationClientID e, GetSourceChainID e, GetPacketSourceClientID e,
      IBCV2RecvToAckRelayType)"

text \<open>The counter cannot tell a timeout from a receive, but an ack from both.\<close>

lemma timeout_counts_as_recv:
  "RecordTimeoutRelayed e = RecordRecvRelayed e" "RecordAckRelayed e' \<noteq> RecordRecvRelayed e"
  by (simp_all add: RecordTimeoutRelayed_def RecordRecvRelayed_def RecordAckRelayed_def)

text \<open>The latencies, with the chains in the direction of the relay.\<close>

definition RecordRecvSendLatency :: "IBCV2Transfer \<Rightarrow> (string \<times> string \<times> duration \<times> RelayType) option" where
  "RecordRecvSendLatency e =
     (if \<not> snd (GetRecvTxTime e) then None
      else Some (GetSourceChainID e, GetDestinationChainID e, fst (GetRecvTxTime e) - GetSourceTxTime e,
                 IBCV2SendToRecvRelayType))"

definition RecordSendTimeoutLatency :: "IBCV2Transfer \<Rightarrow> (string \<times> string \<times> duration \<times> RelayType) option" where
  "RecordSendTimeoutLatency e =
     (if \<not> snd (GetTimeoutTxTime e) then None
      else Some (GetSourceChainID e, GetDestinationChainID e, fst (GetTimeoutTxTime e) - GetSourceTxTime e,
                 IBCV2SendToTimeoutRelayType))"

definition RecordAckRecvLatency :: "IBCV2Transfer \<Rightarrow> (string \<times> string \<times> duration \<times> RelayType) option" where
  "RecordAckRecvLatency e =
     (if \<not> snd (GetAckTxTime e) then None
      else if \<not> snd (GetRecvTxTime e) then None
      else Some (GetDestinationChainID e, GetSourceChainID e, fst (GetAckTxTime e) - fst (GetRecvTxTime e),
                 IBCV2RecvToAckRelayType))"

section \<open>Prices\<close>

record PriceResponse =
  price :: rat
  lastUpdated :: time

record CachedPriceClient =
  cache :: "string \<rightharpoonup> PriceResponse"
  cacheRefreshInterval :: duration

definition NewCachedPriceClient :: "duration \<Rightarrow> CachedPriceClient" where
  "NewCachedPriceClient interval = \<lparr>cache = Map.empty, cacheRefreshInterval = interval\<rparr>"

definition double_slashes :: "string \<Rightarrow> string" where
  "double_slashes s = concat (map (\<lambda>c. if c = CHR ''/'' then ''//'' else [c]) s)"

definition cacheKey :: "string \<Rightarrow> string \<Rightarrow> string" where
  "cacheKey coingeckoID currency = double_slashes coingeckoID @ ''/'' @ double_slashes currency"

text \<open>
  \<open>t\<close> is the time of the check, \<open>t'\<close> that of the update, \<open>answer\<close> what the service would say.
\<close>

definition GetSimplePrice ::
  "time \<Rightarrow> time \<Rightarrow> rat result \<Rightarrow> string \<Rightarrow> string \<Rightarrow> CachedPriceClient \<Rightarrow> CachedPriceClient \<times> rat result" where
  "GetSimplePrice t t' answer coingeckoID currency c =
     (let key = cacheKey coingeckoID currency in
      if (case cache c key of None \<Rightarrow> True | Some r \<Rightarrow> cacheRefreshInterval c < t - lastUpdated r) then
        (case answer of
           Inl err \<Rightarrow> (c, Inl err)
         | Inr p \<Rightarrow> (c\<lparr>cache := (cache c)(key \<mapsto> \<lparr>price = p, lastUpdated = t'\<rparr>)\<rparr>, Inr p))
      else (c, Inr (price (the (cache c key)))))"

text \<open>A price is what the service just said, or one that was stored at most an interval ago.\<close>

lemma price_is_recent:
  assumes "GetSimplePrice t t' answer cid cur c = (c', Inr p)"
  shows "answer = Inr p \<or>
    (\<exists>r. cache c (cacheKey cid cur) = Some r \<and> price r = p \<and> t - lastUpdated r \<le> cacheRefreshInterval c \<and> c' = c)"
  using assms by (auto simp: GetSimplePrice_def Let_def not_less split: option.splits sum.splits if_splits)

text \<open>Doubling the slashes does not separate the two parts: an identifier may end in one.\<close>

lemma cacheKey_collision: "cacheKey ''a/'' ''b'' = cacheKey ''a'' ''/b''"
  by (simp add: cacheKey_def double_slashes_def)

lemma double_slashes_plain: "CHR ''/'' \<notin> set s \<Longrightarrow> double_slashes s = s"
  by (induction s) (auto simp: double_slashes_def)

lemma cacheKey_inj_plain:
  assumes "CHR ''/'' \<notin> set a" "CHR ''/'' \<notin> set a'" "CHR ''/'' \<notin> set b" "CHR ''/'' \<notin> set b'"
  shows "cacheKey a b = cacheKey a' b' \<longleftrightarrow> a = a' \<and> b = b'"
proof
  assume "cacheKey a b = cacheKey a' b'"
  then have e: "a @ CHR ''/'' # b = a' @ CHR ''/'' # b'" using assms by (simp add: cacheKey_def double_slashes_plain)
  have "takeWhile (\<lambda>c. c \<noteq> CHR ''/'') (x @ CHR ''/'' # y) = x" if "CHR ''/'' \<notin> set x" for x y
    using that by (induction x) auto
  then have "a = a'" using assms(1,2) e by metis
  with e show "a = a' \<and> b = b'" by simp
qed simp

text \<open>Go's integer division truncates. The limiter of the HTTP client: the time between tokens and the burst.\<close>

definition go_div :: "int \<Rightarrow> int \<Rightarrow> int" where
  "go_div a b = sgn a * sgn b * (\<bar>a\<bar> div \<bar>b\<bar>)"

definition DefaultRateLimitedHTTPClient :: "int \<Rightarrow> duration \<times> int" where
  "DefaultRateLimitedHTTPClient requestsPerMinute =
     (let n = (if requestsPerMinute = 0 then 10 else requestsPerMinute) in (go_div minute n, go_div n 2))"

lemma burst_zero_iff:
  assumes "0 \<le> n"
  shows "snd (DefaultRateLimitedHTTPClient n) = 0 \<longleftrightarrow> n = 1"
  using assms by (auto simp: DefaultRateLimitedHTTPClient_def Let_def go_div_def sgn_if)

section \<open>Witnesses\<close>

definition ex_stat_row :: "Ibcv2RelayStatus \<Rightarrow> i32 \<Rightarrow> Ibcv2Transfer" where
  "ex_stat_row s n =
     (new_row \<lparr>db_fault = \<lambda>_. None, db_now = 0, begin_fault = None, rollback_fault = None, commit_fault = None\<rparr>
        n ''A'' ''B'' ''0xab'' 5 n ''ca'' ''cb'' 100)\<lparr>r_Status := s\<rparr>"

definition ex_stat_db :: database where
  "ex_stat_db =
     \<lparr>transfers = [ex_stat_row PENDING 1, ex_stat_row FAILED 2, ex_stat_row PENDING 3], relay_requests = [],
      tx_submissions = [], transfer_tx_submissions = [], transfers_id_seq = 3, relay_requests_id_seq = 0,
      tx_submissions_id_seq = 0\<rparr>"

definition ex_stat_env :: db_env where
  "ex_stat_env = \<lparr>db_fault = \<lambda>_. None, db_now = 0, begin_fault = None, rollback_fault = None, commit_fault = None\<rparr>"

definition ex_watched :: "string \<Rightarrow> ChainConfig" where
  "ex_watched i =
     \<lparr>ChainName = i, ChainID = i, Type = EVM, Environment = ''testnet'', Cosmos = None, Evm = None, Svm = None,
      GasTokenSymbol = ''ETH'', GasTokenCoingeckoID = None, GasTokenDecimals = 18, SignerGasAlertThresholds = Map.empty,
      IBCV2 = Some \<lparr>CounterpartyChains = Map.empty, FinalityOffset = None, cfgAckBatchSize = 0, cfgAckBatchTimeout = 0,
        cfgAckBatchConcurrency = 0, cfgRecvBatchSize = 0, cfgRecvBatchTimeout = 0, cfgRecvBatchConcurrency = 0,
        cfgTimeoutBatchSize = 0, cfgTimeoutBatchTimeout = 0, cfgTimeoutBatchConcurrency = 0,
        cfgShouldRelaySuccessAcks = True, cfgShouldRelayErrorAcks = True\<rparr>,
      SupportedBridges = []\<rparr>"

definition ex_watch :: configReader where
  "ex_watch = \<lparr>Config = undefined, chainIDIndex = (\<lambda>i. Some (ex_watched i)), chainIDToKey = Map.empty\<rparr>"

theorem transfer_counts_exact_witness:
  "map g_value (filter (gauge_for (''A'', ''B'') ''PENDING'') (tick_stats ex_watch ex_stat_env ex_stat_db)) = [float64 2]"
proof -
  have r: "ex_stat_row PENDING 1 \<in> set (transfers ex_stat_db)" by (simp add: ex_stat_db_def)
  have n: "length (filter (\<lambda>r'. row_group r' = (''A'', ''B'', PENDING)) (transfers ex_stat_db)) = 2" by code_simp
  show ?thesis
    using transfer_counts_exact [of ex_stat_env "ex_stat_row PENDING 1" ex_stat_db PENDING ex_watch] r n
    by (simp add: ex_stat_env_def ex_stat_row_def new_row_def)
qed

text \<open>A transfer that expires after two hours and has waited 61 minutes for its receive.\<close>

definition ex_waiting :: IBCV2Transfer where
  "ex_waiting = (NewIBCV2Transfer (ex_stat_row PENDING 1))\<lparr>PacketTimeoutTimestamp := 120 * minute\<rparr>"

theorem alerts_justified_witness:
  "AlertOnExcessiveRelayLatency ex_watch (\<lambda>_. 61 * minute) ex_waiting = Alert ''A'' ''B'' ''testnet'' IBCV2SendToRecvRelayType \<and>
   SourceTxTime ex_waiting + 30 * minute < 61 * minute"
proof -
  have a: "AlertOnExcessiveRelayLatency ex_watch (\<lambda>_. 61 * minute) ex_waiting =
      Alert ''A'' ''B'' ''testnet'' IBCV2SendToRecvRelayType" by code_simp
  then show ?thesis using alerts_justified [OF a] by simp
qed

end
