(* ===== verification/Metrics.thy ===== *)
theory Metrics
  imports Monitors Decimal
begin

text \<open>
  \<^verbatim>\<open>shared/metrics/metrics.go\<close>, \<^verbatim>\<open>http_transport.go\<close> and \<^verbatim>\<open>http_transport_config.go\<close>: the
  metric families of the relayer, every method that records into them, the interceptors of the
  gRPC server and clients, and the transport that counts outgoing requests. The Prometheus
  library stops the process when a sample does not fit its family; that is an error value here,
  and shown not to happen. Label values are UTF-8.
\<close>

section \<open>Labels and families\<close>

definition requestStatusCodeLabel :: string where
  "requestStatusCodeLabel = ''status_code''"

definition methodLabel :: string where
  "methodLabel = ''method''"

definition chainIDLabel :: string where
  "chainIDLabel = ''chain_id''"

definition sourceChainIDLabel :: string where
  "sourceChainIDLabel = ''source_chain_id''"

definition destinationChainIDLabel :: string where
  "destinationChainIDLabel = ''destination_chain_id''"

definition statusLabel :: string where
  "statusLabel = ''status''"

definition transferStateLabel :: string where
  "transferStateLabel = ''state''"

definition codeLabel :: string where
  "codeLabel = ''code''"

definition successLabel :: string where
  "successLabel = ''success''"

definition providerLabel :: string where
  "providerLabel = ''provider''"

definition chainNameLabel :: string where
  "chainNameLabel = ''chain_name''"

definition sourceChainNameLabel :: string where
  "sourceChainNameLabel = ''source_chain_name''"

definition destinationChainNameLabel :: string where
  "destinationChainNameLabel = ''destination_chain_name''"

definition chainEnvironmentLabel :: string where
  "chainEnvironmentLabel = ''chain_environment''"

definition gasTokenSymbolLabel :: string where
  "gasTokenSymbolLabel = ''gas_token_symbol''"

definition relayTypelLabel :: string where
  "relayTypelLabel = ''relay_type''"

definition bridgeTypeLabel :: string where
  "bridgeTypeLabel = ''bridge_type''"

definition sourceClientIDLabel :: string where
  "sourceClientIDLabel = ''source_client_id''"

definition destinationClientIDLabel :: string where
  "destinationClientIDLabel = ''destination_client_id''"

lemmas label_defs =
  requestStatusCodeLabel_def methodLabel_def chainIDLabel_def
  sourceChainIDLabel_def destinationChainIDLabel_def statusLabel_def
  transferStateLabel_def codeLabel_def successLabel_def
  providerLabel_def chainNameLabel_def sourceChainNameLabel_def
  destinationChainNameLabel_def chainEnvironmentLabel_def gasTokenSymbolLabel_def
  relayTypelLabel_def bridgeTypeLabel_def sourceClientIDLabel_def
  destinationClientIDLabel_def

text \<open>The fields of \<^verbatim>\<open>PromMetrics\<close>.\<close>

datatype metric =
    totalRequests
  | totalRelayRequests
  | latencyPerRelayerAPIRequest
  | gasBalance
  | gasBalanceState
  | totalTransactionSubmitted
  | totalTransactionRetryAttempts
  | totalTransactionNonceReplaced
  | totalTransactionsConfirmed
  | totalTransfers
  | transferCount
  | totalTransactionGasCost
  | latencyPerRelay
  | totalExcessiveRelayLatencyObservations
  | totalRelaysCompleted
  | totalExternalRequests
  | latencyPerExternalRequest

datatype metric_kind = Counter | Gauge | Histogram

record family =
  f_Kind :: metric_kind
  f_Namespace :: string
  f_Name :: string
  f_Labels :: "string list"
  f_Buckets :: "int list"

fun NewPromMetrics :: "metric \<Rightarrow> family" where
  "NewPromMetrics totalRequests =
     \<lparr>f_Kind = Counter, f_Namespace = ''relayerapi'', f_Name = ''total_request_counter'',
      f_Labels = [methodLabel, requestStatusCodeLabel],
      f_Buckets = []\<rparr>"
| "NewPromMetrics totalRelayRequests =
     \<lparr>f_Kind = Counter, f_Namespace = ''relayerapi'', f_Name = ''total_relay_requests_per_bridge'',
      f_Labels = [bridgeTypeLabel, requestStatusCodeLabel],
      f_Buckets = []\<rparr>"
| "NewPromMetrics latencyPerRelayerAPIRequest =
     \<lparr>f_Kind = Histogram, f_Namespace = ''relayerapi'', f_Name = ''latency_per_relayer_api_request'',
      f_Labels = [methodLabel],
      f_Buckets = [5, 10, 25, 50, 75, 100, 150, 200, 300, 500, 750, 1000, 1500, 3000, 5000, 10000, 20000]\<rparr>"
| "NewPromMetrics gasBalance =
     \<lparr>f_Kind = Gauge, f_Namespace = ''relayerapi'', f_Name = ''gas_balance_gauge'',
      f_Labels = [chainIDLabel, chainNameLabel, gasTokenSymbolLabel, chainEnvironmentLabel,
        bridgeTypeLabel],
      f_Buckets = []\<rparr>"
| "NewPromMetrics gasBalanceState =
     \<lparr>f_Kind = Gauge, f_Namespace = ''relayerapi'', f_Name = ''gas_balance_state_gauge'',
      f_Labels = [chainIDLabel, chainNameLabel, chainEnvironmentLabel, bridgeTypeLabel],
      f_Buckets = []\<rparr>"
| "NewPromMetrics totalTransactionSubmitted =
     \<lparr>f_Kind = Counter, f_Namespace = ''relayerapi'', f_Name = ''total_transactions_submitted_counter'',
      f_Labels = [successLabel, chainIDLabel, chainNameLabel, chainEnvironmentLabel],
      f_Buckets = []\<rparr>"
| "NewPromMetrics totalTransactionRetryAttempts =
     \<lparr>f_Kind = Counter, f_Namespace = ''relayerapi'', f_Name = ''total_transaction_retry_attempts_counter'',
      f_Labels = [sourceChainIDLabel, destinationChainIDLabel, sourceChainNameLabel,
        destinationChainNameLabel, chainEnvironmentLabel, relayTypelLabel],
      f_Buckets = []\<rparr>"
| "NewPromMetrics totalTransactionNonceReplaced =
     \<lparr>f_Kind = Counter, f_Namespace = ''relayerapi'', f_Name = ''total_transaction_nonce_replaced_counter'',
      f_Labels = [chainIDLabel],
      f_Buckets = []\<rparr>"
| "NewPromMetrics totalTransactionsConfirmed =
     \<lparr>f_Kind = Counter, f_Namespace = ''relayerapi'', f_Name = ''total_transactions_confirmed_counter'',
      f_Labels = [successLabel, chainIDLabel, chainNameLabel, chainEnvironmentLabel],
      f_Buckets = []\<rparr>"
| "NewPromMetrics totalTransfers =
     \<lparr>f_Kind = Counter, f_Namespace = ''relayerapi'', f_Name = ''total_transfers_counter'',
      f_Labels = [sourceChainIDLabel, destinationChainIDLabel, sourceChainNameLabel,
        destinationChainNameLabel, chainEnvironmentLabel, transferStateLabel],
      f_Buckets = []\<rparr>"
| "NewPromMetrics transferCount =
     \<lparr>f_Kind = Gauge, f_Namespace = ''relayerapi'', f_Name = ''ibcv2_transfers_gauge'',
      f_Labels = [sourceChainIDLabel, destinationChainIDLabel, sourceChainNameLabel,
        destinationChainNameLabel, chainEnvironmentLabel, transferStateLabel],
      f_Buckets = []\<rparr>"
| "NewPromMetrics totalTransactionGasCost =
     \<lparr>f_Kind = Counter, f_Namespace = ''relayerapi'', f_Name = ''total_transaction_gas_cost_counter'',
      f_Labels = [chainIDLabel, chainNameLabel, chainEnvironmentLabel],
      f_Buckets = []\<rparr>"
| "NewPromMetrics latencyPerRelay =
     \<lparr>f_Kind = Histogram, f_Namespace = ''relayerapi'', f_Name = ''latency_per_relay'',
      f_Labels = [sourceChainIDLabel, destinationChainIDLabel, sourceChainNameLabel,
        destinationChainNameLabel, chainEnvironmentLabel, relayTypelLabel],
      f_Buckets = [1000, 2000, 3000, 4000, 5000, 10000, 15000, 20000, 25000, 30000, 45000, 60000,
        90000, 120000, 150000, 180000, 210000, 240000, 270000, 300000, 600000, 900000, 1200000,
        1500000, 1800000, 1920000, 2100000, 2250000, 2400000, 2700000, 3000000, 3300000, 3600000]\<rparr>"
| "NewPromMetrics totalExcessiveRelayLatencyObservations =
     \<lparr>f_Kind = Counter, f_Namespace = ''relayerapi'', f_Name = ''total_excessive_relay_latency_observations'',
      f_Labels = [sourceChainNameLabel, destinationChainNameLabel, chainEnvironmentLabel,
        relayTypelLabel],
      f_Buckets = []\<rparr>"
| "NewPromMetrics totalRelaysCompleted =
     \<lparr>f_Kind = Counter, f_Namespace = ''relayerapi'', f_Name = ''total_relays_completed'',
      f_Labels = [sourceChainIDLabel, sourceClientIDLabel, destinationChainIDLabel,
        destinationClientIDLabel, relayTypelLabel],
      f_Buckets = []\<rparr>"
| "NewPromMetrics totalExternalRequests =
     \<lparr>f_Kind = Counter, f_Namespace = ''relayerapi'', f_Name = ''total_external_requests'',
      f_Labels = [sourceChainIDLabel, sourceClientIDLabel, destinationChainIDLabel,
        destinationClientIDLabel, methodLabel, statusLabel, codeLabel, providerLabel, bridgeTypeLabel],
      f_Buckets = []\<rparr>"
| "NewPromMetrics latencyPerExternalRequest =
     \<lparr>f_Kind = Histogram, f_Namespace = ''relayerapi'', f_Name = ''latency_per_external_request'',
      f_Labels = [sourceChainIDLabel, sourceClientIDLabel, destinationChainIDLabel,
        destinationClientIDLabel, methodLabel, providerLabel, bridgeTypeLabel],
      f_Buckets = [50, 100, 200, 300, 500, 750, 1000, 1500, 3000, 5000, 10000, 15000, 20000, 25000,
        30000, 35000, 40000, 45000, 50000, 55000, 60000, 65000, 70000, 75000, 80000, 85000, 90000,
        95000, 100000]\<rparr>"
section \<open>Recording\<close>

text \<open>
  A sample fits its family when it names exactly the declared labels, and a counter is not
  lowered; otherwise the library panics. Every sample that was recorded is kept, in order.
\<close>

datatype metric_op = Add rat | Set rat | Observe rat

record sample =
  s_Metric :: metric
  s_Labels :: "(string \<times> string) list"
  s_Op :: metric_op

type_synonym metric_log = "sample list"

definition fits :: "family \<Rightarrow> (string \<times> string) list \<Rightarrow> metric_op \<Rightarrow> bool" where
  "fits f lvs op \<longleftrightarrow>
     set (map fst lvs) = set (f_Labels f) \<and>
     (case op of
        Add v \<Rightarrow> f_Kind f = Counter \<and> 0 \<le> v
      | Set _ \<Rightarrow> f_Kind f = Gauge
      | Observe _ \<Rightarrow> f_Kind f = Histogram)"

definition record_sample ::
  "metric \<Rightarrow> (string \<times> string) list \<Rightarrow> metric_op \<Rightarrow> metric_log \<Rightarrow> metric_log option" where
  "record_sample m lvs op P =
     (if fits (NewPromMetrics m) lvs op then Some (P @ [\<lparr>s_Metric = m, s_Labels = lvs, s_Op = op\<rparr>]) else None)"

text \<open>The two implementations of the interface; the second one records nothing.\<close>

datatype Metrics = PromMetrics | NoOpMetrics

definition on_prom :: "Metrics \<Rightarrow> (metric_log \<Rightarrow> metric_log option) \<Rightarrow> metric_log \<Rightarrow> metric_log option" where
  "on_prom M f P = (case M of PromMetrics \<Rightarrow> f P | NoOpMetrics \<Rightarrow> Some P)"

section \<open>Contexts\<close>

definition IBCV2BridgeType :: string where
  "IBCV2BridgeType = ''ibcv2''"

definition SuccessStatus :: string where
  "SuccessStatus = ''success''"

definition FailureStatus :: string where
  "FailureStatus = ''failure''"

fun relay_type_text :: "RelayType \<Rightarrow> string" where
  "relay_type_text IBCV2SendToRecvRelayType = ''ibcv2_send_to_recv''"
| "relay_type_text IBCV2SendToTimeoutRelayType = ''ibcv2_send_to_timeout''"
| "relay_type_text IBCV2RecvToAckRelayType = ''ibcv2_recv_to_ack''"

record metrics_context =
  ctx_Metrics :: "Metrics option"
  ctx_SourceChainID :: "string option"
  ctx_DestinationChainID :: "string option"
  ctx_SourceClientID :: "string option"
  ctx_DestinationClientID :: "string option"
  ctx_BridgeType :: "string option"
  ctx_RelayType :: "RelayType option"

definition ContextWithMetrics :: "metrics_context \<Rightarrow> Metrics \<Rightarrow> metrics_context" where
  "ContextWithMetrics ctx m = ctx\<lparr>ctx_Metrics := Some m\<rparr>"

definition ContextWithSourceChainID :: "metrics_context \<Rightarrow> string \<Rightarrow> metrics_context" where
  "ContextWithSourceChainID ctx s = ctx\<lparr>ctx_SourceChainID := Some s\<rparr>"

definition ContextWithSourceClientID :: "metrics_context \<Rightarrow> string \<Rightarrow> metrics_context" where
  "ContextWithSourceClientID ctx s = ctx\<lparr>ctx_SourceClientID := Some s\<rparr>"

definition ContextWithDestChainID :: "metrics_context \<Rightarrow> string \<Rightarrow> metrics_context" where
  "ContextWithDestChainID ctx s = ctx\<lparr>ctx_DestinationChainID := Some s\<rparr>"

definition ContextWithDestClientID :: "metrics_context \<Rightarrow> string \<Rightarrow> metrics_context" where
  "ContextWithDestClientID ctx s = ctx\<lparr>ctx_DestinationClientID := Some s\<rparr>"

definition ContextWithBridgeType :: "metrics_context \<Rightarrow> string \<Rightarrow> metrics_context" where
  "ContextWithBridgeType ctx s = ctx\<lparr>ctx_BridgeType := Some s\<rparr>"

definition ContextWithRelayType :: "metrics_context \<Rightarrow> RelayType \<Rightarrow> metrics_context" where
  "ContextWithRelayType ctx r = ctx\<lparr>ctx_RelayType := Some r\<rparr>"

definition FromContext :: "metrics_context \<Rightarrow> Metrics" where
  "FromContext ctx = (case ctx_Metrics ctx of None \<Rightarrow> NoOpMetrics | Some m \<Rightarrow> m)"

definition SourceChainIDFromContext :: "metrics_context \<Rightarrow> string" where
  "SourceChainIDFromContext ctx = fst (deref [] (ctx_SourceChainID ctx))"

definition SourceClientIDFromContext :: "metrics_context \<Rightarrow> string" where
  "SourceClientIDFromContext ctx = fst (deref [] (ctx_SourceClientID ctx))"

definition DestinationChainIDFromContext :: "metrics_context \<Rightarrow> string" where
  "DestinationChainIDFromContext ctx = fst (deref [] (ctx_DestinationChainID ctx))"

definition DestinationClientIDFromContext :: "metrics_context \<Rightarrow> string" where
  "DestinationClientIDFromContext ctx = fst (deref [] (ctx_DestinationClientID ctx))"

definition RelayTypeFromContext :: "metrics_context \<Rightarrow> string" where
  "RelayTypeFromContext ctx = fst (deref [] (map_option relay_type_text (ctx_RelayType ctx)))"

definition BridgeTypeFromContext :: "metrics_context \<Rightarrow> string" where
  "BridgeTypeFromContext ctx = fst (deref [] (ctx_BridgeType ctx))"

section \<open>The methods\<close>

definition Sprint_uint32 :: "u32 \<Rightarrow> string" where
  "Sprint_uint32 w = dec_nat (unat w)"

definition Sprint_bool :: "bool \<Rightarrow> string" where
  "Sprint_bool b = (if b then ''true'' else ''false'')"

definition Milliseconds :: "duration \<Rightarrow> rat" where
  "Milliseconds d = float64 (of_int (go_div d millisecond))"

text \<open>\<^verbatim>\<open>math.Pow10\<close> multiplies two table entries, each the nearest float of a power of ten.\<close>

definition Pow10 :: "nat \<Rightarrow> rat" where
  "Pow10 n = float64 (float64 (10 ^ (32 * (n div 32))) * float64 (10 ^ (n mod 32)))"

definition token_amount :: "int \<Rightarrow> u8 \<Rightarrow> rat" where
  "token_amount amount decimals = float64 (float64 (of_int amount) / Pow10 (unat decimals))"

definition AddRequest :: "Metrics \<Rightarrow> string \<Rightarrow> u32 \<Rightarrow> metric_log \<Rightarrow> metric_log option" where
  "AddRequest M method statusCode =
     on_prom M (record_sample totalRequests
       [(methodLabel, method), (requestStatusCodeLabel, Sprint_uint32 statusCode)] (Add 1))"

definition AddRelayRequest :: "Metrics \<Rightarrow> string \<Rightarrow> u32 \<Rightarrow> metric_log \<Rightarrow> metric_log option" where
  "AddRelayRequest M bridgeType statusCode =
     on_prom M (record_sample totalRelayRequests
       [(bridgeTypeLabel, bridgeType), (requestStatusCodeLabel, Sprint_uint32 statusCode)] (Add 1))"

definition AddRelayerAPIRequestLatency ::
  "Metrics \<Rightarrow> string \<Rightarrow> duration \<Rightarrow> metric_log \<Rightarrow> metric_log option" where
  "AddRelayerAPIRequestLatency M method d =
     on_prom M (record_sample latencyPerRelayerAPIRequest [(methodLabel, method)] (Observe (Milliseconds d)))"

definition SetGasBalance ::
  "Metrics \<Rightarrow> string \<Rightarrow> string \<Rightarrow> string \<Rightarrow> string \<Rightarrow> int \<Rightarrow> int \<Rightarrow> int \<Rightarrow> u8 \<Rightarrow> string \<Rightarrow>
     metric_log \<Rightarrow> metric_log option" where
  "SetGasBalance M chainID chainName symbol chainEnvironment balance warning critical decimals bridgeType =
     on_prom M (\<lambda>P.
       case record_sample gasBalanceState
              [(chainIDLabel, chainID), (chainNameLabel, chainName), (chainEnvironmentLabel, chainEnvironment),
               (bridgeTypeLabel, bridgeType)]
              (Set (float64 (of_nat (gas_balance_state balance warning critical)))) P of
         None \<Rightarrow> None
       | Some P1 \<Rightarrow>
           record_sample gasBalance
             [(chainIDLabel, chainID), (chainNameLabel, chainName), (gasTokenSymbolLabel, symbol),
              (chainEnvironmentLabel, chainEnvironment), (bridgeTypeLabel, bridgeType)]
             (Set (token_amount balance decimals)) P1)"

definition addExternalRequest ::
  "metrics_context \<Rightarrow> string \<Rightarrow> string \<Rightarrow> string \<Rightarrow> string \<Rightarrow> string \<Rightarrow> metric_log \<Rightarrow> metric_log option" where
  "addExternalRequest ctx method requestStatus code provider bridgeType =
     record_sample totalExternalRequests
       [(methodLabel, method), (statusLabel, requestStatus), (codeLabel, code), (providerLabel, provider),
        (bridgeTypeLabel, bridgeType), (sourceChainIDLabel, SourceChainIDFromContext ctx),
        (destinationChainIDLabel, DestinationChainIDFromContext ctx),
        (sourceClientIDLabel, SourceClientIDFromContext ctx),
        (destinationClientIDLabel, DestinationClientIDFromContext ctx)] (Add 1)"

definition AddSuccessfulExternalRequest ::
  "Metrics \<Rightarrow> metrics_context \<Rightarrow> string \<Rightarrow> string \<Rightarrow> string \<Rightarrow> metric_log \<Rightarrow> metric_log option" where
  "AddSuccessfulExternalRequest M ctx method code provider =
     on_prom M (addExternalRequest ctx method SuccessStatus code provider (BridgeTypeFromContext ctx))"

definition AddFailedExternalRequest ::
  "Metrics \<Rightarrow> metrics_context \<Rightarrow> string \<Rightarrow> string \<Rightarrow> string \<Rightarrow> metric_log \<Rightarrow> metric_log option" where
  "AddFailedExternalRequest M ctx method code provider =
     on_prom M (addExternalRequest ctx method FailureStatus code provider (BridgeTypeFromContext ctx))"

definition ExternalRequestLatency ::
  "Metrics \<Rightarrow> metrics_context \<Rightarrow> string \<Rightarrow> string \<Rightarrow> duration \<Rightarrow> metric_log \<Rightarrow> metric_log option" where
  "ExternalRequestLatency M ctx method provider latency =
     on_prom M (record_sample latencyPerExternalRequest
       [(methodLabel, method), (providerLabel, provider), (bridgeTypeLabel, BridgeTypeFromContext ctx),
        (sourceChainIDLabel, SourceChainIDFromContext ctx),
        (destinationChainIDLabel, DestinationChainIDFromContext ctx),
        (sourceClientIDLabel, SourceClientIDFromContext ctx),
        (destinationClientIDLabel, DestinationClientIDFromContext ctx)] (Observe (Milliseconds latency)))"

definition AddTransactionSubmitted ::
  "Metrics \<Rightarrow> bool \<Rightarrow> string \<Rightarrow> string \<Rightarrow> string \<Rightarrow> metric_log \<Rightarrow> metric_log option" where
  "AddTransactionSubmitted M success chainID chainName chainEnvironment =
     on_prom M (record_sample totalTransactionSubmitted
       [(successLabel, Sprint_bool success), (chainIDLabel, chainID), (chainNameLabel, chainName),
        (chainEnvironmentLabel, chainEnvironment)] (Add 1))"

text \<open>The labels of a pair of chains that five of the families share.\<close>

definition pair_labels ::
  "string \<Rightarrow> string \<Rightarrow> string \<Rightarrow> string \<Rightarrow> string \<Rightarrow> (string \<times> string) list" where
  "pair_labels source dest sourceName destName environment =
     [(sourceChainIDLabel, source), (destinationChainIDLabel, dest), (sourceChainNameLabel, sourceName),
      (destinationChainNameLabel, destName), (chainEnvironmentLabel, environment)]"

definition AddTransactionRetryAttempt ::
  "Metrics \<Rightarrow> string \<Rightarrow> string \<Rightarrow> string \<Rightarrow> string \<Rightarrow> string \<Rightarrow> RelayType \<Rightarrow> metric_log \<Rightarrow> metric_log option" where
  "AddTransactionRetryAttempt M source dest sourceName destName environment relayType =
     on_prom M (record_sample totalTransactionRetryAttempts
       (pair_labels source dest sourceName destName environment @ [(relayTypelLabel, relay_type_text relayType)]) (Add 1))"

definition AddTransactionNonceReplaced :: "Metrics \<Rightarrow> string \<Rightarrow> metric_log \<Rightarrow> metric_log option" where
  "AddTransactionNonceReplaced M chainID =
     on_prom M (record_sample totalTransactionNonceReplaced [(chainIDLabel, chainID)] (Add 1))"

definition AddTransactionConfirmed ::
  "Metrics \<Rightarrow> bool \<Rightarrow> string \<Rightarrow> string \<Rightarrow> string \<Rightarrow> metric_log \<Rightarrow> metric_log option" where
  "AddTransactionConfirmed M success chainID chainName chainEnvironment =
     on_prom M (record_sample totalTransactionsConfirmed
       [(successLabel, Sprint_bool success), (chainIDLabel, chainID), (chainNameLabel, chainName),
        (chainEnvironmentLabel, chainEnvironment)] (Add 1))"

definition AddTransfer ::
  "Metrics \<Rightarrow> string \<Rightarrow> string \<Rightarrow> string \<Rightarrow> string \<Rightarrow> string \<Rightarrow> string \<Rightarrow> metric_log \<Rightarrow> metric_log option" where
  "AddTransfer M source dest sourceName destName environment state =
     on_prom M (record_sample totalTransfers
       (pair_labels source dest sourceName destName environment @ [(transferStateLabel, state)]) (Add 1))"

definition SetTransferCount ::
  "Metrics \<Rightarrow> string \<Rightarrow> string \<Rightarrow> string \<Rightarrow> string \<Rightarrow> string \<Rightarrow> string \<Rightarrow> rat \<Rightarrow> metric_log \<Rightarrow> metric_log option" where
  "SetTransferCount M source dest sourceName destName environment state n =
     on_prom M (record_sample transferCount
       (pair_labels source dest sourceName destName environment @ [(transferStateLabel, state)]) (Set n))"

definition AddTransactionGasCost ::
  "Metrics \<Rightarrow> string \<Rightarrow> string \<Rightarrow> string \<Rightarrow> int \<Rightarrow> u8 \<Rightarrow> metric_log \<Rightarrow> metric_log option" where
  "AddTransactionGasCost M chainID chainName chainEnvironment gasCost decimals =
     on_prom M (record_sample totalTransactionGasCost
       [(chainIDLabel, chainID), (chainNameLabel, chainName), (chainEnvironmentLabel, chainEnvironment)]
       (Add (token_amount gasCost decimals)))"

definition RelayLatency ::
  "Metrics \<Rightarrow> string \<Rightarrow> string \<Rightarrow> string \<Rightarrow> string \<Rightarrow> string \<Rightarrow> RelayType \<Rightarrow> duration \<Rightarrow> metric_log \<Rightarrow> metric_log option" where
  "RelayLatency M source dest sourceName destName environment relayType latency =
     on_prom M (record_sample latencyPerRelay
       (pair_labels source dest sourceName destName environment @ [(relayTypelLabel, relay_type_text relayType)])
       (Observe (Milliseconds latency)))"

definition AddExcessiveRelayLatencyObservation ::
  "Metrics \<Rightarrow> string \<Rightarrow> string \<Rightarrow> string \<Rightarrow> RelayType \<Rightarrow> metric_log \<Rightarrow> metric_log option" where
  "AddExcessiveRelayLatencyObservation M sourceName destName environment relayType =
     on_prom M (record_sample totalExcessiveRelayLatencyObservations
       [(sourceChainNameLabel, sourceName), (destinationChainNameLabel, destName),
        (chainEnvironmentLabel, environment), (relayTypelLabel, relay_type_text relayType)] (Add 1))"

definition AddRelayCompleted ::
  "Metrics \<Rightarrow> string \<Rightarrow> string \<Rightarrow> string \<Rightarrow> string \<Rightarrow> RelayType \<Rightarrow> metric_log \<Rightarrow> metric_log option" where
  "AddRelayCompleted M source sourceClient dest destClient relayType =
     on_prom M (record_sample totalRelaysCompleted
       [(sourceChainIDLabel, source), (sourceClientIDLabel, sourceClient), (destinationChainIDLabel, dest),
        (destinationClientIDLabel, destClient), (relayTypelLabel, relay_type_text relayType)] (Add 1))"

section \<open>Recorders\<close>

text \<open>\<^verbatim>\<open>RecordTransactionSubmitted\<close>, the recorders of a transfer, and those of the cost tracker.\<close>

definition RecordTransactionSubmitted ::
  "configReader \<Rightarrow> metrics_context \<Rightarrow> bool \<Rightarrow> string \<Rightarrow> metric_log \<Rightarrow> metric_log option" where
  "RecordTransactionSubmitted cfg ctx success chainID =
     (case GetChainConfig cfg chainID of
        Inl _ \<Rightarrow> AddTransactionSubmitted (FromContext ctx) success chainID chainID []
      | Inr c \<Rightarrow> AddTransactionSubmitted (FromContext ctx) success chainID (ChainName c) (Environment c))"

definition RecordLatency ::
  "configReader \<Rightarrow> metrics_context \<Rightarrow> string \<Rightarrow> string \<Rightarrow> time \<Rightarrow> time \<Rightarrow> RelayType \<Rightarrow> metric_log \<Rightarrow> metric_log option" where
  "RecordLatency cfg ctx source dest t0 t1 relayType =
     RelayLatency (FromContext ctx) source dest (fst (chain_name_env cfg source)) (fst (chain_name_env cfg dest))
       (fst (snd (chain_name_env cfg source))) relayType (t1 - t0)"

definition RecordTransactionRetried ::
  "configReader \<Rightarrow> metrics_context \<Rightarrow> IBCV2Transfer \<Rightarrow> RelayType \<Rightarrow> metric_log \<Rightarrow> metric_log option" where
  "RecordTransactionRetried cfg ctx e relayType =
     AddTransactionRetryAttempt (FromContext ctx) (GetSourceChainID e) (GetDestinationChainID e)
       (fst (chain_name_env cfg (GetSourceChainID e))) (fst (chain_name_env cfg (GetDestinationChainID e)))
       (fst (snd (chain_name_env cfg (GetSourceChainID e)))) relayType"

definition RecordTransferState ::
  "configReader \<Rightarrow> metrics_context \<Rightarrow> IBCV2Transfer \<Rightarrow> string \<Rightarrow> metric_log \<Rightarrow> metric_log option" where
  "RecordTransferState cfg ctx e state =
     AddTransfer (FromContext ctx) (GetSourceChainID e) (GetDestinationChainID e)
       (fst (chain_name_env cfg (GetSourceChainID e))) (fst (chain_name_env cfg (GetDestinationChainID e)))
       (fst (snd (chain_name_env cfg (GetSourceChainID e)))) state"

definition recordResolvedSubmissionMetrics ::
  "configReader \<Rightarrow> metrics_context \<Rightarrow> string \<Rightarrow> string \<Rightarrow> int option \<Rightarrow> metric_log \<Rightarrow> metric_log option" where
  "recordResolvedSubmissionMetrics cfg ctx chainID executionStatus gasCostAmount P =
     (let M = FromContext ctx; (name, environment, _) = chain_name_env cfg chainID;
          decimals = (case GetChainConfig cfg chainID of Inl _ \<Rightarrow> 0 | Inr c \<Rightarrow> GasTokenDecimals c) in
      case AddTransactionConfirmed M (executionStatus = ''SUCCESS'') chainID name environment P of
        None \<Rightarrow> None
      | Some P1 \<Rightarrow>
          (case gasCostAmount of
             None \<Rightarrow> Some P1
           | Some gasCost \<Rightarrow> AddTransactionGasCost M chainID name environment gasCost decimals P1))"

section \<open>Interceptors\<close>

text \<open>The status codes of the gRPC library are an argument.\<close>

record grpc_status =
  status_Code :: "go_error option \<Rightarrow> u32"
  code_String :: "u32 \<Rightarrow> string"

definition metrics_UnaryServerInterceptor ::
  "grpc_status \<Rightarrow> metrics_context \<Rightarrow> duration \<Rightarrow> string \<Rightarrow>
     (metrics_context \<Rightarrow> 'q \<Rightarrow> metric_log \<Rightarrow> (metric_log \<times> 'a \<times> go_error option) option) \<Rightarrow>
     metrics_context \<Rightarrow> 'q \<Rightarrow> metric_log \<Rightarrow> (metric_log \<times> 'a \<times> go_error option) option" where
  "metrics_UnaryServerInterceptor G outerCtx took fullMethod handler ctx req P =
     (let M = FromContext outerCtx in
      case handler (ContextWithMetrics ctx M) req P of
        None \<Rightarrow> None
      | Some (P1, resp, err) \<Rightarrow>
          (case AddRequest M fullMethod (status_Code G err) P1 of
             None \<Rightarrow> None
           | Some P2 \<Rightarrow>
               (case AddRelayerAPIRequestLatency M fullMethod took P2 of
                  None \<Rightarrow> None
                | Some P3 \<Rightarrow> Some (P3, resp, err))))"

definition UnaryClientInterceptor ::
  "grpc_status \<Rightarrow> metrics_context \<Rightarrow> string \<Rightarrow> string \<Rightarrow> duration \<Rightarrow> go_error option \<Rightarrow>
     metric_log \<Rightarrow> (metric_log \<times> go_error option) option" where
  "UnaryClientInterceptor G ctx method target took err P =
     (let M = FromContext ctx; code = code_String G (status_Code G err) in
      case ExternalRequestLatency M ctx method target took P of
        None \<Rightarrow> None
      | Some P1 \<Rightarrow>
          map_option (\<lambda>P2. (P2, err))
            (case err of
               Some _ \<Rightarrow> AddFailedExternalRequest M ctx method code target P1
             | None \<Rightarrow> AddSuccessfulExternalRequest M ctx method code target P1))"

section \<open>The HTTP transport\<close>

text \<open>
  A body is what a reader gives: bytes, then the end of the stream or an error. Reading it
  through \<^verbatim>\<open>io.TeeReader\<close> leaves a buffer of the bytes in its place. JSON decoding and the table
  of status texts are arguments: \<open>json_request\<close> decodes the two fields that are looked for,
  \<open>json_method\<close> and \<open>json_code\<close> the other two anonymous structs.
\<close>

type_synonym body = "bytes \<times> go_error option"

record Request =
  rq_Path :: string
  rq_Hostname :: string
  rq_Body :: "body option"

record Response =
  rs_StatusCode :: int
  rs_Body :: "body option"

record http_lib =
  json_request :: "bytes \<Rightarrow> (string \<times> string) result"
  json_method :: "bytes \<Rightarrow> string result"
  json_code :: "bytes \<Rightarrow> int option result"
  StatusText :: "int \<Rightarrow> string"

definition body_bytes :: "body \<Rightarrow> body \<times> bytes result" where
  "body_bytes b = ((fst b, None), case snd b of None \<Rightarrow> Inr (fst b) | Some err \<Rightarrow> Inl err)"

definition requestBodyBytes :: "Request \<Rightarrow> body \<Rightarrow> Request \<times> bytes result" where
  "requestBodyBytes req b = (case body_bytes b of (b', r) \<Rightarrow> (req\<lparr>rq_Body := Some b'\<rparr>, r))"

definition responseBodyBytes :: "Response \<Rightarrow> body \<Rightarrow> Response \<times> bytes result" where
  "responseBodyBytes res b = (case body_bytes b of (b', r) \<Rightarrow> (res\<lparr>rs_Body := Some b'\<rparr>, r))"

definition isExternalError :: "go_error \<Rightarrow> bool" where
  "isExternalError err \<longleftrightarrow> \<not> errors_is err ContextCanceled"

definition isJSONRPCRequest :: "http_lib \<Rightarrow> Request \<Rightarrow> Request \<times> bool" where
  "isJSONRPCRequest L req =
     (case rq_Body req of
        None \<Rightarrow> (req, False)
      | Some b \<Rightarrow>
          (case requestBodyBytes req b of
             (req', Inl _) \<Rightarrow> (req', False)
           | (req', Inr bs) \<Rightarrow>
               (req', case json_request L bs of
                        Inl _ \<Rightarrow> False
                      | Inr (jsonrpc, method) \<Rightarrow> jsonrpc = ''2.0'' \<and> method \<noteq> [])))"

definition getJSONRPCMethodFromRequest :: "http_lib \<Rightarrow> Request \<Rightarrow> Request \<times> string" where
  "getJSONRPCMethodFromRequest L req =
     (case rq_Body req of
        None \<Rightarrow> (req, [])
      | Some b \<Rightarrow>
          (case requestBodyBytes req b of
             (req', Inl _) \<Rightarrow> (req', ''error: failed to read request body'')
           | (req', Inr bs) \<Rightarrow>
               (req', case json_method L bs of
                        Inl _ \<Rightarrow> ''error: failed to unmarshal request body''
                      | Inr method \<Rightarrow> method)))"

definition getJSONRPCCodeFromResponse :: "http_lib \<Rightarrow> Response \<Rightarrow> Response \<times> string" where
  "getJSONRPCCodeFromResponse L res =
     (case rs_Body res of
        None \<Rightarrow> (res, [])
      | Some b \<Rightarrow>
          (case responseBodyBytes res b of
             (res', Inl _) \<Rightarrow> (res', ''error: failed to read response body'')
           | (res', Inr bs) \<Rightarrow>
               (res', case json_code L bs of
                        Inl _ \<Rightarrow> ''error: failed to unmarshal response body''
                      | Inr None \<Rightarrow> StatusText L (rs_StatusCode res')
                      | Inr (Some code) \<Rightarrow> Itoa code)))"

text \<open>What both round trips record; the latency is the deferred call.\<close>

definition record_round_trip ::
  "metrics_context \<Rightarrow> string \<Rightarrow> string \<Rightarrow> duration \<Rightarrow> string \<Rightarrow> 'a result \<Rightarrow> metric_log \<Rightarrow>
     (metric_log \<times> 'a result) option" where
  "record_round_trip ctx method provider took code r P =
     (let M = FromContext ctx in
      case (case r of
              Inl err \<Rightarrow>
                if isExternalError err then AddFailedExternalRequest M ctx method ''-1'' provider P
                else AddSuccessfulExternalRequest M ctx method ''-1'' provider P
            | Inr _ \<Rightarrow> AddSuccessfulExternalRequest M ctx method code provider P) of
        None \<Rightarrow> None
      | Some P1 \<Rightarrow> map_option (\<lambda>P2. (P2, r)) (ExternalRequestLatency M ctx method provider took P1))"

definition JSONRPCRoundTrip ::
  "http_lib \<Rightarrow> metrics_context \<Rightarrow> (Request \<Rightarrow> Response option result) \<Rightarrow> duration \<Rightarrow> Request \<Rightarrow> metric_log \<Rightarrow>
     (metric_log \<times> Response option result) option" where
  "JSONRPCRoundTrip L ctx inner took req P =
     (case getJSONRPCMethodFromRequest L req of
        (req', method) \<Rightarrow>
          (case (case inner req' of
                   Inr (Some res) \<Rightarrow> (case getJSONRPCCodeFromResponse L res of (res', code) \<Rightarrow> (code, Inr (Some res')))
                 | r \<Rightarrow> ([], r)) of
             (code, r) \<Rightarrow> record_round_trip ctx method (rq_Hostname req') took code r P))"

definition HTTPRoundTrip ::
  "(Request \<Rightarrow> string) \<Rightarrow> metrics_context \<Rightarrow> (Request \<Rightarrow> Response option result) \<Rightarrow> duration \<Rightarrow> Request \<Rightarrow>
     metric_log \<Rightarrow> (metric_log \<times> Response option result) option" where
  "HTTPRoundTrip HTTPMethodExtractor ctx inner took req P =
     record_round_trip ctx (HTTPMethodExtractor req) (rq_Hostname req) took
       (case inner req of Inr (Some res) \<Rightarrow> Itoa (rs_StatusCode res) | _ \<Rightarrow> []) (inner req) P"

definition RoundTrip ::
  "http_lib \<Rightarrow> (Request \<Rightarrow> string) \<Rightarrow> metrics_context \<Rightarrow> (Request \<Rightarrow> Response option result) \<Rightarrow> duration \<Rightarrow>
     Request \<Rightarrow> metric_log \<Rightarrow> (metric_log \<times> Response option result) option" where
  "RoundTrip L HTTPMethodExtractor ctx inner took req P =
     (case isJSONRPCRequest L req of
        (req', True) \<Rightarrow> JSONRPCRoundTrip L ctx inner took req' P
      | (req', False) \<Rightarrow> HTTPRoundTrip HTTPMethodExtractor ctx inner took req' P)"

definition DefaultHTTPMethodExtractor :: "Request \<Rightarrow> string" where
  "DefaultHTTPMethodExtractor req = rq_Path req"

text \<open>\<open>None\<close> where \<^verbatim>\<open>strings.LastIndex\<close> is -1.\<close>

fun LastIndex_slash :: "string \<Rightarrow> nat option" where
  "LastIndex_slash [] = None"
| "LastIndex_slash (c # cs) =
     (case LastIndex_slash cs of
        Some i \<Rightarrow> Some (Suc i)
      | None \<Rightarrow> if c = CHR ''/'' then Some 0 else None)"

definition AllButLastPathHTTPMethodExtractor :: "Request \<Rightarrow> string" where
  "AllButLastPathHTTPMethodExtractor req =
     (case LastIndex_slash (rq_Path req) of None \<Rightarrow> rq_Path req | Some i \<Rightarrow> take i (rq_Path req))"

section \<open>No sample stops the process\<close>

lemma float64_nonneg: "0 \<le> q \<Longrightarrow> 0 \<le> float64 q"
  by (simp add: float64_def float_round_nonneg)

lemma token_amount_nonneg: "0 \<le> amount \<Longrightarrow> 0 \<le> token_amount amount decimals"
  by (simp add: token_amount_def Pow10_def float64_nonneg)

text \<open>A call that always goes through, and records nothing without Prometheus.\<close>

definition records :: "Metrics \<Rightarrow> (metric_log \<Rightarrow> metric_log option) \<Rightarrow> bool" where
  "records M f \<longleftrightarrow> (\<forall>P. \<exists>new. f P = Some (P @ new) \<and> (new = [] \<longleftrightarrow> M = NoOpMetrics))"

lemma records_one:
  assumes "fits (NewPromMetrics m) lvs op"
  shows "records M (on_prom M (record_sample m lvs op))"
  using assms by (cases M) (simp_all add: records_def on_prom_def record_sample_def)

lemma fits_labels:
  assumes "set (map fst lvs) = set (f_Labels f)"
  shows "f_Kind f = Counter \<Longrightarrow> 0 \<le> v \<Longrightarrow> fits f lvs (Add v)"
    and "f_Kind f = Gauge \<Longrightarrow> fits f lvs (Set v)"
    and "f_Kind f = Histogram \<Longrightarrow> fits f lvs (Observe v)"
  using assms by (simp_all add: fits_def)

lemma records_requests:
  "records M (AddRequest M a c)" "records M (AddRelayRequest M a c)" "records M (AddRelayerAPIRequestLatency M a d)"
  "records M (AddSuccessfulExternalRequest M ctx a b e)" "records M (AddFailedExternalRequest M ctx a b e)"
  "records M (ExternalRequestLatency M ctx a b d)"
  unfolding AddRequest_def AddRelayRequest_def AddRelayerAPIRequestLatency_def AddSuccessfulExternalRequest_def
    AddFailedExternalRequest_def ExternalRequestLatency_def addExternalRequest_def
  by (auto intro!: records_one simp: fits_def)

lemma records_transactions:
  "records M (AddTransactionSubmitted M s a b c)" "records M (AddTransactionConfirmed M s a b c)"
  "records M (AddTransactionRetryAttempt M a b c d e r)" "records M (AddTransactionNonceReplaced M a)"
  "0 \<le> cost \<Longrightarrow> records M (AddTransactionGasCost M a b c cost dec)"
  unfolding AddTransactionSubmitted_def AddTransactionConfirmed_def AddTransactionRetryAttempt_def
    AddTransactionNonceReplaced_def AddTransactionGasCost_def pair_labels_def
  by (auto intro!: records_one simp: fits_def token_amount_nonneg)

lemma records_transfers:
  "records M (AddTransfer M a b c d e s)" "records M (SetTransferCount M a b c d e s n)"
  "records M (RelayLatency M a b c d e r l)" "records M (AddExcessiveRelayLatencyObservation M a b c r)"
  "records M (AddRelayCompleted M a b c d r)"
  unfolding AddTransfer_def SetTransferCount_def RelayLatency_def AddExcessiveRelayLatencyObservation_def
    AddRelayCompleted_def pair_labels_def
  by (auto intro!: records_one simp: fits_def)

lemma records_gas_balance: "records M (SetGasBalance M a b c d x y z dec e)"
proof -
  have "set (map fst [(chainIDLabel, a), (chainNameLabel, b), (chainEnvironmentLabel, d), (bridgeTypeLabel, e)]) =
      set (f_Labels (NewPromMetrics gasBalanceState))"
    and "set (map fst [(chainIDLabel, a), (chainNameLabel, b), (gasTokenSymbolLabel, c), (chainEnvironmentLabel, d),
        (bridgeTypeLabel, e)]) = set (f_Labels (NewPromMetrics gasBalance))"
    by simp_all
  from this [THEN fits_labels(2)] show ?thesis
    by (cases M) (simp_all add: records_def SetGasBalance_def on_prom_def record_sample_def)
qed

text \<open>
  \<^verbatim>\<open>MustRegister\<close> refuses two families of one name, a family that repeats a label, and buckets
  that do not increase.
\<close>

lemma names_distinct: "f_Name (NewPromMetrics m) = f_Name (NewPromMetrics m') \<longleftrightarrow> m = m'"
  by (cases m; cases m'; simp)

lemma family_wf:
  "distinct (f_Labels (NewPromMetrics m))" "sorted_wrt (<) (f_Buckets (NewPromMetrics m))"
  by (cases m; simp add: label_defs)+


section \<open>The transport is transparent\<close>

lemma record_round_trip_prom:
  assumes "FromContext ctx = PromMetrics"
  shows "\<exists>s1 s2. record_round_trip ctx method provider took code r P = Some (P @ [s1, s2], r) \<and>
    s_Metric s1 = totalExternalRequests \<and> s_Metric s2 = latencyPerExternalRequest \<and>
    (statusLabel, if (\<exists>err. r = Inl err \<and> isExternalError err) then FailureStatus else SuccessStatus) \<in> set (s_Labels s1) \<and>
    {(methodLabel, method), (providerLabel, provider)} \<subseteq> set (s_Labels s1) \<inter> set (s_Labels s2)"
proof -
  have l: "set (map fst [(methodLabel, method), (statusLabel, st), (codeLabel, cd), (providerLabel, provider),
        (bridgeTypeLabel, BridgeTypeFromContext ctx), (sourceChainIDLabel, SourceChainIDFromContext ctx),
        (destinationChainIDLabel, DestinationChainIDFromContext ctx), (sourceClientIDLabel, SourceClientIDFromContext ctx),
        (destinationClientIDLabel, DestinationClientIDFromContext ctx)]) =
      set (f_Labels (NewPromMetrics totalExternalRequests))" for st cd
    by simp blast
  have l': "set (map fst [(methodLabel, method), (providerLabel, provider), (bridgeTypeLabel, BridgeTypeFromContext ctx),
        (sourceChainIDLabel, SourceChainIDFromContext ctx), (destinationChainIDLabel, DestinationChainIDFromContext ctx),
        (sourceClientIDLabel, SourceClientIDFromContext ctx), (destinationClientIDLabel, DestinationClientIDFromContext ctx)]) =
      set (f_Labels (NewPromMetrics latencyPerExternalRequest))"
    by simp blast
  note f = fits_labels(1) [OF l, of "1 :: rat", simplified] fits_labels(3) [OF l', simplified]
  show ?thesis
    by (cases r) (simp_all add: record_round_trip_def assms AddFailedExternalRequest_def AddSuccessfulExternalRequest_def
        addExternalRequest_def ExternalRequestLatency_def on_prom_def record_sample_def f)
qed


lemma record_round_trip_noop:
  "FromContext ctx = NoOpMetrics \<Longrightarrow> record_round_trip ctx method provider took code r P = Some (P, r)"
  by (cases r) (simp_all add: record_round_trip_def AddFailedExternalRequest_def AddSuccessfulExternalRequest_def
      ExternalRequestLatency_def on_prom_def)

lemma record_round_trip_result:
  "\<exists>P'. record_round_trip ctx method provider took code r P = Some (P', r)"
  using record_round_trip_prom [of ctx "method" "provider" took "code" r P] record_round_trip_noop [of ctx]
  by (cases "FromContext ctx") blast+

text \<open>Looking at a body that can be read to its end does not change it.\<close>

definition readable :: "body option \<Rightarrow> bool" where
  "readable b \<longleftrightarrow> (\<forall>bs err. b \<noteq> Some (bs, Some err))"

lemma readable_cases: "readable b \<longleftrightarrow> b = None \<or> (\<exists>bs. b = Some (bs, None))"
  by (cases b) (auto simp: readable_def)

lemma isJSONRPCRequest_keeps: "readable (rq_Body req) \<Longrightarrow> fst (isJSONRPCRequest L req) = req"
  by (cases req) (auto simp: readable_cases isJSONRPCRequest_def requestBodyBytes_def body_bytes_def)

lemma getJSONRPCMethod_keeps: "readable (rq_Body req) \<Longrightarrow> fst (getJSONRPCMethodFromRequest L req) = req"
  by (cases req) (auto simp: readable_cases getJSONRPCMethodFromRequest_def requestBodyBytes_def body_bytes_def)

lemma getJSONRPCCode_keeps: "readable (rs_Body res) \<Longrightarrow> fst (getJSONRPCCodeFromResponse L res) = res"
  by (cases res) (auto simp: readable_cases getJSONRPCCodeFromResponse_def responseBodyBytes_def body_bytes_def
      split: sum.splits option.splits)

text \<open>A round trip that can be read is the inner one, recorded under some method and code.\<close>

lemma RoundTrip_recorded:
  assumes "readable (rq_Body req)" and "\<And>res. inner req = Inr (Some res) \<Longrightarrow> readable (rs_Body res)"
  shows "\<exists>method code. RoundTrip L ext ctx inner took req P =
    record_round_trip ctx method (rq_Hostname req) took code (inner req) P"
proof -
  obtain j where j: "isJSONRPCRequest L req = (req, j)"
    using isJSONRPCRequest_keeps [OF assms(1), of L] by (metis prod.collapse)
  obtain m where m: "getJSONRPCMethodFromRequest L req = (req, m)"
    using getJSONRPCMethod_keeps [OF assms(1), of L] by (metis prod.collapse)
  show ?thesis
  proof (cases "j \<and> (\<exists>res. inner req = Inr (Some res))")
    case True
    then obtain res where res: "inner req = Inr (Some res)" by blast
    then obtain code where "getJSONRPCCodeFromResponse L res = (res, code)"
      using getJSONRPCCode_keeps [OF assms(2), of res L] by (metis prod.collapse)
    with True j m res show ?thesis by (auto simp: RoundTrip_def JSONRPCRoundTrip_def)
  next
    case False
    with j m show ?thesis
      by (cases "inner req"; cases j)
        (auto simp: RoundTrip_def JSONRPCRoundTrip_def HTTPRoundTrip_def split: option.splits)
  qed
qed

text \<open>
  The transport that counts outgoing requests is invisible: if the bodies can be read, the
  inner transport gets the request as it came and the caller gets exactly its answer. With
  Prometheus in the context it adds one request sample and one latency sample with the same
  method and the host as the provider, and the request counts as failed exactly if the inner
  transport returned an error other than a cancelled context; without, it adds nothing.
\<close>

theorem round_trip_transparent:
  assumes "readable (rq_Body req)" and "\<And>res. inner req = Inr (Some res) \<Longrightarrow> readable (rs_Body res)"
  shows "\<exists>new. RoundTrip L ext ctx inner took req P = Some (P @ new, inner req) \<and>
    (case FromContext ctx of
       NoOpMetrics \<Rightarrow> new = []
     | PromMetrics \<Rightarrow>
         map s_Metric new = [totalExternalRequests, latencyPerExternalRequest] \<and>
         (\<exists>method. \<forall>s \<in> set new. {(methodLabel, method), (providerLabel, rq_Hostname req)} \<subseteq> set (s_Labels s)) \<and>
         (statusLabel, if (\<exists>err. inner req = Inl err \<and> isExternalError err) then FailureStatus else SuccessStatus)
           \<in> set (s_Labels (hd new)))"
proof -
  obtain mth c where r: "RoundTrip L ext ctx inner took req P =
      record_round_trip ctx mth (rq_Hostname req) took c (inner req) P"
    using RoundTrip_recorded [OF assms] by blast
  show ?thesis
  proof (cases "FromContext ctx")
    case PromMetrics
    from record_round_trip_prom [OF this, of mth "rq_Hostname req" took c "inner req" P]
    obtain s1 s2 where s: "RoundTrip L ext ctx inner took req P = Some (P @ [s1, s2], inner req)"
      "s_Metric s1 = totalExternalRequests" "s_Metric s2 = latencyPerExternalRequest"
      "(statusLabel, if (\<exists>err. inner req = Inl err \<and> isExternalError err) then FailureStatus else SuccessStatus)
        \<in> set (s_Labels s1)"
      "{(methodLabel, mth), (providerLabel, rq_Hostname req)} \<subseteq> set (s_Labels s1) \<inter> set (s_Labels s2)"
      unfolding r by blast
    then show ?thesis using PromMetrics by (intro exI [of _ "[s1, s2]"]) auto
  next
    case NoOpMetrics
    then show ?thesis using r record_round_trip_noop [OF NoOpMetrics] by (auto simp: NoOpMetrics)
  qed
qed

text \<open>A body that fails while it is read is sent as far as it was read, and the error is gone.\<close>

theorem round_trip_sends_truncated_body:
  assumes "rq_Body req = Some (bs, Some err)"
  shows "\<exists>P'. RoundTrip L ext ctx inner took req P = Some (P', inner (req\<lparr>rq_Body := Some (bs, None)\<rparr>))"
  using record_round_trip_result assms
  by (auto simp: RoundTrip_def isJSONRPCRequest_def requestBodyBytes_def body_bytes_def HTTPRoundTrip_def)

text \<open>The path without its last element.\<close>

lemma LastIndex_slash_none: "CHR ''/'' \<notin> set b \<Longrightarrow> LastIndex_slash b = None"
  by (induction b) auto

lemma LastIndex_slash_split: "CHR ''/'' \<notin> set b \<Longrightarrow> LastIndex_slash (a @ CHR ''/'' # b) = Some (length a)"
  by (induction a) (simp_all add: LastIndex_slash_none)

lemma path_method: "CHR ''/'' \<notin> set b \<Longrightarrow> rq_Path req = a @ CHR ''/'' # b \<Longrightarrow> AllButLastPathHTTPMethodExtractor req = a"
  by (simp add: AllButLastPathHTTPMethodExtractor_def LastIndex_slash_split)

section \<open>Examples\<close>

definition ex_metrics_ctx :: metrics_context where
  "ex_metrics_ctx =
     \<lparr>ctx_Metrics = Some PromMetrics, ctx_SourceChainID = Some ''1'', ctx_DestinationChainID = None,
      ctx_SourceClientID = None, ctx_DestinationClientID = None, ctx_BridgeType = Some IBCV2BridgeType, ctx_RelayType = None\<rparr>"

definition ex_http_lib :: http_lib where
  "ex_http_lib =
     \<lparr>json_request = (\<lambda>_. Inr (''2.0'', ''eth_call'')), json_method = (\<lambda>_. Inr ''eth_call''),
      json_code = (\<lambda>_. Inr None), StatusText = (\<lambda>_. ''OK'')\<rparr>"

definition ex_call :: Request where
  "ex_call = \<lparr>rq_Path = ''/rpc'', rq_Hostname = ''node'', rq_Body = Some ([1, 2, 3], None)\<rparr>"

definition ex_answer :: Response where
  "ex_answer = \<lparr>rs_StatusCode = 200, rs_Body = Some ([4, 5], None)\<rparr>"


theorem round_trip_transparent_witness:
  "\<exists>s1 s2. RoundTrip ex_http_lib DefaultHTTPMethodExtractor ex_metrics_ctx (\<lambda>_. Inr (Some ex_answer)) second ex_call [] =
     Some ([s1, s2], Inr (Some ex_answer)) \<and> (statusLabel, SuccessStatus) \<in> set (s_Labels s1)"
proof -
  have a: "readable (rq_Body ex_call)" "readable (rs_Body ex_answer)" by (simp_all add: readable_def ex_call_def ex_answer_def)
  from round_trip_transparent [of ex_call "\<lambda>_. Inr (Some ex_answer)" ex_http_lib DefaultHTTPMethodExtractor ex_metrics_ctx second "[]"]
  obtain new where n: "RoundTrip ex_http_lib DefaultHTTPMethodExtractor ex_metrics_ctx (\<lambda>_. Inr (Some ex_answer)) second ex_call [] =
      Some (new, Inr (Some ex_answer))" "map s_Metric new = [totalExternalRequests, latencyPerExternalRequest]"
    "(statusLabel, SuccessStatus) \<in> set (s_Labels (hd new))"
    using a by (auto simp: ex_metrics_ctx_def FromContext_def)
  then show ?thesis by auto
qed

end
