(* ===== verification/Prices.thy ===== *)
theory Prices
  imports Metrics
begin

text \<open>
  The price of gas in US dollars: \<^verbatim>\<open>shared/clients/utils/rate_limited_http_client.go\<close>, which sends the
  requests, \<^verbatim>\<open>shared/clients/coingecko/client.go\<close>, which builds and reads them, and the conversion
  of an amount in \<^verbatim>\<open>price_client.go\<close>. The cache is in \<open>Monitors\<close>. What a conversion returns is close to
  the exact product, with one rounding for each operation and one for the text.
\<close>

section \<open>Rounding errors\<close>

lemma round_even_error: "\<bar>of_int (round_even x) - x\<bar> \<le> 1 / 2"
proof -
  have "of_int \<lfloor>x\<rfloor> \<le> x" "x < of_int \<lfloor>x\<rfloor> + 1" by linarith+
  then show ?thesis by (auto simp: round_even_def Let_def)
qed

lemma float_round_error:
  assumes "0 \<le> q"
  shows "\<bar>float_round p q - q\<bar> \<le> q / 2 ^ p"
proof (cases "q = 0")
  case True
  then show ?thesis by (simp add: float_round_def)
next
  case False
  then have q: "0 < q" using assms by simp
  define s where "s = int p - 1 - ilog2 q"
  have inv: "2 powi s * (2 :: rat) powi (- s) = 1" by (simp add: power_int_minus)
  have "float_round p q - q = (of_int (round_even (q * 2 powi s)) - q * 2 powi s) * 2 powi (- s)"
    using q inv by (simp add: float_round_def Let_def s_def left_diff_distrib mult.assoc)
  then have "\<bar>float_round p q - q\<bar> = \<bar>of_int (round_even (q * 2 powi s)) - q * 2 powi s\<bar> * 2 powi (- s)"
    by (simp add: abs_mult)
  also have "\<dots> \<le> 1 / 2 * 2 powi (- s)" by (intro mult_right_mono round_even_error) simp
  also have "\<dots> = 2 powi ilog2 q / 2 ^ p"
    by (simp add: s_def power_int_diff power_int_add)
  also have "\<dots> \<le> q / 2 ^ p" using ilog2_bounds(1) [OF q] by (intro divide_right_mono) simp_all
  finally show ?thesis .
qed

text \<open>
  \<open>near k x y\<close>: the value \<open>x\<close> is \<open>y\<close> up to \<open>k\<close> relative errors of a \<^verbatim>\<open>float64\<close> operation. The
  relation composes along products and quotients, which is how an error is added up.
\<close>

definition one_rounding :: rat where
  "one_rounding = 1 - 1 / 2 ^ 53"

definition near :: "nat \<Rightarrow> rat \<Rightarrow> rat \<Rightarrow> bool" where
  "near k x y \<longleftrightarrow> 0 \<le> x \<and> 0 \<le> y \<and> one_rounding ^ k * y \<le> x \<and> one_rounding ^ k * x \<le> y"

lemma one_rounding_bounds: "0 < one_rounding" "one_rounding \<le> 1"
  by (simp_all add: one_rounding_def)

lemma one_rounding_power: "0 < one_rounding ^ k"
  using one_rounding_bounds by simp

lemma near_refl: "0 \<le> x \<Longrightarrow> near 0 x x"
  by (simp add: near_def)

lemma near_float64:
  assumes "0 \<le> q"
  shows "near 1 (float64 q) q"
proof -
  have e: "\<bar>float64 q - q\<bar> \<le> q / 2 ^ 53" unfolding float64_def using assms by (rule float_round_error)
  then have "q - q / 2 ^ 53 \<le> float64 q" "float64 q \<le> q + q / 2 ^ 53" by linarith+
  moreover from this(2) have "one_rounding * float64 q \<le> one_rounding * (q + q / 2 ^ 53)"
    using one_rounding_bounds by (intro mult_left_mono) simp_all
  moreover have "one_rounding * (q + q / 2 ^ 53) \<le> q"
    using assms by (simp add: one_rounding_def field_simps)
  ultimately show ?thesis
    using assms float_round_nonneg [OF assms, of 53]
    by (simp add: near_def float64_def one_rounding_def left_diff_distrib)
qed

lemma near_mult:
  assumes "near j x y" "near k a b"
  shows "near (j + k) (x * a) (y * b)"
proof -
  have "(one_rounding ^ j * y) * (one_rounding ^ k * b) \<le> x * a"
    "(one_rounding ^ j * x) * (one_rounding ^ k * a) \<le> y * b"
    using assms one_rounding_power less_imp_le [OF one_rounding_power]
    by (auto simp: near_def intro!: mult_mono mult_nonneg_nonneg)
  then show ?thesis using assms by (simp add: near_def power_add algebra_simps)
qed

lemma near_trans:
  assumes "near j x y" "near k y z"
  shows "near (j + k) x z"
proof -
  have "one_rounding ^ j * (one_rounding ^ k * z) \<le> one_rounding ^ j * y"
    "one_rounding ^ k * (one_rounding ^ j * x) \<le> one_rounding ^ k * y"
    using assms one_rounding_power by (auto simp: near_def intro!: mult_left_mono less_imp_le)
  then show ?thesis using assms by (auto simp: near_def power_add algebra_simps intro: order_trans)
qed

lemma near_inverse:
  assumes "near k x y" "0 < x" "0 < y"
  shows "near k (1 / x) (1 / y)"
  using assms by (simp add: near_def field_simps)

lemma near_divide:
  assumes "near j x y" "near k a b" "0 < a" "0 < b"
  shows "near (j + k) (x / a) (y / b)"
  using near_mult [OF assms(1) near_inverse [OF assms(2-4)]] by simp

lemma near_error:
  assumes "near 6 x y"
  shows "\<bar>x - y\<bar> \<le> y / 2 ^ 50"
proof -
  have c: "1 - 1 / 2 ^ 50 \<le> one_rounding ^ 6" "1 \<le> one_rounding ^ 6 * (1 + 1 / 2 ^ 50)"
    by (simp_all add: one_rounding_def power_divide)
  have y: "0 \<le> y" "0 \<le> x" "one_rounding ^ 6 * y \<le> x" "one_rounding ^ 6 * x \<le> y" using assms by (simp_all add: near_def)
  have "(1 - 1 / 2 ^ 50) * y \<le> x" using mult_right_mono [OF c(1) y(1)] y(3) by linarith
  moreover have "one_rounding ^ 6 * x \<le> one_rounding ^ 6 * ((1 + 1 / 2 ^ 50) * y)"
    using mult_right_mono [OF c(2) y(1)] y(4) by (simp add: mult.assoc)
  then have "x \<le> (1 + 1 / 2 ^ 50) * y" using one_rounding_power [of 6] by (simp only: mult_le_cancel_left_pos)
  ultimately have "x - y \<le> y / 2 ^ 50" "y - x \<le> y / 2 ^ 50" by (simp_all add: distrib_right left_diff_distrib)
  then show ?thesis by (simp only: abs_le_iff minus_diff_eq)
qed

section \<open>Requests\<close>

text \<open>
  A response with its \<^verbatim>\<open>retry-after\<close> header, empty where it is missing. The client asks at most
  twice; \<open>answer n\<close> is what the \<open>n\<close>th request gets. Whether the context ends during the pause or the
  pause is over, the second request is sent, and its context is the library's business.
\<close>

record RateResponse = Response +
  rs_RetryAfter :: string

datatype http_event = Sent | Paused duration

definition StatusOK :: int where
  "StatusOK = 200"

definition StatusTooManyRequests :: int where
  "StatusTooManyRequests = 429"

definition RateLimitedHTTPClient_Do ::
  "go_error option \<Rightarrow> (nat \<Rightarrow> RateResponse result) \<Rightarrow> http_event list \<times> RateResponse result" where
  "RateLimitedHTTPClient_Do wait answer =
     (case wait of
        Some err \<Rightarrow> ([], Inl err)
      | None \<Rightarrow>
          (case answer 0 of
             Inl err \<Rightarrow> ([Sent], Inl err)
           | Inr res \<Rightarrow>
               if rs_StatusCode res = StatusTooManyRequests then
                 (case Atoi (rs_RetryAfter res) of
                    Inl _ \<Rightarrow> ([Sent], Inr res)
                  | Inr retryAfter \<Rightarrow>
                      ([Sent, Paused (sint (word_of_int (retryAfter * second) :: u64)), Sent], answer 1))
               else ([Sent], Inr res)))"

text \<open>
  A request for a price: the address and the parameters of its query. Parsing an address, reading
  the parameters it has, and decoding JSON are the library's; \<open>json_prices\<close> gives the numbers of each
  object, \<open>json_history\<close> the map of the current prices.
\<close>

record price_request =
  pr_URL :: string
  pr_Query :: "(string \<times> string) list"

record price_lib =
  NewRequest :: "string \<Rightarrow> go_error option"
  url_Query :: "string \<Rightarrow> (string \<times> string) list"
  json_prices :: "bytes \<Rightarrow> (string \<rightharpoonup> (string \<times> rat) list) result"
  json_history :: "bytes \<Rightarrow> (string \<rightharpoonup> rat) result"

record CoingeckoClient =
  baseURL :: string
  apiKey :: string

definition DefaultCoingeckoClient :: "CoingeckoConfig \<Rightarrow> (duration \<times> int) \<times> CoingeckoClient" where
  "DefaultCoingeckoClient cfg =
     (DefaultRateLimitedHTTPClient (RequestsPerMinute cfg), \<lparr>baseURL = BaseURL cfg, apiKey = APIKey cfg\<rparr>)"

definition with_key :: "CoingeckoClient \<Rightarrow> (string \<times> string) list" where
  "with_key c = (if apiKey c \<noteq> [] then [(''x_cg_pro_api_key'', apiKey c)] else [])"

definition ReadAll :: "body option \<Rightarrow> bytes result" where
  "ReadAll b =
     (case b of
        None \<Rightarrow> Inr []
      | Some (bs, None) \<Rightarrow> Inr bs
      | Some (_, Some err) \<Rightarrow> Inl err)"

definition price_body ::
  "price_lib \<Rightarrow> (price_request \<Rightarrow> RateResponse result) \<Rightarrow> string \<Rightarrow> (string \<times> string) list \<Rightarrow> bytes result" where
  "price_body L service url ps =
     (case NewRequest L url of
        Some err \<Rightarrow> Inl err
      | None \<Rightarrow>
          (case service \<lparr>pr_URL = url, pr_Query = url_Query L url @ ps\<rparr> of
             Inl err \<Rightarrow> Inl err
           | Inr res \<Rightarrow>
               if rs_StatusCode res \<noteq> StatusOK then Inl (NewError ''error requesting resource from server'')
               else ReadAll (rs_Body res)))"

text \<open>
  The answer is decoded into a struct with the one field \<^verbatim>\<open>usd\<close>, whose name is compared without regard
  to case; the last such number counts, and without one the field is zero.
\<close>

definition usd_field :: "(string \<times> rat) list \<Rightarrow> rat" where
  "usd_field fs = fold (\<lambda>(k, v) acc. if ToLower k = ''usd'' then v else acc) fs 0"

definition Coingecko_GetSimplePrice ::
  "price_lib \<Rightarrow> (price_request \<Rightarrow> RateResponse result) \<Rightarrow> CoingeckoClient \<Rightarrow> string \<Rightarrow> string \<Rightarrow> rat result" where
  "Coingecko_GetSimplePrice L service c coingeckoID currency =
     (case price_body L service (baseURL c @ ''/simple/price'')
             ([(''ids'', coingeckoID), (''vs_currencies'', currency)] @ with_key c) of
        Inl err \<Rightarrow> Inl err
      | Inr jsonBytes \<Rightarrow>
          (case json_prices L jsonBytes of
             Inl err \<Rightarrow> Inl err
           | Inr prices \<Rightarrow>
               (case prices coingeckoID of
                  None \<Rightarrow> Inl (NewError ''failed to return price for coingeckoId'')
                | Some p \<Rightarrow> Inr (usd_field p))))"

text \<open>\<open>date\<close> is the formatted day.\<close>

definition GetHistoricalPrice ::
  "price_lib \<Rightarrow> (price_request \<Rightarrow> RateResponse result) \<Rightarrow> CoingeckoClient \<Rightarrow> string \<Rightarrow> string \<Rightarrow> string \<Rightarrow> rat result" where
  "GetHistoricalPrice L service c coingeckoID currency date =
     (case price_body L service (baseURL c @ ''/coins/'' @ coingeckoID @ ''/history'')
             ([(''date'', date)] @ with_key c) of
        Inl err \<Rightarrow> Inl err
      | Inr jsonBytes \<Rightarrow>
          (case json_history L jsonBytes of
             Inl err \<Rightarrow> Inl err
           | Inr CurrentPrice \<Rightarrow>
               (case CurrentPrice currency of
                  None \<Rightarrow> Inl (NewError ''failed to return price for coingeckoId'')
                | Some p \<Rightarrow> Inr p)))"

section \<open>The value of an amount\<close>

text \<open>
  \<^verbatim>\<open>%f\<close>: six digits behind the point, the exact value rounded to the nearest with ties to even. The
  conversion of the SDK's decimals and the reading of a numeric by the database driver are arguments.
\<close>

fun low_digits :: "nat \<Rightarrow> nat \<Rightarrow> string" where
  "low_digits 0 n = []"
| "low_digits (Suc k) n = low_digits k (n div 10) @ [digit_char (n mod 10)]"

definition fixed_text :: "nat \<Rightarrow> string" where
  "fixed_text n = dec_nat (n div 10 ^ 6) @ ''.'' @ low_digits 6 n"

definition Sprintf_f :: "rat \<Rightarrow> string" where
  "Sprintf_f x = (if x < 0 then ''-'' else []) @ fixed_text (nat (round_even (\<bar>x\<bar> * 10 ^ 6)))"

record numeric_lib =
  LegacyDec_Float64 :: "int \<Rightarrow> rat result"
  ScanScientific :: "string \<Rightarrow> numeric result"

definition usd_amount :: "rat \<Rightarrow> u8 \<Rightarrow> rat \<Rightarrow> rat" where
  "usd_amount amountFloat decimals coingeckoPrice =
     float64 (float64 (amountFloat / Pow10 (unat decimals)) * coingeckoPrice)"

definition CachedPriceClient_GetCoinUsdValue ::
  "numeric_lib \<Rightarrow> time \<Rightarrow> time \<Rightarrow> rat result \<Rightarrow> string \<Rightarrow> u8 \<Rightarrow> int \<Rightarrow> CachedPriceClient \<Rightarrow>
     CachedPriceClient \<times> numeric option result" where
  "CachedPriceClient_GetCoinUsdValue L t t' answer coingeckoID decimals amount c =
     (case GetSimplePrice t t' answer coingeckoID ''usd'' c of
        (c', Inl err) \<Rightarrow> (c', Inl (Wrapf ''getting coingecko price in usd'' err))
      | (c', Inr coingeckoPrice) \<Rightarrow>
          (case LegacyDec_Float64 L amount of
             Inl err \<Rightarrow> (c', Inl (Wrapf ''invalid amount to float64 conversion'' err))
           | Inr amountFloat \<Rightarrow>
               (case ScanScientific L (Sprintf_f (usd_amount amountFloat decimals coingeckoPrice)) of
                  Inl err \<Rightarrow> (c', Inl (Wrapf ''scanning usd amount into pg numeric'' err))
                | Inr num \<Rightarrow> (c', Inr (Some num)))))"

definition NoOpPriceClient_GetSimplePrice :: "string \<Rightarrow> string \<Rightarrow> rat result" where
  "NoOpPriceClient_GetSimplePrice coingeckoID currency = Inr 0"

definition NoOpPriceClient_GetCoinUsdValue :: "string \<Rightarrow> u8 \<Rightarrow> int \<Rightarrow> numeric option result" where
  "NoOpPriceClient_GetCoinUsdValue coingeckoID decimals amount = Inr None"

definition FormatCoin :: "int \<Rightarrow> int \<Rightarrow> rat" where
  "FormatCoin amount decimals =
     (let decimalsBig = 10 ^ nat decimals in
      float_round (max (prec_SetInt amount) (prec_SetInt decimalsBig)) (of_int amount / of_int decimalsBig))"


section \<open>How exact a value is\<close>

lemma near_Pow10: "near 3 (Pow10 n) (10 ^ n)"
proof -
  have "near (1 + 1) (float64 (10 ^ (32 * (n div 32))) * float64 (10 ^ (n mod 32)))
      (10 ^ (32 * (n div 32)) * 10 ^ (n mod 32))"
    by (intro near_mult near_float64) simp_all
  then have two: "near 2 (float64 (10 ^ (32 * (n div 32))) * float64 (10 ^ (n mod 32))) (10 ^ n)"
    by (simp add: mult_div_mod_eq numeral_2_eq_2 flip: power_add)
  then have "near 1 (Pow10 n) (float64 (10 ^ (32 * (n div 32))) * float64 (10 ^ (n mod 32)))"
    unfolding Pow10_def by (intro near_float64) (simp add: near_def)
  from near_trans [OF this two] show ?thesis by (simp add: numeral_3_eq_3)
qed

lemma near_pos:
  assumes "near k x y" "0 < y"
  shows "0 < x"
proof -
  have "0 < one_rounding ^ k * y" using assms(2) one_rounding_power by simp
  then show ?thesis using assms(1) unfolding near_def by linarith
qed

lemma near_usd_amount:
  assumes "near 1 a x" "0 \<le> p"
  shows "near 6 (usd_amount a decimals p) (x / 10 ^ unat decimals * p)"
proof -
  let ?d = "unat decimals" and ?q = "a / Pow10 (unat decimals)"
  have "0 < Pow10 ?d" by (rule near_pos [OF near_Pow10]) simp
  then have q: "near 4 ?q (x / 10 ^ ?d)" using near_divide [OF assms(1) near_Pow10] by simp
  then have "near 1 (float64 ?q) ?q" by (intro near_float64) (simp add: near_def)
  from near_mult [OF near_trans [OF this q] near_refl [OF assms(2)]]
  have m: "near 5 (float64 ?q * p) (x / 10 ^ ?d * p)" by simp
  then have "near 1 (usd_amount a decimals p) (float64 ?q * p)"
    unfolding usd_amount_def by (intro near_float64) (simp add: near_def)
  from near_trans [OF this m] show ?thesis by simp
qed

definition num_value :: "numeric \<Rightarrow> rat" where
  "num_value v = of_int (num_Int v) * 10 powi num_Exp v"

text \<open>What the two libraries document: the nearest float of an amount of the SDK's size, and the value of a text.\<close>

definition converts_amounts :: "numeric_lib \<Rightarrow> bool" where
  "converts_amounts L \<longleftrightarrow>
     (\<forall>a. \<bar>a\<bar> < 2 ^ 256 \<longrightarrow> LegacyDec_Float64 L a = Inr (float64 (of_int a)))"

definition scans_fixed :: "numeric_lib \<Rightarrow> bool" where
  "scans_fixed L \<longleftrightarrow>
     (\<forall>n. \<exists>v. ScanScientific L (fixed_text n) = Inr v \<and> num_value v = of_nat n / 10 ^ 6)"

lemma fixed_text_error:
  assumes "0 \<le> x" "scans_fixed L"
  shows "\<exists>v. ScanScientific L (Sprintf_f x) = Inr v \<and> \<bar>num_value v - x\<bar> \<le> 1 / (2 * 10 ^ 6)"
proof -
  let ?r = "round_even (x * 10 ^ 6)"
  have r: "0 \<le> ?r" using assms(1) round_even_ge [of 0] by simp
  obtain v where v: "ScanScientific L (fixed_text (nat ?r)) = Inr v" "num_value v = of_nat (nat ?r) / 10 ^ 6"
    using assms(2) unfolding scans_fixed_def by blast
  have n: "(of_nat (nat ?r) :: rat) = of_int ?r" using r by simp
  have "num_value v - x = (of_int ?r - x * 10 ^ 6) / 10 ^ 6" unfolding v(2) n by (simp add: diff_divide_distrib)
  then have "\<bar>num_value v - x\<bar> = \<bar>of_int ?r - x * 10 ^ 6\<bar> / 10 ^ 6" by (simp only: abs_divide) simp
  also have "\<dots> \<le> 1 / 2 / 10 ^ 6" by (intro divide_right_mono round_even_error) simp
  finally have "\<bar>num_value v - x\<bar> \<le> 1 / (2 * 10 ^ 6)" by simp
  then show ?thesis using v(1) assms(1) by (auto simp: Sprintf_f_def)
qed

text \<open>
  The conversion of an amount of gas to US dollars answers with a value that differs from the exact
  product of amount and price by at most half of a millionth, for the text, and six roundings of a
  float, whatever the number of decimals, where the price is the one the cache gives.
\<close>

theorem usd_value_accurate:
  assumes "converts_amounts L" "scans_fixed L" "0 \<le> amount" "amount < 2 ^ 256"
    and "GetSimplePrice t t' answer coingeckoID ''usd'' c = (c', Inr p)" "0 \<le> p"
  shows "\<exists>v. CachedPriceClient_GetCoinUsdValue L t t' answer coingeckoID decimals amount c = (c', Inr (Some v)) \<and>
    \<bar>num_value v - of_int amount / 10 ^ unat decimals * p\<bar>
      \<le> 1 / (2 * 10 ^ 6) + of_int amount / 10 ^ unat decimals * p / 2 ^ 50"
proof -
  let ?x = "usd_amount (float64 (of_int amount)) decimals p"
  have near: "near 6 ?x (of_int amount / 10 ^ unat decimals * p)"
    using assms(3,6) by (intro near_usd_amount near_float64) simp_all
  then have "0 \<le> ?x" by (simp add: near_def)
  then obtain v where v: "ScanScientific L (Sprintf_f ?x) = Inr v" "\<bar>num_value v - ?x\<bar> \<le> 1 / (2 * 10 ^ 6)"
    using fixed_text_error assms(2) by blast
  have "LegacyDec_Float64 L amount = Inr (float64 (of_int amount))"
    using assms(1,3,4) unfolding converts_amounts_def by simp
  then have "CachedPriceClient_GetCoinUsdValue L t t' answer coingeckoID decimals amount c = (c', Inr (Some v))"
    using assms(5) v(1) by (simp add: CachedPriceClient_GetCoinUsdValue_def)
  then show ?thesis using v(2) near_error [OF near] by (intro exI [of _ v]) linarith
qed

text \<open>
  Whatever currency is asked for, the number under \<^verbatim>\<open>usd\<close> is read: an answer in the other currency is
  the price zero, without an error.
\<close>

lemma other_currency_is_zero:
  assumes "price_body L service (baseURL c @ ''/simple/price'')
      ([(''ids'', cid), (''vs_currencies'', ''eur'')] @ with_key c) = Inr bs"
    and "json_prices L bs = Inr [cid \<mapsto> [(''eur'', p)]]"
  shows "Coingecko_GetSimplePrice L service c cid ''eur'' = Inr 0"
  using assms by (simp add: Coingecko_GetSimplePrice_def usd_field_def ToLower_def to_lower_char_def)

text \<open>One call sends at most two requests, the second only after the pause that the service asked for.\<close>

lemma pause_fits: "0 \<le> n \<Longrightarrow> n < 2 ^ 33 \<Longrightarrow> sint (word_of_int (n * second) :: u64) = n * second"
  by (intro sint_fits) (simp_all add: second_def)

lemma rate_limited_requests:
  assumes "RateLimitedHTTPClient_Do wait answer = (es, r)"
  shows "es = [] \<and> wait \<noteq> None \<or> es = [Sent] \<and> r = answer 0 \<or>
    (\<exists>res n. answer 0 = Inr res \<and> rs_StatusCode res = StatusTooManyRequests \<and> Atoi (rs_RetryAfter res) = Inr n \<and>
       r = answer 1 \<and> (0 \<le> n \<and> n < 2 ^ 33 \<longrightarrow> es = [Sent, Paused (n * second), Sent]))"
  using assms
  by (auto simp: RateLimitedHTTPClient_Do_def pause_fits simp del: wi_hom_syms of_int_mult split: option.splits sum.splits if_splits)

section \<open>Witnesses\<close>

text \<open>A reader of decimals: the digits without the point, six of them behind it.\<close>

definition ex_scan :: "string \<Rightarrow> numeric result" where
  "ex_scan s =
     (case parse_digits 0 (filter (\<lambda>c. c \<noteq> CHR ''.'') s) of
        None \<Rightarrow> Inl (NewError ''not a number'')
      | Some i \<Rightarrow> Inr (Numeric i (- 6)))"

definition ex_numeric_lib :: numeric_lib where
  "ex_numeric_lib = \<lparr>LegacyDec_Float64 = \<lambda>a. Inr (float64 (of_int a)), ScanScientific = ex_scan\<rparr>"

lemma digit_char_not_point: "d < 10 \<Longrightarrow> digit_char d \<noteq> CHR ''.''"
  using digit_value_char [of d] by (auto simp: digit_value_def Let_def split: if_splits)

lemma dec_nat_no_point: "CHR ''.'' \<notin> set (dec_nat n)"
proof (induction n rule: dec_nat.induct)
  case (1 n)
  then show ?case using digit_char_not_point [of n] digit_char_not_point [of "n mod 10"]
    by (cases "n < 10") (auto simp: dec_nat.simps [of n])
qed

lemma low_digits_no_point: "CHR ''.'' \<notin> set (low_digits k n)"
  using digit_char_not_point by (induction k arbitrary: n) (auto simp: eq_commute)

lemma no_point: "CHR ''.'' \<notin> set s \<Longrightarrow> filter (\<lambda>c. c \<noteq> CHR ''.'') s = s"
  by (induction s) auto

lemma parse_low_digits: "parse_digits v (low_digits k n) = Some (v * 10 ^ k + int (n mod 10 ^ k))"
proof (induction k arbitrary: n)
  case (Suc k)
  have "n mod 10 ^ Suc k = 10 * (n div 10 mod 10 ^ k) + n mod 10" by (simp add: mod_mult2_eq)
  then have "int (n mod 10 ^ Suc k) = 10 * int (n div 10 mod 10 ^ k) + int (n mod 10)" by simp
  then show ?case using Suc by (simp add: parse_digits_append digit_value_char)
qed simp

lemma scans_ex_numeric_lib: "scans_fixed ex_numeric_lib"
proof -
  have "ex_scan (fixed_text n) = Inr (Numeric (int n) (- 6))" for n
  proof -
    have f: "filter (\<lambda>c. c \<noteq> CHR ''.'') (fixed_text n) = dec_nat (n div 10 ^ 6) @ low_digits 6 n"
      using no_point [OF dec_nat_no_point] no_point [OF low_digits_no_point]
      by (simp add: fixed_text_def del: low_digits.simps)
    have "int (n div 10 ^ 6) * 10 ^ 6 + int (n mod 10 ^ 6) = int n"
      using arg_cong [OF div_mult_mod_eq [of n "10 ^ 6"], of int]
      by (simp only: of_nat_add of_nat_mult of_nat_power of_nat_numeral)
    then show ?thesis unfolding ex_scan_def f parse_digits_append parse_dec_nat option.case parse_low_digits by (simp only:)
  qed
  then show ?thesis by (simp add: scans_fixed_def ex_numeric_lib_def num_value_def power_int_minus)
qed

text \<open>Twenty one thousand units of gas at ten gwei, at two thousand dollars an ether.\<close>

theorem usd_value_accurate_witness:
  "\<exists>v. CachedPriceClient_GetCoinUsdValue ex_numeric_lib 0 0 (Inr 2000) ''ethereum'' 18 210000000000000
      (NewCachedPriceClient minute) =
        ((NewCachedPriceClient minute)\<lparr>cache := [cacheKey ''ethereum'' ''usd'' \<mapsto> \<lparr>price = 2000, lastUpdated = 0\<rparr>]\<rparr>, Inr (Some v)) \<and>
    \<bar>num_value v - 42 / 100\<bar> \<le> 1 / (2 * 10 ^ 6) + 42 / 100 / 2 ^ 50"
proof -
  have "converts_amounts ex_numeric_lib" by (simp add: converts_amounts_def ex_numeric_lib_def)
  from usd_value_accurate [OF this scans_ex_numeric_lib, of 210000000000000 0 0 "Inr 2000" "''ethereum''"
      "NewCachedPriceClient minute" _ 2000 18]
  show ?thesis by (simp add: GetSimplePrice_def NewCachedPriceClient_def Let_def)
qed

end
