(* ===== verification/Startup.thy ===== *)
theory Startup
  imports CostTracker Programs Prices
begin

text \<open>
  The relayer process: \<^verbatim>\<open>cmd/relayer\<close> with the migrations of \<^verbatim>\<open>db/migrate.go\<close> and the connections of
  \<^verbatim>\<open>shared/database\<close>, the health checks of \<^verbatim>\<open>relayerapi\<close>, and the small helpers of \<^verbatim>\<open>shared/utils\<close>. A
  start is a function from what the process finds to how it ends: it stops with a message, it has
  migrated the database and exits, or it runs with the parts it has built.
\<close>

section \<open>Migrations\<close>

text \<open>
  The migration library works on the schema of a database. \<open>Up\<close> applies what is missing; its error
  may be the one that says there was nothing to do.
\<close>

record ('m, 's) migrate_lib =
  sql_Conn :: "go_error option"
  WithConnection :: "go_error option"
  iofs_New :: "'m \<Rightarrow> go_error option"
  NewWithInstance :: "'m \<Rightarrow> go_error option"
  Up :: "'m \<Rightarrow> 's \<Rightarrow> 's \<times> go_error option"
  is_ErrNoChange :: "go_error \<Rightarrow> bool"
  Close :: "'m \<Rightarrow> go_error option \<times> go_error option"

definition runMigration :: "('m, 's) migrate_lib \<Rightarrow> 'm \<Rightarrow> 's \<Rightarrow> 's \<times> go_error option" where
  "runMigration L m s =
     (case sql_Conn L of
        Some err \<Rightarrow> (s, Some err)
      | None \<Rightarrow>
     (case WithConnection L of
        Some err \<Rightarrow> (s, Some (Wrapf ''failed to create db migrate driver'' err))
      | None \<Rightarrow>
     (case iofs_New L m of
        Some err \<Rightarrow> (s, Some (Wrapf ''failed to create migration source'' err))
      | None \<Rightarrow>
     (case NewWithInstance L m of
        Some err \<Rightarrow> (s, Some (Wrapf ''failed to create migration instance'' err))
      | None \<Rightarrow>
     (case Up L m s of
        (s', up) \<Rightarrow>
          (case (case up of None \<Rightarrow> None | Some err \<Rightarrow> if is_ErrNoChange L err then None else Some err) of
             Some err \<Rightarrow> (s', Some (Wrapf ''failed to run migration'' err))
           | None \<Rightarrow>
               (s', case Close L m of
                      (Some srcErr, _) \<Rightarrow> Some (Wrapf ''failed to close migration source'' srcErr)
                    | (None, Some dbErr) \<Rightarrow> Some (Wrapf ''failed to close migration database'' dbErr)
                    | (None, None) \<Rightarrow> None)))))))"

fun Migrate :: "('m, 's) migrate_lib \<Rightarrow> 'm list \<Rightarrow> 's \<Rightarrow> 's \<times> go_error option" where
  "Migrate L [] s = (s, None)"
| "Migrate L (m # ms) s =
     (case runMigration L m s of
        (s', Some err) \<Rightarrow> (s', Some err)
      | (s', None) \<Rightarrow> Migrate L ms s')"

text \<open>Without an error every migration was brought up, in order.\<close>

lemma runMigration_ok:
  assumes "runMigration L m s = (s', None)"
  shows "s' = fst (Up L m s) \<and> (\<forall>err. snd (Up L m s) = Some err \<longrightarrow> is_ErrNoChange L err)"
  using assms by (auto simp: runMigration_def split: option.splits prod.splits if_splits)

lemma Migrate_ok:
  "Migrate L ms s = (s', None) \<Longrightarrow> s' = fold (\<lambda>m. fst \<circ> Up L m) ms s"
  by (induction L ms s rule: Migrate.induct) (auto split: prod.splits option.splits dest!: runMigration_ok)

section \<open>Connections\<close>

record ConnConfig =
  cc_Host :: string
  cc_Port :: "16 word"
  cc_User :: string
  cc_Password :: string

record aws_lib =
  LoadDefaultConfig :: "string result"
  BuildAuthToken :: "string \<Rightarrow> string \<Rightarrow> string \<Rightarrow> string result"

text \<open>
  The function that runs before each connection with IAM authentication: it takes the configured
  region or else that of the environment, and replaces the password by a token.
\<close>

definition BeforeConnect :: "aws_lib \<Rightarrow> string \<Rightarrow> ConnConfig \<Rightarrow> ConnConfig \<times> go_error option" where
  "BeforeConnect A iamAuthRegion conn =
     (case LoadDefaultConfig A of
        Inl err \<Rightarrow> (conn, Some (Wrapf ''failed to load AWS config'' err))
      | Inr cfgRegion \<Rightarrow>
          (let region = (if iamAuthRegion = [] then cfgRegion else iamAuthRegion) in
           if region = [] then
             (conn, Some (NewError ''no AWS region configured: set postgres.iam_auth_region or AWS_REGION''))
           else
             (case BuildAuthToken A (cc_Host conn @ '':'' @ dec_nat (unat (cc_Port conn))) region (cc_User conn) of
                Inl err \<Rightarrow> (conn, Some (Wrapf ''failed to build auth token'' err))
              | Inr authToken \<Rightarrow> (conn\<lparr>cc_Password := authToken\<rparr>, None))))"

text \<open>A pool is its configuration: what each connection does first.\<close>

definition NewDatabase ::
  "(string \<Rightarrow> go_error option) \<Rightarrow> go_error option \<Rightarrow> aws_lib \<Rightarrow> string \<Rightarrow> bool \<Rightarrow> string \<Rightarrow>
     (ConnConfig \<Rightarrow> ConnConfig \<times> go_error option) result" where
  "NewDatabase ParseConfig newPool A connString useIAMAuth iamAuthRegion =
     (case ParseConfig connString of
        Some err \<Rightarrow> Inl err
      | None \<Rightarrow>
          (case newPool of
             Some err \<Rightarrow> Inl err
           | None \<Rightarrow> Inr (if useIAMAuth then BeforeConnect A iamAuthRegion else (\<lambda>conn. (conn, None)))))"

lemma connects_with_token:
  assumes "NewDatabase ParseConfig newPool A dsn True region = Inr pool" and "pool conn = (conn', None)"
  shows "\<exists>used token. used \<noteq> [] \<and> (region \<noteq> [] \<longrightarrow> used = region) \<and>
    BuildAuthToken A (cc_Host conn @ '':'' @ dec_nat (unat (cc_Port conn))) used (cc_User conn) = Inr token \<and>
    conn' = conn\<lparr>cc_Password := token\<rparr>"
  using assms by (fastforce simp: NewDatabase_def BeforeConnect_def Let_def split: option.splits sum.splits if_splits)

section \<open>Health\<close>

datatype ServingStatus = UNKNOWN_STATUS | SERVING | NOT_SERVING | SERVICE_UNKNOWN

definition HealthService_Check :: "ServingStatus result \<Rightarrow> go_error option \<Rightarrow> ServingStatus result" where
  "HealthService_Check server ping =
     (case server of
        Inl err \<Rightarrow> Inl err
      | Inr status \<Rightarrow>
          if status \<noteq> SERVING then Inr status
          else (case ping of Some err \<Rightarrow> Inl err | None \<Rightarrow> Inr SERVING))"

text \<open>The status code and the body that \<^verbatim>\<open>/health\<close> answers with.\<close>

definition health_handler :: "ServingStatus result \<Rightarrow> go_error option \<Rightarrow> int \<times> string" where
  "health_handler server ping =
     (case HealthService_Check server ping of
        Inl err \<Rightarrow> (500, [])
      | Inr status \<Rightarrow> if status = SERVING then (200, ''OK'') else (503, ''Service Unavailable''))"

lemma health_ok_iff: "fst (health_handler server ping) = 200 \<longleftrightarrow> server = Inr SERVING \<and> ping = None"
  by (auto simp: health_handler_def HealthService_Check_def split: sum.splits option.splits)

section \<open>Helpers\<close>

text \<open>The headers of a request, and what the transport sends.\<close>

definition BasicAuthTransport_RoundTrip ::
  "string option \<Rightarrow> ((string \<times> string) list \<Rightarrow> 'a) option \<Rightarrow> ((string \<times> string) list \<Rightarrow> 'a) \<Rightarrow>
     (string \<times> string) list \<Rightarrow> 'a" where
  "BasicAuthTransport_RoundTrip basicAuth transport DefaultTransport header =
     (let sentHeader = (case basicAuth of
                          None \<Rightarrow> header
                        | Some auth \<Rightarrow> header @ [(''Authorization'', ''Basic '' @ auth)]) in
      case transport of Some rt \<Rightarrow> rt sentHeader | None \<Rightarrow> DefaultTransport sentHeader)"

definition SliceTo32ByteArray :: "bytes \<Rightarrow> bytes result" where
  "SliceTo32ByteArray input =
     (if 32 < length input then Inl (NewError ''input slice is too large'')
      else Inr (replicate (32 - length input) 0 @ input))"

definition HexTo32ByteAddress :: "(string \<Rightarrow> bytes result) \<Rightarrow> string \<Rightarrow> bytes result" where
  "HexTo32ByteAddress hexutil_Decode input =
     (case hexutil_Decode input of Inl err \<Rightarrow> Inl err | Inr bs \<Rightarrow> SliceTo32ByteArray bs)"

definition MustBech32ToRawAddress ::
  "(string \<Rightarrow> (string \<times> bytes) result) \<Rightarrow> (bytes \<Rightarrow> string) \<Rightarrow> string \<Rightarrow> string result" where
  "MustBech32ToRawAddress DecodeAndConvert hexutil_Encode address =
     (case DecodeAndConvert address of
        Inl err \<Rightarrow> Inl (panicked (error_string err))
      | Inr (_, rawAddress) \<Rightarrow> Inr (hexutil_Encode rawAddress))"

text \<open>A raw address that fits is read back as the bytes behind the prefix, padded in front.\<close>

lemma raw_address_padded:
  assumes "DecodeAndConvert address = Inr (prefix, raw)" "length raw \<le> 32"
    and "hexutil_Decode (hexutil_Encode raw) = Inr raw"
  shows "\<exists>s. MustBech32ToRawAddress DecodeAndConvert hexutil_Encode address = Inr s \<and>
    HexTo32ByteAddress hexutil_Decode s = Inr (replicate (32 - length raw) 0 @ raw)"
  using assms by (simp add: MustBech32ToRawAddress_def HexTo32ByteAddress_def SliceTo32ByteArray_def)

lemma SliceTo32_ok:
  assumes "SliceTo32ByteArray input = Inr a"
  shows "length a = 32 \<and> dropWhile (\<lambda>b. b = 0) a = dropWhile (\<lambda>b. b = 0) input"
  using assms by (auto simp: SliceTo32ByteArray_def dropWhile_append split: if_splits)

text \<open>Keys in files; reading a file and parsing a key are arguments.\<close>

definition LoadECDSAPrivateKey ::
  "(string \<Rightarrow> string result) \<Rightarrow> (string \<Rightarrow> bytes result) \<Rightarrow> string \<Rightarrow> bytes result" where
  "LoadECDSAPrivateKey readFile parse privateKeyPath =
     (case readFile privateKeyPath of Inl err \<Rightarrow> Inl err | Inr privateKeyHex \<Rightarrow> parse privateKeyHex)"

definition LoadSecp256k1PrivateKey ::
  "(string \<Rightarrow> string result) \<Rightarrow> (bytes \<Rightarrow> bytes result) \<Rightarrow> string \<Rightarrow> bytes result" where
  "LoadSecp256k1PrivateKey readFile unmarshal privateKeyPath =
     (case readFile privateKeyPath of
        Inl err \<Rightarrow> Inl err
      | Inr privateKeyHex \<Rightarrow>
          (case hex_decode privateKeyHex of Inl err \<Rightarrow> Inl err | Inr bs \<Rightarrow> unmarshal bs))"

definition LoadChainIDToPrivateKeyMap ::
  "(string \<Rightarrow> bytes result) \<Rightarrow> (bytes \<Rightarrow> (string \<rightharpoonup> (string \<rightharpoonup> string)) result) \<Rightarrow> string \<Rightarrow> (string \<rightharpoonup> string) result" where
  "LoadChainIDToPrivateKeyMap readFile unmarshal keysPath =
     (case readFile keysPath of
        Inl err \<Rightarrow> Inl err
      | Inr keysBytes \<Rightarrow>
          (case unmarshal keysBytes of
             Inl err \<Rightarrow> Inl err
           | Inr rawKeysMap \<Rightarrow>
               Inr (\<lambda>key. map_option (\<lambda>value. case value ''private_key'' of None \<Rightarrow> [] | Some k \<Rightarrow> k) (rawKeysMap key))))"

section \<open>The relayer's main\<close>

definition isMigrateSubcommand :: "string list \<Rightarrow> bool" where
  "isMigrateSubcommand args \<longleftrightarrow> 1 < length args \<and> args ! 1 = ''migrate''"

record relayer_flags =
  configPath :: string
  enableIBCV2Relaying :: bool
  dbMigrate :: bool

text \<open>
  What the process finds: its arguments, files, the database, the two services it dials, and the rest
  of \<open>startup\<close>. \<open>flag_Parse\<close> reads the arguments behind the program's name.
\<close>

record 's relayer_env =
  os_Args :: "string list"
  flag_Parse :: "string list \<Rightarrow> relayer_flags"
  config_file :: "string \<Rightarrow> config result"
  pool_ParseConfig :: "string \<Rightarrow> go_error option"
  pool_New :: "go_error option"
  rel_aws :: aws_lib
  rel_migrate :: "(unit, 's) migrate_lib"
  dial_signer :: "string \<Rightarrow> bool \<Rightarrow> go_error option"
  dial_proof_relayer :: "string \<Rightarrow> bool \<Rightarrow> go_error option"
  key_file :: "string \<Rightarrow> bytes result"
  key_json :: "bytes \<Rightarrow> (string \<rightharpoonup> (string \<rightharpoonup> string)) result"
  rel_startup :: startup
  rel_geth :: geth

record relayer_setup =
  su_reader :: configReader
  su_startup :: startup
  su_clients :: "string \<rightharpoonup> bridge"
  su_prices :: "((duration \<times> int) \<times> CoingeckoClient \<times> CachedPriceClient) option"
  su_metricsAddress :: string
  su_apiAddress :: string
  su_dispatchInterval :: duration
  su_relaying :: bool
  su_tracker :: SubmittedTxCostTracker

datatype relayer_outcome = Fatal string | Migrated | Running relayer_setup

text \<open>The one module of migrations of \<^verbatim>\<open>runMigrations\<close>.\<close>

definition runMigrations :: "'s relayer_env \<Rightarrow> 's \<Rightarrow> 's \<times> go_error option" where
  "runMigrations E = Migrate (rel_migrate E) [()]"

text \<open>The switch over the signing section: what startup then has of signers and keys.\<close>

definition signing_source :: "'s relayer_env \<Rightarrow> SigningConfig \<Rightarrow> string + startup" where
  "signing_source E sg =
     (if SigningGRPCAddress sg \<noteq> [] then
        (case dial_signer E (SigningGRPCAddress sg) (SigningGRPCTLSEnabled sg) of
           Some _ \<Rightarrow> Inl ''failed to connect to remote signer''
         | None \<Rightarrow> Inr ((rel_startup E)\<lparr>have_remote_signer := True, private_keys := Map.empty\<rparr>))
      else if KeysPath sg \<noteq> [] then
        (case LoadChainIDToPrivateKeyMap (key_file E) (key_json E) (KeysPath sg) of
           Inl _ \<Rightarrow> Inl ''Failed to load chain id -> private key map for ibcv2''
         | Inr ks \<Rightarrow> Inr ((rel_startup E)\<lparr>have_remote_signer := False, private_keys := ks\<rparr>))
      else Inl ''No signing configuration: set either signing.grpc_address or signing.keys_path'')"

definition price_client :: "CoingeckoConfig \<Rightarrow> ((duration \<times> int) \<times> CoingeckoClient \<times> CachedPriceClient) option" where
  "price_client cfg =
     (if APIKey cfg \<noteq> [] then
        (case DefaultCoingeckoClient cfg of
           (limits, c) \<Rightarrow> Some (limits, c, NewCachedPriceClient (CacheRefreshInterval cfg)))
      else None)"

text \<open>From the signing section on; what runs does not return.\<close>

definition start_relayer :: "'s relayer_env \<Rightarrow> relayer_flags \<Rightarrow> config \<Rightarrow> relayer_outcome" where
  "start_relayer E F cfg =
     (let r = NewConfigReader cfg; sg = Signing cfg in
      case signing_source E sg of
        Inl msg \<Rightarrow> Fatal msg
      | Inr S \<Rightarrow>
     (case NewClientManagerFromConfig S (rel_geth E) r (CosmosWalletKey sg) (EVMWalletKey sg) (GetIBCV2Chains r) of
        Inl _ \<Rightarrow> Fatal ''error creating ibcv2 client manager from config''
      | Inr bridges \<Rightarrow>
     (case dial_proof_relayer E (ProofGRPCAddress (IBCV2ProofAPI cfg)) (ProofGRPCTLSEnabled (IBCV2ProofAPI cfg)) of
        Some _ \<Rightarrow> Fatal ''error creating grpc connection to proof relayer''
      | None \<Rightarrow>
          Running
            \<lparr>su_reader = r, su_startup = S, su_clients = bridges, su_prices = price_client (GetCoingeckoConfig (os_environ S) r),
             su_metricsAddress = PrometheusAddress cfg, su_apiAddress = RelayerAPIAddress cfg,
             su_dispatchInterval = 5 * second, su_relaying = enableIBCV2Relaying F,
             su_tracker = NewSubmittedTxCostTracker (5 * second) 100 (6 * hour)\<rparr>)))"

definition relayer_main :: "'s relayer_env \<Rightarrow> 's \<Rightarrow> 's \<times> relayer_outcome" where
  "relayer_main E s =
     (let migrateMode = isMigrateSubcommand (os_Args E);
          args = (if migrateMode then take 1 (os_Args E) @ drop 2 (os_Args E) else os_Args E);
          F = flag_Parse E (tl args) in
      case LoadConfig (config_file E (configPath F)) of
        Inl _ \<Rightarrow> (s, Fatal ''Unable to load config'')
      | Inr cfg \<Rightarrow>
     (case NewDatabase (pool_ParseConfig E) (pool_New E) (rel_aws E)
             (GetPostgresConnString (os_environ (rel_startup E)) (NewConfigReader cfg))
             (IAMAuthEnabled (Postgres cfg)) (IAMAuthRegion (Postgres cfg)) of
        Inl _ \<Rightarrow> (s, Fatal ''Unable to connect to database'')
      | Inr _ \<Rightarrow>
          if migrateMode \<or> dbMigrate F then
            (case runMigrations E s of
               (s', Some _) \<Rightarrow> (s', Fatal ''Failed to run database migrations'')
             | (s', None) \<Rightarrow> if migrateMode then (s', Migrated) else (s', start_relayer E F cfg))
          else (s, start_relayer E F cfg)))"

section \<open>What a start guarantees\<close>

text \<open>Every chain of a kind that has a client gets one.\<close>

lemma create_bridges_keeps:
  "create_bridges S g r cw ew cfgs m = Inr m' \<Longrightarrow> m c \<noteq> None \<Longrightarrow> m' c \<noteq> None"
  by (induction S g r cw ew cfgs m rule: create_bridges.induct) (auto split: sum.splits option.splits if_splits)

lemma chain_bridge_some: "chain_bridge S g r cw ew chain = Inr None \<Longrightarrow> Type chain \<noteq> EVM \<and> Type chain \<noteq> COSMOS"
  by (auto simp: chain_bridge_def split: ChainType.splits option.splits sum.splits if_splits)

lemma create_bridges_covers:
  "create_bridges S g r cw ew cfgs m = Inr m' \<Longrightarrow> chain \<in> set cfgs \<Longrightarrow> Type chain = EVM \<or> Type chain = COSMOS \<Longrightarrow>
     m' (ChainID chain) \<noteq> None"
  by (induction S g r cw ew cfgs m rule: create_bridges.induct)
    (auto split: sum.splits option.splits dest: chain_bridge_some create_bridges_keeps)

text \<open>A chain whose entry in the key file has no private key stops the process when its Cosmos signer is made.\<close>

lemma missing_private_key_panics:
  assumes "readFile path = Inr bs" "unmarshal bs = Inr raw" "raw chainID = Some entry" "entry ''private_key'' = None"
  shows "\<exists>ks. LoadChainIDToPrivateKeyMap readFile unmarshal path = Inr ks \<and>
    createCosmosSigner (S\<lparr>have_remote_signer := False, private_keys := ks\<rparr>) chainID w =
      Inl (panicked ''slice bounds out of range'')"
  using assms by (simp add: LoadChainIDToPrivateKeyMap_def createCosmosSigner_def)

lemma start_relayer_running:
  assumes "start_relayer E F cfg = Running R"
  shows "su_reader R = NewConfigReader cfg" "su_apiAddress R = RelayerAPIAddress cfg"
    "su_relaying R = enableIBCV2Relaying F" "signing_source E (Signing cfg) = Inr (su_startup R)"
    "create_bridges (su_startup R) (rel_geth E) (su_reader R) (CosmosWalletKey (Signing cfg)) (EVMWalletKey (Signing cfg))
       (GetIBCV2Chains (su_reader R)) Map.empty = Inr (su_clients R)"
  using assms
  by (auto simp: start_relayer_def NewClientManagerFromConfig_def Let_def split: sum.splits option.splits)

lemma signing_source_one:
  assumes "signing_source E sg = Inr S"
  shows "have_remote_signer S \<and> SigningGRPCAddress sg \<noteq> [] \<and> private_keys S = Map.empty \<or>
    \<not> have_remote_signer S \<and> SigningGRPCAddress sg = [] \<and>
      LoadChainIDToPrivateKeyMap (key_file E) (key_json E) (KeysPath sg) = Inr (private_keys S)"
  using assms by (auto simp: signing_source_def split: sum.splits option.splits if_splits)

lemma relayer_main_running:
  assumes "relayer_main E s = (s', Running R)" and F: "F = flag_Parse E (tl (os_Args E))"
  obtains cfg where "\<not> isMigrateSubcommand (os_Args E)" "config_file E (configPath F) = Inr cfg" "Validate cfg = None"
    "start_relayer E F cfg = Running R" "s' = (if dbMigrate F then fst (Up (rel_migrate E) () s) else s)"
proof -
  have no: "\<not> isMigrateSubcommand (os_Args E)"
    using assms(1) by (auto simp: relayer_main_def Let_def split: sum.splits option.splits prod.splits if_splits)
  have up: "runMigrations E s = (t, None) \<Longrightarrow> t = fst (Up (rel_migrate E) () s)" for t
    unfolding runMigrations_def by (drule Migrate_ok) simp
  show ?thesis
    using assms(1) no that
    by (auto simp: relayer_main_def Let_def LoadConfig_def F [symmetric] dest!: up
        split: sum.splits option.splits prod.splits if_splits)
qed


section \<open>Example\<close>

definition ex_relayer_config :: config where
  "ex_relayer_config =
     ex_config\<lparr>Chains := [(''hub'', ex_chain\<lparr>IBCV2 := Some ex_ibcv2\<rparr>)],
       Signing := \<lparr>KeysPath = ''keys'', SigningGRPCAddress = [], SigningGRPCTLSEnabled = False, CosmosWalletKey = [],
         EVMWalletKey = [], SVMWalletKey = []\<rparr>\<rparr>"

definition ex_relayer_env :: "nat relayer_env" where
  "ex_relayer_env =
     \<lparr>os_Args = [''relayer'', ''--db-migrate''],
      flag_Parse = (\<lambda>args. \<lparr>configPath = ''config.yml'', enableIBCV2Relaying = True, dbMigrate = (''--db-migrate'' \<in> set args)\<rparr>),
      config_file = (\<lambda>_. Inr ex_relayer_config), pool_ParseConfig = (\<lambda>_. None), pool_New = None,
      rel_aws = \<lparr>LoadDefaultConfig = Inr [], BuildAuthToken = (\<lambda>_ _ _. Inr [])\<rparr>,
      rel_migrate = \<lparr>sql_Conn = None, WithConnection = None, iofs_New = (\<lambda>_. None), NewWithInstance = (\<lambda>_. None),
        Up = (\<lambda>_ n. (max n 7, None)), is_ErrNoChange = (\<lambda>_. False), Close = (\<lambda>_. (None, None))\<rparr>,
      dial_signer = (\<lambda>_ _. None), dial_proof_relayer = (\<lambda>_ _. None), key_file = (\<lambda>_. Inr []),
      key_json = (\<lambda>_. Inr [''cosmos-1'' \<mapsto> [''private_key'' \<mapsto> ''0xab'']]), rel_startup = ex_startup, rel_geth = ex_geth\<rparr>"

lemma ex_relayer_runs: "\<exists>R. relayer_main ex_relayer_env 3 = (7, Running R)"
proof -
  have hex: "hex_digit CHR ''a'' = Some 10" "hex_digit CHR ''b'' = Some 11" by code_simp+
  show ?thesis
    by (simp add: relayer_main_def ex_relayer_env_def ex_relayer_config_def ex_config_def isMigrateSubcommand_def LoadConfig_def
        Validate_def NewDatabase_def runMigrations_def runMigration_def start_relayer_def signing_source_def
        LoadChainIDToPrivateKeyMap_def NewConfigReader_def GetIBCV2Chains_def NewClientManagerFromConfig_def signer_health_def
        chain_bridge_def fee_settings_def createCosmosSigner_def createCosmosRPC_def createCosmosGRPC_def GetRPCEndpoint_def
        GetBasicAuth_def GetGRPCEndpoint_def ex_startup_def ex_chain_def hex Let_def)
qed


end
