(* ===== verification/Deduper.thy ===== *)
theory Deduper
  imports Guarantees
begin

text \<open>
  The deduper of \<^verbatim>\<open>relayer/ibcv2/pipeline.go\<close> as the concurrent program it is. \<^verbatim>\<open>Push\<close> takes the
  lock, marks the key and sends the transfer on the input channel while it holds the lock; the
  goroutine of \<^verbatim>\<open>once\<close> reads an output and takes the same lock to forget its key. Channels and
  stages hold a bounded number of transfers. The two operations of the pipeline model, which are
  atomic there, fall apart into steps here; the steps are shown to refine that model, every
  run of them is shown to empty a pipeline that holds less than it has room for, and a pipeline
  that holds more is shown to stop for good.
\<close>

section \<open>Simulation\<close>

text \<open>
  A state transition system whose steps are steps of another one or leave what is seen of the
  state as it is.
\<close>

locale stutter_simulation =
  fixes step :: "'c \<Rightarrow> 'c \<Rightarrow> bool" and astep :: "'a \<Rightarrow> 'a \<Rightarrow> bool" and view :: "'c \<Rightarrow> 'a"
  assumes simulates: "step c c' \<Longrightarrow> view c' = view c \<or> astep (view c) (view c')"
begin

lemma runs_simulate: "step\<^sup>*\<^sup>* c c' \<Longrightarrow> astep\<^sup>*\<^sup>* (view c) (view c')"
proof (induction rule: rtranclp_induct)
  case (step c1 c2)
  then show ?case using simulates [OF step.hyps(2)] by (auto intro: rtranclp.rtrancl_into_rtrancl)
qed simp

lemma invariant_pulled_back:
  assumes "step\<^sup>*\<^sup>* c c'" "\<And>a. astep\<^sup>*\<^sup>* (view c) a \<Longrightarrow> P a"
  shows "P (view c')"
  using assms(2) runs_simulate [OF assms(1)] .

end

section \<open>The state\<close>

text \<open>
  The pipeline with the deduper's map, the transfer a \<^verbatim>\<open>Push\<close> that holds the lock waits to send,
  the transfer the goroutine has read and not yet forgotten, and whether \<^verbatim>\<open>once\<close> has run. The
  lock is held between steps only by a \<^verbatim>\<open>Push\<close> that waits.
\<close>

record deduper =
  d_pipe :: pipe
  d_pushing :: "IBCV2Transfer option"
  d_polled :: "IBCV2Transfer option"
  d_started :: bool

definition NewPipelineDeduper :: "world \<Rightarrow> deduper" where
  "NewPipelineDeduper w =
     \<lparr>d_pipe = pipe_init w, d_pushing = None, d_polled = None, d_started = False\<rparr>"

text \<open>
  How many transfers are at a stage, and whether it takes another one. Stage 0 includes the
  buffer of the input channel, the stage after the last one is the output channel.
\<close>

definition occupancy :: "item multiset \<Rightarrow> nat \<Rightarrow> nat" where
  "occupancy M i = size (filter_mset (\<lambda>x. fst x = i) M)"

definition room :: "(nat \<Rightarrow> nat) \<Rightarrow> item multiset \<Rightarrow> nat \<Rightarrow> bool" where
  "room caps M i \<longleftrightarrow> occupancy M i < caps i"

definition accepted :: "(nat \<Rightarrow> nat) \<Rightarrow> item multiset \<Rightarrow> item multiset \<Rightarrow> bool" where
  "accepted caps M M' \<longleftrightarrow> (\<forall>i. occupancy M i < occupancy M' i \<longrightarrow> room caps M i)"

section \<open>Steps\<close>

text \<open>
  What the deduper and the pipeline do on their own: the waiting \<^verbatim>\<open>Push\<close> sends and returns, a
  stage works if the next one takes the result, the goroutine reads an output, and it forgets
  the key when it gets the lock.
\<close>

inductive deduper_work :: "(nat \<Rightarrow> nat) \<Rightarrow> stage list \<Rightarrow> deduper \<Rightarrow> deduper \<Rightarrow> bool" for caps S where
  send: "d_pushing d = Some t \<Longrightarrow> room caps (items (d_pipe d)) 0 \<Longrightarrow>
     deduper_work caps S d
       (d\<lparr>d_pipe := (d_pipe d)\<lparr>items := add_mset (0, False, t) (items (d_pipe d))\<rparr>, d_pushing := None\<rparr>)"
| stage: "pipe_work S (d_pipe d) p \<Longrightarrow>
     occupancy (items (d_pipe d)) (length S) \<le> occupancy (items p) (length S) \<Longrightarrow>
     accepted caps (items (d_pipe d)) (items p) \<Longrightarrow> deduper_work caps S d (d\<lparr>d_pipe := p\<rparr>)"
| receive: "d_started d \<Longrightarrow> d_polled d = None \<Longrightarrow>
     items (d_pipe d) = add_mset (length S, False, t) M \<Longrightarrow>
     deduper_work caps S d (d\<lparr>d_pipe := (d_pipe d)\<lparr>items := M\<rparr>, d_polled := Some t\<rparr>)"
| forget: "d_polled d = Some t \<Longrightarrow> d_pushing d = None \<Longrightarrow>
     deduper_work caps S d (d\<lparr>d_pipe := PipelineDeduper_Poll t (d_pipe d), d_polled := None\<rparr>)"

text \<open>
  A call of \<^verbatim>\<open>Push\<close> that gets the lock: it starts the goroutine, and returns false for a known
  key or marks the key and goes on to send.
\<close>

definition deduper_push :: "IBCV2Transfer \<Rightarrow> deduper \<Rightarrow> deduper" where
  "deduper_push t d =
     (if transferKey t \<in> inPipeline (d_pipe d) then d\<lparr>d_started := True\<rparr>
      else
        d\<lparr>d_pipe := (d_pipe d)\<lparr>inPipeline := insert (transferKey t) (inPipeline (d_pipe d))\<rparr>,
          d_pushing := Some t, d_started := True\<rparr>)"

inductive deduper_step :: "(nat \<Rightarrow> nat) \<Rightarrow> stage list \<Rightarrow> deduper \<Rightarrow> deduper \<Rightarrow> bool" for caps S where
  push: "d_pushing d = None \<Longrightarrow> lookup_transfer (db (pworld (d_pipe d))) (row_key r) = Some r \<Longrightarrow>
     deduper_step caps S d (deduper_push (NewIBCV2Transfer r) d)"
| work: "deduper_work caps S d d' \<Longrightarrow> deduper_step caps S d d'"
| outside: "rows_framed_on (inPipeline (d_pipe d)) (db (pworld (d_pipe d))) (db w') \<Longrightarrow>
     deduper_step caps S d (d\<lparr>d_pipe := (d_pipe d)\<lparr>pworld := w'\<rparr>\<rparr>)"

definition deduper_reachable :: "(nat \<Rightarrow> nat) \<Rightarrow> stage list \<Rightarrow> deduper \<Rightarrow> bool" where
  "deduper_reachable caps S d \<longleftrightarrow> (\<exists>w. (deduper_step caps S)\<^sup>*\<^sup>* (NewPipelineDeduper w) d)"

section \<open>Refinement of the pipeline model\<close>

text \<open>
  A marked transfer counts as waiting at the first stage, a polled one as still in the output
  channel: the mark is the atomic push, forgetting the key is the atomic poll.
\<close>

fun held_at :: "nat \<Rightarrow> IBCV2Transfer option \<Rightarrow> item multiset" where
  "held_at i None = {#}"
| "held_at i (Some t) = {#(i, False, t)#}"

definition deduper_view :: "stage list \<Rightarrow> deduper \<Rightarrow> pipe" where
  "deduper_view S d =
     (d_pipe d)\<lparr>items := items (d_pipe d) + held_at 0 (d_pushing d) + held_at (length S) (d_polled d)\<rparr>"

definition with_items :: "item multiset \<Rightarrow> pipe \<Rightarrow> pipe" where
  "with_items N st = st\<lparr>items := items st + N\<rparr>"

lemma with_items_simps [simp]:
  "pworld (with_items N st) = pworld st" "inPipeline (with_items N st) = inPipeline st"
  "items (with_items N st) = items st + N"
  by (simp_all add: with_items_def)

lemma pipe_updates:
  "st\<lparr>inPipeline := K, items := M\<rparr> = st\<lparr>items := M, inPipeline := K\<rparr>"
  "st\<lparr>pworld := w, items := M\<rparr> = st\<lparr>items := M, pworld := w\<rparr>"
  for st :: pipe
  by simp_all

text \<open>What else is in the pipeline does not keep a stage from its work.\<close>

lemma pipe_work_frame: "pipe_work S st st' \<Longrightarrow> pipe_work S (with_items N st) (with_items N st')"
proof (induction rule: pipe_work.induct)
  case (single i p st t M E w' t')
  then show ?case using pipe_work.single [of i S p "with_items N st" t "M + N" E w' t']
    by (simp add: with_items_def)
next
  case (single_drop i p st t M E w' err)
  then show ?case using pipe_work.single_drop [of i S p "with_items N st" t "M + N" E w' err]
    by (simp add: with_items_def)
next
  case (bypass i n b st t M E)
  then show ?case using pipe_work.bypass [of i S n b "with_items N st" t "M + N" E]
    by (simp add: with_items_def)
next
  case (enbatch i n b st t M E)
  then show ?case using pipe_work.enbatch [of i S n b "with_items N st" t "M + N" E]
    by (simp add: with_items_def)
next
  case (batch i n b ts st M E w' ts')
  then show ?case using pipe_work.batch [of i S n b ts "with_items N st" "M + N" E w' ts']
    by (simp add: with_items_def add.assoc)
next
  case (batch_drop i n b ts st M E w' err)
  then show ?case using pipe_work.batch_drop [of i S n b ts "with_items N st" "M + N" E w' err]
    by (simp add: with_items_def add.assoc)
next
  case (finish i succ err st t M E w' t')
  then show ?case using pipe_work.finish [of i S succ err "with_items N st" t "M + N" E w' t']
    by (simp add: with_items_def)
next
  case (poll st t M st')
  then show ?case using pipe_work.poll [of "with_items N st" S t "M + N"]
    by (simp add: with_items_def PipelineDeduper_Poll_def pipe_updates)
qed

lemma deduper_work_simulates:
  assumes "deduper_work caps S d d'"
  shows "deduper_view S d' = deduper_view S d \<or> pipe_step S (deduper_view S d) (deduper_view S d')"
  using assms
proof cases
  case (stage p)
  have "pipe_work S (deduper_view S d) (deduper_view S d')"
    using pipe_work_frame [OF stage(2), of "held_at 0 (d_pushing d) + held_at (length S) (d_polled d)"] stage(1)
    by (simp add: deduper_view_def with_items_def add.assoc)
  then show ?thesis by (auto intro: pipe_step.work)
next
  case (forget t)
  have "pipe_work S (deduper_view S d) (deduper_view S d')"
    by (rule pipe_work.poll [of _ S t "items (d_pipe d)"])
      (use forget in \<open>simp_all add: deduper_view_def PipelineDeduper_Poll_def\<close>)
  then show ?thesis by (auto intro: pipe_step.work)
qed (auto simp: deduper_view_def)

interpretation dedup: stutter_simulation "deduper_step caps S" "pipe_step S" "deduper_view S" for caps S
proof
  fix d d' assume "deduper_step caps S d d'"
  then show "deduper_view S d' = deduper_view S d \<or> pipe_step S (deduper_view S d) (deduper_view S d')"
  proof cases
    case (push r)
    have "pipe_step S (deduper_view S d) (fst (PipelineDeduper_Push (NewIBCV2Transfer r) (deduper_view S d)))"
      by (rule pipe_step.push [of _ r _ "snd (PipelineDeduper_Push (NewIBCV2Transfer r) (deduper_view S d))"])
        (use push in \<open>simp_all add: deduper_view_def\<close>)
    moreover have "deduper_view S d' = fst (PipelineDeduper_Push (NewIBCV2Transfer r) (deduper_view S d))"
      using push by (simp add: deduper_view_def deduper_push_def PipelineDeduper_Push_def)
    ultimately show ?thesis by simp
  next
    case work
    then show ?thesis by (rule deduper_work_simulates)
  next
    case (outside w')
    have "pipe_step S (deduper_view S d) (deduper_view S d\<lparr>pworld := w'\<rparr>)"
      using outside by (intro pipe_step.outside) (simp add: deduper_view_def)
    then show ?thesis using outside by (simp add: deduper_view_def pipe_updates)
  qed
qed

lemma view_init: "deduper_view S (NewPipelineDeduper w) = pipe_init w"
  by (simp add: deduper_view_def NewPipelineDeduper_def pipe_init_def)

lemma view_reachable: "deduper_reachable caps S d \<Longrightarrow> pipe_reachable S (deduper_view S d)"
  using dedup.runs_simulate view_init unfolding deduper_reachable_def pipe_reachable_def by metis


section \<open>Counting\<close>

lemma occupancy_simps [simp]:
  "occupancy {#} i = 0"
  "occupancy (add_mset x M) i = (if fst x = i then Suc (occupancy M i) else occupancy M i)"
  "occupancy (M + N) i = occupancy M i + occupancy N i"
  by (simp_all add: occupancy_def)

lemma occupancy_map [simp]: "occupancy (mset (map (\<lambda>t. (j, b, t)) ts)) i = (if i = j then length ts else 0)"
  by (induction ts) auto

lemma occupancy_pos: "0 < occupancy M i \<longleftrightarrow> (\<exists>b t. (i, b, t) \<in># M)"
  by (induction M) auto

lemma occupancy_sum: "(\<Sum>i\<le>n. occupancy M i) \<le> size M"
proof (induction M)
  case (add x M)
  have "(\<Sum>i\<le>n. occupancy (add_mset x M) i) = (\<Sum>i\<le>n. (if fst x = i then 1 else 0) + occupancy M i)"
    by (rule sum.cong) auto
  also have "\<dots> = (if fst x \<le> n then 1 else 0) + (\<Sum>i\<le>n. occupancy M i)"
    by (simp add: sum.distrib)
  finally show ?case using add by auto
qed simp

text \<open>
  What is left to do for the transfers inside: two steps per stage, one less for a transfer that
  is in a batch.
\<close>

fun pending :: "nat \<Rightarrow> item \<Rightarrow> nat" where
  "pending n (i, b, t) = 2 * (n - i) + (if b then 1 else 2)"

definition work_left :: "stage list \<Rightarrow> deduper \<Rightarrow> nat" where
  "work_left S d =
     \<Sum>\<^sub># (image_mset (pending (length S)) (items (d_pipe d))) +
     (if d_pushing d = None then 0 else 2 * length S + 3) + (if d_polled d = None then 0 else 1)"

definition transfers_inside :: "deduper \<Rightarrow> nat" where
  "transfers_inside d = size (items (d_pipe d)) +
     (if d_pushing d = None then 0 else 1) + (if d_polled d = None then 0 else 1)"

lemma inside_view: "transfers_inside d = size (items (deduper_view S d))"
  by (cases "d_pushing d"; cases "d_polled d") (simp_all add: transfers_inside_def deduper_view_def)

lemma pending_map:
  "\<Sum>\<^sub># (image_mset (pending n) (mset (map (\<lambda>t. (i, b, t)) ts))) = length ts * (2 * (n - i) + (if b then 1 else 2))"
  by (induction ts) auto

text \<open>Every step a stage takes on its own leaves less to do, and no transfer appears.\<close>

context relay_pipeline
begin

lemma stage_decreases:
  assumes "pipe_work S st st'"
    and kept: "occupancy (items st) (length S) \<le> occupancy (items st') (length S)"
  shows "\<Sum>\<^sub># (image_mset (pending (length S)) (items st')) < \<Sum>\<^sub># (image_mset (pending (length S)) (items st)) \<and>
    size (items st') \<le> size (items st)"
  using assms(1)
proof cases
  case (batch i n b ts M E w' ts')
  have "stage_batch_processor b" using batch(2,3) sound_batch by (metis nth_mem)
  from stage_batch_processor.mwB_emits(1) [OF this batch(7)] have len: "length ts' = length ts"
    by (metis length_map size_mset)
  have "Suc (2 * (length S - Suc i) + 2) = 2 * (length S - i) + 1" using batch(2) by simp
  then have "length ts * (2 * (length S - Suc i) + 2) < length ts * (2 * (length S - i) + 1)"
    using batch(4) by (metis length_greater_0_conv lessI mult_less_mono2)
  then show ?thesis using batch(1,6) len by (simp add: pending_map del: mset_map)
next
  case (batch_drop i n b ts M E w' err)
  then show ?thesis by (simp add: pending_map del: mset_map)
next
  case (poll t M)
  then show ?thesis using kept by (simp add: PipelineDeduper_Poll_def)
qed auto

lemma work_decreases:
  assumes "deduper_work caps S d d'"
  shows "work_left S d' < work_left S d \<and> transfers_inside d' \<le> transfers_inside d"
  using assms
proof cases
  case (stage p)
  then show ?thesis using stage_decreases [OF stage(2,3)] by (simp add: work_left_def transfers_inside_def)
qed (auto simp: work_left_def transfers_inside_def PipelineDeduper_Poll_def)

end


section \<open>Where transfers can be\<close>

fun batching :: "stage \<Rightarrow> bool" where
  "batching (Batched n b) = True"
| "batching _ = False"

definition placed :: "stage list \<Rightarrow> item multiset \<Rightarrow> bool" where
  "placed S M \<longleftrightarrow>
     (\<forall>x \<in># M. fst x \<le> length S \<and> (fst (snd x) \<longrightarrow> fst x < length S \<and> batching (S ! fst x)))"

lemma placed_simps [simp]:
  "placed S {#}"
  "placed S (add_mset (i, b, t) M) \<longleftrightarrow> i \<le> length S \<and> (b \<longrightarrow> i < length S \<and> batching (S ! i)) \<and> placed S M"
  "placed S (M + N) \<longleftrightarrow> placed S M \<and> placed S N"
  by (auto simp: placed_def)

lemma placed_map [simp]: "Suc i \<le> length S \<Longrightarrow> placed S (mset (map (\<lambda>t. (Suc i, False, t)) ts))"
  by (induction ts) auto

lemma placed_work: "pipe_work S st st' \<Longrightarrow> placed S (items st) \<Longrightarrow> placed S (items st')"
  by (induction rule: pipe_work.induct) (auto simp: PipelineDeduper_Poll_def simp del: mset_map)

lemma placed_reachable: "pipe_reachable S st \<Longrightarrow> placed S (items st)"
  unfolding pipe_reachable_def
proof (elim exE)
  fix w assume "(pipe_step S)\<^sup>*\<^sup>* (pipe_init w) st"
  then show "placed S (items st)"
  proof (induction rule: rtranclp_induct)
    case (step y z)
    from step.hyps(2) step.IH show ?case
      by cases (auto simp: PipelineDeduper_Push_def intro: placed_work split: if_splits)
  qed (simp add: pipe_init_def)
qed

definition idle :: "deduper \<Rightarrow> bool" where
  "idle d \<longleftrightarrow> items (d_pipe d) = {#} \<and> d_pushing d = None \<and> d_polled d = None"

definition deduper_inv :: "stage list \<Rightarrow> deduper \<Rightarrow> bool" where
  "deduper_inv S d \<longleftrightarrow> placed S (items (d_pipe d)) \<and> (d_started d \<or> idle d)"

lemma inv_deduper_work:
  assumes "deduper_work caps S d d'" "deduper_inv S d"
  shows "deduper_inv S d'"
  using assms
proof cases
  case (stage p)
  have "items p = {#}" if "items (d_pipe d) = {#}" using stage(2) that by cases auto
  then show ?thesis
    using stage assms(2) placed_work [OF stage(2)] by (auto simp: deduper_inv_def idle_def)
qed (auto simp: deduper_inv_def idle_def PipelineDeduper_Poll_def)

lemma deduper_reachable_inv: "deduper_reachable caps S d \<Longrightarrow> deduper_inv S d"
  unfolding deduper_reachable_def
proof (elim exE)
  fix w assume "(deduper_step caps S)\<^sup>*\<^sup>* (NewPipelineDeduper w) d"
  then show "deduper_inv S d"
  proof (induction rule: rtranclp_induct)
    case (step y z)
    from step.hyps(2) step.IH show ?case
      by cases (auto simp: deduper_push_def deduper_inv_def idle_def dest: inv_deduper_work
          split: if_splits)
  qed (simp add: NewPipelineDeduper_def pipe_init_def deduper_inv_def idle_def)
qed

section \<open>A stage can always pass a transfer on\<close>

fun batch_positive :: "stage \<Rightarrow> bool" where
  "batch_positive (Batched n b) \<longleftrightarrow> 1 \<le> n"
| "batch_positive _ \<longleftrightarrow> True"

text \<open>With storage down, a stage at most adds an error to the transfer.\<close>

definition storage_down :: "env \<Rightarrow> env" where
  "storage_down E = E\<lparr>storage := (storage E)\<lparr>db_fault := \<lambda>_. Some (External ''storage down'')\<rparr>\<rparr>"

lemma storage_down_update:
  "mw_update_state (storage_down E) s t w = (w, Some (External ''storage down''))"
  by (simp add: mw_update_state_def storage_down_def on_db_def UpdateTransferState_def set_rows_def
      exec_query_def)

lemma single_passes:
  "\<exists>t'. IBCV2ProcessorMW_Process p (storage_down E) w (Some t) = (w, Emitted t') \<and>
     transferKey t' = transferKey t"
  by (auto simp: IBCV2ProcessorMW_Process_def storage_down_update)

lemma batch_passes:
  "\<exists>t'. IBCV2BatchProcessorMW_Process p (storage_down E) w [t] = (w, Emitted [t']) \<and>
     transferKey t' = transferKey t"
  by (auto simp: IBCV2BatchProcessorMW_Process_def storage_down_update)

lemma finisher_passes:
  "\<exists>t'. StateFinisher_Process succ err (storage_down E) w t = (w, t') \<and> transferKey t' = transferKey t"
  by (auto simp: StateFinisher_Process_def Let_def storage_down_def on_db_def UpdateTransferState_def
      set_rows_def exec_query_def split: option.splits)

lemma stage_passes:
  fixes st :: pipe
  assumes i: "i < length S" and items: "items st = add_mset (i, b, t) M"
    and S: "list_all batch_positive S" and b: "b \<Longrightarrow> batching (S ! i)"
  shows "\<exists>t'. transferKey t' = transferKey t \<and>
    (pipe_work S st (st\<lparr>items := add_mset (Suc i, False, t') M\<rparr>) \<or>
     \<not> b \<and> batching (S ! i) \<and> pipe_work S st (st\<lparr>items := add_mset (i, True, t') M\<rparr>))"
proof (cases "S ! i")
  case (Single p)
  obtain t' where t': "IBCV2ProcessorMW_Process p (storage_down undefined) (pworld st) (Some t) = (pworld st, Emitted t')"
    "transferKey t' = transferKey t" using single_passes by blast
  show ?thesis
    using pipe_work.single [OF i Single _ t'(1)] items b Single t'(2) by (cases b) auto
next
  case (Finish succ err)
  obtain t' where t': "StateFinisher_Process succ err (storage_down undefined) (pworld st) t = (pworld st, t')"
    "transferKey t' = transferKey t" using finisher_passes by blast
  show ?thesis
    using pipe_work.finish [OF i Finish _ t'(1)] items b Finish t'(2) by (cases b) auto
next
  case (Batched n q)
  have n: "1 \<le> n" using S i Batched by (metis list_all_length batch_positive.simps(1))
  show ?thesis
  proof (cases b)
    case True
    obtain t' where t': "IBCV2BatchProcessorMW_Process q (storage_down undefined) (pworld st) [t] = (pworld st, Emitted [t'])"
      "transferKey t' = transferKey t" using batch_passes by blast
    show ?thesis
      using pipe_work.batch [OF i Batched _ _ _ t'(1), of M] items n True t'(2) by auto
  next
    case False
    then show ?thesis
      using pipe_work.bypass [OF i Batched, of st t M "storage_down undefined"]
        pipe_work.enbatch [OF i Batched, of st t M "storage_down undefined"] items Batched by auto
  qed
qed

section \<open>The pipeline stops only when it is full\<close>

definition full :: "(nat \<Rightarrow> nat) \<Rightarrow> stage list \<Rightarrow> item multiset \<Rightarrow> bool" where
  "full caps S M \<longleftrightarrow> (\<forall>i\<le>length S. caps i \<le> occupancy M i)"

lemma occupied_blocks:
  assumes inv: "deduper_inv S d" and S: "list_all batch_positive S"
    and stuck: "\<And>d'. \<not> deduper_work caps S d d'"
    and i: "i < length S" "0 < occupancy (items (d_pipe d)) i"
  shows "\<not> room caps (items (d_pipe d)) (Suc i)"
proof
  assume r: "room caps (items (d_pipe d)) (Suc i)"
  obtain b t where "(i, b, t) \<in># items (d_pipe d)" using i(2) by (auto simp: occupancy_pos)
  then obtain M where M: "items (d_pipe d) = add_mset (i, b, t) M" by (metis mset_add)
  have "b \<Longrightarrow> batching (S ! i)" using inv M by (auto simp: deduper_inv_def)
  from stage_passes [OF i(1) M S this] obtain t' j b' where
    w: "pipe_work S (d_pipe d) ((d_pipe d)\<lparr>items := add_mset (j, b', t') M\<rparr>)" "j = Suc i \<or> j = i"
    by blast
  have "deduper_work caps S d (d\<lparr>d_pipe := (d_pipe d)\<lparr>items := add_mset (j, b', t') M\<rparr>\<rparr>)"
    by (rule deduper_work.stage [OF w(1)]) (use w(2) M r i(1) in \<open>auto simp: accepted_def\<close>)
  with stuck show False by blast
qed

lemma stuck_full:
  assumes inv: "deduper_inv S d" and S: "list_all batch_positive S"
    and caps: "\<And>i. i \<le> length S \<Longrightarrow> 0 < caps i"
    and stuck: "\<And>d'. \<not> deduper_work caps S d d'" and busy: "\<not> idle d"
  shows "d_pushing d \<noteq> None \<and> d_polled d \<noteq> None \<and> full caps S (items (d_pipe d))"
proof -
  let ?M = "items (d_pipe d)"
  have up: "j \<le> length S \<Longrightarrow> 0 < occupancy ?M i \<Longrightarrow> i < j \<Longrightarrow> caps j \<le> occupancy ?M j" for i j
  proof (induction j)
    case (Suc j)
    then have "0 < occupancy ?M j" using caps [of j] by (cases "i = j") auto
    then show ?case
      using occupied_blocks [OF inv S stuck, of j] Suc.prems(1) by (simp add: room_def)
  qed simp
  have out: "d_polled d \<noteq> None" if "0 < occupancy ?M (length S)"
  proof
    assume none: "d_polled d = None"
    obtain b t where x: "(length S, b, t) \<in># ?M" using \<open>0 < occupancy ?M (length S)\<close> by (auto simp: occupancy_pos)
    then obtain M where M: "?M = add_mset (length S, b, t) M" by (metis mset_add)
    then have "d_started d" "\<not> b" using inv by (auto simp: deduper_inv_def idle_def)
    then show False using stuck deduper_work.receive [of d S t M caps] none M by auto
  qed
  have reach: "d_polled d \<noteq> None" if x: "(i, b, t) \<in># ?M" for i b t
  proof -
    have "0 < occupancy ?M i" "i \<le> length S"
      using x inv by (auto simp: occupancy_pos deduper_inv_def placed_def)
    then show ?thesis using out up [of "length S" i] caps [of "length S"] by (cases "i = length S") auto
  qed
  have lock: "d_pushing d \<noteq> None" if "d_polled d \<noteq> None"
    using stuck deduper_work.forget [of d _ caps S] that by auto
  have start: "caps 0 \<le> occupancy ?M 0" if "d_pushing d \<noteq> None"
    using stuck deduper_work.send [of d _ caps S] that by (meson leI not_None_eq room_def)
  have pushing: "d_pushing d \<noteq> None"
    using busy lock reach by (metis idle_def multiset_nonemptyE prod.exhaust)
  have full: "full caps S ?M"
    unfolding full_def using start [OF pushing] up [of _ 0] caps [of 0]
    by (metis gr0I le0 less_le_trans)
  moreover have "d_polled d \<noteq> None"
    using out full caps [of "length S"] by (auto simp: full_def)
  ultimately show ?thesis using pushing by simp
qed

text \<open>A pipeline that holds fewer transfers than it has places is not full.\<close>

lemma full_inside:
  assumes "full caps S (items (d_pipe d))" "d_pushing d \<noteq> None" "d_polled d \<noteq> None"
  shows "(\<Sum>i\<le>length S. caps i) + 2 \<le> transfers_inside d"
proof -
  have "(\<Sum>i\<le>length S. caps i) \<le> (\<Sum>i\<le>length S. occupancy (items (d_pipe d)) i)"
    using assms(1) by (intro sum_mono) (simp add: full_def)
  also have "\<dots> \<le> size (items (d_pipe d))" by (rule occupancy_sum)
  finally show ?thesis using assms(2,3) by (auto simp: transfers_inside_def)
qed

section \<open>Draining\<close>

text \<open>Every run of the deduper and the pipeline on their own ends with nothing inside.\<close>

inductive drains :: "(nat \<Rightarrow> nat) \<Rightarrow> stage list \<Rightarrow> deduper \<Rightarrow> bool" for caps S where
  drained: "idle d \<Longrightarrow> drains caps S d"
| working: "deduper_work caps S d d1 \<Longrightarrow> (\<And>d'. deduper_work caps S d d' \<Longrightarrow> drains caps S d') \<Longrightarrow>
     drains caps S d"

context relay_pipeline
begin

lemma drains_below_capacity:
  assumes "deduper_inv S d" "list_all batch_positive S"
    and "\<And>i. i \<le> length S \<Longrightarrow> 0 < caps i" "transfers_inside d < (\<Sum>i\<le>length S. caps i) + 2"
  shows "drains caps S d"
  using assms(1,4)
proof (induction "work_left S d" arbitrary: d rule: less_induct)
  case less
  show ?case
  proof (cases "idle d")
    case False
    have "\<exists>d1. deduper_work caps S d d1"
    proof (rule ccontr)
      assume "\<not> (\<exists>d1. deduper_work caps S d d1)"
      then have "d_pushing d \<noteq> None \<and> d_polled d \<noteq> None \<and> full caps S (items (d_pipe d))"
        by (intro stuck_full [OF less.prems(1) assms(2)]) (use assms(3) False in auto)
      then show False using full_inside less.prems(2) by fastforce
    qed
    then obtain d1 where "deduper_work caps S d d1" by blast
    then show ?thesis
    proof (rule drains.working)
      fix d' assume w: "deduper_work caps S d d'"
      show "drains caps S d'"
        using work_decreases [OF w] less.prems(2)
        by (intro less.hyps inv_deduper_work [OF w less.prems(1)]) auto
    qed
  qed (rule drains.drained)
qed

end


section \<open>Filling\<close>

text \<open>
  Transfers pile up from the output backwards: below a stage that has room there is nothing.
\<close>

definition snug :: "(nat \<Rightarrow> nat) \<Rightarrow> stage list \<Rightarrow> item multiset \<Rightarrow> bool" where
  "snug caps S M \<longleftrightarrow>
     (\<forall>i k. i < k \<and> k \<le> length S \<and> room caps M k \<longrightarrow> occupancy M i = 0) \<and>
     (\<forall>i\<le>length S. occupancy M i \<le> caps i) \<and> size M = (\<Sum>i\<le>length S. occupancy M i)"

lemma snug_empty [simp]: "snug caps S {#}"
  by (simp add: snug_def)

lemma snug_room:
  assumes snug: "snug caps S M" and less: "size M < (\<Sum>i\<le>length S. caps i)"
    and caps: "\<And>i. i \<le> length S \<Longrightarrow> 0 < caps i"
  obtains j where "j \<le> length S" "\<And>k. k \<le> j \<Longrightarrow> room caps M k" "\<And>b t. snug caps S (add_mset (j, b, t) M)"
proof -
  have "\<exists>k\<le>length S. room caps M k"
  proof (rule ccontr)
    assume "\<not> (\<exists>k\<le>length S. room caps M k)"
    then have "(\<Sum>i\<le>length S. caps i) \<le> (\<Sum>i\<le>length S. occupancy M i)"
      by (intro sum_mono) (auto simp: room_def not_less)
    then show False using snug less by (simp add: snug_def)
  qed
  then obtain j where j: "j \<le> length S" "room caps M j" "\<And>k. k \<le> length S \<Longrightarrow> room caps M k \<Longrightarrow> k \<le> j"
    using Greatest_le_nat [of "\<lambda>k. k \<le> length S \<and> room caps M k" _ "length S"]
      GreatestI_nat [of "\<lambda>k. k \<le> length S \<and> room caps M k" _ "length S"] by blast
  have empty: "occupancy M i = 0" if "i < j" for i using snug j that by (auto simp: snug_def)
  have room: "room caps M k" if "k \<le> j" for k
    using that empty [of k] caps [of k] j by (cases "k = j") (auto simp: room_def)
  have "snug caps S (add_mset (j, b, t) M)" for b t
  proof -
    have "occupancy (add_mset (j, b, t) M) i = (if j = i then 1 else 0) + occupancy M i" for i by simp
    then have "(\<Sum>i\<le>length S. occupancy (add_mset (j, b, t) M) i) = 1 + (\<Sum>i\<le>length S. occupancy M i)"
      using j(1) by (simp only: sum.distrib) simp
    moreover have "occupancy (add_mset (j, b, t) M) i = 0"
      if "i < k" "k \<le> length S" "room caps (add_mset (j, b, t) M) k" for i k
    proof -
      have "room caps M k" using that(3) by (simp add: room_def split: if_splits)
      then show ?thesis using j(3) [OF that(2)] snug that(1,2) by (auto simp: snug_def)
    qed
    moreover have "occupancy (add_mset (j, b, t) M) i \<le> caps i" if "i \<le> length S" for i
      using snug j(2) that by (auto simp: snug_def room_def)
    ultimately show ?thesis using snug unfolding snug_def by (metis plus_1_eq_Suc size_add_mset)
  qed
  with j(1) room show thesis by (rule that)
qed

lemma snug_full:
  assumes snug: "snug caps S M" and all: "size M = (\<Sum>i\<le>length S. caps i)"
  shows "full caps S M"
  unfolding full_def
proof (intro allI impI)
  fix i assume i: "i \<le> length S"
  have "occupancy M i = caps i"
    by (rule sum_mono_inv [of "occupancy M" "{..length S}" caps]) (use snug all i in \<open>simp_all add: snug_def\<close>)
  then show "caps i \<le> occupancy M i" by simp
qed

definition at_items :: "item multiset \<Rightarrow> deduper \<Rightarrow> deduper" where
  "at_items M d = d\<lparr>d_pipe := (d_pipe d)\<lparr>items := M\<rparr>\<rparr>"

lemma at_items_simps [simp]:
  "items (d_pipe (at_items M d)) = M" "inPipeline (d_pipe (at_items M d)) = inPipeline (d_pipe d)"
  "pworld (d_pipe (at_items M d)) = pworld (d_pipe d)" "d_pushing (at_items M d) = d_pushing d"
  "d_polled (at_items M d) = d_polled d" "d_started (at_items M d) = d_started d"
  "at_items M (at_items N d) = at_items M d" "at_items (items (d_pipe d)) d = d"
  by (simp_all add: at_items_def)

lemma at_items_work:
  assumes "pipe_work S (d_pipe d) ((d_pipe d)\<lparr>items := M\<rparr>)"
    "occupancy (items (d_pipe d)) (length S) \<le> occupancy M (length S)"
    "accepted caps (items (d_pipe d)) M"
  shows "(deduper_step caps S) d (at_items M d)"
  using deduper_step.work [OF deduper_work.stage [OF assms(1)]] assms(2,3) by (simp add: at_items_def)

lemma hop:
  assumes i: "i < length S" "items (d_pipe d) = add_mset (i, False, t) M" "room caps M (Suc i)"
    and S: "list_all batch_positive S"
  shows "\<exists>t'. (deduper_step caps S)\<^sup>*\<^sup>* d (at_items (add_mset (Suc i, False, t') M) d) \<and>
    transferKey t' = transferKey t"
proof -
  have move: "deduper_step caps S e (at_items (add_mset (Suc i, False, t') M) e)"
    if "items (d_pipe e) = add_mset (i, b, u) M"
      "pipe_work S (d_pipe e) ((d_pipe e)\<lparr>items := add_mset (Suc i, False, t') M\<rparr>)" for e b u t'
    by (rule at_items_work [OF that(2)]) (use that i in \<open>auto simp: accepted_def room_def\<close>)
  from stage_passes [OF i(1,2) S] obtain t1 where t1: "transferKey t1 = transferKey t"
    "pipe_work S (d_pipe d) ((d_pipe d)\<lparr>items := add_mset (Suc i, False, t1) M\<rparr>) \<or>
     batching (S ! i) \<and> pipe_work S (d_pipe d) ((d_pipe d)\<lparr>items := add_mset (i, True, t1) M\<rparr>)"
    by blast
  then consider "pipe_work S (d_pipe d) ((d_pipe d)\<lparr>items := add_mset (Suc i, False, t1) M\<rparr>)"
    | "batching (S ! i)" "pipe_work S (d_pipe d) ((d_pipe d)\<lparr>items := add_mset (i, True, t1) M\<rparr>)" by blast
  then show ?thesis
  proof cases
    case 1
    from move [OF i(2) this] t1(1) show ?thesis by blast
  next
    case 2
    let ?e = "at_items (add_mset (i, True, t1) M) d"
    have s: "deduper_step caps S d ?e"
      by (rule at_items_work [OF 2(2)]) (use i in \<open>auto simp: accepted_def\<close>)
    have e: "items (d_pipe ?e) = add_mset (i, True, t1) M" by simp
    from stage_passes [OF i(1) e S] 2(1) obtain t2 where t2: "transferKey t2 = transferKey t1"
      "pipe_work S (d_pipe ?e) ((d_pipe ?e)\<lparr>items := add_mset (Suc i, False, t2) M\<rparr>)" by blast
    from move [OF e t2(2)] s t1(1) t2(1) show ?thesis
      by (metis at_items_simps(7) converse_rtranclp_into_rtranclp r_into_rtranclp)
  qed
qed

lemma carry:
  assumes S: "list_all batch_positive S" and M: "items (d_pipe d) = add_mset (0, False, t) M"
  shows "j \<le> length S \<Longrightarrow> (\<And>k. k \<le> j \<Longrightarrow> room caps M k) \<Longrightarrow>
    \<exists>t'. (deduper_step caps S)\<^sup>*\<^sup>* d (at_items (add_mset (j, False, t') M) d) \<and> transferKey t' = transferKey t"
proof (induction j)
  case 0
  then show ?case using M by (metis at_items_simps(8) rtranclp.rtrancl_refl)
next
  case (Suc j)
  then obtain t1 where t1: "(deduper_step caps S)\<^sup>*\<^sup>* d (at_items (add_mset (j, False, t1) M) d)"
    "transferKey t1 = transferKey t" by fastforce
  from hop [of j S "at_items (add_mset (j, False, t1) M) d" t1 M caps] S Suc.prems obtain t2 where
    "(deduper_step caps S)\<^sup>*\<^sup>* (at_items (add_mset (j, False, t1) M) d) (at_items (add_mset (Suc j, False, t2) M) d)"
    "transferKey t2 = transferKey t1" by auto
  with t1 show ?case by (metis rtranclp_trans)
qed

text \<open>A row that is pushed can get as far as there is room.\<close>

lemma insert_row:
  assumes S: "list_all batch_positive S" and free: "d_pushing d = None"
    and row: "lookup_transfer (db (pworld (d_pipe d))) (row_key r) = Some r"
    and fresh: "row_key r \<notin> inPipeline (d_pipe d)"
    and j: "j \<le> length S" "\<And>k. k \<le> j \<Longrightarrow> room caps (items (d_pipe d)) k"
  obtains d' t where "(deduper_step caps S)\<^sup>*\<^sup>* d d'" "items (d_pipe d') = add_mset (j, False, t) (items (d_pipe d))"
    "inPipeline (d_pipe d') = insert (row_key r) (inPipeline (d_pipe d))" "d_pushing d' = None"
    "d_polled d' = d_polled d" "pworld (d_pipe d') = pworld (d_pipe d)" "d_started d'"
proof -
  let ?t = "NewIBCV2Transfer r"
  let ?d1 = "deduper_push ?t d"
  have d1: "items (d_pipe ?d1) = items (d_pipe d)" "d_pushing ?d1 = Some ?t" "d_polled ?d1 = d_polled d"
    "inPipeline (d_pipe ?d1) = insert (row_key r) (inPipeline (d_pipe d))"
    "pworld (d_pipe ?d1) = pworld (d_pipe d)" "d_started ?d1"
    using fresh by (simp_all add: deduper_push_def)
  let ?d2 = "?d1\<lparr>d_pipe := (d_pipe ?d1)\<lparr>items := add_mset (0, False, ?t) (items (d_pipe ?d1))\<rparr>, d_pushing := None\<rparr>"
  have s1: "deduper_step caps S d ?d1" using free row by (rule deduper_step.push)
  have "room caps (items (d_pipe ?d1)) 0" using d1(1) j(2) [of 0] by simp
  then have s2: "deduper_step caps S ?d1 ?d2"
    by (intro deduper_step.work deduper_work.send d1(2))
  have "items (d_pipe ?d2) = add_mset (0, False, ?t) (items (d_pipe d))" using d1(1) by simp
  from carry [OF S this j] obtain t' where
    s3: "(deduper_step caps S)\<^sup>*\<^sup>* ?d2 (at_items (add_mset (j, False, t') (items (d_pipe d))) ?d2)" by blast
  show thesis
  proof (rule that)
    show "(deduper_step caps S)\<^sup>*\<^sup>* d (at_items (add_mset (j, False, t') (items (d_pipe d))) ?d2)"
      using s1 s2 s3 by (meson converse_rtranclp_into_rtranclp)
  qed (use d1 in simp_all)
qed

lemma fill:
  assumes S: "list_all batch_positive S" and caps: "\<And>i. i \<le> length S \<Longrightarrow> 0 < caps i"
  shows "d_pushing d = None \<Longrightarrow> snug caps S (items (d_pipe d)) \<Longrightarrow>
    size (items (d_pipe d)) + length rs \<le> (\<Sum>i\<le>length S. caps i) \<Longrightarrow> distinct (map row_key rs) \<Longrightarrow>
    row_key ` set rs \<inter> inPipeline (d_pipe d) = {} \<Longrightarrow>
    \<forall>r \<in> set rs. lookup_transfer (db (pworld (d_pipe d))) (row_key r) = Some r \<Longrightarrow>
    \<exists>d'. (deduper_step caps S)\<^sup>*\<^sup>* d d' \<and> d_pushing d' = None \<and> d_polled d' = d_polled d \<and>
      pworld (d_pipe d') = pworld (d_pipe d) \<and> snug caps S (items (d_pipe d')) \<and>
      size (items (d_pipe d')) = size (items (d_pipe d)) + length rs \<and>
      inPipeline (d_pipe d') = inPipeline (d_pipe d) \<union> row_key ` set rs"
proof (induction rs arbitrary: d)
  case Nil
  then show ?case by auto
next
  case (Cons r rs)
  have "size (items (d_pipe d)) < (\<Sum>i\<le>length S. caps i)" using Cons.prems(3) by simp
  from snug_room [OF Cons.prems(2) this caps] obtain j where j: "j \<le> length S"
    "\<And>k. k \<le> j \<Longrightarrow> room caps (items (d_pipe d)) k"
    "\<And>b t. snug caps S (add_mset (j, b, t) (items (d_pipe d)))" by blast
  have "lookup_transfer (db (pworld (d_pipe d))) (row_key r) = Some r" "row_key r \<notin> inPipeline (d_pipe d)"
    using Cons.prems(5,6) by auto
  from insert_row [OF S Cons.prems(1) this j(1,2)] obtain d1 t where
    d1: "(deduper_step caps S)\<^sup>*\<^sup>* d d1" "items (d_pipe d1) = add_mset (j, False, t) (items (d_pipe d))"
    "inPipeline (d_pipe d1) = insert (row_key r) (inPipeline (d_pipe d))" "d_pushing d1 = None"
    "d_polled d1 = d_polled d" "pworld (d_pipe d1) = pworld (d_pipe d)" by blast
  have "\<exists>d'. (deduper_step caps S)\<^sup>*\<^sup>* d1 d' \<and> d_pushing d' = None \<and> d_polled d' = d_polled d1 \<and>
      pworld (d_pipe d') = pworld (d_pipe d1) \<and> snug caps S (items (d_pipe d')) \<and>
      size (items (d_pipe d')) = size (items (d_pipe d1)) + length rs \<and>
      inPipeline (d_pipe d') = inPipeline (d_pipe d1) \<union> row_key ` set rs"
    using Cons.prems d1 j(3) by (intro Cons.IH) auto
  then obtain d' where d': "(deduper_step caps S)\<^sup>*\<^sup>* d1 d'" "d_pushing d' = None" "d_polled d' = d_polled d1"
      "pworld (d_pipe d') = pworld (d_pipe d1)" "snug caps S (items (d_pipe d'))"
      "size (items (d_pipe d')) = size (items (d_pipe d1)) + length rs"
      "inPipeline (d_pipe d') = inPipeline (d_pipe d1) \<union> row_key ` set rs" by blast
  show ?case by (rule exI [of _ d'], intro conjI rtranclp_trans [OF d1(1) d'(1)]) (use d1 d' in simp_all)
qed

section \<open>Deadlock\<close>

text \<open>
  A \<^verbatim>\<open>Push\<close> that holds the lock, a goroutine that waits for it, and no room anywhere.
\<close>

definition deadlocked :: "(nat \<Rightarrow> nat) \<Rightarrow> stage list \<Rightarrow> deduper \<Rightarrow> bool" where
  "deadlocked caps S d \<longleftrightarrow>
     d_pushing d \<noteq> None \<and> d_polled d \<noteq> None \<and> full caps S (items (d_pipe d))"

lemma deadlock_reachable:
  assumes S: "list_all batch_positive S" and caps: "\<And>i. i \<le> length S \<Longrightarrow> 0 < caps i"
    and rows: "length rs = (\<Sum>i\<le>length S. caps i) + 2" "distinct (map row_key rs)"
      "\<forall>r \<in> set rs. lookup_transfer (db w) (row_key r) = Some r"
  shows "\<exists>d. (deduper_step caps S)\<^sup>*\<^sup>* (NewPipelineDeduper w) d \<and> deadlocked caps S d"
proof -
  obtain a b rs' where rs: "rs = a # b # rs'" "length rs' = (\<Sum>i\<le>length S. caps i)"
    using rows(1) by (auto simp: numeral_2_eq_2 length_Suc_conv)
  let ?d0 = "NewPipelineDeduper w"
  have d0: "items (d_pipe ?d0) = {#}" "inPipeline (d_pipe ?d0) = {}" "pworld (d_pipe ?d0) = w"
    "d_pushing ?d0 = None" "d_polled ?d0 = None"
    by (simp_all add: NewPipelineDeduper_def pipe_init_def)
  have a: "lookup_transfer (db (pworld (d_pipe ?d0))) (row_key a) = Some a"
      "row_key a \<notin> inPipeline (d_pipe ?d0)" "\<And>k. k \<le> length S \<Longrightarrow> room caps (items (d_pipe ?d0)) k"
    using d0 rs(1) rows(3) caps by (simp_all add: room_def)
  from insert_row [OF S d0(4) a(1,2) order_refl a(3)] obtain d1 t where
    d1: "(deduper_step caps S)\<^sup>*\<^sup>* ?d0 d1" "items (d_pipe d1) = {#(length S, False, t)#}"
    "inPipeline (d_pipe d1) = {row_key a}" "d_pushing d1 = None" "d_polled d1 = None"
    "pworld (d_pipe d1) = w" "d_started d1"
    unfolding d0 by blast
  let ?d2 = "d1\<lparr>d_pipe := (d_pipe d1)\<lparr>items := {#}\<rparr>, d_polled := Some t\<rparr>"
  have s2: "deduper_step caps S d1 ?d2"
    using d1 by (intro deduper_step.work deduper_work.receive) auto
  have "\<exists>d3. (deduper_step caps S)\<^sup>*\<^sup>* ?d2 d3 \<and> d_pushing d3 = None \<and> d_polled d3 = d_polled ?d2 \<and>
      pworld (d_pipe d3) = pworld (d_pipe ?d2) \<and> snug caps S (items (d_pipe d3)) \<and>
      size (items (d_pipe d3)) = size (items (d_pipe ?d2)) + length rs' \<and>
      inPipeline (d_pipe d3) = inPipeline (d_pipe ?d2) \<union> row_key ` set rs'"
    using d1 rs rows by (intro fill [OF S caps]) auto
  then obtain d3 where d3: "(deduper_step caps S)\<^sup>*\<^sup>* ?d2 d3" "d_pushing d3 = None" "d_polled d3 = Some t"
      "pworld (d_pipe d3) = w" "snug caps S (items (d_pipe d3))"
      "size (items (d_pipe d3)) = (\<Sum>i\<le>length S. caps i)"
      "inPipeline (d_pipe d3) = insert (row_key a) (row_key ` set rs')"
    using d1 rs(2) by auto
  let ?d4 = "deduper_push (NewIBCV2Transfer b) d3"
  have "lookup_transfer (db (pworld (d_pipe d3))) (row_key b) = Some b" using rows(3) rs d3(4) by simp
  then have s4: "deduper_step caps S d3 ?d4" by (rule deduper_step.push [OF d3(2)])
  have "row_key b \<notin> inPipeline (d_pipe d3)" using rows(2) rs(1) d3(7) by auto
  then have "deadlocked caps S ?d4"
    using d3 snug_full [OF d3(5)] by (simp add: deadlocked_def deduper_push_def)
  moreover have "(deduper_step caps S)\<^sup>*\<^sup>* ?d0 ?d4"
    using d1(1) s2 d3(1) s4 by (meson rtranclp.rtrancl_into_rtrancl rtranclp_trans)
  ultimately show ?thesis by blast
qed

text \<open>
  From such a state on nothing moves: no transfer changes its stage, no \<^verbatim>\<open>Push\<close> returns and no key
  is forgotten, unless a stage drops a transfer because its context is cancelled.
\<close>

context relay_pipeline
begin

lemma full_stage:
  assumes "pipe_work S st st'" and full: "full caps S (items st)"
    and kept: "occupancy (items st) (length S) \<le> occupancy (items st') (length S)"
    and acc: "accepted caps (items st) (items st')"
  shows "size (items st') < size (items st) \<or>
    full caps S (items st') \<and> size (items st') = size (items st) \<and> inPipeline st' = inPipeline st"
proof -
  have no: "occupancy (items st') i \<le> occupancy (items st) i" if "i \<le> length S" for i
    using acc full that unfolding accepted_def full_def room_def by (metis not_le)
  from assms(1) show ?thesis
  proof cases
    case (single i p t M E w' t')
    then show ?thesis using no [of "Suc i"] by simp
  next
    case (bypass i n b t M E)
    then show ?thesis using no [of "Suc i"] by simp
  next
    case (enbatch i n b t M E)
    then show ?thesis using full by (simp add: full_def)
  next
    case (batch i n b ts M E w' ts')
    have "stage_batch_processor b" using batch(2,3) sound_batch by (metis nth_mem)
    from stage_batch_processor.mwB_emits(1) [OF this batch(7)] have "length ts' = length ts"
      by (metis length_map size_mset)
    then show ?thesis using no [of "Suc i"] batch by (simp del: mset_map)
  next
    case (finish i succ err t M E w' t')
    then show ?thesis using no [of "Suc i"] by simp
  next
    case (poll t M)
    then show ?thesis using kept by (simp add: PipelineDeduper_Poll_def)
  qed auto
qed

lemma deadlock_stays:
  assumes dead: "deadlocked caps S d" and "deduper_step caps S d d'"
  shows "size (items (d_pipe d')) < size (items (d_pipe d)) \<or>
    deadlocked caps S d' \<and> d_pushing d' = d_pushing d \<and> d_polled d' = d_polled d \<and>
    inPipeline (d_pipe d') = inPipeline (d_pipe d)"
  using assms(2)
proof cases
  case work
  then show ?thesis
  proof cases
    case (stage p)
    then show ?thesis using full_stage [OF stage(2) _ stage(3,4)] dead by (auto simp: deadlocked_def)
  qed (use dead in \<open>auto simp: deadlocked_def full_def room_def\<close>)
qed (use dead in \<open>auto simp: deadlocked_def\<close>)

end


section \<open>The pipelines of the relayer\<close>

text \<open>
  C10. The deduper with its lock, its goroutine and bounded channels does nothing the pipeline
  model with atomic pushes and polls does not do: every run of it is, but for steps that leave
  the view as it is, a run of that model from the same world, so what holds of every reachable
  pipeline holds of every reachable deduper.
\<close>

theorem deduper_refines_pipeline:
  assumes "(deduper_step caps S)\<^sup>*\<^sup>* (NewPipelineDeduper w) d"
  shows "(pipe_step S)\<^sup>*\<^sup>* (pipe_init w) (deduper_view S d)"
  using dedup.runs_simulate [OF assms] by (simp only: view_init)

definition ex_deduper :: deduper where
  "ex_deduper = deduper_push ex_transfer (NewPipelineDeduper ex_world)"

definition ex_stages :: "stage list" where
  "ex_stages = NewPipeline ex_opts False ex_route"

lemma ex_deduper_run: "(deduper_step caps S)\<^sup>*\<^sup>* (NewPipelineDeduper ex_world) ex_deduper"
  unfolding ex_deduper_def ex_transfer_def
  by (intro r_into_rtranclp deduper_step.push)
    (simp_all add: NewPipelineDeduper_def pipe_init_def ex_world_def ex_db_def lookup_transfer_def)

lemma ex_deduper_inside: "d_pushing ex_deduper = Some ex_transfer" "transfers_inside ex_deduper = 1"
  by (simp_all add: ex_deduper_def deduper_push_def NewPipelineDeduper_def pipe_init_def transfers_inside_def)

theorem deduper_refines_pipeline_witness:
  "d_pushing ex_deduper = Some ex_transfer \<and>
   (pipe_step ex_stages)\<^sup>*\<^sup>* (pipe_init ex_world) (deduper_view ex_stages ex_deduper)"
  using ex_deduper_inside deduper_refines_pipeline [OF ex_deduper_run] by blast

text \<open>Of the packets inside a deduper, the one that waits to be sent and the one that was read included, no two are the same.\<close>

lemma deduper_packet_once:
  assumes "deduper_reachable caps (NewPipeline opts havePriceClient R) d"
  shows "keys_once (items (deduper_view (NewPipeline opts havePriceClient R) d)) \<and>
    item_key ` set_mset (items (deduper_view (NewPipeline opts havePriceClient R) d)) \<subseteq> inPipeline (d_pipe d)"
  using ibcv2.reachable_inv [OF view_reachable [OF assms]] by (simp add: pipe_inv_def deduper_view_def)

lemma NewPipeline_batches:
  "1 \<le> TimeoutBatchSize opts \<Longrightarrow> 1 \<le> RecvBatchSize opts \<Longrightarrow> 1 \<le> AckBatchSize opts \<Longrightarrow>
     list_all batch_positive (NewPipeline opts havePriceClient R)"
  by (simp add: NewPipeline_def gas_stage_def)

text \<open>
  C11. A pipeline that holds no more transfers than its channels and stages have places for, and
  one, empties itself: whatever the chains, the proof service and the database answer, and in
  whatever order the stages work, every run of it comes to an end and leaves nothing inside, no
  push waiting and no key to forget.
\<close>

theorem deduper_drains:
  assumes "deduper_reachable caps (NewPipeline opts havePriceClient R) d"
    and "1 \<le> TimeoutBatchSize opts" "1 \<le> RecvBatchSize opts" "1 \<le> AckBatchSize opts"
    and "\<And>i. i \<le> length (NewPipeline opts havePriceClient R) \<Longrightarrow> 0 < caps i"
    and "transfers_inside d \<le> (\<Sum>i\<le>length (NewPipeline opts havePriceClient R). caps i) + 1"
  shows "drains caps (NewPipeline opts havePriceClient R) d"
  using assms
  by (intro ibcv2.drains_below_capacity deduper_reachable_inv [OF assms(1)] NewPipeline_batches) auto

lemma ex_opts_batches: "1 \<le> TimeoutBatchSize ex_opts" "1 \<le> RecvBatchSize ex_opts" "1 \<le> AckBatchSize ex_opts"
  by code_simp+

theorem deduper_drains_witness: "\<not> idle ex_deduper \<and> drains (\<lambda>_. 1) ex_stages ex_deduper"
proof
  show "\<not> idle ex_deduper" by (simp add: idle_def ex_deduper_inside)
  show "drains (\<lambda>_. 1) ex_stages ex_deduper"
    unfolding ex_stages_def
  proof (rule deduper_drains [OF _ ex_opts_batches])
    show "deduper_reachable (\<lambda>_. 1) (NewPipeline ex_opts False ex_route) ex_deduper"
      unfolding deduper_reachable_def using ex_deduper_run by blast
  qed (simp_all add: ex_deduper_inside)
qed

text \<open>
  C12. With two more unfinished rows than its channels and stages have places for, a pipeline can
  come to a state in which it stays: a push holds the lock and waits for the input channel,
  the goroutine that would empty the output waits for the lock. Every step from such a state
  leads to such a state with the same push waiting and the same keys marked, but for a stage
  that drops a transfer because its context is cancelled.
\<close>

theorem deduper_deadlock:
  assumes "1 \<le> TimeoutBatchSize opts" "1 \<le> RecvBatchSize opts" "1 \<le> AckBatchSize opts"
    and "\<And>i. i \<le> length (NewPipeline opts havePriceClient R) \<Longrightarrow> 0 < caps i"
    and "length rs = (\<Sum>i\<le>length (NewPipeline opts havePriceClient R). caps i) + 2"
      "distinct (map row_key rs)" "\<forall>r \<in> set rs. lookup_transfer (db w) (row_key r) = Some r"
  shows "\<exists>d. (deduper_step caps (NewPipeline opts havePriceClient R))\<^sup>*\<^sup>* (NewPipelineDeduper w) d \<and>
    deadlocked caps (NewPipeline opts havePriceClient R) d \<and>
    (\<forall>e e'. deadlocked caps (NewPipeline opts havePriceClient R) e \<and>
       deduper_step caps (NewPipeline opts havePriceClient R) e e' \<longrightarrow>
       size (items (d_pipe e')) < size (items (d_pipe e)) \<or>
       deadlocked caps (NewPipeline opts havePriceClient R) e' \<and> d_pushing e' = d_pushing e \<and>
       inPipeline (d_pipe e') = inPipeline (d_pipe e))"
  using deadlock_reachable [OF NewPipeline_batches [OF assms(1-3)] assms(4-7)] ibcv2.deadlock_stays by meson

definition ex_backlog :: "Ibcv2Transfer list" where
  "ex_backlog = map (\<lambda>i. ex_row\<lparr>r_ID := word_of_nat i, r_PacketSequenceNumber := word_of_nat i\<rparr>) [0..<17]"

definition ex_busy_world :: world where
  "ex_busy_world = ex_world\<lparr>db := ex_db\<lparr>transfers := ex_backlog\<rparr>\<rparr>"

lemma ex_backlog_rows:
  "length ex_backlog = 17" "distinct (map row_key ex_backlog)"
  "\<forall>r \<in> set ex_backlog. lookup_transfer (db ex_busy_world) (row_key r) = Some r"
  by code_simp+

theorem deduper_deadlock_witness:
  "\<exists>d. (deduper_step (\<lambda>_. 1) ex_stages)\<^sup>*\<^sup>* (NewPipelineDeduper ex_busy_world) d \<and>
     deadlocked (\<lambda>_. 1) ex_stages d"
proof -
  have "length ex_stages = 14" by (simp add: ex_stages_def NewPipeline_def gas_stage_def)
  then have "length ex_backlog = (\<Sum>i\<le>length (NewPipeline ex_opts False ex_route). 1) + 2"
    by (simp add: ex_backlog_rows(1) ex_stages_def)
  from deduper_deadlock [OF ex_opts_batches _ this ex_backlog_rows(2,3)]
  show ?thesis unfolding ex_stages_def by auto
qed

end
