(* ===== verification/Services.thy ===== *)
theory Services
  imports Startup Deduper
begin

text \<open>
  The relayer process once \<^verbatim>\<open>cmd/relayer/main.go\<close> has started its parts: the loops of the
  dispatcher, the cost tracker and the two monitors, and the group of goroutines they run in
  beside the api and the metrics server. A loop waits for its ticker and its context; the ticks
  and the end of the context are a list of signals. In the process the parts take their turns in
  any order, on one database and with the pipelines at work in between. A turn of a loop is one
  step; what the outside world answers in it is chosen anew each time.
\<close>

section \<open>Loops\<close>

datatype 'e signal = Tick 'e | CtxEnd go_error

text \<open>
  The state after the signals and, once the context has ended, what the loop returned. A turn
  logs its errors and goes on.
\<close>

fun poll_loop ::
  "('e \<Rightarrow> 's \<Rightarrow> 's) \<Rightarrow> (go_error \<Rightarrow> go_error option) \<Rightarrow> 'e signal list \<Rightarrow> 's \<Rightarrow> 's \<times> go_error option option" where
  "poll_loop turn ret [] s = (s, None)"
| "poll_loop turn ret (Tick e # es) s = poll_loop turn ret es (turn e s)"
| "poll_loop turn ret (CtxEnd err # es) s = (s, Some (ret err))"

lemma poll_loop_ticks: "poll_loop turn ret (map Tick es @ sigs) s = poll_loop turn ret sigs (fold turn es s)"
  by (induction es arbitrary: s) auto

text \<open>A loop returns when its context ends, after a turn for every tick before that, and not before.\<close>

lemma poll_loop_returns:
  "snd (poll_loop turn ret sigs s) = Some r \<longleftrightarrow>
     (\<exists>es err sigs'. sigs = map Tick es @ CtxEnd err # sigs' \<and> r = ret err)"
proof (induction sigs arbitrary: s)
  case (Cons g sigs)
  show ?case
  proof (cases g)
    case (Tick e)
    have "(\<exists>es err sigs'. Tick e # sigs = map Tick es @ CtxEnd err # sigs' \<and> r = ret err) \<longleftrightarrow>
        (\<exists>es err sigs'. sigs = map Tick es @ CtxEnd err # sigs' \<and> r = ret err)"
      by (auto simp: Cons_eq_append_conv map_eq_Cons_conv)
        (metis append_Cons list.simps(9))
    then show ?thesis using Cons.IH Tick by simp
  qed (auto simp: Cons_eq_append_conv map_eq_Cons_conv)
qed simp

locale poll_service =
  fixes turn :: "'e \<Rightarrow> 's \<Rightarrow> 's" and step :: "'s \<Rightarrow> 's \<Rightarrow> bool"
  assumes turn_steps: "step s (turn e s)"
begin

lemma loop_runs: "poll_loop turn ret sigs s = (s', x) \<Longrightarrow> step\<^sup>*\<^sup>* s s'"
proof (induction sigs arbitrary: s)
  case (Cons g sigs)
  show ?case
  proof (cases g)
    case (Tick e)
    then show ?thesis
      using Cons.IH [of "turn e s"] Cons.prems turn_steps [of s e]
      by (auto intro: converse_rtranclp_into_rtranclp)
  qed (use Cons.prems in simp)
qed simp

end

section \<open>The four loops\<close>

definition RelayDispatcher_turn :: "configReader \<Rightarrow> bool \<Rightarrow> db_env \<Rightarrow> relayer \<Rightarrow> relayer" where
  "RelayDispatcher_turn cfg hp D s = fst (SubmitWaitingUnfinishedTransfers cfg hp D s)"

text \<open>A dispatcher that is not enabled stops its ticker before the loop.\<close>

definition RelayDispatcher_Run ::
  "bool \<Rightarrow> configReader \<Rightarrow> bool \<Rightarrow> db_env signal list \<Rightarrow> relayer \<Rightarrow> relayer \<times> go_error option option" where
  "RelayDispatcher_Run defaultEnabled cfg hp sigs =
     poll_loop (RelayDispatcher_turn cfg hp) Some
       (if defaultEnabled then sigs else filter (\<lambda>g. case g of Tick _ \<Rightarrow> False | CtxEnd _ \<Rightarrow> True) sigs)"

definition CostTracker_turn :: "SubmittedTxCostTracker \<Rightarrow> cost_env \<Rightarrow> relayer \<Rightarrow> relayer" where
  "CostTracker_turn T X s = s\<lparr>rworld := (rworld s)\<lparr>db := fst (Track T X (db (rworld s)))\<rparr>\<rparr>"

definition SubmittedTxCostTracker_Run ::
  "SubmittedTxCostTracker \<Rightarrow> cost_env signal list \<Rightarrow> relayer \<Rightarrow> relayer \<times> go_error option option" where
  "SubmittedTxCostTracker_Run T = poll_loop (CostTracker_turn T) Some"

text \<open>The monitors read: a turn adds what it reports to what was reported before.\<close>

definition TransferStats_Start ::
  "configReader \<Rightarrow> (db_env \<times> database) signal list \<Rightarrow> transfer_count list \<Rightarrow>
     transfer_count list \<times> go_error option option" where
  "TransferStats_Start cfg = poll_loop (\<lambda>(D, d) out. out @ tick_stats cfg D d) (\<lambda>_. None)"

definition GasMonitor_Start ::
  "configReader \<Rightarrow> ClientManager signal list \<Rightarrow> (string \<times> bool \<times> nat) list \<Rightarrow>
     (string \<times> bool \<times> nat) list \<times> go_error option option" where
  "GasMonitor_Start cfg = poll_loop (\<lambda>m out. out @ gas_tick cfg m) (\<lambda>_. None)"

interpretation dispatch_loop: poll_service "RelayDispatcher_turn cfg hp" "relayer_step cfg hp" for cfg hp
  by unfold_locales (auto simp: RelayDispatcher_turn_def intro: relayer_step.dispatch prod.collapse [symmetric])

lemma Track_transfers: "transfers (fst (Track T X d)) = transfers d"
  by (simp add: Track_def track_all_keeps split: sum.splits)

interpretation tracker_loop: poll_service "CostTracker_turn T" "relayer_step cfg hp" for T cfg hp
  by unfold_locales
    (auto simp: CostTracker_turn_def Track_transfers intro!: relayer_step.storage_step rows_extended_same)


section \<open>The process\<close>

datatype service = Prometheus | RelayerGRPCServer | GasMonitor | RelayDispatcher | TransferStats | TxCostTracker

text \<open>
  The relayer with its pipelines, what the monitors have reported, the context of the group
  (\<open>Some\<close> once it has ended), what each goroutine returned, and the first error among these,
  which \<^verbatim>\<open>eg.Wait\<close> hands to \<^verbatim>\<open>main\<close>.
\<close>

record process =
  pr_relayer :: relayer
  pr_counts :: "transfer_count list"
  pr_gas :: "(string \<times> bool \<times> nat) list"
  pr_ctx :: "go_error option"
  pr_results :: "service \<rightharpoonup> go_error option"
  pr_error :: "go_error option"

definition process_init :: "world \<Rightarrow> process" where
  "process_init w =
     \<lparr>pr_relayer = relayer_init w, pr_counts = [], pr_gas = [], pr_ctx = None, pr_results = Map.empty,
      pr_error = None\<rparr>"

text \<open>How \<^verbatim>\<open>main\<close> wraps what a part returns.\<close>

definition service_error :: "service \<Rightarrow> go_error \<Rightarrow> go_error" where
  "service_error sv err =
     (case sv of
        GasMonitor \<Rightarrow> Wrapf ''creating gas monitor'' err
      | RelayDispatcher \<Rightarrow> Wrapf ''running ibcv2 relayer'' err
      | TransferStats \<Rightarrow> Wrapf ''running transfer stats monitor'' err
      | TxCostTracker \<Rightarrow> Wrapf ''running submitted tx cost tracker'' err
      | _ \<Rightarrow> err)"

text \<open>A goroutine of the group returns; the first error is kept and ends the context.\<close>

definition eg_return :: "service \<Rightarrow> go_error option \<Rightarrow> process \<Rightarrow> process" where
  "eg_return sv r p =
     (let e = map_option (service_error sv) r;
          p1 = p\<lparr>pr_results := (pr_results p)(sv \<mapsto> e)\<rparr> in
      if e \<noteq> None \<and> pr_error p = None
      then p1\<lparr>pr_error := e, pr_ctx := (case pr_ctx p of None \<Rightarrow> Some (Sentinel ContextCanceled) | c \<Rightarrow> c)\<rparr>
      else p1)"

text \<open>What a part returns when the context ends: the two loops over the database return its error.\<close>

definition ends_with :: "service \<Rightarrow> go_error \<Rightarrow> go_error option" where
  "ends_with sv err = (if sv = RelayDispatcher \<or> sv = TxCostTracker then Some err else None)"

inductive process_step :: "relayer_setup \<Rightarrow> process \<Rightarrow> process \<Rightarrow> bool" for R where
  dispatch: "pr_results p RelayDispatcher = None \<Longrightarrow> su_relaying R \<Longrightarrow>
     process_step R p
       (p\<lparr>pr_relayer := RelayDispatcher_turn (su_reader R) (su_prices R \<noteq> None) D (pr_relayer p)\<rparr>)"
| pipeline: "pipelines (pr_relayer p) K = Some q \<Longrightarrow>
     pipe_work (stages q) (as_pipe (rworld (pr_relayer p)) q) st \<Longrightarrow>
     process_step R p (p\<lparr>pr_relayer := put_pipe K q st (pr_relayer p)\<rparr>)"
| api: "pr_results p RelayerGRPCServer = None \<Longrightarrow>
     Relay m (su_reader R) D h chain (db (rworld (pr_relayer p))) = (d', res) \<Longrightarrow>
     process_step R p (p\<lparr>pr_relayer := (pr_relayer p)\<lparr>rworld := (rworld (pr_relayer p))\<lparr>db := d'\<rparr>\<rparr>\<rparr>)"
| track: "pr_results p TxCostTracker = None \<Longrightarrow> cost_config X = su_reader R \<Longrightarrow>
     process_step R p (p\<lparr>pr_relayer := CostTracker_turn (su_tracker R) X (pr_relayer p)\<rparr>)"
| count: "pr_results p TransferStats = None \<Longrightarrow>
     process_step R p
       (p\<lparr>pr_counts := pr_counts p @ tick_stats (su_reader R) D (db (rworld (pr_relayer p)))\<rparr>)"
| gas: "pr_results p GasMonitor = None \<Longrightarrow>
     process_step R p (p\<lparr>pr_gas := pr_gas p @ gas_tick (su_reader R) m\<rparr>)"
| interrupt: "pr_ctx p = None \<Longrightarrow> process_step R p (p\<lparr>pr_ctx := Some (Sentinel ContextCanceled)\<rparr>)"
| fail: "pr_results p Prometheus = None \<Longrightarrow> process_step R p (eg_return Prometheus (Some err) p)"
| stop: "pr_results p sv = None \<Longrightarrow> pr_ctx p = Some err \<Longrightarrow>
     process_step R p (eg_return sv (ends_with sv err) p)"

lemma eg_return_relayer [simp]: "pr_relayer (eg_return sv r p) = pr_relayer p"
  by (simp add: eg_return_def Let_def)

text \<open>The process is a run of the relayer model.\<close>

interpretation services: stutter_simulation "process_step R" "relayer_step (su_reader R) (su_prices R \<noteq> None)"
    pr_relayer for R
proof
  fix p p' assume "process_step R p p'"
  then show "pr_relayer p' = pr_relayer p \<or>
    relayer_step (su_reader R) (su_prices R \<noteq> None) (pr_relayer p) (pr_relayer p')"
  proof cases
    case (api m D h chain d' res)
    then show ?thesis using relay_is_storage_step [OF api(3)] by simp
  qed (auto simp: dispatch_loop.turn_steps tracker_loop.turn_steps intro: relayer_step.pipeline_work)
qed

section \<open>Relaying that is not enabled\<close>

definition dormant :: "world \<Rightarrow> process \<Rightarrow> bool" where
  "dormant w p \<longleftrightarrow> pipelines (pr_relayer p) = Map.empty \<and> events (rworld (pr_relayer p)) = events w"

lemma dormant_step: "process_step R p p' \<Longrightarrow> \<not> su_relaying R \<Longrightarrow> dormant w p \<Longrightarrow> dormant w p'"
  by (induction rule: process_step.induct) (auto simp: dormant_def CostTracker_turn_def)

lemma dormant_run:
  assumes "(process_step R)\<^sup>*\<^sup>* p p'" "\<not> su_relaying R" "dormant w p"
  shows "dormant w p'"
  using assms by (induction rule: rtranclp_induct) (auto dest: dormant_step)


definition ex_setup :: relayer_setup where
  "ex_setup =
     \<lparr>su_reader = ex_cfg, su_startup = ex_startup, su_clients = Map.empty, su_prices = None,
      su_metricsAddress = ''localhost:8888'', su_apiAddress = ''localhost:9000'', su_dispatchInterval = 5 * second,
      su_relaying = False, su_tracker = ex_tracker\<rparr>"

definition ex_process :: process where
  "ex_process = (process_init ex_world)\<lparr>pr_relayer := (relayer_init ex_world)\<lparr>rworld := ex_world\<lparr>db := fst ex_relay\<rparr>\<rparr>\<rparr>"

lemma ex_process_run: "(process_step ex_setup)\<^sup>*\<^sup>* (process_init ex_world) ex_process"
proof (rule r_into_rtranclp)
  have "Relay ex_api_clients (su_reader ex_setup) ex_db_env ''0xee'' ''A''
      (db (rworld (pr_relayer (process_init ex_world)))) = (fst ex_relay, snd ex_relay)"
    by (simp add: ex_relay_def process_init_def relayer_init_def ex_setup_def ex_world_def)
  from process_step.api [OF _ this]
  show "process_step ex_setup (process_init ex_world) ex_process"
    by (simp add: ex_process_def process_init_def relayer_init_def)
qed


section \<open>How the process ends\<close>

text \<open>
  A process whose parts have all returned always has an error for \<^verbatim>\<open>main\<close>, which reports it as
  fatal, also when nothing failed and the process was only asked to stop: the dispatcher
  returns the error of its context.
\<close>

definition reported :: "process \<Rightarrow> bool" where
  "reported p \<longleftrightarrow> (pr_results p RelayDispatcher \<noteq> None \<longrightarrow> pr_error p \<noteq> None)"

lemma reported_step: "process_step R p p' \<Longrightarrow> reported p \<Longrightarrow> reported p'"
  by (induction rule: process_step.induct)
    (auto simp: reported_def eg_return_def ends_with_def Let_def split: option.splits)

lemma end_always_an_error:
  assumes "(process_step R)\<^sup>*\<^sup>* (process_init w) p" and "\<And>sv. pr_results p sv \<noteq> None"
  shows "pr_error p \<noteq> None"
proof -
  have "reported p"
    using assms(1)
  proof (induction rule: rtranclp_induct)
    case base
    show ?case by (simp add: reported_def process_init_def)
  next
    case (step y z)
    then show ?case by (blast intro: reported_step)
  qed
  then show ?thesis using assms(2) by (simp add: reported_def)
qed

text \<open>
  From a state whose context has ended the parts can all return, each after the turn it is in;
  a dispatcher whose turn waits in a \<^verbatim>\<open>Push\<close> to a full pipeline does not come to that.
\<close>

lemma interrupted_process_ends:
  assumes "pr_ctx p = Some err"
  shows "\<exists>p'. (process_step R)\<^sup>*\<^sup>* p p' \<and> (\<forall>sv. pr_results p' sv \<noteq> None)"
proof -
  have "\<exists>p'. (process_step R)\<^sup>*\<^sup>* p p' \<and> pr_ctx p' = Some err \<and> (\<forall>sv \<in> set svs. pr_results p' sv \<noteq> None)" for svs
  proof (induction svs)
    case Nil
    then show ?case using assms by auto
  next
    case (Cons sv svs)
    then obtain p1 where p1: "(process_step R)\<^sup>*\<^sup>* p p1" "pr_ctx p1 = Some err"
      "\<forall>sv \<in> set svs. pr_results p1 sv \<noteq> None" by blast
    show ?case
    proof (cases "pr_results p1 sv")
      case None
      let ?p2 = "eg_return sv (ends_with sv err) p1"
      have "(process_step R)\<^sup>*\<^sup>* p ?p2"
        using p1(1) process_step.stop [OF None p1(2), of R] by (rule rtranclp.rtrancl_into_rtrancl)
      moreover have "pr_ctx ?p2 = Some err" "\<forall>s \<in> set (sv # svs). pr_results ?p2 s \<noteq> None"
        using p1(2,3) by (auto simp: eg_return_def Let_def)
      ultimately show ?thesis by blast
    qed (use p1 in auto)
  qed
  from this [of "[Prometheus, RelayerGRPCServer, GasMonitor, RelayDispatcher, TransferStats, TxCostTracker]"]
  obtain p' where p': "(process_step R)\<^sup>*\<^sup>* p p'" "\<forall>sv \<in> set [Prometheus, RelayerGRPCServer, GasMonitor,
      RelayDispatcher, TransferStats, TxCostTracker]. pr_results p' sv \<noteq> None" by blast
  have "pr_results p' sv \<noteq> None" for sv using p'(2) by (cases sv) simp_all
  with p'(1) show ?thesis by blast
qed

end
