(* ===== verification/BridgeContracts.thy ===== *)
theory BridgeContracts
  imports CosmosBridge Guarantees
begin

text \<open>
  What the relayer relies on of a bridge client, and that both clients provide it: deliveries keep
  the configured distance, \<^verbatim>\<open>ShouldRetryTx\<close> answers as its interface documents, the waiting loops
  end when they should, and fees and gas limits cover what was asked for. The last section puts a
  client under the processors of the pipeline.
\<close>

section \<open>Deliveries keep their distance\<close>

text \<open>The instants of a log are at least \<open>gap\<close> apart, in order.\<close>

definition apart :: "duration \<Rightarrow> time list \<Rightarrow> bool" where
  "apart gap ts \<longleftrightarrow> sorted_wrt (\<lambda>a b. a + gap \<le> b) ts"

lemma apart_append:
  "apart gap (as @ bs) \<longleftrightarrow> apart gap as \<and> apart gap bs \<and> (\<forall>a \<in> set as. \<forall>b \<in> set bs. a + gap \<le> b)"
  by (simp add: apart_def sorted_wrt_append)

text \<open>
  One delivery takes the lock at \<open>locked\<close> and ends at \<open>fin\<close>. It sends no earlier than the delay
  after the last submission that was recorded, its own sends are apart, and either it records its
  end or the delay has passed since all it sent. In a run of deliveries the lock is free only when
  the previous one has ended.
\<close>

inductive delivery_run :: "('c \<Rightarrow> time \<Rightarrow> 'c \<Rightarrow> time \<Rightarrow> bool) \<Rightarrow> 'c \<times> time \<Rightarrow> 'c \<times> time \<Rightarrow> bool" for deliver where
  start: "delivery_run deliver x x"
| next_one: "delivery_run deliver x (c, ended) \<Longrightarrow> ended \<le> locked \<Longrightarrow> deliver c locked c' fin \<Longrightarrow>
    delivery_run deliver x (c', fin)"

locale paced_client =
  fixes deliver :: "'c \<Rightarrow> time \<Rightarrow> 'c \<Rightarrow> time \<Rightarrow> bool"
    and last_time :: "'c \<Rightarrow> time" and gap :: "'c \<Rightarrow> duration" and times :: "'c \<Rightarrow> time list"
  assumes gap_kept: "deliver c locked c' fin \<Longrightarrow> 0 \<le> gap c \<Longrightarrow> gap c' = gap c"
    and ends_later: "deliver c locked c' fin \<Longrightarrow> 0 \<le> gap c \<Longrightarrow> locked \<le> fin"
    and records: "deliver c locked c' fin \<Longrightarrow> 0 \<le> gap c \<Longrightarrow> last_time c' = fin \<or> last_time c' = last_time c"
    and sends: "deliver c locked c' fin \<Longrightarrow> 0 \<le> gap c \<Longrightarrow>
      \<exists>new. times c' = times c @ new \<and> apart (gap c) new \<and>
        (\<forall>t \<in> set new. max locked (last_time c + gap c) \<le> t \<and> t + gap c \<le> max fin (last_time c' + gap c))"
begin

definition paced :: "'c \<times> time \<Rightarrow> bool" where
  "paced = (\<lambda>(c, t0). 0 \<le> gap c \<and> last_time c \<le> t0 \<and> apart (gap c) (times c) \<and>
     (\<forall>t \<in> set (times c). t + gap c \<le> max t0 (last_time c + gap c)))"

lemma deliver_paced:
  assumes d: "deliver c locked c' fin" and p: "paced (c, t0)" and l: "t0 \<le> locked"
  shows "paced (c', fin)"
proof -
  have g: "0 \<le> gap c" using p by (simp add: paced_def)
  then have k: "gap c' = gap c" by (rule gap_kept [OF d])
  have fin: "locked \<le> fin" using ends_later [OF d g] .
  have last: "last_time c' \<le> fin" "last_time c \<le> last_time c'"
    using records [OF d g] p l fin by (auto simp: paced_def)
  obtain new where new: "times c' = times c @ new" "apart (gap c) new"
      "\<forall>t \<in> set new. max locked (last_time c + gap c) \<le> t \<and> t + gap c \<le> max fin (last_time c' + gap c)"
    using sends [OF d g] by blast
  have "\<forall>a \<in> set (times c). a + gap c \<le> max t0 (last_time c + gap c)" "apart (gap c) (times c)"
    using p by (simp_all add: paced_def)
  with new g k last fin l show ?thesis by (fastforce simp: paced_def apart_append)
qed

lemma run_paced: "delivery_run deliver x y \<Longrightarrow> paced x \<Longrightarrow> paced y"
proof (induction rule: delivery_run.induct)
  case (next_one x c ended locked c' fin)
  then show ?case using deliver_paced by blast
qed simp

lemma run_apart:
  assumes "delivery_run deliver (c, t0) (c', t1)" and "times c = []" and "0 \<le> gap c" and "last_time c \<le> t0"
  shows "apart (gap c') (times c')"
  using run_paced [OF assms(1)] assms(2-4) by (simp add: paced_def apart_def)

end

text \<open>A delivery of the EVM client, and of the Cosmos client.\<close>

definition evm_delivers :: "EVMBridgeClient \<Rightarrow> time \<Rightarrow> EVMBridgeClient \<Rightarrow> time \<Rightarrow> bool" where
  "evm_delivers C locked C' fin \<longleftrightarrow>
     (\<exists>E k bz addr r. d_locked k = locked \<and> EVM_DeliverTx E k C bz addr = (C', r) \<and>
        fin = (if d_canceled k then locked else woke k (lastSubmissionTime C) (txSubmissionDelay C)) + int (d_took k))"

definition cosmos_delivers :: "CosmosBridgeClient \<Rightarrow> time \<Rightarrow> CosmosBridgeClient \<Rightarrow> time \<Rightarrow> bool" where
  "cosmos_delivers C locked C' fin \<longleftrightarrow>
     (\<exists>Es k x bz r. d_locked k = locked \<and> Cosmos_DeliverTx Es k x C bz = (C', fin, r))"

lemma evm_submit_cases:
  assumes "EVM_signAndSubmitData E t C bz addr = (C', r)"
  obtains (failed) e where "r = Inl e" "C' = C" | (sent) h tx where "r = Inr h" "C' = C\<lparr>sent := sent C @ [(t, tx)]\<rparr>"
  using assms by (auto simp: EVM_signAndSubmitData_def split: sum.splits option.splits)

lemma evm_deliver_effect:
  assumes "EVM_DeliverTx E k C bz addr = (C', r)"
  obtains (canceled) "d_canceled k" "C' = C\<lparr>lastSubmissionTime := d_locked k + int (d_took k)\<rparr>"
    | (failed) "\<not> d_canceled k" "C' = C"
    | (sent) tx where "\<not> d_canceled k"
        "C' = C\<lparr>sent := sent C @ [(woke k (lastSubmissionTime C) (txSubmissionDelay C), tx)],
                lastSubmissionTime := woke k (lastSubmissionTime C) (txSubmissionDelay C) + int (d_took k)\<rparr>"
proof (cases "d_canceled k")
  case True
  with assms show ?thesis by (intro canceled) (auto simp: EVM_DeliverTx_def)
next
  case False
  obtain C1 r1 where s: "EVM_signAndSubmitData E (woke k (lastSubmissionTime C) (txSubmissionDelay C)) C bz addr = (C1, r1)"
    by fastforce
  then show ?thesis
  proof (cases rule: evm_submit_cases)
    case (failed e)
    with False assms s show ?thesis by (intro that(2)) (auto simp: EVM_DeliverTx_def Let_def)
  next
    case (sent h tx)
    with False assms s show ?thesis by (intro that(3)) (auto simp: EVM_DeliverTx_def Let_def)
  qed
qed

lemma woke_bounds: "d_locked k \<le> woke k l g" "l + g \<le> woke k l g"
  by (auto simp: woke_def)

interpretation evm_paced: paced_client evm_delivers lastSubmissionTime txSubmissionDelay "\<lambda>C. map fst (sent C)"
proof
  fix C C' :: EVMBridgeClient and locked fin
  assume d: "evm_delivers C locked C' fin"
  then obtain E k bz addr r where k: "d_locked k = locked" "EVM_DeliverTx E k C bz addr = (C', r)"
      "fin = (if d_canceled k then locked else woke k (lastSubmissionTime C) (txSubmissionDelay C)) + int (d_took k)"
    by (auto simp: evm_delivers_def)
  show "txSubmissionDelay C' = txSubmissionDelay C"
    using k(2) by (cases rule: evm_deliver_effect) simp_all
  show "locked \<le> fin" using k(1,3) woke_bounds(1) [where k = k and l = "lastSubmissionTime C" and g = "txSubmissionDelay C"] by auto
  show "lastSubmissionTime C' = fin \<or> lastSubmissionTime C' = lastSubmissionTime C"
    using k(2) by (cases rule: evm_deliver_effect) (simp_all add: k)
  show "\<exists>new. map fst (sent C') = map fst (sent C) @ new \<and> apart (txSubmissionDelay C) new \<and>
      (\<forall>t \<in> set new. max locked (lastSubmissionTime C + txSubmissionDelay C) \<le> t \<and>
         t + txSubmissionDelay C \<le> max fin (lastSubmissionTime C' + txSubmissionDelay C))"
    using k(2)
  proof (cases rule: evm_deliver_effect)
    case (sent tx)
    then show ?thesis
      using k woke_bounds [where k = k and l = "lastSubmissionTime C" and g = "txSubmissionDelay C"]
      by (intro exI [of _ "[woke k (lastSubmissionTime C) (txSubmissionDelay C)]"]) (auto simp: apart_def)
  qed (auto simp: apart_def)
qed

text \<open>
  What submissions between \<open>t\<close> and \<open>t'\<close> leave behind. Where \<open>open_end\<close> does not hold, the delay
  has passed since all of them.
\<close>

definition submitted :: "time \<Rightarrow> time \<Rightarrow> CosmosBridgeClient \<Rightarrow> CosmosBridgeClient \<Rightarrow> bool \<Rightarrow> bool" where
  "submitted t t' C C' open_end \<longleftrightarrow>
     co_txSubmissionDelay C' = co_txSubmissionDelay C \<and> co_lastSubmissionTime C' = co_lastSubmissionTime C \<and> t \<le> t' \<and>
     (\<exists>new. map fst (co_sent C') = map fst (co_sent C) @ new \<and> apart (co_txSubmissionDelay C) new \<and>
        (\<forall>u \<in> set new. t \<le> u \<and> u \<le> t' \<and> (open_end \<or> u + co_txSubmissionDelay C \<le> t')))"

lemma submitted_none: "submitted t t C C open_end"
  by (simp add: submitted_def apart_def)

lemma submitted_trans:
  assumes "submitted t t1 C C1 False" and "submitted t1 t' C1 C' open_end"
  shows "submitted t t' C C' open_end"
proof -
  obtain a where a: "map fst (co_sent C1) = map fst (co_sent C) @ a" "apart (co_txSubmissionDelay C) a"
      "\<forall>u \<in> set a. t \<le> u \<and> u \<le> t1 \<and> u + co_txSubmissionDelay C \<le> t1"
    using assms(1) by (auto simp: submitted_def)
  obtain b where b: "map fst (co_sent C') = map fst (co_sent C1) @ b" "apart (co_txSubmissionDelay C1) b"
      "\<forall>u \<in> set b. t1 \<le> u \<and> u \<le> t' \<and> (open_end \<or> u + co_txSubmissionDelay C1 \<le> t')"
    using assms(2) by (auto simp: submitted_def)
  have k: "co_txSubmissionDelay C1 = co_txSubmissionDelay C" "t \<le> t1" "t1 \<le> t'"
    using assms by (simp_all add: submitted_def)
  have "apart (co_txSubmissionDelay C) (a @ b)" using a b k by (fastforce simp: apart_append)
  moreover have "map fst (co_sent C') = map fst (co_sent C) @ (a @ b)" using a b by simp
  moreover have "\<forall>u \<in> set (a @ b). t \<le> u \<and> u \<le> t' \<and> (open_end \<or> u + co_txSubmissionDelay C \<le> t')"
    using a(3) b(3) k by fastforce
  ultimately show ?thesis using assms k unfolding submitted_def by auto
qed

lemma submitted_sleep:
  assumes "submitted t t C C' open_end" and "0 \<le> co_txSubmissionDelay C"
  shows "submitted t (t + co_txSubmissionDelay C + int n) C C' False"
  using assms by (fastforce simp: submitted_def)

lemma submitted_messages:
  assumes "Cosmos_signAndSubmitMessages E t C msgs = (C', r)"
  shows "submitted t t C C' (\<not> isl r)"
proof (cases r)
  case (Inl e)
  with assms have "C' = C"
    by (auto simp: Cosmos_signAndSubmitMessages_def broadcast_def split: sum.splits option.splits if_splits)
  then show ?thesis by (simp add: submitted_none)
next
  case (Inr h)
  with assms obtain tx where "C' = C\<lparr>co_sent := co_sent C @ [(t, tx)]\<rparr>"
    by (auto simp: Cosmos_signAndSubmitMessages_def broadcast_def split: sum.splits option.splits if_splits)
  with Inr show ?thesis by (simp add: submitted_def apart_def)
qed

lemma submitted_updates:
  assumes "submit_updates Es x n t ms C = (C', t', n', r)" and "0 \<le> co_txSubmissionDelay C"
  shows "submitted t t' C C' False"
  using assms
proof (induction Es x n t ms C arbitrary: C' t' n' r rule: submit_updates.induct)
  case (1 Es x n t C)
  then show ?case using submitted_none by auto
next
  case (2 Es x n t m ms C)
  show ?case
  proof (cases "is_update m")
    case False
    with 2(1,3,4) show ?thesis by (auto split: prod.splits)
  next
    case True
    obtain C1 r1 where s: "Cosmos_signAndSubmitMessages (Es n) t C [m] = (C1, r1)" by fastforce
    note one = submitted_messages [OF s]
    show ?thesis
    proof (cases r1)
      case (Inl e)
      with True 2(3) s have "C' = C1" "t' = t" by simp_all
      with one Inl show ?thesis by auto
    next
      case (Inr h)
      have k: "co_txSubmissionDelay C1 = co_txSubmissionDelay C" using one by (simp add: submitted_def)
      have "submit_updates Es x (Suc n) (t + co_txSubmissionDelay C1 + int (x n)) ms C1 = (C', t', n', r)"
        using True 2(3) s Inr by simp
      then have "submitted (t + co_txSubmissionDelay C1 + int (x n)) t' C1 C' False"
        using 2(2) True s Inr 2(4) k by metis
      with submitted_sleep [OF one 2(4), of "x n"] k show ?thesis by (metis submitted_trans)
    qed
  qed
qed

lemma submitted_group:
  assumes run: "Cosmos_signAndSubmit Es x t C bz = (C', t', r)" and g: "0 \<le> co_txSubmissionDelay C"
  shows "submitted t t' C C' (\<not> isl r)"
proof (cases "\<exists>a as msgs. UnmarshalTxBody (Es 0) bz = Inr (a # as) \<and> unpack_all (Es 0) (a # as) = Inr msgs")
  case False
  with run have "C' = C" "t' = t"
    by (auto simp: Cosmos_signAndSubmit_def simp del: unpack_all.simps split: sum.splits list.splits)
  then show ?thesis by (simp add: submitted_none)
next
  case True
  then obtain msgs where body: "Cosmos_signAndSubmit Es x t C bz =
      (if length (filter is_update msgs) > 1 then
         (case submit_updates Es x 0 t msgs C of
            (C1, t1, n, Inl err) \<Rightarrow> (C1, t1, Inl err)
          | (C1, t1, n, Inr q) \<Rightarrow> (case Cosmos_signAndSubmitMessages (Es n) t1 C1 q of (C2, r) \<Rightarrow> (C2, t1, r)))
       else (case Cosmos_signAndSubmitMessages (Es 0) t C msgs of (C1, r) \<Rightarrow> (C1, t, r)))"
    by (auto simp: Cosmos_signAndSubmit_def simp del: unpack_all.simps)
  obtain C1 t1 n q where u: "submit_updates Es x 0 t msgs C = (C1, t1, n, q)" by (metis prod_cases4)
  obtain C2 r2 where one: "Cosmos_signAndSubmitMessages (Es 0) t C msgs = (C2, r2)" by fastforce
  show ?thesis
  proof (cases "length (filter is_update msgs) > 1")
    case False
    with run body one have "C' = C2" "t' = t" "r = r2" by simp_all
    with submitted_messages [OF one] show ?thesis by simp
  next
    case many: True
    show ?thesis
    proof (cases q)
      case (Inl e)
      with many run body u have "C' = C1" "t' = t1" "isl r" by auto
      with submitted_updates [OF u g] show ?thesis by simp
    next
      case (Inr rest)
      obtain C3 r3 where s: "Cosmos_signAndSubmitMessages (Es n) t1 C1 rest = (C3, r3)" by fastforce
      with Inr many run body u have "C' = C3" "t' = t1" "r = r3" by simp_all
      with submitted_trans [OF submitted_updates [OF u g] submitted_messages [OF s]] show ?thesis by simp
    qed
  qed
qed

lemma cosmos_deliver_effect:
  assumes "Cosmos_DeliverTx Es k x C bz = (C', fin, r)" and g: "0 \<le> co_txSubmissionDelay C"
  obtains (canceled) "fin = d_locked k + int (d_took k)" "C' = C\<lparr>co_lastSubmissionTime := fin\<rparr>"
    | (failed) t t1 where "submitted t t1 C C' False" "t1 \<le> fin"
        "t = woke k (co_lastSubmissionTime C) (co_txSubmissionDelay C)"
    | (sent) t t1 C1 where "submitted t t1 C C1 True" "t1 \<le> fin" "C' = C1\<lparr>co_lastSubmissionTime := fin\<rparr>"
        "t = woke k (co_lastSubmissionTime C) (co_txSubmissionDelay C)"
proof (cases "d_canceled k")
  case True
  with assms(1) show ?thesis by (intro canceled) (auto simp: Cosmos_DeliverTx_def Let_def)
next
  case False
  let ?t = "woke k (co_lastSubmissionTime C) (co_txSubmissionDelay C)"
  show ?thesis
  proof (cases "ConvertAndEncode (Es 0) (co_prefix C) (signer_Address (Es 0))")
    case (Inl e)
    with False assms(1) have "C' = C" "fin = ?t + int (d_took k)" by (auto simp: Cosmos_DeliverTx_def Let_def)
    with submitted_none [of ?t C False] show ?thesis by (intro failed [of ?t ?t]) simp_all
  next
    case (Inr b)
    obtain C1 t1 r1 where s: "Cosmos_signAndSubmit Es x ?t C bz = (C1, t1, r1)" by (metis prod_cases3)
    note group = submitted_group [OF s g]
    show ?thesis
    proof (cases r1)
      case (Inl e)
      with False Inr s assms(1) have "C' = C1" "fin = t1 + int (d_took k)" by (simp_all add: Cosmos_DeliverTx_def Let_def)
      with group Inl show ?thesis by (intro failed [of ?t t1]) simp_all
    next
      case ok: (Inr h)
      with False Inr s assms(1) have "C' = C1\<lparr>co_lastSubmissionTime := fin\<rparr>" "fin = t1 + int (d_took k)"
        by (auto simp: Cosmos_DeliverTx_def Let_def)
      with group ok show ?thesis by (intro sent [of ?t t1 C1]) simp_all
    qed
  qed
qed

lemma submitted_sends:
  assumes "submitted t t1 C C1 open_end" and "t1 \<le> fin" and "open_end \<longrightarrow> lastTime = fin" and "a \<le> t"
    and "0 \<le> co_txSubmissionDelay C"
  shows "\<exists>new. map fst (co_sent C1) = map fst (co_sent C) @ new \<and> apart (co_txSubmissionDelay C) new \<and>
    (\<forall>u \<in> set new. a \<le> u \<and> u + co_txSubmissionDelay C \<le> max fin (lastTime + co_txSubmissionDelay C))"
  using assms unfolding submitted_def by (fastforce simp: max_def)

interpretation cosmos_paced:
  paced_client cosmos_delivers co_lastSubmissionTime co_txSubmissionDelay "\<lambda>C. map fst (co_sent C)"
proof
  fix C C' :: CosmosBridgeClient and locked fin
  assume d: "cosmos_delivers C locked C' fin"
  then obtain Es k x bz r where k: "d_locked k = locked" "Cosmos_DeliverTx Es k x C bz = (C', fin, r)"
    by (auto simp: cosmos_delivers_def)
  show "locked \<le> fin" if g: "0 \<le> co_txSubmissionDelay C"
    using k(2) g
    by (cases rule: cosmos_deliver_effect)
      (use k(1) woke_bounds(1) [of k "co_lastSubmissionTime C" "co_txSubmissionDelay C"] in \<open>auto simp: submitted_def\<close>)
  show "\<exists>new. map fst (co_sent C') = map fst (co_sent C) @ new \<and> apart (co_txSubmissionDelay C) new \<and>
      (\<forall>t \<in> set new. max locked (co_lastSubmissionTime C + co_txSubmissionDelay C) \<le> t \<and>
         t + co_txSubmissionDelay C \<le> max fin (co_lastSubmissionTime C' + co_txSubmissionDelay C))"
    if g: "0 \<le> co_txSubmissionDelay C"
  proof -
    have w: "max locked (co_lastSubmissionTime C + co_txSubmissionDelay C) \<le>
        woke k (co_lastSubmissionTime C) (co_txSubmissionDelay C)"
      using k(1) by (simp add: woke_def)
    from k(2) g show ?thesis
    proof (cases rule: cosmos_deliver_effect)
      case canceled
      then show ?thesis by (simp add: apart_def)
    next
      case (failed t t1)
      show ?thesis by (rule submitted_sends [OF failed(1,2)]) (use failed w g in simp_all)
    next
      case (sent t t1 C1)
      have "\<exists>new. map fst (co_sent C1) = map fst (co_sent C) @ new \<and> apart (co_txSubmissionDelay C) new \<and>
        (\<forall>u \<in> set new. max locked (co_lastSubmissionTime C + co_txSubmissionDelay C) \<le> u \<and>
           u + co_txSubmissionDelay C \<le> max fin (fin + co_txSubmissionDelay C))"
        by (rule submitted_sends [OF sent(1,2)]) (use sent w g in simp_all)
      with sent show ?thesis by simp
    qed
  qed
  show "co_txSubmissionDelay C' = co_txSubmissionDelay C" if g: "0 \<le> co_txSubmissionDelay C"
    using k(2) g by (cases rule: cosmos_deliver_effect) (simp_all add: submitted_def)
  show "co_lastSubmissionTime C' = fin \<or> co_lastSubmissionTime C' = co_lastSubmissionTime C"
    if g: "0 \<le> co_txSubmissionDelay C"
    using k(2) g by (cases rule: cosmos_deliver_effect) (simp_all add: submitted_def)
qed

text \<open>
  C27. Whatever the node and the signer answer, the transactions that either client gets accepted are
  at least the configured delay apart, over any sequence of deliveries, failed and cancelled ones
  and groups of client updates included.
\<close>

theorem deliveries_paced:
  assumes "NewEVMBridgeClient g chain router signer fee tip (Some delay) = Inr C"
    and "delivery_run evm_delivers (C, t0) (C', t1)"
    and "delivery_run cosmos_delivers (NewCosmosBridgeClient chain' prefix price denom amount (Some delay), t0) (D', t2)"
    and "0 \<le> delay" and "zero_time \<le> t0"
  shows "apart (txSubmissionDelay C') (map fst (sent C')) \<and> apart (co_txSubmissionDelay D') (map fst (co_sent D'))"
proof
  have "sent C = []" "txSubmissionDelay C = delay" "lastSubmissionTime C = zero_time"
    using assms(1) by (auto simp: NewEVMBridgeClient_def split: if_splits)
  with assms(4,5) show "apart (txSubmissionDelay C') (map fst (sent C'))"
    by (intro evm_paced.run_apart [OF assms(2)]) simp_all
  show "apart (co_txSubmissionDelay D') (map fst (co_sent D'))"
    by (rule cosmos_paced.run_apart [OF assms(3)]) (use assms(4,5) in \<open>simp_all add: NewCosmosBridgeClient_def\<close>)
qed

section \<open>When a transaction is submitted again\<close>

text \<open>
  The contract \<^verbatim>\<open>BridgeClient\<close> documents for \<^verbatim>\<open>ShouldRetryTx\<close>. \<open>outcome\<close> is what is known of a
  transaction: whether it succeeded, or the error of the lookup; \<open>latest\<close> is the time of the
  latest block.
\<close>

locale retry_contract =
  fixes should_retry :: "'c \<Rightarrow> string \<Rightarrow> duration \<Rightarrow> time \<Rightarrow> bool result"
    and tx_outcome :: "'c \<Rightarrow> string \<Rightarrow> bool result" and latest :: "'c \<Rightarrow> time result"
  assumes known: "tx_outcome c h = Inr ok \<Longrightarrow> should_retry c h expiry ts = Inr (\<not> ok)"
    and missing: "tx_outcome c h = Inl e \<Longrightarrow> says_not_found e \<Longrightarrow> latest c = Inr T \<Longrightarrow>
      should_retry c h expiry ts = (if ts + expiry < T then Inr True else Inl (Sentinel ErrTxNotFound))"
    and blind: "tx_outcome c h = Inl e \<Longrightarrow> latest c = Inl e' \<or> \<not> says_not_found e \<Longrightarrow>
      isl (should_retry c h expiry ts)"
begin

lemma retry_iff:
  "should_retry c h expiry ts = Inr True \<longleftrightarrow>
     tx_outcome c h = Inr False \<or>
     (\<exists>e T. tx_outcome c h = Inl e \<and> says_not_found e \<and> latest c = Inr T \<and> ts + expiry < T)"
proof (cases "tx_outcome c h")
  case (Inr ok)
  then show ?thesis using known [OF Inr] by simp
next
  case (Inl e)
  show ?thesis
  proof (cases "says_not_found e \<and> \<not> isl (latest c)")
    case True
    then obtain T where "latest c = Inr T" by (cases "latest c") auto
    with True Inl missing [OF Inl] show ?thesis by simp
  next
    case False
    then have "isl (should_retry c h expiry ts)" using blind [OF Inl] by (cases "latest c") auto
    with False Inl show ?thesis by (cases "should_retry c h expiry ts") auto
  qed
qed

lemma never_retries_success: "tx_outcome c h = Inr True \<Longrightarrow> should_retry c h expiry ts = Inr False"
  using known by simp

end

type_synonym evm_call = "evm_env \<times> once_clock \<times> EVMBridgeClient"
type_synonym cosmos_call = "cosmos_env \<times> once_clock \<times> CosmosBridgeClient"

definition evm_should_retry :: "evm_call \<Rightarrow> string \<Rightarrow> duration \<Rightarrow> time \<Rightarrow> bool result" where
  "evm_should_retry = (\<lambda>(E, k, C) h expiry ts. snd (EVM_ShouldRetryTx E k C h expiry ts))"

definition evm_outcome :: "evm_call \<Rightarrow> string \<Rightarrow> bool result" where
  "evm_outcome = (\<lambda>(E, k, C) h. map_sum id (\<lambda>r. rc_Status r = 1) (snd (receipt_once E k C h)))"

definition evm_latest :: "evm_call \<Rightarrow> time result" where
  "evm_latest = (\<lambda>(E, k, C). map_sum id (\<lambda>h. unix_time (h_Time h)) (HeaderByNumber (node E) None))"

definition cosmos_should_retry :: "cosmos_call \<Rightarrow> string \<Rightarrow> duration \<Rightarrow> time \<Rightarrow> bool result" where
  "cosmos_should_retry = (\<lambda>(E, k, C) h expiry ts. snd (Cosmos_ShouldRetryTx E k C h expiry ts))"

definition cosmos_outcome :: "cosmos_call \<Rightarrow> string \<Rightarrow> bool result" where
  "cosmos_outcome = (\<lambda>(E, k, C) h.
     case hex_decode h of
       Inl e \<Rightarrow> Inl e
     | Inr b \<Rightarrow> map_sum id (\<lambda>r. rt_Code r = 0) (snd (result_once E k C h b)))"

definition cosmos_latest :: "cosmos_call \<Rightarrow> time result" where
  "cosmos_latest = (\<lambda>(E, k, C).
     case TmHeader E None of
       Inl e \<Rightarrow> Inl e | Inr None \<Rightarrow> Inl (NewError ''header was nil'') | Inr (Some t) \<Rightarrow> Inr t)"

text \<open>A hash that does not decode is not mistaken for one that is not found.\<close>

lemma hex_decode_error: "hex_decode s = Inl e \<Longrightarrow> \<not> says_not_found e"
proof (induction s arbitrary: e rule: hex_decode.induct)
  case (2 c)
  then show ?case by (auto simp: says_not_found_def split: option.splits)
next
  case (3 a b cs)
  then show ?case by (auto simp: says_not_found_def split: option.splits sum.splits)
qed simp

interpretation evm_retry: retry_contract evm_should_retry evm_outcome evm_latest
  by unfold_locales
    (auto simp: evm_should_retry_def evm_outcome_def evm_latest_def EVM_ShouldRetryTx_def map_sum_def
      split: prod.splits sum.splits)

interpretation cosmos_retry: retry_contract cosmos_should_retry cosmos_outcome cosmos_latest
  by unfold_locales
    (auto simp: cosmos_should_retry_def cosmos_outcome_def cosmos_latest_def Cosmos_ShouldRetryTx_def map_sum_def
      dest: hex_decode_error split: prod.splits sum.splits option.splits)

section \<open>The clients as the pipeline sees them\<close>

text \<open>
  The answers of a client in one invocation of a processor. A wait that the given ticks do not end
  is ended by the context.
\<close>

record evm_invocation =
  i_env :: evm_env
  i_clock :: once_clock
  i_delivery :: delivery
  i_start :: time
  i_ticks :: "Header result tick list"

definition evm_bridge :: "evm_invocation \<Rightarrow> EVMBridgeClient \<Rightarrow> BridgeClient" where
  "evm_bridge I C =
     \<lparr>IsPacketReceived = EVM_IsPacketReceived (i_env I),
      IsPacketCommitted = EVM_IsPacketCommitted (i_env I),
      FindRecvTx = EVM_FindRecvTx (i_env I) C,
      FindAckTx = EVM_FindAckTx (i_env I) C,
      FindTimeoutTx = EVM_FindTimeoutTx (i_env I) C,
      DeliverTx = (\<lambda>bz a. snd (EVM_DeliverTx (i_env I) (i_delivery I) C bz a)),
      PacketWriteAckStatus = (\<lambda>h n s d. snd (EVM_PacketWriteAckStatus (i_env I) (i_clock I) C h n s d)),
      SendPacketsFromTx = EVM_SendPacketsFromTx (i_env I),
      ShouldRetryTx = evm_should_retry (i_env I, i_clock I, C),
      WaitForChain =
        (case EVM_WaitForChain (i_start I) (i_ticks I) of
           None \<Rightarrow> Some (Sentinel ContextCanceled) | Some r \<Rightarrow> r),
      IsTxFinalized = EVM_IsTxFinalized (i_env I),
      IsTimestampFinalized = EVM_IsTimestampFinalized (i_env I),
      ClientChainType = EVM,
      SignerGasTokenBalance = EVM_SignerGasTokenBalance (i_env I) C,
      TxFee = (\<lambda>h. snd (EVM_TxFee (i_env I) (i_clock I) C h)),
      GetTxExecutionStatus = (\<lambda>h. snd (EVM_TxExecutionStatus (i_env I) (i_clock I) C h)),
      GetTransactionSender = EVM_GetTransactionSender (i_env I) C\<rparr>"

record cosmos_invocation =
  j_env :: "nat \<Rightarrow> cosmos_env"
  j_clock :: once_clock
  j_delivery :: delivery
  j_sleeps :: "nat \<Rightarrow> nat"
  j_start :: time
  j_ticks :: "time option result tick list"

definition cosmos_bridge :: "cosmos_invocation \<Rightarrow> CosmosBridgeClient \<Rightarrow> BridgeClient" where
  "cosmos_bridge J C =
     (let E = j_env J 0 in
      \<lparr>IsPacketReceived = Cosmos_IsPacketReceived E,
       IsPacketCommitted = Cosmos_IsPacketCommitted E,
       FindRecvTx = Cosmos_FindRecvTx E,
       FindAckTx = Cosmos_FindAckTx E,
       FindTimeoutTx = Cosmos_FindTimeoutTx E,
       DeliverTx = (\<lambda>bz _. snd (snd (Cosmos_DeliverTx (j_env J) (j_delivery J) (j_sleeps J) C bz))),
       PacketWriteAckStatus = (\<lambda>h n s d. snd (Cosmos_PacketWriteAckStatus E (j_clock J) C h n s d)),
       SendPacketsFromTx = Cosmos_SendPacketsFromTx E,
       ShouldRetryTx = cosmos_should_retry (E, j_clock J, C),
       WaitForChain =
         (case Cosmos_WaitForChain (j_start J) (j_ticks J) of
            None \<Rightarrow> Some (Sentinel ContextCanceled) | Some r \<Rightarrow> r),
       IsTxFinalized = Cosmos_IsTxFinalized,
       IsTimestampFinalized = Cosmos_IsTimestampFinalized E,
       ClientChainType = COSMOS,
       SignerGasTokenBalance = Cosmos_SignerGasTokenBalance E C,
       TxFee = (\<lambda>h. snd (Cosmos_TxFee E (j_clock J) C h)),
       GetTxExecutionStatus = (\<lambda>h. snd (Cosmos_TxExecutionStatus E (j_clock J) C h)),
       GetTransactionSender = Cosmos_GetTransactionSender\<rparr>)"

lemma retry_recv_asked:
  assumes "RetryRecvPacket_Process chain E w t = (w', x)" and "w' \<noteq> w"
  obtains c h ts where "clients E chain = Some c" "RecvTxHash t = Some h" "RecvTxTime t = Some ts"
    "ShouldRetryTx c h RetryRecvExpiry ts = Inr True"
  using assms
  by (auto simp: RetryRecvPacket_Process_def GetClient_def GetRecvTxHash_def GetRecvTxTime_def deref_def
      split: option.splits sum.splits prod.splits if_splits)

text \<open>A transaction that failed, or that the chain does not know although the expiry has passed.\<close>

definition tx_dead :: "bool result \<Rightarrow> time result \<Rightarrow> duration \<Rightarrow> time \<Rightarrow> bool" where
  "tx_dead outcm lat expiry ts \<longleftrightarrow>
     outcm = Inr False \<or> (\<exists>e T. outcm = Inl e \<and> says_not_found e \<and> lat = Inr T \<and> ts + expiry < T)"

text \<open>
  C25. The retry stage forgets a receive transaction only if the destination chain shows that it
  failed, or does not know it although the time of its latest block is past the expiry after the
  submission, whichever of the two clients the chain has.
\<close>

theorem recv_forgotten_only_if_dead:
  assumes "RetryRecvPacket_Process chain E w t = (w', x)" and "w' \<noteq> w"
  shows "\<exists>h ts. RecvTxHash t = Some h \<and> RecvTxTime t = Some ts \<and>
    (clients E chain = Some (evm_bridge I C) \<longrightarrow>
       tx_dead (evm_outcome (i_env I, i_clock I, C) h) (evm_latest (i_env I, i_clock I, C)) RetryRecvExpiry ts) \<and>
    (clients E chain = Some (cosmos_bridge J D) \<longrightarrow>
       tx_dead (cosmos_outcome (j_env J 0, j_clock J, D) h) (cosmos_latest (j_env J 0, j_clock J, D)) RetryRecvExpiry ts)"
proof -
  obtain c h ts where r: "clients E chain = Some c" "RecvTxHash t = Some h" "RecvTxTime t = Some ts"
      "ShouldRetryTx c h RetryRecvExpiry ts = Inr True"
    using assms by (rule retry_recv_asked)
  have "tx_dead (evm_outcome (i_env I, i_clock I, C) h) (evm_latest (i_env I, i_clock I, C)) RetryRecvExpiry ts"
    if "clients E chain = Some (evm_bridge I C)"
    using that r(1,4) evm_retry.retry_iff by (simp add: evm_bridge_def tx_dead_def)
  moreover have "tx_dead (cosmos_outcome (j_env J 0, j_clock J, D) h) (cosmos_latest (j_env J 0, j_clock J, D))
      RetryRecvExpiry ts"
    if "clients E chain = Some (cosmos_bridge J D)"
    using that r(1,4) cosmos_retry.retry_iff by (simp add: cosmos_bridge_def Let_def tx_dead_def)
  ultimately show ?thesis using r(2,3) by blast
qed

section \<open>Finality\<close>

lemma uint64_le: "0 \<le> a \<Longrightarrow> a < 2 ^ 64 \<Longrightarrow> uint (big_Uint64 a) = a"
  by (simp add: big_Uint64_def uint_word_of_int_eq take_bit_int_eq_self)

text \<open>With an offset, a transaction is final exactly when that many blocks are on top of its own.\<close>

lemma evm_offset_finality:
  assumes "TransactionReceipt (node E) (HexToHash (lib E) h) = Inr receipt" and "HeaderByNumber (node E) None = Inr latest"
    and "0 \<le> rc_BlockNumber receipt" "rc_BlockNumber receipt < 2 ^ 64" "0 \<le> h_Number latest" "h_Number latest < 2 ^ 64"
  shows "EVM_IsTxFinalized E h (Some off) = Inr (rc_BlockNumber receipt + uint off \<le> h_Number latest)"
proof -
  let ?a = "big_Uint64 (rc_BlockNumber receipt)" and ?b = "big_Uint64 (h_Number latest)"
  have u: "uint ?a = rc_BlockNumber receipt" "uint ?b = h_Number latest" using assms(3-6) by (simp_all add: uint64_le)
  have "?a \<le> ?b \<and> off \<le> ?b - ?a \<longleftrightarrow> uint ?a + uint off \<le> uint ?b"
  proof (cases "?a \<le> ?b")
    case True
    then show ?thesis using uint_minus_simple_alt [of ?a ?b] by (auto simp: word_le_def)
  next
    case False
    then show ?thesis using uint_ge_0 [of off] unfolding word_le_def by linarith
  qed
  then show ?thesis using assms(1,2) u by (simp add: EVM_IsTxFinalized_def Let_def)
qed

lemma send_finality_asked:
  assumes "CheckSendFinality_Process off E w t = (w', Inr t')"
  obtains c where "clients E (SourceChainID t) = Some c" "IsTxFinalized c (SourceTxHash t) off = Inr True"
  using assms
  by (auto simp: CheckSendFinality_Process_def GetClient_def GetSourceChainID_def GetSourceTxHash_def
      split: option.splits sum.splits prod.splits if_splits)

text \<open>
  C26. On a source chain with the EVM client and a configured offset, the send finality check passes
  a transfer exactly when its transaction is at least that many blocks below the latest one; block
  numbers and offset are compared without wrapping around.
\<close>

theorem send_final_means_deep:
  assumes "CheckSendFinality_Process (Some off) E w t = (w', Inr t')"
    and "clients E (SourceChainID t) = Some (evm_bridge I C)"
    and "TransactionReceipt (node (i_env I)) (HexToHash (lib (i_env I)) (SourceTxHash t)) = Inr receipt"
    and "HeaderByNumber (node (i_env I)) None = Inr latest"
    and "0 \<le> rc_BlockNumber receipt" "rc_BlockNumber receipt < 2 ^ 64" "0 \<le> h_Number latest" "h_Number latest < 2 ^ 64"
  shows "rc_BlockNumber receipt + uint off \<le> h_Number latest"
proof -
  have "EVM_IsTxFinalized (i_env I) (SourceTxHash t) (Some off) = Inr True"
    using assms(1,2) by (auto simp: evm_bridge_def elim!: send_finality_asked)
  with evm_offset_finality [OF assms(3-8)] show ?thesis by simp
qed

text \<open>
  The two clients disagree on a block whose time is exactly the timestamp: the EVM client counts
  the timestamp as final, as the interface says, and the Cosmos client does not.
\<close>

lemma timestamp_finality_differs:
  assumes "HeaderByNumber (node E) (Some (FinalizedBlockNumber (lib E))) = Inr header"
    and "TmHeader E' None = Inr (Some (unix_time (h_Time header)))"
  shows "EVM_IsTimestampFinalized E (unix_time (h_Time header)) None = Inr True \<and>
    Cosmos_IsTimestampFinalized E' (unix_time (h_Time header)) None = Inr False"
  using assms by (simp add: EVM_IsTimestampFinalized_def Cosmos_IsTimestampFinalized_def)

section \<open>The waiting loops\<close>

definition waiting_tick :: "('a \<Rightarrow> bool) \<Rightarrow> 'a tick \<Rightarrow> bool" where
  "waiting_tick P x = (case x of CtxDone \<Rightarrow> False | Ticked t a \<Rightarrow> P a)"


text \<open>
  Waiting for a transaction never times out while the node answers with errors, however long it
  takes: the minute is checked only after an answer without an error and without a receipt.
\<close>

lemma wait_for_tx_ignores_timeout:
  assumes "list_all (waiting_tick isl) ticks"
  shows "EVM_WaitForTx start ticks = None"
  using assms by (induction start ticks rule: EVM_WaitForTx.induct) (auto simp: waiting_tick_def)

section \<open>Fees\<close>

lemma float_to_u64_int:
  assumes "0 \<le> m" "m < 2 ^ 64"
  shows "float_to_u64 E (of_int m) = word_of_int m"
proof -
  have "(of_int m :: rat) < of_int (2 ^ 64)" using assms(2) by (simp only: of_int_less_iff)
  with assms(1) show ?thesis by (simp add: float_to_u64_def)
qed

text \<open>The buffer is exact as long as three times the gas fits the mantissa of a \<^verbatim>\<open>float64\<close>.\<close>

lemma gas_with_buffer_exact:
  assumes "3 * uint g < 2 ^ 53"
  shows "uint (gas_with_buffer E g) = (3 * uint g + 1) div 2"
proof -
  have u: "uint g < 2 ^ 53" using assms uint_ge_0 [of g] by linarith
  have 1: "float64 (of_int (uint g)) = of_int (uint g)"
    using float_round_exact [of "uint g" 53 0] u by (simp add: float64_def)
  have 2: "of_int (uint g) * (3 / 2) = (of_int (3 * uint g) / 2 ^ 1 :: rat)" by simp
  have 3: "float64 (of_int (3 * uint g) / 2 ^ 1) = of_int (3 * uint g) / 2 ^ 1"
    unfolding float64_def using assms by (intro float_round_exact) simp_all
  have 4: "\<lceil>(of_int (3 * uint g) / 2 ^ 1 :: rat)\<rceil> = (3 * uint g + 1) div 2"
    using ceiling_divide_eq_div [of "3 * uint g" 2, where 'a = rat] by simp
  have "gas_with_buffer E g = float_to_u64 E (of_int ((3 * uint g + 1) div 2))"
    unfolding gas_with_buffer_def 1 2 3 4 ..
  moreover have 5: "0 \<le> (3 * uint g + 1) div 2" "(3 * uint g + 1) div 2 < 2 ^ 64" using assms by simp_all
  ultimately have "gas_with_buffer E g = word_of_int ((3 * uint g + 1) div 2)" by (simp only: float_to_u64_int)
  with 5 show ?thesis by (simp add: uint_word_of_int_eq take_bit_int_eq_self)
qed

lemma float_round_between:
  assumes "0 < q" "q < 2 ^ p"
  shows "of_int \<lfloor>q\<rfloor> \<le> float_round p q" "float_round p q \<le> of_int \<lceil>q\<rceil>"
  using assms by (simp_all add: float_round_ge_int float_round_le_int)

lemma fee_bounds:
  assumes "0 < q" "q < 2 ^ 64"
  shows "q < of_int (\<lfloor>float_round 64 q\<rfloor> + 1)" "of_int (\<lfloor>float_round 64 q\<rfloor> + 1) < q + 2"
proof -
  note b = float_round_between [OF assms]
  have "\<lfloor>q\<rfloor> \<le> \<lfloor>float_round 64 q\<rfloor>" using b(1) by (simp add: le_floor_iff)
  then have "(of_int \<lfloor>q\<rfloor> :: rat) \<le> of_int \<lfloor>float_round 64 q\<rfloor>" by (simp only: of_int_le_iff)
  then show "q < of_int (\<lfloor>float_round 64 q\<rfloor> + 1)" using floor_correct [of q] by simp
  have "(of_int \<lfloor>float_round 64 q\<rfloor> :: rat) \<le> of_int \<lceil>q\<rceil>"
    using of_int_floor_le b(2) by (rule order_trans)
  then show "of_int (\<lfloor>float_round 64 q\<rfloor> + 1) < q + 2" using ceiling_correct [of q] by simp
qed

text \<open>
  C31. The gas limit of a Cosmos transaction is the gas of the simulation and half as much again,
  rounded up, and the fee that goes with it covers the gas limit at the configured price and
  exceeds that by at most two units; both hold as long as the numbers fit the floating point
  formats the code goes through.
\<close>

theorem cosmos_fee_covers_gas:
  assumes "3 * uint gasUsed < 2 ^ 53" and "0 < uint gasUsed"
    and "co_feeDenom C \<noteq> []" and "0 < co_gasPrice C" and "co_feeAmount C = 0"
    and "co_gasPrice C * of_int (uint (gas_with_buffer E gasUsed)) < 2 ^ 64"
  shows "uint (gas_with_buffer E gasUsed) = (3 * uint gasUsed + 1) div 2 \<and>
    (\<exists>fee. Cosmos_getTxFee C (gas_with_buffer E gasUsed) = Inr (co_feeDenom C, fee) \<and>
       co_gasPrice C * of_int (uint (gas_with_buffer E gasUsed)) < of_int fee \<and>
       of_int fee < co_gasPrice C * of_int (uint (gas_with_buffer E gasUsed)) + 2)"
proof -
  let ?l = "gas_with_buffer E gasUsed"
  let ?q = "co_gasPrice C * of_int (uint ?l)"
  have l: "uint ?l = (3 * uint gasUsed + 1) div 2" using assms(1) by (rule gas_with_buffer_exact)
  then have "0 < uint ?l" "uint ?l < 2 ^ 63" using assms(1,2) by simp_all
  then have "(0 :: rat) < of_int (uint ?l)" "sint ?l = uint ?l"
    by (simp_all only: of_int_0_less_iff) (simp add: sint_uint signed_take_bit_int_eq_self_iff)
  then have s: "sint ?l = uint ?l" and "(0 :: rat) < of_int (uint ?l)" by blast+
  have q: "0 < ?q" using assms(4) \<open>(0 :: rat) < of_int (uint ?l)\<close> by (rule mult_pos_pos)
  note b = float_round_between [OF q assms(6)]
  have "(0 :: rat) \<le> of_int \<lfloor>?q\<rfloor>" using q by simp
  with b(1) have "0 \<le> float_round 64 ?q" by linarith
  then have "Cosmos_getTxFee C ?l = Inr (co_feeDenom C, \<lfloor>float_round 64 ?q\<rfloor> + 1)"
    using assms(3-5) s
    by (simp add: Cosmos_getTxFee_def big_Int_def big_Mul_def prec_NewFloat_def prec_SetInt64_def)
  moreover have "?q < of_int (\<lfloor>float_round 64 ?q\<rfloor> + 1)" "of_int (\<lfloor>float_round 64 ?q\<rfloor> + 1) < ?q + 2"
    using fee_bounds [OF q assms(6)] by blast+
  ultimately show ?thesis using l by blast
qed

section \<open>Reading back what the chain printed\<close>

text \<open>The event a Cosmos chain emits for a sent packet, with numbers in decimal.\<close>

definition send_event :: "PacketInfo \<Rightarrow> Event" where
  "send_event p =
     \<lparr>e_Type = ''send_packet'',
      e_Attributes =
        [(attributeKeyPacketSourceClient, SourceClient p), (attributeKeyPacketDestClient, DestinationClient p),
         (attributeKeyPacketSequence, dec_nat (unat (Sequence p))),
         (attributeKeyPacketTimeoutTimestamp, Itoa (TimeoutTimestamp p div second))]\<rparr>"

text \<open>A packet that survives: whole seconds, a sequence and a timeout that fit an \<^verbatim>\<open>int64\<close>, both clients named.\<close>

definition printable :: "PacketInfo \<Rightarrow> bool" where
  "printable p \<longleftrightarrow>
     SourceClient p \<noteq> [] \<and> DestinationClient p \<noteq> [] \<and> unat (Sequence p) < 2 ^ 63 \<and> PacketTimestamp p = zero_time \<and>
     TimeoutTimestamp p = TimeoutTimestamp p div second * second \<and>
     - (2 ^ 63) \<le> TimeoutTimestamp p div second \<and> TimeoutTimestamp p div second < 2 ^ 63"

lemma attribute_keys_distinct [simp]:
  "attributeKeyPacketSourceClient \<noteq> attributeKeyPacketSequence" "attributeKeyPacketDestClient \<noteq> attributeKeyPacketSequence"
  "attributeKeyPacketDestClient \<noteq> attributeKeyPacketSourceClient"
  "attributeKeyPacketTimeoutTimestamp \<noteq> attributeKeyPacketSequence"
  "attributeKeyPacketTimeoutTimestamp \<noteq> attributeKeyPacketSourceClient"
  "attributeKeyPacketTimeoutTimestamp \<noteq> attributeKeyPacketDestClient"
  by (simp_all add: attributeKeyPacketSourceClient_def attributeKeyPacketDestClient_def attributeKeyPacketSequence_def
      attributeKeyPacketTimeoutTimestamp_def)

lemma Atoi_dec_nat: "n < 2 ^ 63 \<Longrightarrow> Atoi (dec_nat n) = Inr (int n)"
  by (simp add: Atoi_def SetString10_dec_nat)

lemma packet_attributes_send_event:
  assumes "printable p"
  shows "packet_attributes (e_Attributes (send_event p)) zero_packet = Inr p"
proof -
  have n: "Atoi (dec_nat (unat (Sequence p))) = Inr (int (unat (Sequence p)))"
    using assms by (intro Atoi_dec_nat) (simp add: printable_def)
  have t: "Atoi (Itoa (TimeoutTimestamp p div second)) = Inr (TimeoutTimestamp p div second)"
    using assms by (intro Atoi_Itoa) (simp_all add: printable_def)
  have "(word_of_int (int (unat (Sequence p))) :: u64) = Sequence p" by simp
  with n t assms show ?thesis by (simp add: send_event_def zero_packet_def printable_def)
qed


section \<open>Witnesses\<close>

text \<open>A Cosmos node that accepts everything; a body unpacks to two client updates and a packet.\<close>

definition ex_cosmos_env :: cosmos_env where
  "ex_cosmos_env =
     \<lparr>PacketReceipt = \<lambda>_ _. Inr False, PacketCommitment = \<lambda>_ _. None, FromError = \<lambda>_. None,
      TxSearch = \<lambda>_. Inr (0, []), TmHeader = \<lambda>_. Inr (Some 0), TmTx = \<lambda>_. Inl (External ''tx not found''),
      BroadcastTxSync = \<lambda>b. Inr (0, [], b), AccountInfo = \<lambda>_. Inr (Some (4, 7)), Simulate = \<lambda>_. Inr (Some 1000),
      Balance = \<lambda>_ _. Inr None, HexBytesString = \<lambda>_. ''hash'', ConvertAndEncode = \<lambda>p _. Inr p,
      UnmarshalTxBody = \<lambda>b. Inr [[1], [1], [2]],
      UnpackAny = \<lambda>b. Inr (if b = [1] then MsgUpdateClient b else MsgRecvPacket ''me'' b),
      UnmarshalAck = \<lambda>_. Inr [], TxDecoder = \<lambda>_. Inl (External ''tx''), SetMsgs = \<lambda>_. None,
      SignTx = \<lambda>_ _ _ _. Inr [9], TxEncoder = \<lambda>b. Inr b, signer_Address = [1], float_overflow = \<lambda>_. 0\<rparr>"

definition ex_cosmos :: CosmosBridgeClient where
  "ex_cosmos = NewCosmosBridgeClient ''cosmos-1'' ''cosmos'' (1 / 4) ''uatom'' 0 (Some (2 * second))"

definition ex_delivery :: "time \<Rightarrow> delivery" where
  "ex_delivery t = \<lparr>d_locked = t, d_late = 3, d_took = 5, d_canceled = False\<rparr>"

definition ex_evm_after :: "time \<Rightarrow> EVMBridgeClient \<Rightarrow> EVMBridgeClient" where
  "ex_evm_after t C = fst (EVM_DeliverTx ex_evm_env (ex_delivery t) C [1, 2] ''router'')"

lemma ex_evm_delivers:
  "evm_delivers C t (ex_evm_after t C) (woke (ex_delivery t) (lastSubmissionTime C) (txSubmissionDelay C) + 5)"
  unfolding evm_delivers_def
  by (rule exI [of _ ex_evm_env], rule exI [of _ "ex_delivery t"])
    (auto simp: ex_evm_after_def ex_delivery_def intro: prod.collapse [symmetric])

text \<open>Two deliveries of the EVM client in a row, and one of the Cosmos client.\<close>

definition ex_evm_twice :: EVMBridgeClient where
  "ex_evm_twice = ex_evm_after 8 (ex_evm_after 0 ex_evm)"

definition ex_cosmos_once :: "CosmosBridgeClient \<times> time \<times> BridgeTx result" where
  "ex_cosmos_once = Cosmos_DeliverTx (\<lambda>_. ex_cosmos_env) (ex_delivery 0) (\<lambda>_. 1) ex_cosmos [7]"

theorem deliveries_paced_witness:
  "length (sent ex_evm_twice) = 2 \<and> length (co_sent (fst ex_cosmos_once)) = 3 \<and>
   apart (txSubmissionDelay ex_evm_twice) (map fst (sent ex_evm_twice)) \<and>
   apart (co_txSubmissionDelay (fst ex_cosmos_once)) (map fst (co_sent (fst ex_cosmos_once)))"
proof -
  have n: "length (sent ex_evm_twice) = 2" "length (co_sent (fst ex_cosmos_once)) = 3" by code_simp+
  have w: "woke (ex_delivery 0) (lastSubmissionTime ex_evm) (txSubmissionDelay ex_evm) + 5 = 8" by code_simp
  have "delivery_run evm_delivers (ex_evm, 0) (ex_evm_after 0 ex_evm, 8)"
    by (rule delivery_run.next_one [OF delivery_run.start order_refl]) (use ex_evm_delivers [of ex_evm 0] w in simp)
  from delivery_run.next_one [OF this order_refl ex_evm_delivers]
  obtain fin where e: "delivery_run evm_delivers (ex_evm, 0) (ex_evm_twice, fin)"
    unfolding ex_evm_twice_def by blast
  have "cosmos_delivers ex_cosmos 0 (fst ex_cosmos_once) (fst (snd ex_cosmos_once))"
    unfolding cosmos_delivers_def
    by (rule exI [of _ "\<lambda>_. ex_cosmos_env"], rule exI [of _ "ex_delivery 0"], rule exI [of _ "\<lambda>_. 1"],
        rule exI [of _ "[7]"], rule exI [of _ "snd (snd ex_cosmos_once)"])
      (simp add: ex_cosmos_once_def ex_delivery_def)
  then have c: "delivery_run cosmos_delivers
      (NewCosmosBridgeClient ''cosmos-1'' ''cosmos'' (1 / 4) ''uatom'' 0 (Some (2 * second)), 0)
      (fst ex_cosmos_once, fst (snd ex_cosmos_once))"
    unfolding ex_cosmos_def [symmetric] by (rule delivery_run.next_one [OF delivery_run.start order_refl])
  from n deliveries_paced [OF ex_evm_new e c] show ?thesis by (simp add: second_def zero_time_def)
qed

definition ex_invocation :: evm_invocation where
  "ex_invocation =
     \<lparr>i_env = ex_evm_env, i_clock = ex_clock 0, i_delivery = ex_delivery 0, i_start = 0, i_ticks = []\<rparr>"

definition ex_bridge_env :: env where
  "ex_bridge_env = (ex_env 50)\<lparr>clients := (\<lambda>c. Some (evm_bridge ex_invocation ex_evm))\<rparr>"

text \<open>A receive transaction that the node does not know, submitted a thousand seconds before its latest block.\<close>

definition ex_lost :: IBCV2Transfer where
  "ex_lost = ex_transfer\<lparr>RecvTxHash := Some ''0xcd'', RecvTxTime := Some 0\<rparr>"

definition ex_lost_world :: world where
  "ex_lost_world = ex_world\<lparr>db := ex_db\<lparr>transfers := [ex_row\<lparr>r_RecvTxHash := Some ''0xcd'', r_RecvTxTime := Some 0\<rparr>]\<rparr>\<rparr>"

theorem recv_forgotten_only_if_dead_witness:
  "tx_dead (evm_outcome (ex_evm_env, ex_clock 0, ex_evm) ''0xcd'') (evm_latest (ex_evm_env, ex_clock 0, ex_evm))
     RetryRecvExpiry 0"
proof -
  let ?r = "RetryRecvPacket_Process ''B'' ex_bridge_env ex_lost_world ex_lost"
  have "transfers (db (fst ?r)) \<noteq> transfers (db ex_lost_world)" by code_simp
  then have "fst ?r \<noteq> ex_lost_world" by metis
  from recv_forgotten_only_if_dead [OF prod.collapse [symmetric] this, of ex_invocation ex_evm] show ?thesis
    by (simp add: ex_lost_def ex_bridge_env_def ex_invocation_def)
qed

definition ex_deep :: IBCV2Transfer where
  "ex_deep = ex_transfer\<lparr>SourceTxHash := ''tx''\<rparr>"

theorem send_final_means_deep_witness:
  "\<exists>receipt latest. TransactionReceipt ex_node (string_bytes ''tx'') = Inr receipt \<and>
     HeaderByNumber ex_node None = Inr latest \<and> rc_BlockNumber receipt + uint (10 :: u64) \<le> h_Number latest"
proof -
  let ?r = "CheckSendFinality_Process (Some 10) ex_bridge_env ex_world ex_deep"
  have "\<not> isl (snd ?r)" by code_simp
  then obtain w' t' where r: "?r = (w', Inr t')" by (cases ?r; cases "snd ?r") auto
  have c: "clients ex_bridge_env (SourceChainID ex_deep) = Some (evm_bridge ex_invocation ex_evm)"
    by (simp add: ex_bridge_env_def)
  show ?thesis
    using send_final_means_deep [OF r c]
    by (auto simp: ex_deep_def ex_invocation_def ex_evm_env_def ex_node_def ex_geth_def)
qed

theorem cosmos_fee_covers_gas_witness:
  "\<exists>fee. Cosmos_getTxFee ex_cosmos (gas_with_buffer ex_cosmos_env 1000) = Inr (''uatom'', fee) \<and>
     co_gasPrice ex_cosmos * of_int (uint (gas_with_buffer ex_cosmos_env 1000)) < of_int fee"
proof -
  have "gas_with_buffer ex_cosmos_env 1000 = 1500" by code_simp
  then show ?thesis
    using cosmos_fee_covers_gas [of 1000 ex_cosmos ex_cosmos_env]
    by (auto simp: ex_cosmos_def NewCosmosBridgeClient_def)
qed


end
