(* ===== verification/GasCosts.thy ===== *)
theory GasCosts
  imports Prices Guarantees
begin

text \<open>
  The gas stages of a pipeline with the price client behind them: what ends up in the row of a
  transfer as the cost of its transactions.
\<close>

section \<open>The three stages\<close>

text \<open>
  A leg of a transfer: the stage that prices its transaction, the chain the transaction is on, its
  hash in the transfer, and the column of the cost.
\<close>

datatype leg = RecvLeg | AckLeg | TimeoutLeg

fun leg_Process :: "leg \<Rightarrow> string \<Rightarrow> u8 \<Rightarrow> env \<Rightarrow> world \<Rightarrow> IBCV2Transfer \<Rightarrow> world \<times> IBCV2Transfer result" where
  "leg_Process RecvLeg = RecvTxGasCalculator_Process"
| "leg_Process AckLeg = AckTxGasCalculator_Process"
| "leg_Process TimeoutLeg = TimeoutTxGasCalculator_Process"

fun leg_chain :: "leg \<Rightarrow> IBCV2Transfer \<Rightarrow> string" where
  "leg_chain RecvLeg t = GetDestinationChainID t"
| "leg_chain AckLeg t = GetSourceChainID t"
| "leg_chain TimeoutLeg t = GetSourceChainID t"

fun leg_hash :: "leg \<Rightarrow> IBCV2Transfer \<Rightarrow> string \<times> bool" where
  "leg_hash RecvLeg t = GetRecvTxHash t"
| "leg_hash AckLeg t = GetAckTxHash t"
| "leg_hash TimeoutLeg t = GetTimeoutTxHash t"

fun leg_cost :: "leg \<Rightarrow> Ibcv2Transfer \<Rightarrow> numeric option" where
  "leg_cost RecvLeg r = r_RecvTxGasCostUsd r"
| "leg_cost AckLeg r = r_AckTxGasCostUsd r"
| "leg_cost TimeoutLeg r = r_TimeoutTxGasCostUsd r"

lemma stored_column:
  assumes "set_rows E q k f d = (d', None)" "r \<in> set (transfers d')" "row_key r = k"
    and "\<And>r. row_key (f r) = row_key r" "\<And>r. col (f r) = x"
  shows "col r = x"
  using set_rows_cases [OF assms(1)] assms(2-5) by (auto simp: update_where_def)

lemma leg_stored:
  assumes "leg_Process l coin dec E w t = (w', Inr t')" "r \<in> set (transfers (db w'))" "row_key r = transferKey t"
  obtains b fee v where "clients E (leg_chain l t) = Some b" "snd (leg_hash l t)" "TxFee b (fst (leg_hash l t)) = Inr fee"
    "GetCoinUsdValue E coin dec fee = Inr v" "leg_cost l r = v" "t' = t"
proof (cases l)
  case RecvLeg
  with assms show ?thesis
    by (auto simp: RecvTxGasCalculator_Process_def GetClient_def on_db_eq UpdateTransferRecvTxGasCostUSD_def row_key_def
        split: option.splits sum.splits prod.splits if_splits
        dest!: stored_column [where col = r_RecvTxGasCostUsd] intro: that)
next
  case AckLeg
  with assms show ?thesis
    by (auto simp: AckTxGasCalculator_Process_def GetClient_def on_db_eq UpdateTransferAckTxGasCostUSD_def row_key_def
        split: option.splits sum.splits prod.splits if_splits
        dest!: stored_column [where col = r_AckTxGasCostUsd] intro: that)
next
  case TimeoutLeg
  with assms show ?thesis
    by (auto simp: TimeoutTxGasCalculator_Process_def GetClient_def on_db_eq UpdateTransferTimeoutTxGasCostUSD_def row_key_def
        split: option.splits sum.splits prod.splits if_splits
        dest!: stored_column [where col = r_TimeoutTxGasCostUsd] intro: that)
qed

text \<open>
  C38. With the cached price client behind it, a gas stage that succeeds stores in the row of its
  transfer the fee that the chain reports for the transaction, in US dollars: the column differs from
  the exact product of fee and price by at most half of a millionth and six roundings of a float.
  This holds for the receive, the ack and the timeout stage, for every number of decimals, and for
  every fee that the chain can report without exceeding the integers of the SDK.
\<close>

theorem stored_gas_cost_accurate:
  assumes "GetCoinUsdValue E = (\<lambda>cid d amt. snd (CachedPriceClient_GetCoinUsdValue L t0 t1 answer cid d amt c))"
    and "converts_amounts L" "scans_fixed L"
    and "GetSimplePrice t0 t1 answer coin ''usd'' c = (c', Inr p)" "0 \<le> p"
    and "\<And>b fee. clients E (leg_chain l t) = Some b \<Longrightarrow> TxFee b (fst (leg_hash l t)) = Inr fee \<Longrightarrow> 0 \<le> fee \<and> fee < 2 ^ 256"
    and "leg_Process l coin dec E w t = (w', Inr t')" "r \<in> set (transfers (db w'))" "row_key r = transferKey t"
  shows "\<exists>b fee v. clients E (leg_chain l t) = Some b \<and> TxFee b (fst (leg_hash l t)) = Inr fee \<and> leg_cost l r = Some v \<and>
    \<bar>num_value v - of_int fee / 10 ^ unat dec * p\<bar> \<le> 1 / (2 * 10 ^ 6) + of_int fee / 10 ^ unat dec * p / 2 ^ 50"
proof -
  obtain b fee x where b: "clients E (leg_chain l t) = Some b" "TxFee b (fst (leg_hash l t)) = Inr fee"
    "GetCoinUsdValue E coin dec fee = Inr x" "leg_cost l r = x"
    using leg_stored [OF assms(7-9)] by metis
  obtain v where "CachedPriceClient_GetCoinUsdValue L t0 t1 answer coin dec fee c = (c', Inr (Some v))"
    "\<bar>num_value v - of_int fee / 10 ^ unat dec * p\<bar> \<le> 1 / (2 * 10 ^ 6) + of_int fee / 10 ^ unat dec * p / 2 ^ 50"
    using usd_value_accurate [OF assms(2,3) _ _ assms(4,5)] assms(6) [OF b(1,2)] by blast
  with b show ?thesis by (auto simp: assms(1))
qed

text \<open>
  The transfer that is loaded from the row has the digits of the numeric without its exponent: of a cost
  with six digits behind the point it shows the millionfold.
\<close>

lemma reloaded_cost_scaled:
  assumes "r_RecvTxGasCostUsd r = Some (Numeric n (- 6))"
  shows "GetRecvGasCostUSD (NewIBCV2Transfer r) = Some n \<and> of_int n = 10 ^ 6 * num_value (Numeric n (- 6))"
  using assms by (simp add: GetRecvGasCostUSD_def NewIBCV2Transfer_def num_value_def power_int_minus)

section \<open>Example\<close>

definition ex_price_env :: env where
  "ex_price_env =
     (ex_env 50)\<lparr>clients := (\<lambda>_. Some (ex_client\<lparr>TxFee := \<lambda>_. Inr 210000000000000\<rparr>)),
       GetCoinUsdValue := (\<lambda>cid d amt. snd (CachedPriceClient_GetCoinUsdValue ex_numeric_lib 0 0 (Inr 2000) cid d amt
         (NewCachedPriceClient minute)))\<rparr>"

definition ex_received :: IBCV2Transfer where
  "ex_received = ex_transfer\<lparr>RecvTxHash := Some ''0xcd''\<rparr>"

text \<open>A receive that cost two hundred and ten thousand gwei, at two thousand dollars an ether.\<close>

theorem stored_gas_cost_accurate_witness:
  "\<exists>w' r v. leg_Process RecvLeg ''ethereum'' 18 ex_price_env ex_world ex_received = (w', Inr ex_received) \<and>
     r \<in> set (transfers (db w')) \<and> r_RecvTxGasCostUsd r = Some v \<and>
     \<bar>num_value v - 42 / 100\<bar> \<le> 1 / (2 * 10 ^ 6) + 42 / 100 / 2 ^ 50"
proof -
  let ?c = "NewCachedPriceClient minute"
  have conv: "converts_amounts ex_numeric_lib" by (simp add: converts_amounts_def ex_numeric_lib_def)
  obtain c' where p: "GetSimplePrice 0 0 (Inr 2000) ''ethereum'' ''usd'' ?c = (c', Inr 2000)"
    by (simp add: GetSimplePrice_def NewCachedPriceClient_def Let_def)
  obtain v0 where "CachedPriceClient_GetCoinUsdValue ex_numeric_lib 0 0 (Inr 2000) ''ethereum'' 18 210000000000000 ?c =
      (c', Inr (Some v0))"
    using usd_value_accurate [OF conv scans_ex_numeric_lib _ _ p, of 210000000000000 18] by auto
  then have v0: "GetCoinUsdValue ex_price_env ''ethereum'' 18 210000000000000 = Inr (Some v0)" by (simp add: ex_price_env_def)
  obtain w' where run: "leg_Process RecvLeg ''ethereum'' 18 ex_price_env ex_world ex_received = (w', Inr ex_received)"
    and rows: "map row_key (transfers (db w')) = [transferKey ex_received]"
    using v0
    by (simp add: RecvTxGasCalculator_Process_def GetClient_def ex_received_def GetRecvTxHash_def ex_price_env_def ex_env_def
        ex_db_env_def on_db_def UpdateTransferRecvTxGasCostUSD_def set_rows_def exec_query_def update_where_def ex_defs
        row_key_def transferKey_def)
  then obtain r where r: "r \<in> set (transfers (db w'))" "row_key r = transferKey ex_received" by auto
  have env: "GetCoinUsdValue ex_price_env = (\<lambda>cid d amt. snd (CachedPriceClient_GetCoinUsdValue ex_numeric_lib 0 0 (Inr 2000) cid d amt ?c))"
    by (simp add: ex_price_env_def)
  have "clients ex_price_env x = Some (ex_client\<lparr>TxFee := \<lambda>_. Inr 210000000000000\<rparr>)" for x by (simp add: ex_price_env_def)
  then have fee: "clients ex_price_env x = Some b \<Longrightarrow> TxFee b h = Inr fee \<Longrightarrow> 0 \<le> fee \<and> fee < 2 ^ 256" for x b h fee
    by auto
  have two: "0 \<le> (2000 :: rat)" by simp
  from stored_gas_cost_accurate [OF env conv scans_ex_numeric_lib p two fee run r]
  have "\<exists>v. r_RecvTxGasCostUsd r = Some v \<and> \<bar>num_value v - 42 / 100\<bar> \<le> 1 / (2 * 10 ^ 6) + 42 / 100 / 2 ^ 50"
    by (auto simp: ex_price_env_def)
  then show ?thesis using run r(1) by blast
qed

end
