(* ===== verification/SqlEnums.thy ===== *)
theory SqlEnums
  imports Monitors
begin

text \<open>
  The conversions of \<^verbatim>\<open>db/gen/db/models.go\<close> between the enumerations and the values of the database
  driver. In Go an enumeration is a string and reading accepts any text; the types of \<open>Db\<close> are what
  the database lets through, and the locale \<open>sql_enum\<close> shows that nothing is lost between the two.
\<close>

section \<open>Driver values\<close>

datatype driver_value = NilValue | BytesValue string | StringValue string | OtherValue

text \<open>A scan writes to its receiver, which an error leaves as it was.\<close>

definition enum_Scan :: "string \<Rightarrow> driver_value \<Rightarrow> string \<Rightarrow> string \<times> go_error option" where
  "enum_Scan name src e =
     (case src of
        BytesValue s \<Rightarrow> (s, None)
      | StringValue s \<Rightarrow> (s, None)
      | _ \<Rightarrow> (e, Some (NewError (''unsupported scan type for '' @ name))))"

record NullEnum =
  en_Text :: string
  en_Valid :: bool

definition null_enum_Scan ::
  "(driver_value \<Rightarrow> string \<Rightarrow> string \<times> go_error option) \<Rightarrow> driver_value \<Rightarrow> NullEnum \<Rightarrow> NullEnum \<times> go_error option" where
  "null_enum_Scan scan src ns =
     (if src = NilValue then (\<lparr>en_Text = [], en_Valid = False\<rparr>, None)
      else case scan src (en_Text ns) of (e, err) \<Rightarrow> (\<lparr>en_Text = e, en_Valid = True\<rparr>, err))"

definition null_enum_Value :: "NullEnum \<Rightarrow> driver_value" where
  "null_enum_Value ns = (if en_Valid ns then StringValue (en_Text ns) else NilValue)"

section \<open>The enumerations\<close>

definition BridgeType_Scan :: "driver_value \<Rightarrow> string \<Rightarrow> string \<times> go_error option" where
  "BridgeType_Scan = enum_Scan ''BridgeType''"

definition NullBridgeType_Scan :: "driver_value \<Rightarrow> NullEnum \<Rightarrow> NullEnum \<times> go_error option" where
  "NullBridgeType_Scan = null_enum_Scan BridgeType_Scan"

definition NullBridgeType_Value :: "NullEnum \<Rightarrow> driver_value" where
  "NullBridgeType_Value = null_enum_Value"

definition Ibcv2RelayStatus_Scan :: "driver_value \<Rightarrow> string \<Rightarrow> string \<times> go_error option" where
  "Ibcv2RelayStatus_Scan = enum_Scan ''Ibcv2RelayStatus''"

definition NullIbcv2RelayStatus_Scan :: "driver_value \<Rightarrow> NullEnum \<Rightarrow> NullEnum \<times> go_error option" where
  "NullIbcv2RelayStatus_Scan = null_enum_Scan Ibcv2RelayStatus_Scan"

definition NullIbcv2RelayStatus_Value :: "NullEnum \<Rightarrow> driver_value" where
  "NullIbcv2RelayStatus_Value = null_enum_Value"

definition Ibcv2RelayerTxSubmissionStatus_Scan :: "driver_value \<Rightarrow> string \<Rightarrow> string \<times> go_error option" where
  "Ibcv2RelayerTxSubmissionStatus_Scan = enum_Scan ''Ibcv2RelayerTxSubmissionStatus''"

definition NullIbcv2RelayerTxSubmissionStatus_Scan :: "driver_value \<Rightarrow> NullEnum \<Rightarrow> NullEnum \<times> go_error option" where
  "NullIbcv2RelayerTxSubmissionStatus_Scan = null_enum_Scan Ibcv2RelayerTxSubmissionStatus_Scan"

definition NullIbcv2RelayerTxSubmissionStatus_Value :: "NullEnum \<Rightarrow> driver_value" where
  "NullIbcv2RelayerTxSubmissionStatus_Value = null_enum_Value"

definition Ibcv2RelayerTxSubmissionType_Scan :: "driver_value \<Rightarrow> string \<Rightarrow> string \<times> go_error option" where
  "Ibcv2RelayerTxSubmissionType_Scan = enum_Scan ''Ibcv2RelayerTxSubmissionType''"

definition NullIbcv2RelayerTxSubmissionType_Scan :: "driver_value \<Rightarrow> NullEnum \<Rightarrow> NullEnum \<times> go_error option" where
  "NullIbcv2RelayerTxSubmissionType_Scan = null_enum_Scan Ibcv2RelayerTxSubmissionType_Scan"

definition NullIbcv2RelayerTxSubmissionType_Value :: "NullEnum \<Rightarrow> driver_value" where
  "NullIbcv2RelayerTxSubmissionType_Value = null_enum_Value"

definition Ibcv2WriteAckStatus_Scan :: "driver_value \<Rightarrow> string \<Rightarrow> string \<times> go_error option" where
  "Ibcv2WriteAckStatus_Scan = enum_Scan ''Ibcv2WriteAckStatus''"

definition NullIbcv2WriteAckStatus_Scan :: "driver_value \<Rightarrow> NullEnum \<Rightarrow> NullEnum \<times> go_error option" where
  "NullIbcv2WriteAckStatus_Scan = null_enum_Scan Ibcv2WriteAckStatus_Scan"

definition NullIbcv2WriteAckStatus_Value :: "NullEnum \<Rightarrow> driver_value" where
  "NullIbcv2WriteAckStatus_Value = null_enum_Value"

fun submission_status_text :: "Ibcv2RelayerTxSubmissionStatus \<Rightarrow> string" where
  "submission_status_text SUB_PENDING = ''PENDING''"
| "submission_status_text SUB_SUCCESS = ''SUCCESS''"
| "submission_status_text SUB_FAILED = ''FAILED''"
| "submission_status_text SUB_EXPIRED = ''EXPIRED''"

fun submission_type_text :: "Ibcv2RelayerTxSubmissionType \<Rightarrow> string" where
  "submission_type_text RECV_PACKET = ''RECV_PACKET''"
| "submission_type_text ACK_PACKET = ''ACK_PACKET''"
| "submission_type_text TIMEOUT_PACKET = ''TIMEOUT_PACKET''"

fun write_ack_status_text :: "Ibcv2WriteAckStatus \<Rightarrow> string" where
  "write_ack_status_text WACK_SUCCESS = ''SUCCESS''"
| "write_ack_status_text WACK_ERROR = ''ERROR''"
| "write_ack_status_text WACK_UNKNOWN = ''UNKNOWN''"

fun bridge_type_text :: "DbBridgeType \<Rightarrow> string" where
  "bridge_type_text BridgeTypeIbcv2 = ''ibcv2''"

section \<open>Reading what was written\<close>

text \<open>
  A column of an enumeration: the value of a row, \<open>None\<close> for NULL, in the form Go has it. Whatever the
  receiver held before, a scan of the written value gives it back, and it stands for one value only.
\<close>

definition go_enum :: "('e \<Rightarrow> string) \<Rightarrow> 'e option \<Rightarrow> NullEnum" where
  "go_enum of_enum v = (case v of None \<Rightarrow> \<lparr>en_Text = [], en_Valid = False\<rparr> | Some e \<Rightarrow> \<lparr>en_Text = of_enum e, en_Valid = True\<rparr>)"

locale sql_enum =
  fixes of_enum :: "'e \<Rightarrow> string"
    and scan :: "driver_value \<Rightarrow> NullEnum \<Rightarrow> NullEnum \<times> go_error option"
    and encode :: "NullEnum \<Rightarrow> driver_value"
  assumes of_enum_inj: "of_enum e = of_enum e' \<Longrightarrow> e = e'"
    and reads: "scan (encode (go_enum of_enum v)) ns = (go_enum of_enum v, None)"
    and null: "scan (encode ns') ns = (ns'', None) \<Longrightarrow> en_Valid ns'' = en_Valid ns'"
begin

lemma same_column: "scan (encode (go_enum of_enum v)) ns = scan (encode (go_enum of_enum v')) ns' \<longleftrightarrow> v = v'"
  unfolding reads by (auto simp: go_enum_def dest: of_enum_inj split: option.splits)

lemma written_apart: "encode (go_enum of_enum v) = encode (go_enum of_enum v') \<Longrightarrow> v = v'"
  using same_column [of v undefined v' undefined] by simp

end

lemma null_enum_reads:
  assumes "\<And>s e. scan (StringValue s) e = (s, None)"
  shows "null_enum_Scan scan (null_enum_Value (go_enum of_enum v)) ns = (go_enum of_enum v, None)"
  by (cases v) (simp_all add: null_enum_Scan_def null_enum_Value_def go_enum_def assms)

lemma null_enum_null:
  "null_enum_Scan scan (null_enum_Value ns') ns = (ns'', None) \<Longrightarrow> en_Valid ns'' = en_Valid ns'"
  by (auto simp: null_enum_Scan_def null_enum_Value_def split: if_splits prod.splits)

lemmas enum_defs =
  BridgeType_Scan_def NullBridgeType_Scan_def NullBridgeType_Value_def
  Ibcv2RelayStatus_Scan_def NullIbcv2RelayStatus_Scan_def NullIbcv2RelayStatus_Value_def
  Ibcv2RelayerTxSubmissionStatus_Scan_def NullIbcv2RelayerTxSubmissionStatus_Scan_def NullIbcv2RelayerTxSubmissionStatus_Value_def
  Ibcv2RelayerTxSubmissionType_Scan_def NullIbcv2RelayerTxSubmissionType_Scan_def NullIbcv2RelayerTxSubmissionType_Value_def
  Ibcv2WriteAckStatus_Scan_def NullIbcv2WriteAckStatus_Scan_def NullIbcv2WriteAckStatus_Value_def

interpretation relay_status_column: sql_enum relay_status_text NullIbcv2RelayStatus_Scan NullIbcv2RelayStatus_Value
proof
  show "e = e'" if "relay_status_text e = relay_status_text e'" for e e' using that by (cases e; cases e') simp_all
qed (auto simp: enum_defs enum_Scan_def intro!: null_enum_reads dest: null_enum_null)

interpretation submission_status_column: sql_enum submission_status_text NullIbcv2RelayerTxSubmissionStatus_Scan NullIbcv2RelayerTxSubmissionStatus_Value
proof
  show "e = e'" if "submission_status_text e = submission_status_text e'" for e e' using that by (cases e; cases e') simp_all
qed (auto simp: enum_defs enum_Scan_def intro!: null_enum_reads dest: null_enum_null)

interpretation submission_type_column: sql_enum submission_type_text NullIbcv2RelayerTxSubmissionType_Scan NullIbcv2RelayerTxSubmissionType_Value
proof
  show "e = e'" if "submission_type_text e = submission_type_text e'" for e e' using that by (cases e; cases e') simp_all
qed (auto simp: enum_defs enum_Scan_def intro!: null_enum_reads dest: null_enum_null)

interpretation write_ack_column: sql_enum write_ack_status_text NullIbcv2WriteAckStatus_Scan NullIbcv2WriteAckStatus_Value
proof
  show "e = e'" if "write_ack_status_text e = write_ack_status_text e'" for e e' using that by (cases e; cases e') simp_all
qed (auto simp: enum_defs enum_Scan_def intro!: null_enum_reads dest: null_enum_null)

interpretation bridge_type_column: sql_enum bridge_type_text NullBridgeType_Scan NullBridgeType_Value
proof
  show "e = e'" if "bridge_type_text e = bridge_type_text e'" for e e' using that by (cases e; cases e') simp_all
qed (auto simp: enum_defs enum_Scan_def intro!: null_enum_reads dest: null_enum_null)

text \<open>A value of a type that cannot be read leaves a nullable column marked as valid, next to the error.\<close>

lemma failed_scan_is_valid:
  "NullIbcv2WriteAckStatus_Scan OtherValue ns = (ns', err) \<Longrightarrow> err \<noteq> None \<and> en_Valid ns' \<and> en_Text ns' = en_Text ns"
  by (auto simp: enum_defs null_enum_Scan_def enum_Scan_def)

end
