(* ===== verification/Bindings.thy ===== *)
theory Bindings
  imports Programs
begin

text \<open>
  The generated contract bindings under \<^verbatim>\<open>shared/contracts\<close>: the ERC20 binding with its calls,
  transactions, and the iterators and subscriptions over its events, and of the others the
  methods the program calls. The library's bound contract, which packs arguments by the ABI,
  talks to the node and unpacks the answer, is a parameter; \<^verbatim>\<open>abi.ConvertType\<close> and the index
  into the answer panic when the answer has another shape. The bindings are put together to the
  records the bridge client is modelled over.
\<close>

section \<open>Bound contracts\<close>

datatype abi_value =
    AbiAddress address
  | AbiInt int
  | AbiString string
  | AbiBytes32 bytes
  | AbiUint8 u8
  | AbiUint32 u32
  | AbiUint64 u64
  | AbiBool bool
  | AbiTuple "abi_value list"

record BoundContract =
  bc_Call :: "string \<Rightarrow> abi_value list \<Rightarrow> abi_value list result"
  bc_Transact :: "string \<Rightarrow> abi_value list \<Rightarrow> Transaction result"

text \<open>A call with one result: \<open>conv\<close> is the conversion to the expected type.\<close>

definition call_one :: "(abi_value \<Rightarrow> 'a option) \<Rightarrow> BoundContract \<Rightarrow> string \<Rightarrow> abi_value list \<Rightarrow> 'a result" where
  "call_one conv C name args =
     (case bc_Call C name args of
        Inl err \<Rightarrow> Inl err
      | Inr [] \<Rightarrow> Inl (panicked ''index out of range'')
      | Inr (v # _) \<Rightarrow>
          (case conv v of None \<Rightarrow> Inl (panicked ''abi: cannot convert'') | Some x \<Rightarrow> Inr x))"

fun as_int :: "abi_value \<Rightarrow> int option" where
  "as_int (AbiInt z) = Some z"
| "as_int _ = None"

fun as_address :: "abi_value \<Rightarrow> address option" where
  "as_address (AbiAddress a) = Some a"
| "as_address _ = None"

fun as_string :: "abi_value \<Rightarrow> string option" where
  "as_string (AbiString s) = Some s"
| "as_string _ = None"

fun as_bytes32 :: "abi_value \<Rightarrow> bytes option" where
  "as_bytes32 (AbiBytes32 b) = Some b"
| "as_bytes32 _ = None"

fun as_uint8 :: "abi_value \<Rightarrow> u8 option" where
  "as_uint8 (AbiUint8 n) = Some n"
| "as_uint8 _ = None"

text \<open>
  \<^verbatim>\<open>bindContract\<close> and \<^verbatim>\<open>NewContract\<close>: \<open>abi\<close> is the parsed ABI, \<open>bind\<close> the library's constructor.
\<close>

definition bindContract :: "'abi result \<Rightarrow> (address \<Rightarrow> 'abi \<Rightarrow> BoundContract) \<Rightarrow> address \<Rightarrow> BoundContract result" where
  "bindContract abi bind a = (case abi of Inl err \<Rightarrow> Inl err | Inr parsed \<Rightarrow> Inr (bind a parsed))"

definition NewContract :: "'abi result \<Rightarrow> (address \<Rightarrow> 'abi \<Rightarrow> BoundContract) \<Rightarrow> address \<Rightarrow> BoundContract result" where
  "NewContract abi bind a = (case bindContract abi bind a of Inl err \<Rightarrow> Inl err | Inr contract \<Rightarrow> Inr contract)"

section \<open>ERC20\<close>

definition erc20_Allowance :: "BoundContract \<Rightarrow> address \<Rightarrow> address \<Rightarrow> int result" where
  "erc20_Allowance C owner spender = call_one as_int C ''allowance'' [AbiAddress owner, AbiAddress spender]"

definition erc20_BalanceOf :: "BoundContract \<Rightarrow> address \<Rightarrow> int result" where
  "erc20_BalanceOf C account = call_one as_int C ''balanceOf'' [AbiAddress account]"

definition erc20_Decimals :: "BoundContract \<Rightarrow> u8 result" where
  "erc20_Decimals C = call_one as_uint8 C ''decimals'' []"

definition erc20_Name :: "BoundContract \<Rightarrow> string result" where
  "erc20_Name C = call_one as_string C ''name'' []"

definition erc20_Symbol :: "BoundContract \<Rightarrow> string result" where
  "erc20_Symbol C = call_one as_string C ''symbol'' []"

definition erc20_TotalSupply :: "BoundContract \<Rightarrow> int result" where
  "erc20_TotalSupply C = call_one as_int C ''totalSupply'' []"

definition erc20_Approve :: "BoundContract \<Rightarrow> address \<Rightarrow> int \<Rightarrow> Transaction result" where
  "erc20_Approve C spender value = bc_Transact C ''approve'' [AbiAddress spender, AbiInt value]"

definition erc20_Transfer :: "BoundContract \<Rightarrow> address \<Rightarrow> int \<Rightarrow> Transaction result" where
  "erc20_Transfer C to value = bc_Transact C ''transfer'' [AbiAddress to, AbiInt value]"

definition erc20_TransferFrom :: "BoundContract \<Rightarrow> address \<Rightarrow> address \<Rightarrow> int \<Rightarrow> Transaction result" where
  "erc20_TransferFrom C frm to value = bc_Transact C ''transferFrom'' [AbiAddress frm, AbiAddress to, AbiInt value]"

section \<open>Events\<close>

record ContractApproval =
  ap_Owner :: address
  ap_Spender :: address
  ap_Value :: int
  ap_Raw :: Log

record ContractTransfer =
  tr_From :: address
  tr_To :: address
  tr_Value :: int
  tr_Raw :: Log

text \<open>\<open>unpack\<close> is the library's \<^verbatim>\<open>UnpackLog\<close> for the fields of an event.\<close>

type_synonym event_unpack = "string \<Rightarrow> Log \<Rightarrow> (address \<times> address \<times> int) result"

definition ParseApproval :: "event_unpack \<Rightarrow> Log \<Rightarrow> ContractApproval result" where
  "ParseApproval unpack l =
     (case unpack ''Approval'' l of
        Inl err \<Rightarrow> Inl err
      | Inr (owner, spender, v) \<Rightarrow> Inr \<lparr>ap_Owner = owner, ap_Spender = spender, ap_Value = v, ap_Raw = l\<rparr>)"

definition ParseTransfer :: "event_unpack \<Rightarrow> Log \<Rightarrow> ContractTransfer result" where
  "ParseTransfer unpack l =
     (case unpack ''Transfer'' l of
        Inl err \<Rightarrow> Inl err
      | Inr (frm, to, v) \<Rightarrow> Inr \<lparr>tr_From = frm, tr_To = to, tr_Value = v, tr_Raw = l\<rparr>)"

text \<open>
  What the two channels of an iterator deliver, in the order \<^verbatim>\<open>select\<close> takes it: logs, and once
  the end of the subscription, with or without an error. Logs after the end are those that are
  still in the buffer of the channel.
\<close>

datatype arrival = LogArrives Log | SubscriptionEnds "go_error option"

record 'e iterator =
  it_Event :: "'e option"
  it_arrivals :: "arrival list"
  it_done :: bool
  it_fail :: "go_error option"

definition new_iterator :: "arrival list \<Rightarrow> 'e iterator" where
  "new_iterator as = \<lparr>it_Event = None, it_arrivals = as, it_done = False, it_fail = None\<rparr>"

text \<open>
  An event that is taken from the channel. When it cannot be read, the client finds an event
  without contents, which is \<open>None\<close> here.
\<close>

definition deliver :: "(Log \<Rightarrow> 'e result) \<Rightarrow> Log \<Rightarrow> arrival list \<Rightarrow> 'e iterator \<Rightarrow> 'e iterator \<times> bool" where
  "deliver parse l rest it =
     (case parse l of
        Inl err \<Rightarrow> (it\<lparr>it_arrivals := rest, it_Event := None, it_fail := Some err\<rparr>, False)
      | Inr e \<Rightarrow> (it\<lparr>it_arrivals := rest, it_Event := Some e\<rparr>, True))"

definition next_buffered :: "(Log \<Rightarrow> 'e result) \<Rightarrow> 'e iterator \<Rightarrow> 'e iterator \<times> bool" where
  "next_buffered parse it =
     (case it_arrivals it of
        LogArrives l # rest \<Rightarrow> deliver parse l rest it
      | _ \<Rightarrow> (it, False))"

text \<open>\<^verbatim>\<open>Next\<close>; \<open>None\<close> while it waits. After the end of the subscription it calls itself once.\<close>

definition iterator_Next :: "(Log \<Rightarrow> 'e result) \<Rightarrow> 'e iterator \<Rightarrow> ('e iterator \<times> bool) option" where
  "iterator_Next parse it =
     (if it_fail it \<noteq> None then Some (it, False)
      else if it_done it then Some (next_buffered parse it)
      else
        (case it_arrivals it of
           [] \<Rightarrow> None
         | LogArrives l # rest \<Rightarrow> Some (deliver parse l rest it)
         | SubscriptionEnds err # rest \<Rightarrow>
             (let it' = it\<lparr>it_arrivals := rest, it_done := True, it_fail := err\<rparr> in
              if err \<noteq> None then Some (it', False) else Some (next_buffered parse it'))))"

definition ContractApprovalIterator_Next ::
  "event_unpack \<Rightarrow> ContractApproval iterator \<Rightarrow> (ContractApproval iterator \<times> bool) option" where
  "ContractApprovalIterator_Next unpack = iterator_Next (ParseApproval unpack)"

definition ContractTransferIterator_Next ::
  "event_unpack \<Rightarrow> ContractTransfer iterator \<Rightarrow> (ContractTransfer iterator \<times> bool) option" where
  "ContractTransferIterator_Next unpack = iterator_Next (ParseTransfer unpack)"

text \<open>
  \<^verbatim>\<open>FilterLogs\<close> takes the event's name and a list of admitted values per indexed argument.
\<close>

type_synonym filter_logs = "string \<Rightarrow> abi_value list list \<Rightarrow> arrival list result"

definition FilterApproval ::
  "filter_logs \<Rightarrow> address list \<Rightarrow> address list \<Rightarrow> ContractApproval iterator result" where
  "FilterApproval filterLogs owner spender =
     (case filterLogs ''Approval'' [map AbiAddress owner, map AbiAddress spender] of
        Inl err \<Rightarrow> Inl err
      | Inr as \<Rightarrow> Inr (new_iterator as))"

definition FilterTransfer ::
  "filter_logs \<Rightarrow> address list \<Rightarrow> address list \<Rightarrow> ContractTransfer iterator result" where
  "FilterTransfer filterLogs frm to =
     (case filterLogs ''Transfer'' [map AbiAddress frm, map AbiAddress to] of
        Inl err \<Rightarrow> Inl err
      | Inr as \<Rightarrow> Inr (new_iterator as))"

text \<open>
  The goroutine of a subscription: it forwards events until it is told to quit, the
  subscription ends or a log cannot be read. Each event also waits for the reader, who can take
  it, or see the end or the quit first.
\<close>

datatype watch_signal = WatchLog Log | WatchErr "go_error option" | WatchQuit

datatype reader = Takes | ReaderErr "go_error option" | ReaderQuit

fun watch_loop ::
  "(Log \<Rightarrow> 'e result) \<Rightarrow> (watch_signal \<times> reader) list \<Rightarrow> 'e list \<times> go_error option option" where
  "watch_loop parse [] = ([], None)"
| "watch_loop parse ((WatchErr err, _) # ss) = ([], Some err)"
| "watch_loop parse ((WatchQuit, _) # ss) = ([], Some None)"
| "watch_loop parse ((WatchLog l, r) # ss) =
     (case parse l of
        Inl err \<Rightarrow> ([], Some (Some err))
      | Inr e \<Rightarrow>
          (case r of
             Takes \<Rightarrow> (case watch_loop parse ss of (es, x) \<Rightarrow> (e # es, x))
           | ReaderErr err \<Rightarrow> ([], Some err)
           | ReaderQuit \<Rightarrow> ([], Some None)))"

definition WatchApproval ::
  "event_unpack \<Rightarrow> (string \<Rightarrow> abi_value list list \<Rightarrow> (watch_signal \<times> reader) list result) \<Rightarrow>
     address list \<Rightarrow> address list \<Rightarrow> (ContractApproval list \<times> go_error option option) result" where
  "WatchApproval unpack watchLogs owner spender =
     (case watchLogs ''Approval'' [map AbiAddress owner, map AbiAddress spender] of
        Inl err \<Rightarrow> Inl err
      | Inr ss \<Rightarrow> Inr (watch_loop (ParseApproval unpack) ss))"

definition WatchTransfer ::
  "event_unpack \<Rightarrow> (string \<Rightarrow> abi_value list list \<Rightarrow> (watch_signal \<times> reader) list result) \<Rightarrow>
     address list \<Rightarrow> address list \<Rightarrow> (ContractTransfer list \<times> go_error option option) result" where
  "WatchTransfer unpack watchLogs frm to =
     (case watchLogs ''Transfer'' [map AbiAddress frm, map AbiAddress to] of
        Inl err \<Rightarrow> Inl err
      | Inr ss \<Rightarrow> Inr (watch_loop (ParseTransfer unpack) ss))"

section \<open>An iterator delivers every log once\<close>

text \<open>The events a client sees that calls \<^verbatim>\<open>Next\<close> until it answers false or waits, and the last state.\<close>

lemma next_shorter: "iterator_Next parse it = Some (it', True) \<Longrightarrow> length (it_arrivals it') < length (it_arrivals it)"
  by (auto simp: iterator_Next_def next_buffered_def deliver_def Let_def
      split: if_splits list.splits arrival.splits sum.splits)

function collect :: "(Log \<Rightarrow> 'e result) \<Rightarrow> 'e iterator \<Rightarrow> 'e list \<times> 'e iterator" where
  "collect parse it =
     (case iterator_Next parse it of
        Some (it', True) \<Rightarrow> (case collect parse it' of (es, fin) \<Rightarrow> (the (it_Event it') # es, fin))
      | Some (it', False) \<Rightarrow> ([], it')
      | None \<Rightarrow> ([], it))"
  by pat_completeness auto
termination
  by (relation "measure (\<lambda>(parse, it). length (it_arrivals it))") (auto dest: next_shorter)

declare collect.simps [simp del]

lemma collect_step:
  assumes "iterator_Next parse it = Some (it', True)"
  shows "fst (collect parse it) = the (it_Event it') # fst (collect parse it')"
    and "snd (collect parse it) = snd (collect parse it')"
  by (simp_all add: collect.simps [of parse it] assms split_beta)

text \<open>
  When every log can be read, the client sees the events of all logs in order, wherever the end
  of the subscription comes among them, and the iterator has no error.
\<close>

lemma collect_buffered:
  assumes "\<And>l. l \<in> set ls \<Longrightarrow> parse l = Inr (ev l)" "it_fail it = None" "it_done it"
    "it_arrivals it = map LogArrives ls"
  shows "fst (collect parse it) = map ev ls \<and> it_fail (snd (collect parse it)) = None"
  using assms
proof (induction ls arbitrary: it)
  case Nil
  then show ?case by (subst (1 2) collect.simps) (simp add: iterator_Next_def next_buffered_def)
next
  case (Cons l ls)
  let ?it = "it\<lparr>it_arrivals := map LogArrives ls, it_Event := Some (ev l)\<rparr>"
  have n: "iterator_Next parse it = Some (?it, True)"
    using Cons.prems by (simp add: iterator_Next_def next_buffered_def deliver_def)
  have "fst (collect parse ?it) = map ev ls \<and> it_fail (snd (collect parse ?it)) = None"
    using Cons.prems by (intro Cons.IH) auto
  then show ?case by (simp add: collect_step [OF n])
qed

lemma collect_all:
  assumes "\<And>l. l \<in> set (ls @ ls') \<Longrightarrow> parse l = Inr (ev l)" "it_fail it = None" "\<not> it_done it"
    "it_arrivals it = map LogArrives ls @ SubscriptionEnds None # map LogArrives ls'"
  shows "fst (collect parse it) = map ev (ls @ ls') \<and> it_fail (snd (collect parse it)) = None"
  using assms
proof (induction ls arbitrary: it)
  case Nil
  let ?it = "it\<lparr>it_arrivals := map LogArrives ls', it_done := True, it_fail := None\<rparr>"
  have "iterator_Next parse it = iterator_Next parse ?it"
    using Nil.prems by (simp add: iterator_Next_def)
  moreover have "fst (collect parse ?it) = map ev ls' \<and> it_fail (snd (collect parse ?it)) = None"
    using Nil.prems by (intro collect_buffered) auto
  moreover have "iterator_Next parse ?it \<noteq> None" by (simp add: iterator_Next_def)
  ultimately show ?case
    by (subst (1 2) collect.simps, subst (asm) (1 2) collect.simps) (auto split: option.splits)
next
  case (Cons l ls)
  let ?it = "it\<lparr>it_arrivals := map LogArrives ls @ SubscriptionEnds None # map LogArrives ls', it_Event := Some (ev l)\<rparr>"
  have n: "iterator_Next parse it = Some (?it, True)"
    using Cons.prems by (simp add: iterator_Next_def deliver_def)
  have "fst (collect parse ?it) = map ev (ls @ ls') \<and> it_fail (snd (collect parse ?it)) = None"
    using Cons.prems by (intro Cons.IH) auto
  then show ?case by (simp add: collect_step [OF n])
qed

text \<open>An event that cannot be read ends a subscription with its error, after the events before it.\<close>

lemma watch_until_unreadable:
  assumes "\<And>l. l \<in> set ls \<Longrightarrow> parse l = Inr (ev l)" "parse bad = Inl err"
  shows "watch_loop parse (map (\<lambda>l. (WatchLog l, Takes)) ls @ (WatchLog bad, r) # ss) = (map ev ls, Some (Some err))"
  using assms(1) by (induction ls) (simp_all add: assms(2))

section \<open>The methods of the other contracts\<close>

definition router_GetCommitment :: "BoundContract \<Rightarrow> hash \<Rightarrow> hash result" where
  "router_GetCommitment C hashedPath = call_one as_bytes32 C ''getCommitment'' [AbiBytes32 hashedPath]"

definition ics26_GetClient :: "BoundContract \<Rightarrow> string \<Rightarrow> address result" where
  "ics26_GetClient C clientId = call_one as_address C ''getClient'' [AbiString clientId]"

definition send_transfer_tuple :: "SendTransferMsg \<Rightarrow> abi_value" where
  "send_transfer_tuple msg =
     AbiTuple [AbiAddress (sm_Denom msg), AbiInt (sm_Amount msg), AbiString (sm_Receiver msg),
       AbiString (sm_SourceClient msg), AbiString (sm_DestPort msg), AbiUint64 (sm_TimeoutTimestamp msg),
       AbiString (sm_Memo msg)]"

definition ics20_SendTransfer :: "BoundContract \<Rightarrow> SendTransferMsg \<Rightarrow> Transaction result" where
  "ics20_SendTransfer C msg = bc_Transact C ''sendTransfer'' [send_transfer_tuple msg]"

definition ift_IftTransfer :: "BoundContract \<Rightarrow> string \<Rightarrow> string \<Rightarrow> int \<Rightarrow> u64 \<Rightarrow> Transaction result" where
  "ift_IftTransfer C clientId receiver amount timeoutTimestamp =
     bc_Transact C ''iftTransfer''
       [AbiString clientId, AbiString receiver, AbiInt amount, AbiUint64 timeoutTimestamp]"

record sp1_state =
  sp_ChainId :: string
  sp_TrustLevel :: "u8 \<times> u8"
  sp_LatestHeight :: "u64 \<times> u64"
  sp_TrustingPeriod :: u32
  sp_UnbondingPeriod :: u32
  sp_IsFrozen :: bool
  sp_ZkAlgorithm :: u8

fun as_trust_level :: "abi_value \<Rightarrow> (u8 \<times> u8) option" where
  "as_trust_level (AbiTuple [AbiUint8 n, AbiUint8 d]) = Some (n, d)"
| "as_trust_level _ = None"

fun as_height :: "abi_value \<Rightarrow> (u64 \<times> u64) option" where
  "as_height (AbiTuple [AbiUint64 n, AbiUint64 h]) = Some (n, h)"
| "as_height _ = None"

fun as_uint32 :: "abi_value \<Rightarrow> u32 option" where
  "as_uint32 (AbiUint32 n) = Some n"
| "as_uint32 _ = None"

fun as_bool :: "abi_value \<Rightarrow> bool option" where
  "as_bool (AbiBool b) = Some b"
| "as_bool _ = None"

definition as_sp1_state :: "abi_value list \<Rightarrow> sp1_state option" where
  "as_sp1_state out =
     (if length out < 7 then None
      else Option.bind (as_string (out ! 0)) (\<lambda>c. Option.bind (as_trust_level (out ! 1)) (\<lambda>tl.
        Option.bind (as_height (out ! 2)) (\<lambda>h. Option.bind (as_uint32 (out ! 3)) (\<lambda>tp.
        Option.bind (as_uint32 (out ! 4)) (\<lambda>up. Option.bind (as_bool (out ! 5)) (\<lambda>fz.
        Option.bind (as_uint8 (out ! 6)) (\<lambda>z.
          Some \<lparr>sp_ChainId = c, sp_TrustLevel = tl, sp_LatestHeight = h, sp_TrustingPeriod = tp,
            sp_UnbondingPeriod = up, sp_IsFrozen = fz, sp_ZkAlgorithm = z\<rparr>))))))))"

definition sp1_ClientState_call :: "BoundContract \<Rightarrow> sp1_state result" where
  "sp1_ClientState_call C =
     (case bc_Call C ''clientState'' [] of
        Inl err \<Rightarrow> Inl err
      | Inr out \<Rightarrow>
          (case as_sp1_state out of None \<Rightarrow> Inl (panicked ''abi: cannot convert'') | Some st \<Rightarrow> Inr st))"

section \<open>The bindings behind the bridge client\<close>

definition abi_error :: "'a result \<Rightarrow> go_error option" where
  "abi_error r = (case r of Inl err \<Rightarrow> Some err | Inr _ \<Rightarrow> None)"

definition with_contract :: "BoundContract result \<Rightarrow> (BoundContract \<Rightarrow> 'a result) \<Rightarrow> 'a result" where
  "with_contract r f = (case r of Inl err \<Rightarrow> Inl err | Inr C \<Rightarrow> f C)"

record 'abi abis =
  ics20_abi :: "'abi result"
  erc20_abi :: "'abi result"
  ift_abi :: "'abi result"
  sp1_abi :: "'abi result"

definition bound_contracts :: "'abi abis \<Rightarrow> (address \<Rightarrow> 'abi \<Rightarrow> BoundContract) \<Rightarrow> contracts" where
  "bound_contracts A bind =
     \<lparr>ics20_NewContract = (\<lambda>a. abi_error (NewContract (ics20_abi A) bind a)),
      erc20_NewContract = (\<lambda>a. abi_error (NewContract (erc20_abi A) bind a)),
      ift_NewContract = (\<lambda>a. abi_error (NewContract (ift_abi A) bind a)),
      Allowance = (\<lambda>token owner spender.
        with_contract (NewContract (erc20_abi A) bind token) (\<lambda>C. erc20_Allowance C owner spender)),
      Transact = (\<lambda>c. case c of
          Approve token spender v \<Rightarrow>
            with_contract (NewContract (erc20_abi A) bind token) (\<lambda>C. erc20_Approve C spender v)
        | SendTransfer a msg \<Rightarrow> with_contract (NewContract (ics20_abi A) bind a) (\<lambda>C. ics20_SendTransfer C msg)
        | IftTransfer a cl rcv v ts \<Rightarrow>
            with_contract (NewContract (ift_abi A) bind a) (\<lambda>C. ift_IftTransfer C cl rcv v ts))\<rparr>"

definition bound_light_clients ::
  "'abi abis \<Rightarrow> (address \<Rightarrow> 'abi \<Rightarrow> BoundContract) \<Rightarrow> BoundContract \<Rightarrow> light_clients" where
  "bound_light_clients A bind router =
     \<lparr>router_GetClient = ics26_GetClient router,
      sp1_NewContract = (\<lambda>a. abi_error (NewContract (sp1_abi A) bind a)),
      sp1_ClientState = (\<lambda>a. with_contract (NewContract (sp1_abi A) bind a) (\<lambda>C.
        case sp1_ClientState_call C of
          Inl err \<Rightarrow> Inl err
        | Inr st \<Rightarrow> Inr (sp_TrustingPeriod st, snd (sp_LatestHeight st))))\<rparr>"

text \<open>
  Every call of the program reaches the contract at its address under its name with its
  arguments in the order of the ABI, and no two different calls look the same to a contract.
\<close>

fun call_abi :: "'abi abis \<Rightarrow> contract_call \<Rightarrow> 'abi result" where
  "call_abi A (Approve token spender v) = erc20_abi A"
| "call_abi A (SendTransfer a msg) = ics20_abi A"
| "call_abi A (IftTransfer a cl rcv v ts) = ift_abi A"

fun call_data :: "contract_call \<Rightarrow> address \<times> string \<times> abi_value list" where
  "call_data (Approve token spender v) = (token, ''approve'', [AbiAddress spender, AbiInt v])"
| "call_data (SendTransfer a msg) = (a, ''sendTransfer'', [send_transfer_tuple msg])"
| "call_data (IftTransfer a cl rcv v ts) =
     (a, ''iftTransfer'', [AbiString cl, AbiString rcv, AbiInt v, AbiUint64 ts])"

lemma transact_call_data:
  assumes "call_abi A c = Inr abi" "call_data c = (a, name, args)"
  shows "Transact (bound_contracts A bind) c = bc_Transact (bind a abi) name args"
  using assms
  by (cases c) (simp_all add: bound_contracts_def with_contract_def NewContract_def bindContract_def
      erc20_Approve_def ics20_SendTransfer_def ift_IftTransfer_def)

lemma call_data_inj: "call_data c = call_data c' \<longleftrightarrow> c = c'"
  by (cases c; cases c') (auto simp: send_transfer_tuple_def)

text \<open>The trusting period and the height of a light client are those its contract stores.\<close>

lemma light_client_state:
  assumes "EVM_ClientState (bound_light_clients A bind router) clientID = Inr (TendermintState s)"
  obtains a abi st where "ics26_GetClient router clientID = Inr a" "a \<noteq> replicate 20 0"
    "sp1_abi A = Inr abi" "sp1_ClientState_call (bind a abi) = Inr st"
    "LatestHeight s = snd (sp_LatestHeight st)"
    "TrustingPeriod s = sint (word_of_int (uint (sp_TrustingPeriod st) * second) :: u64)"
  using assms
  by (auto simp: EVM_ClientState_def bound_light_clients_def with_contract_def NewContract_def bindContract_def
      split: sum.splits option.splits if_splits)

text \<open>
  Over the binding, the answer of either packet query is the router's commitment under the hash
  of the packet's path, compared with the empty one: byte 2 of the path stands for a receipt,
  byte 1 for a commitment.
\<close>

definition with_router :: "BoundContract \<Rightarrow> evm_env \<Rightarrow> evm_env" where
  "with_router C E = E\<lparr>lib := (lib E)\<lparr>getCommitment := router_GetCommitment C\<rparr>\<rparr>"

definition router_answers :: "BoundContract \<Rightarrow> evm_env \<Rightarrow> u8 \<Rightarrow> string \<Rightarrow> u64 \<Rightarrow> bool \<Rightarrow> bool" where
  "router_answers C E kind clientID sequence b \<longleftrightarrow>
     (\<exists>path commitment rest.
        encodePacked [PString clientID, PByte kind, PBytes (Uint64ToBigEndian (lib E) sequence)] = Inr path \<and>
        bc_Call C ''getCommitment'' [AbiBytes32 (Keccak256Hash (lib E) path)] = Inr (AbiBytes32 commitment # rest) \<and>
        b = (commitment \<noteq> BytesToHash (lib E) unwritten))"

lemma as_bytes32_Some [simp]: "as_bytes32 v = Some b \<longleftrightarrow> v = AbiBytes32 b"
  by (cases v) auto

lemma packet_queries_answered:
  "EVM_IsPacketReceived (with_router C E) clientID sequence = Inr b \<Longrightarrow> router_answers C E 2 clientID sequence b"
  "EVM_IsPacketCommitted (with_router C E) clientID sequence = Inr b \<Longrightarrow> router_answers C E 1 clientID sequence b"
  unfolding EVM_IsPacketReceived_def EVM_IsPacketCommitted_def router_answers_def with_router_def
    router_GetCommitment_def call_one_def
  by (auto split: sum.splits list.splits option.splits)

end
