(* ===== verification/Submissions.thy ===== *)
theory Submissions
  imports CostTracker
begin

text \<open>
  The query of \<^verbatim>\<open>db/gen/db/ibcv2_transfer_tx_submissions.sql.go\<close> that lists the submissions made for
  a transfer, over the mapping table the batch stages write. It is not called by the relayer
  itself; what it answers after a recorded batch ties the two tables together.
\<close>

text \<open>
  An inner join: a submission appears once for every mapping row of the transfer. The order is
  by submission time and identifier, rows without a time last, as the database sorts NULL.
\<close>

definition mapped_submissions :: "i32 \<Rightarrow> database \<Rightarrow> Ibcv2RelayerTxSubmission list" where
  "mapped_submissions transferID d =
     concat (map (\<lambda>s. map (\<lambda>_. s)
         (filter (\<lambda>m. ts_SubmissionID m = s_ID s \<and> ts_TransferID m = transferID) (transfer_tx_submissions d)))
       (tx_submissions d))"

definition GetIBCV2RelayerTxSubmissionsByTransferID ::
  "go_error option \<Rightarrow> i32 \<Rightarrow> database \<Rightarrow> Ibcv2RelayerTxSubmission list result" where
  "GetIBCV2RelayerTxSubmissionsByTransferID fault transferID d =
     (case fault of
        Some err \<Rightarrow> Inl err
      | None \<Rightarrow>
          (let ss = sort_key (\<lambda>s. sint (s_ID s)) (mapped_submissions transferID d) in
           Inr (sort_key (\<lambda>s. the (s_SubmittedAt s)) (filter (\<lambda>s. s_SubmittedAt s \<noteq> None) ss) @
                filter (\<lambda>s. s_SubmittedAt s = None) ss)))"

lemma query_members:
  assumes "GetIBCV2RelayerTxSubmissionsByTransferID fault transferID d = Inr ss"
  shows "s \<in> set ss \<longleftrightarrow> s \<in> set (tx_submissions d) \<and>
    \<lparr>ts_TransferID = transferID, ts_SubmissionID = s_ID s\<rparr> \<in> set (transfer_tx_submissions d)"
proof -
  have "set ss = set (mapped_submissions transferID d)"
    using assms by (auto simp: GetIBCV2RelayerTxSubmissionsByTransferID_def Let_def split: option.splits)
  moreover have "s \<in> set (mapped_submissions transferID d) \<longleftrightarrow> s \<in> set (tx_submissions d) \<and>
      (\<exists>m \<in> set (transfer_tx_submissions d). ts_SubmissionID m = s_ID s \<and> ts_TransferID m = transferID)"
    by (auto simp: mapped_submissions_def image_iff)
  moreover have "(\<exists>m \<in> set ms. ts_SubmissionID m = i \<and> ts_TransferID m = j) \<longleftrightarrow>
      \<lparr>ts_TransferID = j, ts_SubmissionID = i\<rparr> \<in> set ms" for ms i j
    by (metis Ibcv2TransferTxSubmission.select_convs(1,2) Ibcv2TransferTxSubmission.surjective old.unit.exhaust)
  ultimately show ?thesis by simp
qed

text \<open>Of two submissions with a time the one that was submitted first comes first, and the smaller identifier among equals.\<close>

lemma sort_key_stable_sorted:
  "sorted_wrt (\<lambda>a b. g a \<le> g b) xs \<Longrightarrow> sorted_wrt (\<lambda>a b. f a < f b \<or> f a = f b \<and> g a \<le> g b) (sort_key f xs)"
  for f :: "'a \<Rightarrow> 'b :: linorder" and g :: "'a \<Rightarrow> 'c :: linorder"
proof (induction xs)
  case (Cons x xs)
  let ?R = "\<lambda>a b. f a < f b \<or> f a = f b \<and> g a \<le> g b"
  have ins: "sorted_wrt ?R ys \<Longrightarrow> \<forall>y \<in> set ys. g x \<le> g y \<Longrightarrow> sorted_wrt ?R (insort_key f x ys)" for ys
    by (induction ys) (auto simp: set_insort_key)
  show ?case using Cons ins [of "sort_key f xs"] by simp
qed simp

lemma query_sorted:
  assumes "GetIBCV2RelayerTxSubmissionsByTransferID fault transferID d = Inr ss"
  shows "sorted_wrt (\<lambda>a b. the (s_SubmittedAt a) < the (s_SubmittedAt b) \<or>
      the (s_SubmittedAt a) = the (s_SubmittedAt b) \<and> sint (s_ID a) \<le> sint (s_ID b))
    (filter (\<lambda>s. s_SubmittedAt s \<noteq> None) ss)"
proof -
  let ?xs = "filter (\<lambda>s. s_SubmittedAt s \<noteq> None) (sort_key (\<lambda>s. sint (s_ID s)) (mapped_submissions transferID d))"
  have "sorted_wrt (\<lambda>a b. sint (s_ID a) \<le> sint (s_ID b)) (sort_key (\<lambda>s. sint (s_ID s)) (mapped_submissions transferID d))"
    using sorted_sort_key [of "\<lambda>s. sint (s_ID s)" "mapped_submissions transferID d"] by (simp add: sorted_map)
  then have "sorted_wrt (\<lambda>a b. sint (s_ID a) \<le> sint (s_ID b)) ?xs" by (rule sorted_wrt_filter)
  from sort_key_stable_sorted [OF this, of "\<lambda>s. the (s_SubmittedAt s)"]
  have "sorted_wrt (\<lambda>a b. the (s_SubmittedAt a) < the (s_SubmittedAt b) \<or>
      the (s_SubmittedAt a) = the (s_SubmittedAt b) \<and> sint (s_ID a) \<le> sint (s_ID b))
    (sort_key (\<lambda>s. the (s_SubmittedAt s)) ?xs)" .
  moreover have "filter (\<lambda>s. s_SubmittedAt s \<noteq> None) ss = sort_key (\<lambda>s. the (s_SubmittedAt s)) ?xs"
    using assms
    by (auto simp: GetIBCV2RelayerTxSubmissionsByTransferID_def Let_def filter_empty_conv split: option.splits)
  ultimately show ?thesis by simp
qed

text \<open>
  After a batch was recorded, the query for any of its transfers lists the transaction of the
  batch, on its chain and of its type, as pending.
\<close>

lemma recorded_batch_listed:
  assumes "batch_recorded E w w' chain req ty tx sent" "t \<in> set sent"
    "GetIBCV2RelayerTxSubmissionsByTransferID fault (ID t) (db w') = Inr ss"
  shows "\<exists>s \<in> set ss. s_TxHash s = Hash tx \<and> s_ChainID s = chain \<and> s_TxType s = ty \<and> s_Status s = SUB_PENDING"
proof -
  obtain s where s: "s \<in> set (tx_submissions (db w'))" "s_TxHash s = Hash tx" "s_ChainID s = chain" "s_TxType s = ty"
    "s_Status s = SUB_PENDING" "\<lparr>ts_TransferID = ID t, ts_SubmissionID = s_ID s\<rparr> \<in> set (transfer_tx_submissions (db w'))"
    using assms(1,2) unfolding batch_recorded_def by blast
  then show ?thesis using query_members [OF assms(3)] by blast
qed

end
